(* ===== verification/Prelude.thy ===== *)
theory Prelude
  imports Main "HOL-Library.Multiset"
begin

text \<open>
  Shared vocabulary of the development: the loop shapes that the Go code of the operator
  repeats (edit the first element that matches and break, replace the entry of that name or
  append it), the lookup by name they are specified against, and the contract of an edit that
  reports whether it changed anything.
\<close>

section \<open>Collections of facts\<close>

named_theorems frame_simps \<open>what an edit leaves alone\<close>
named_theorems lookup_simps \<open>what a lookup by name sees after an edit\<close>

section \<open>Types\<close>

type_synonym smap = "string \<rightharpoonup> string"

text \<open>A fallible Go function \<open>(T, error)\<close>: \<open>Inl\<close> is the error.\<close>

abbreviation Err :: "'e \<Rightarrow> 'e + 'a" where "Err \<equiv> Inl"
abbreviation Ok :: "'a \<Rightarrow> 'e + 'a" where "Ok \<equiv> Inr"

definition bindE :: "'e + 'a \<Rightarrow> ('a \<Rightarrow> 'e + 'b) \<Rightarrow> 'e + 'b" where
  "bindE m k = (case m of Inl e \<Rightarrow> Inl e | Inr x \<Rightarrow> k x)"

lemma bindE_simps [simp]: "bindE (Inl e) k = Inl e" "bindE (Inr x) k = k x"
  by (simp_all add: bindE_def)

lemma bindE_Ok: "bindE m k = Inr y \<longleftrightarrow> (\<exists>x. m = Inr x \<and> k x = Inr y)"
  by (cases m) simp_all

lemma bindE_Err: "bindE m k = Inl e \<longleftrightarrow> m = Inl e \<or> (\<exists>x. m = Inr x \<and> k x = Inl e)"
  by (cases m) simp_all

section \<open>The loop shapes\<close>

text \<open>
  \<^verbatim>\<open>for i, x := range xs { if p(x) { xs[i] = f(x); ...; break } }\<close>, where the body also sets a
  \<open>changed\<close> flag.
\<close>

fun edit_first :: "('a \<Rightarrow> bool) \<Rightarrow> ('a \<Rightarrow> 'a \<times> bool) \<Rightarrow> 'a list \<Rightarrow> 'a list \<times> bool" where
  "edit_first p f [] = ([], False)"
| "edit_first p f (x # xs) =
     (if p x then (let (x', b) = f x in (x' # xs, b))
      else (let (xs', b) = edit_first p f xs in (x # xs', b)))"

text \<open>The same loop without a flag.\<close>

fun upd_first :: "('a \<Rightarrow> bool) \<Rightarrow> ('a \<Rightarrow> 'a) \<Rightarrow> 'a list \<Rightarrow> 'a list" where
  "upd_first p f [] = []"
| "upd_first p f (x # xs) = (if p x then f x # xs else x # upd_first p f xs)"

text \<open>Replace the first entry with the same key and break; append when there is none.\<close>

fun upsert_first :: "('a \<Rightarrow> 'k) \<Rightarrow> 'a \<Rightarrow> 'a list \<Rightarrow> 'a list" where
  "upsert_first key x [] = [x]"
| "upsert_first key x (y # ys) = (if key y = key x then x # ys else y # upsert_first key x ys)"

text \<open>Replace every entry with the same key (no break); append when there is none.\<close>

definition upsert_all :: "('a \<Rightarrow> 'k) \<Rightarrow> 'a \<Rightarrow> 'a list \<Rightarrow> 'a list" where
  "upsert_all key x xs =
     (let xs' = map (\<lambda>y. if key y = key x then x else y) xs
      in if list_ex (\<lambda>y. key y = key x) xs then xs' else xs' @ [x])"

text \<open>The first entry with a key: what Kubernetes calls "the variable", "the volume" of a name.\<close>

definition lookup_by :: "('a \<Rightarrow> 'k) \<Rightarrow> 'k \<Rightarrow> 'a list \<Rightarrow> 'a option" where
  "lookup_by key k xs = List.find (\<lambda>x. key x = k) xs"

lemma lookup_by_simps [simp]:
  "lookup_by key k [] = None"
  "lookup_by key k (x # xs) = (if key x = k then Some x else lookup_by key k xs)"
  by (simp_all add: lookup_by_def)

lemma lookup_by_append:
  "lookup_by key k (xs @ ys) =
     (case lookup_by key k xs of None \<Rightarrow> lookup_by key k ys | Some x \<Rightarrow> Some x)"
  by (induction xs) auto

lemma lookup_by_None_iff: "lookup_by key k xs = None \<longleftrightarrow> k \<notin> key ` set xs"
  by (induction xs) auto

lemma lookup_by_SomeD: "lookup_by key k xs = Some x \<Longrightarrow> x \<in> set xs \<and> key x = k"
  by (induction xs) (auto split: if_splits)

lemma lookup_by_distinct:
  "distinct (map key xs) \<Longrightarrow> x \<in> set xs \<Longrightarrow> lookup_by key (key x) xs = Some x"
  by (induction xs) force+

subsection \<open>Editing the first match\<close>

lemma fst_edit_first: "fst (edit_first p f xs) = upd_first p (\<lambda>x. fst (f x)) xs"
  by (induction xs) (auto simp: split_def Let_def)

lemma upd_first_map_frame [frame_simps]:
  assumes "\<And>x. p x \<Longrightarrow> g (f x) = g x"
  shows "map g (upd_first p f xs) = map g xs"
  using assms by (induction xs) auto

lemma length_upd_first [simp]: "length (upd_first p f xs) = length xs"
  by (induction xs) auto

lemma upd_first_id [simp]: "(\<And>x. x \<in> set xs \<Longrightarrow> p x \<Longrightarrow> f x = x) \<Longrightarrow> upd_first p f xs = xs"
  by (induction xs) auto

lemma upd_first_idem:
  assumes "\<And>x. p x \<Longrightarrow> p (f x)" and "\<And>x. p x \<Longrightarrow> f (f x) = f x"
  shows "upd_first p f (upd_first p f xs) = upd_first p f xs"
  using assms by (induction xs) auto

lemma lookup_by_upd_first [lookup_simps]:
  assumes "\<And>x. key (f x) = key x"
  shows "lookup_by key k (upd_first (\<lambda>x. key x = k') f xs) =
    (if k = k' then map_option f (lookup_by key k xs) else lookup_by key k xs)"
  using assms by (induction xs) auto

lemma set_upd_first_subset: "set (upd_first p f xs) \<subseteq> set xs \<union> f ` {x \<in> set xs. p x}"
  by (induction xs) auto

lemma lookup_by_upd_first_Some:
  assumes "lookup_by key k xs = Some x" and "key (f x) = key x"
  shows "lookup_by key k (upd_first (\<lambda>x. key x = k) f xs) = Some (f x)"
  using assms by (induction xs) (auto split: if_splits)

section \<open>Storing an entry under its name\<close>

text \<open>
  Environment variables, volumes and volume mounts are lists whose entries are addressed by
  name, and the transformers store an entry by replacing the one of that name or appending.
  This is the contract of such a store operation; the clients below merge a whole list of
  entries through it.
\<close>

locale named_store =
  fixes key :: "'a \<Rightarrow> string"
    and put :: "'a \<Rightarrow> 'a list \<Rightarrow> 'a list"
  assumes put_lookup: "lookup_by key k (put x xs) = (if k = key x then Some x else lookup_by key k xs)"
    and put_keys: "distinct (map key xs) \<Longrightarrow> distinct (map key (put x xs))"
    and put_set: "set (put x xs) \<subseteq> insert x (set xs)"
begin

lemma put_names: "key ` set (put x xs) = insert (key x) (key ` set xs)"
proof -
  have "k \<in> key ` set (put x xs) \<longleftrightarrow> k \<in> insert (key x) (key ` set xs)" for k
    using put_lookup[of k x xs] lookup_by_None_iff[of key k "put x xs"]
      lookup_by_None_iff[of key k xs] by (auto split: if_splits)
  then show ?thesis by blast
qed

text \<open>Merging a list of entries: the last entry of a name wins, other names are kept.\<close>

lemma fold_put_lookup:
  "lookup_by key k (fold put new xs) =
     (case lookup_by key k (rev new) of None \<Rightarrow> lookup_by key k xs | Some x \<Rightarrow> Some x)"
proof (induction new arbitrary: xs)
  case Nil
  show ?case by simp
next
  case (Cons x new)
  have "lookup_by key k (fold put (x # new) xs) =
      (case lookup_by key k (rev new) of None \<Rightarrow> lookup_by key k (put x xs) | Some y \<Rightarrow> Some y)"
    using Cons.IH[of "put x xs"] by simp
  then show ?case
    by (auto simp: put_lookup lookup_by_append split: option.splits)
qed

lemma fold_put_other: "k \<notin> key ` set new \<Longrightarrow> lookup_by key k (fold put new xs) = lookup_by key k xs"
  using lookup_by_None_iff[of key k "rev new"] by (simp add: fold_put_lookup)

lemma fold_put_distinct: "distinct (map key xs) \<Longrightarrow> distinct (map key (fold put new xs))"
  by (induction new arbitrary: xs) (auto intro: put_keys)

lemma fold_put_names: "key ` set (fold put new xs) = key ` set xs \<union> key ` set new"
  by (induction new arbitrary: xs) (auto simp: put_names)

lemma fold_put_stored:
  assumes "distinct (map key new)" and "x \<in> set new"
  shows "lookup_by key (key x) (fold put new xs) = Some x"
proof -
  have "lookup_by key (key x) (rev new) = Some x"
    using assms by (intro lookup_by_distinct) (simp_all add: rev_map [symmetric])
  then show ?thesis by (simp add: fold_put_lookup)
qed

end

lemma upsert_first_set: "set (upsert_first key x xs) \<subseteq> insert x (set xs)"
  by (induction xs) auto

lemma upsert_first_names: "key ` set (upsert_first key x xs) = insert (key x) (key ` set xs)"
  by (induction xs) auto

lemma upsert_first_lookup:
  "lookup_by key k (upsert_first key x xs) = (if k = key x then Some x else lookup_by key k xs)"
  by (induction xs) auto

lemma upsert_first_distinct:
  "distinct (map key xs) \<Longrightarrow> distinct (map key (upsert_first key x xs))"
  using upsert_first_names[of key x] by (induction xs) auto

lemma upsert_first_same: "lookup_by key (key x) xs = Some x \<Longrightarrow> upsert_first key x xs = xs"
  by (induction xs) (auto split: if_splits)

lemma upsert_all_set: "set (upsert_all key x xs) \<subseteq> insert x (set xs)"
  by (auto simp: upsert_all_def Let_def split: if_splits)

lemma lookup_by_map_replace:
  "lookup_by key k (map (\<lambda>y. if key y = key x then x else y) xs) =
     (if k = key x then (if key x \<in> key ` set xs then Some x else None) else lookup_by key k xs)"
  by (induction xs) auto

lemma upsert_all_lookup:
  "lookup_by key k (upsert_all key x xs) = (if k = key x then Some x else lookup_by key k xs)"
  by (auto simp: upsert_all_def Let_def lookup_by_append lookup_by_map_replace list_ex_iff image_iff
      split: option.splits)

lemma map_key_replace: "map key (map (\<lambda>y. if key y = key x then x else y) xs) = map key xs"
  by (induction xs) auto

lemma upsert_all_distinct: "distinct (map key xs) \<Longrightarrow> distinct (map key (upsert_all key x xs))"
proof -
  assume d: "distinct (map key xs)"
  let ?r = "map (\<lambda>y. if key y = key x then x else y) xs"
  have keys: "map key ?r = map key xs" by (rule map_key_replace)
  show ?thesis
  proof (cases "list_ex (\<lambda>y. key y = key x) xs")
    case True
    then show ?thesis using d keys by (simp add: upsert_all_def Let_def del: map_map)
  next
    case False
    then have "key x \<notin> set (map key ?r)" unfolding keys by (auto simp: list_ex_iff)
    then show ?thesis using False d keys
      by (simp add: upsert_all_def Let_def del: map_map set_map)
  qed
qed

interpretation first_store: named_store key "upsert_first key" for key
  by unfold_locales (simp_all add: upsert_first_lookup upsert_first_distinct upsert_first_set)

interpretation all_store: named_store key "upsert_all key" for key
  by unfold_locales (simp_all add: upsert_all_lookup upsert_all_distinct upsert_all_set)

section \<open>Edits that report a change\<close>

text \<open>
  Several transformers write an object back only when a \<open>changed\<close> flag is set. The contract
  that makes this sound, and no write superfluous: the flag says exactly whether the edit
  changed the object.
\<close>

locale tracked_edit =
  fixes edit :: "'a \<Rightarrow> 'a \<times> bool"
  assumes exact: "snd (edit x) \<longleftrightarrow> fst (edit x) \<noteq> x"
begin

lemma edit_first_exact: "snd (edit_first p edit xs) \<longleftrightarrow> fst (edit_first p edit xs) \<noteq> xs"
  by (induction xs) (auto simp: split_def Let_def exact)

end

end
