(* ===== verification/GoStd.thy ===== *)
theory GoStd
  imports Prelude
begin

text \<open>
  The parts of the Go standard library the operator calls: \<open>strings\<close> (prefixes, splitting,
  joining, trimming), \<open>strconv\<close> (decimal numbers) and \<open>regexp\<close>. Go strings are byte sequences,
  so \<^typ>\<open>string\<close> models them exactly.
\<close>

section \<open>strings\<close>

definition HasPrefix :: "string \<Rightarrow> string \<Rightarrow> bool" where
  "HasPrefix s p = (take (length p) s = p)"

definition TrimPrefix :: "string \<Rightarrow> string \<Rightarrow> string" where
  "TrimPrefix s p = (if HasPrefix s p then drop (length p) s else s)"

fun Contains :: "string \<Rightarrow> string \<Rightarrow> bool" where
  "Contains [] sub = (sub = [])"
| "Contains (c # s) sub = (HasPrefix (c # s) sub \<or> Contains s sub)"

text \<open>\<open>strings.SplitAfter\<close> for a separator of one byte: the pieces keep the separator.\<close>

fun SplitAfter :: "string \<Rightarrow> char \<Rightarrow> string list" where
  "SplitAfter [] sep = [[]]"
| "SplitAfter (c # s) sep =
     (if c = sep then [c] # SplitAfter s sep
      else (case SplitAfter s sep of [] \<Rightarrow> [[c]] | p # ps \<Rightarrow> (c # p) # ps))"

text \<open>\<open>strings.Cut\<close> for a separator of one byte: before, after, found.\<close>

fun Cut :: "string \<Rightarrow> char \<Rightarrow> string \<times> string \<times> bool" where
  "Cut [] sep = ([], [], False)"
| "Cut (c # s) sep =
     (if c = sep then ([], s, True)
      else (case Cut s sep of (before, after, found) \<Rightarrow> (c # before, after, found)))"

fun Join :: "string list \<Rightarrow> string \<Rightarrow> string" where
  "Join [] sep = []"
| "Join [x] sep = x"
| "Join (x # y # ys) sep = x @ sep @ Join (y # ys) sep"

lemma HasPrefix_append [simp]: "HasPrefix (p @ s) p"
  by (simp add: HasPrefix_def)

lemma HasPrefix_Nil [simp]: "HasPrefix s []"
  by (simp add: HasPrefix_def)

lemma HasPrefixE:
  assumes "HasPrefix s p"
  obtains r where "s = p @ r"
  using assms by (metis HasPrefix_def append_take_drop_id)

lemma HasPrefix_iff: "HasPrefix s p \<longleftrightarrow> (\<exists>r. s = p @ r)"
  by (auto elim: HasPrefixE)

lemma TrimPrefix_append [simp]: "TrimPrefix (p @ s) p = s"
  by (simp add: TrimPrefix_def)

lemma TrimPrefix_eq_iff: "HasPrefix s p \<Longrightarrow> TrimPrefix s p = v \<longleftrightarrow> s = p @ v"
  by (auto elim: HasPrefixE)

lemma Contains_iff: "Contains s sub \<longleftrightarrow> (\<exists>a b. s = a @ sub @ b)"
proof (induction s)
  case Nil
  show ?case by auto
next
  case (Cons c s)
  have "(\<exists>a b. c # s = a @ sub @ b) \<longleftrightarrow> (\<exists>b. c # s = sub @ b) \<or> (\<exists>a b. s = a @ sub @ b)"
    by (metis append_Cons append_Nil append_eq_Cons_conv)
  then show ?case using Cons by (simp add: HasPrefix_iff)
qed

lemma Contains_char: "Contains s [c] \<longleftrightarrow> c \<in> set s"
  by (induction s) (auto simp: HasPrefix_def)

lemma SplitAfter_nonempty [simp]: "SplitAfter s sep \<noteq> []"
  by (cases s) (auto split: list.splits)

lemma concat_SplitAfter: "concat (SplitAfter s sep) = s"
  by (induction s) (auto split: list.splits)

lemma SplitAfter_no_sep: "sep \<notin> set s \<Longrightarrow> SplitAfter s sep = [s]"
  by (induction s) auto

lemma SplitAfter_append:
  "sep \<notin> set k \<Longrightarrow> SplitAfter (k @ sep # v) sep = (k @ [sep]) # SplitAfter v sep"
  by (induction k) auto

lemma Cut_not_found: "sep \<notin> set s \<Longrightarrow> Cut s sep = (s, [], False)"
  by (induction s) auto

lemma Cut_append: "sep \<notin> set k \<Longrightarrow> Cut (k @ sep # v) sep = (k, v, True)"
  by (induction k) auto

lemma Cut_found: "Cut s sep = (before, after, True) \<Longrightarrow> s = before @ sep # after \<and> sep \<notin> set before"
  by (induction s arbitrary: before) (auto split: if_splits prod.splits)

section \<open>White space\<close>

definition isAsciiSpace :: "char \<Rightarrow> bool" where
  "isAsciiSpace c = (c \<in> {CHR 0x09, CHR 0x0A, CHR 0x0B, CHR 0x0C, CHR 0x0D, CHR '' ''})"

text \<open>The UTF-8 encodings of the white space runes beyond ASCII (\<open>unicode.IsSpace\<close>).\<close>

definition wideSpaces :: "string list" where
  "wideSpaces =
     [[CHR 0xC2, CHR 0x85], [CHR 0xC2, CHR 0xA0], [CHR 0xE1, CHR 0x9A, CHR 0x80]] @
     map (\<lambda>b. [CHR 0xE2, CHR 0x80, b])
       [CHR 0x80, CHR 0x81, CHR 0x82, CHR 0x83, CHR 0x84, CHR 0x85, CHR 0x86, CHR 0x87,
        CHR 0x88, CHR 0x89, CHR 0x8A, CHR 0xA8, CHR 0xA9, CHR 0xAF] @
     [[CHR 0xE2, CHR 0x81, CHR 0x9F], [CHR 0xE3, CHR 0x80, CHR 0x80]]"

text \<open>The number of bytes of the white space rune that starts the string, 0 for none.\<close>

definition spaceWidth :: "string list \<Rightarrow> string \<Rightarrow> nat" where
  "spaceWidth wide s =
     (case s of [] \<Rightarrow> 0
      | c # _ \<Rightarrow> if isAsciiSpace c then 1
        else (case List.find (HasPrefix s) wide of None \<Rightarrow> 0 | Some w \<Rightarrow> length w))"

function strip :: "string list \<Rightarrow> string \<Rightarrow> string" where
  "strip wide s = (if spaceWidth wide s = 0 \<or> s = [] then s else strip wide (drop (spaceWidth wide s) s))"
  by pat_completeness auto
termination by (relation "measure (\<lambda>(w, s). length s)") auto

declare strip.simps [simp del]

definition TrimSpace :: "string \<Rightarrow> string" where
  "TrimSpace s = rev (strip (map rev wideSpaces) (rev (strip wideSpaces s)))"

lemma spaceWidth_Nil [simp]: "spaceWidth wide [] = 0"
  by (simp add: spaceWidth_def)

lemma strip_done: "spaceWidth wide (strip wide s) = 0"
proof (induction wide s rule: strip.induct)
  case (1 wide s)
  then show ?case
    by (cases "spaceWidth wide s = 0 \<or> s = []") (auto simp: strip.simps [of wide s])
qed

lemma strip_fixed: "spaceWidth wide s = 0 \<Longrightarrow> strip wide s = s"
  by (simp add: strip.simps [of wide s])

lemma strip_suffix: "\<exists>p. s = p @ strip wide s"
proof (induction wide s rule: strip.induct)
  case (1 wide s)
  show ?case
  proof (cases "spaceWidth wide s = 0 \<or> s = []")
    case True
    then show ?thesis by (auto simp: strip.simps [of wide s])
  next
    case False
    with 1 obtain p where "drop (spaceWidth wide s) s = p @ strip wide (drop (spaceWidth wide s) s)"
      by blast
    then have "s = (take (spaceWidth wide s) s @ p) @ strip wide s"
      using False by (metis append_assoc append_take_drop_id strip.simps)
    then show ?thesis by blast
  qed
qed

lemma find_HasPrefix_None_mono:
  "List.find (HasPrefix (s @ t)) wide = None \<Longrightarrow> List.find (HasPrefix s) wide = None"
  by (induction wide) (auto simp: HasPrefix_iff split: if_splits)

lemma spaceWidth_prefix:
  assumes "spaceWidth wide (s @ t) = 0" and "[] \<notin> set wide"
  shows "spaceWidth wide s = 0"
proof (cases s)
  case Nil
  then show ?thesis by simp
next
  case (Cons c r)
  have "List.find (HasPrefix (s @ t)) wide = None \<and> \<not> isAsciiSpace c"
    using assms Cons by (auto simp: spaceWidth_def find_Some_iff split: if_splits option.splits)
      (metis length_0_conv nth_mem)
  then show ?thesis
    using Cons find_HasPrefix_None_mono [of s t wide] by (simp add: spaceWidth_def)
qed

lemma TrimSpace_idem: "TrimSpace (TrimSpace s) = TrimSpace s"
proof -
  let ?l = "strip wideSpaces s" and ?w = "map rev wideSpaces"
  obtain p where p: "rev ?l = p @ strip ?w (rev ?l)"
    using strip_suffix by blast
  then have "?l = TrimSpace s @ rev p"
    by (metis TrimSpace_def rev_append rev_rev_ident)
  moreover have "[] \<notin> set wideSpaces" by (simp add: wideSpaces_def)
  ultimately have "spaceWidth wideSpaces (TrimSpace s) = 0"
    using strip_done [of wideSpaces s] spaceWidth_prefix by metis
  then have l: "strip wideSpaces (TrimSpace s) = TrimSpace s" by (rule strip_fixed)
  have "strip ?w (rev (TrimSpace s)) = rev (TrimSpace s)"
    unfolding TrimSpace_def by (simp add: strip_done strip_fixed)
  then show ?thesis using l by (simp add: TrimSpace_def [of "TrimSpace s"])
qed

section \<open>path\<close>

text \<open>\<open>path.Join\<close>: the non-empty elements joined by slashes and cleaned.\<close>

fun splitSlash :: "string \<Rightarrow> string list" where
  "splitSlash [] = [[]]"
| "splitSlash (c # s) =
     (if c = CHR ''/'' then [] # splitSlash s
      else (case splitSlash s of [] \<Rightarrow> [[c]] | x # xs \<Rightarrow> (c # x) # xs))"

definition cleanStep :: "bool \<Rightarrow> string \<Rightarrow> string list \<Rightarrow> string list" where
  "cleanStep rooted x out =
     (if x = [] \<or> x = ''.'' then out
      else if x = ''..'' then
        (if out \<noteq> [] \<and> last out \<noteq> ''..'' then butlast out else if rooted then out else out @ [x])
      else out @ [x])"

definition pathClean :: "string \<Rightarrow> string" where
  "pathClean s =
     (let rooted = HasPrefix s ''/'';
          out = fold (cleanStep rooted) (splitSlash s) []
      in if rooted then ''/'' @ Join out ''/'' else if out = [] then ''.'' else Join out ''/'')"

definition pathJoin :: "string list \<Rightarrow> string" where
  "pathJoin elems =
     (let xs = filter (\<lambda>x. x \<noteq> []) elems in if xs = [] then [] else pathClean (Join xs ''/''))"

section \<open>strconv\<close>

definition isDigit :: "char \<Rightarrow> bool" where
  "isDigit c = (48 \<le> (of_char c :: nat) \<and> (of_char c :: nat) \<le> 57)"

definition digitVal :: "char \<Rightarrow> nat" where
  "digitVal c = (of_char c :: nat) - 48"

definition decimal :: "string \<Rightarrow> nat" where
  "decimal s = foldl (\<lambda>a c. 10 * a + digitVal c) 0 s"

text \<open>\<open>strconv.ParseUint(s, 10, 64)\<close>: \<open>None\<close> for a syntax or range error.\<close>

definition ParseUint :: "string \<Rightarrow> nat option" where
  "ParseUint s =
     (if s = [] \<or> \<not> list_all isDigit s then None
      else if decimal s < 2 ^ 64 then Some (decimal s) else None)"

text \<open>\<open>strconv.Atoi(s)\<close> on a 64-bit platform: an optional sign, then digits, in the range of \<open>int\<close>.\<close>

definition Atoi :: "string \<Rightarrow> int option" where
  "Atoi s =
     (let (neg, body) = (case s of [] \<Rightarrow> (False, [])
            | c # r \<Rightarrow> if c = CHR ''-'' then (True, r)
                      else if c = CHR ''+'' then (False, r) else (False, s))
      in if body = [] \<or> \<not> list_all isDigit body then None
         else if neg then (if decimal body \<le> 2 ^ 63 then Some (- int (decimal body)) else None)
         else (if decimal body < 2 ^ 63 then Some (int (decimal body)) else None))"

fun Itoa :: "nat \<Rightarrow> string" where
  "Itoa n = (if n < 10 then [char_of (48 + n)] else Itoa (n div 10) @ [char_of (48 + n mod 10)])"

declare Itoa.simps [simp del]

lemma isDigit_char_of: "(d::nat) < 10 \<Longrightarrow> isDigit (char_of (48 + d))"
  by (simp add: isDigit_def)

lemma digitVal_char_of: "d < 10 \<Longrightarrow> digitVal (char_of (48 + d)) = d"
  by (simp add: digitVal_def)

lemma decimal_append: "decimal (s @ [c]) = 10 * decimal s + digitVal c"
  by (simp add: decimal_def)

lemma Itoa_digits: "list_all isDigit (Itoa n) \<and> Itoa n \<noteq> []"
proof (induction n rule: Itoa.induct)
  case (1 n)
  then show ?case
    by (subst (1 2) Itoa.simps) (auto simp: isDigit_char_of)
qed

lemma decimal_Itoa: "decimal (Itoa n) = n"
proof (induction n rule: Itoa.induct)
  case (1 n)
  show ?case
  proof (cases "n < 10")
    case True
    then show ?thesis
      using decimal_append [of "[]"] by (subst Itoa.simps) (simp add: digitVal_char_of decimal_def)
  next
    case False
    with 1 show ?thesis by (subst Itoa.simps) (simp add: decimal_append digitVal_char_of)
  qed
qed

lemma Itoa_inject [simp]: "Itoa m = Itoa n \<longleftrightarrow> m = n"
  by (metis decimal_Itoa)

lemma ParseUint_Itoa: "n < 2 ^ 64 \<Longrightarrow> ParseUint (Itoa n) = Some n"
  using Itoa_digits [of n] by (simp add: ParseUint_def decimal_Itoa)

lemma ParseUint_Some_iff:
  "ParseUint s = Some n \<longleftrightarrow> s \<noteq> [] \<and> list_all isDigit s \<and> n = decimal s \<and> n < 2 ^ 64"
  by (auto simp: ParseUint_def)

lemma digits_Atoi:
  assumes "list_all isDigit s" and "s \<noteq> []"
  shows "Atoi s = (if decimal s < 2 ^ 63 then Some (int (decimal s)) else None)"
proof -
  obtain c r where s: "s = c # r" using assms(2) by (cases s) auto
  then have "isDigit c" using assms(1) by simp
  then have "c \<noteq> CHR ''-'' \<and> c \<noteq> CHR ''+''" by (auto simp: isDigit_def)
  then show ?thesis using assms s by (simp add: Atoi_def)
qed

lemma Atoi_bounds: "Atoi s = Some i \<Longrightarrow> - (2 ^ 63) \<le> i \<and> i < 2 ^ 63"
  by (auto simp: Atoi_def Let_def split: list.splits if_splits)

lemma Atoi_Itoa: "n < 2 ^ 63 \<Longrightarrow> Atoi (Itoa n) = Some (int n)"
  using Itoa_digits [of n] by (simp add: digits_Atoi decimal_Itoa)

section \<open>regexp\<close>

text \<open>
  The regular expressions of the source, anchored at both ends, over byte classes; the matcher
  is by derivatives and is proved to decide the language.
\<close>

datatype rx = RZero | ROne | RSet "char \<Rightarrow> bool" | RAlt rx rx | RSeq rx rx | RStar rx

inductive in_rx :: "rx \<Rightarrow> string \<Rightarrow> bool" where
  one: "in_rx ROne []"
| chr: "p c \<Longrightarrow> in_rx (RSet p) [c]"
| alt1: "in_rx a s \<Longrightarrow> in_rx (RAlt a b) s"
| alt2: "in_rx b s \<Longrightarrow> in_rx (RAlt a b) s"
| seq: "in_rx a u \<Longrightarrow> in_rx b v \<Longrightarrow> in_rx (RSeq a b) (u @ v)"
| star0: "in_rx (RStar a) []"
| starS: "in_rx a u \<Longrightarrow> in_rx (RStar a) v \<Longrightarrow> in_rx (RStar a) (u @ v)"

inductive_simps in_rx_simps:
  "in_rx RZero s" "in_rx ROne s" "in_rx (RSet p) s" "in_rx (RAlt a b) s" "in_rx (RSeq a b) s"

inductive_cases in_starE: "in_rx (RStar a) s"

fun nullable :: "rx \<Rightarrow> bool" where
  "nullable RZero = False"
| "nullable ROne = True"
| "nullable (RSet p) = False"
| "nullable (RAlt a b) = (nullable a \<or> nullable b)"
| "nullable (RSeq a b) = (nullable a \<and> nullable b)"
| "nullable (RStar a) = True"

text \<open>Smart constructors, so that derivatives of the anchored expressions stay small.\<close>

fun mkSeq :: "rx \<Rightarrow> rx \<Rightarrow> rx" where
  "mkSeq RZero b = RZero"
| "mkSeq ROne b = b"
| "mkSeq a b = RSeq a b"

fun mkAlt :: "rx \<Rightarrow> rx \<Rightarrow> rx" where
  "mkAlt RZero b = b"
| "mkAlt a RZero = a"
| "mkAlt a b = RAlt a b"

fun der :: "char \<Rightarrow> rx \<Rightarrow> rx" where
  "der c RZero = RZero"
| "der c ROne = RZero"
| "der c (RSet p) = (if p c then ROne else RZero)"
| "der c (RAlt a b) = mkAlt (der c a) (der c b)"
| "der c (RSeq a b) =
     (if nullable a then mkAlt (mkSeq (der c a) b) (der c b) else mkSeq (der c a) b)"
| "der c (RStar a) = mkSeq (der c a) (RStar a)"

definition MatchString :: "rx \<Rightarrow> string \<Rightarrow> bool" where
  "MatchString r s = nullable (fold der s r)"

definition rlit :: "string \<Rightarrow> rx" where
  "rlit s = foldr (\<lambda>c. mkSeq (RSet (\<lambda>d. d = c))) s ROne"

definition rplus :: "(char \<Rightarrow> bool) \<Rightarrow> rx" where
  "rplus p = RSeq (RSet p) (RStar (RSet p))"

lemma in_mkSeq [simp]: "in_rx (mkSeq a b) s = in_rx (RSeq a b) s"
  by (cases a) (auto simp: in_rx_simps)

lemma in_mkAlt [simp]: "in_rx (mkAlt a b) s = in_rx (RAlt a b) s"
  by (cases a; cases b) (auto simp: in_rx_simps)

lemma star_nil [simp]: "in_rx (RStar a) []"
  by (rule in_rx.star0)

lemma nullable_iff: "nullable r \<longleftrightarrow> in_rx r []"
  by (induction r) (auto simp: in_rx_simps)

lemma star_Cons:
  "in_rx (RStar a) (c # s) \<longleftrightarrow> (\<exists>u v. s = u @ v \<and> in_rx a (c # u) \<and> in_rx (RStar a) v)"
proof
  show "\<exists>u v. s = u @ v \<and> in_rx a (c # u) \<and> in_rx (RStar a) v" if "in_rx (RStar a) (c # s)"
    using that
  proof (induction "RStar a" "c # s" rule: in_rx.induct)
    case (starS u v)
    then show ?case by (cases u) auto
  qed
next
  assume "\<exists>u v. s = u @ v \<and> in_rx a (c # u) \<and> in_rx (RStar a) v"
  then show "in_rx (RStar a) (c # s)"
    using in_rx.starS [of a "c # _"] by fastforce
qed

lemma seq_Cons:
  "in_rx (RSeq a b) (c # s) \<longleftrightarrow>
     (in_rx a [] \<and> in_rx b (c # s)) \<or> (\<exists>u v. s = u @ v \<and> in_rx a (c # u) \<and> in_rx b v)"
  by (subst in_rx_simps(5)) (auto simp: Cons_eq_append_conv)

lemma in_der: "in_rx (der c r) s \<longleftrightarrow> in_rx r (c # s)"
proof (induction r arbitrary: s)
  case (RSeq a b)
  then show ?case
    by (simp add: seq_Cons nullable_iff in_rx_simps(4)) (auto simp: in_rx_simps(5) Cons_eq_append_conv)
next
  case (RStar a)
  then show ?case by (simp add: star_Cons in_rx_simps)
qed (auto simp: in_rx_simps)

lemma MatchString_iff: "MatchString r s \<longleftrightarrow> in_rx r s"
proof -
  have "nullable (fold der s r) \<longleftrightarrow> in_rx r s"
    by (induction s arbitrary: r) (auto simp: nullable_iff in_der)
  then show ?thesis by (simp add: MatchString_def)
qed

lemma in_rlit: "in_rx (rlit l) s \<longleftrightarrow> s = l"
  by (induction l arbitrary: s) (auto simp: rlit_def in_rx_simps)

lemma in_star_set: "in_rx (RStar (RSet p)) s \<longleftrightarrow> list_all p s"
  by (induction s) (auto simp: star_Cons in_rx_simps)

lemma in_rplus: "in_rx (rplus p) s \<longleftrightarrow> s \<noteq> [] \<and> list_all p s"
  by (cases s) (simp_all add: rplus_def seq_Cons in_rx_simps(3) in_star_set, simp add: in_rx_simps)

end
