(* ===== verification/KubeTypes.thy ===== *)
theory KubeTypes
  imports GoStd "HOL-Library.Word"
begin

text \<open>
  The Kubernetes objects the operator edits, with the fields its code reads or writes; what it
  only carries along is kept as an opaque \<open>json\<close> remainder, so that an edit that loses it is
  visible. Nil and empty slices and maps are identified in these objects: their encoding omits
  both. The API machinery that reads an unstructured object and converts it
  (\<^verbatim>\<open>k8s.io/apimachinery\<close>, \<^verbatim>\<open>manifestival\<close>) is third-party code: it is the record \<open>api\<close>, a
  parameter of every operation that calls it, and the documented behaviour the theorems rely on
  is stated by \<open>accessors_ok\<close> and \<open>codec_ok\<close>.
\<close>

section \<open>Unstructured content\<close>

datatype json = JNull | JBool bool | JNum string | JStr string | JArr "json list"
  | JObj "(string \<times> json) list"

text \<open>\<open>unstructured.NestedString\<close> with the empty string for an absent field.\<close>

fun nestedString :: "string list \<Rightarrow> json \<Rightarrow> string" where
  "nestedString [] (JStr s) = s"
| "nestedString (k # ks) (JObj kvs) = (case map_of kvs k of None \<Rightarrow> [] | Some v \<Rightarrow> nestedString ks v)"
| "nestedString _ _ = []"

section \<open>Errors\<close>

text \<open>
  A Go error as a value: an error of a library, the two API conditions the code tests for, a
  formatted error with its format and arguments, a wrapped error, a joined error, the pair that
  \<open>Reconcile\<close> builds when the status update fails as well, and a run-time panic.
\<close>

datatype error =
    LibError string
  | NotFound string
  | AlreadyOwned string string
  | Errorf string "string list"
  | Wrapf string error
  | Joined "error list"
  | GotErrorAndAnother error error
  | Panic string

section \<open>Objects\<close>

record objectMeta =
  om_name :: string
  om_namespace :: string
  om_labels :: smap
  om_annotations :: smap
  om_rest :: json

record envVar =
  env_name :: string
  env_value :: string
  env_valueFrom :: "json option"

record volumeMount =
  vm_name :: string
  vm_mountPath :: string
  vm_readOnly :: bool
  vm_rest :: json

type_synonym keyToPath = "string \<times> string"

datatype volumeProjection =
    SecretProjection string "keyToPath list"
  | ConfigMapProjection string "keyToPath list"
  | ServiceAccountTokenProjection string string
  | OtherProjection json

datatype volumeSource =
    ConfigMapSource string
  | SecretSource string
  | ProjectedSource "volumeProjection list"
  | PersistentVolumeClaimSource string
  | OtherSource json

record volume =
  vol_name :: string
  vol_source :: volumeSource

record resourceRequirements =
  rr_limits :: smap
  rr_requests :: smap
  rr_claims :: json

record seccompProfile =
  sp_type :: string
  sp_localhostProfile :: "string option"

record securityContext =
  sc_seccompProfile :: "seccompProfile option"
  sc_rest :: json

record container =
  c_name :: string
  c_image :: string
  c_args :: "string list"
  c_env :: "envVar list"
  c_volumeMounts :: "volumeMount list"
  c_resources :: resourceRequirements
  c_securityContext :: "securityContext option"
  c_rest :: json

record podSpec =
  ps_volumes :: "volume list"
  ps_containers :: "container list"
  ps_securityContext :: "securityContext option"
  ps_nodeSelector :: smap
  ps_tolerations :: "json list"
  ps_affinity :: "json option"
  ps_priorityClassName :: string
  ps_rest :: json

record podTemplate =
  pt_labels :: smap
  pt_annotations :: smap
  pt_spec :: podSpec
  pt_rest :: json

type_synonym int32 = "32 word"

record deployment =
  d_meta :: objectMeta
  d_replicas :: "int32 option"
  d_template :: podTemplate
  d_rest :: json

record roleRef =
  rf_apiGroup :: string
  rf_kind :: string
  rf_name :: string

record subject =
  sj_kind :: string
  sj_apiGroup :: string
  sj_name :: string
  sj_namespace :: string

record roleBinding =
  rb_meta :: objectMeta
  rb_roleRef :: roleRef
  rb_subjects :: "subject list"

record serviceAccount =
  sa_meta :: objectMeta
  sa_rest :: json

record validatingWebhookConfiguration =
  vwc_meta :: objectMeta
  vwc_rest :: json

record apiService =
  as_meta :: objectMeta
  as_insecureSkipTLSVerify :: bool
  as_rest :: json

record labelSelectorRequirement =
  lr_key :: string
  lr_operator :: string
  lr_values :: "string list"

record labelSelector =
  ls_matchLabels :: smap
  ls_matchExpressions :: "labelSelectorRequirement list"

record networkPolicyPeer =
  npp_podSelector :: "labelSelector option"
  npp_namespaceSelector :: "labelSelector option"
  npp_ipBlock :: "json option"

record egressRule =
  er_ports :: json
  er_to :: "networkPolicyPeer list"

record networkPolicy =
  np_meta :: objectMeta
  np_podSelector :: labelSelector
  np_egress :: "egressRule list"
  np_rest :: json

subsection \<open>Reading and editing the pod template of a Deployment\<close>

definition containers :: "deployment \<Rightarrow> container list" where
  "containers d = ps_containers (pt_spec (d_template d))"

definition volumes :: "deployment \<Rightarrow> volume list" where
  "volumes d = ps_volumes (pt_spec (d_template d))"

definition updSpec :: "(podSpec \<Rightarrow> podSpec) \<Rightarrow> deployment \<Rightarrow> deployment" where
  "updSpec f d = d\<lparr>d_template := (d_template d)\<lparr>pt_spec := f (pt_spec (d_template d))\<rparr>\<rparr>"

definition setContainers :: "container list \<Rightarrow> deployment \<Rightarrow> deployment" where
  "setContainers cs = updSpec (\<lambda>s. s\<lparr>ps_containers := cs\<rparr>)"

definition setVolumes :: "volume list \<Rightarrow> deployment \<Rightarrow> deployment" where
  "setVolumes vs = updSpec (\<lambda>s. s\<lparr>ps_volumes := vs\<rparr>)"

lemma template_simps [simp]:
  "containers (setContainers cs d) = cs"
  "volumes (setContainers cs d) = volumes d"
  "containers (setVolumes vs d) = containers d"
  "volumes (setVolumes vs d) = vs"
  "d_meta (setContainers cs d) = d_meta d"
  "d_meta (setVolumes vs d) = d_meta d"
  "d_meta (updSpec f d) = d_meta d"
  "containers (updSpec f d) = ps_containers (f (pt_spec (d_template d)))"
  "volumes (updSpec f d) = ps_volumes (f (pt_spec (d_template d)))"
  by (simp_all add: containers_def volumes_def setContainers_def setVolumes_def updSpec_def)

lemma template_idem [simp]:
  "setContainers cs (setContainers cs' d) = setContainers cs d"
  "setContainers (containers d) d = d"
  "setVolumes vs (setVolumes vs' d) = setVolumes vs d"
  "setVolumes (volumes d) d = d"
  by (simp_all add: containers_def volumes_def setContainers_def setVolumes_def updSpec_def)

lemma template_swap: "setContainers cs (setVolumes vs d) = setVolumes vs (setContainers cs d)"
  by (simp add: setContainers_def setVolumes_def updSpec_def)

section \<open>The API machinery\<close>

text \<open>\<open>scheme.Convert\<close> for one type: unstructured to typed, and typed back into the object.\<close>

record ('u, 't) codec =
  decode :: "'u \<Rightarrow> error + 't"
  encode :: "'t \<Rightarrow> 'u \<Rightarrow> error + 'u"

record 'u api =
  GetKind :: "'u \<Rightarrow> string"
  GetName :: "'u \<Rightarrow> string"
  GetNamespace :: "'u \<Rightarrow> string"
  GetAnnotations :: "'u \<Rightarrow> smap"
  SetAnnotations :: "smap \<Rightarrow> 'u \<Rightarrow> 'u"
  content :: "'u \<Rightarrow> json"
  setContent :: "json \<Rightarrow> 'u \<Rightarrow> 'u"
  deployments :: "('u, deployment) codec"
  roleBindings :: "('u, roleBinding) codec"
  serviceAccounts :: "('u, serviceAccount) codec"
  webhookConfigurations :: "('u, validatingWebhookConfiguration) codec"
  apiServices :: "('u, apiService) codec"
  networkPolicies :: "('u, networkPolicy) codec"
  SetMetaDataAnnotation :: "string \<Rightarrow> string \<Rightarrow> objectMeta \<Rightarrow> objectMeta"
  mfInjectOwner :: "objectMeta \<Rightarrow> 'u \<Rightarrow> error + 'u"
  mfTransform :: "('u \<Rightarrow> error + 'u) list \<Rightarrow> 'u list \<Rightarrow> error + 'u list"

type_synonym 'u transformer = "'u \<Rightarrow> error + 'u"

text \<open>
  Documented behaviour of the accessors: an unstructured object is its content, and its kind,
  name and namespace are read from there.
\<close>

definition accessors_ok :: "'u api \<Rightarrow> bool" where
  "accessors_ok A \<longleftrightarrow>
     (\<forall>u. GetKind A u = nestedString [''kind''] (content A u)) \<and>
     (\<forall>u. GetName A u = nestedString [''metadata'', ''name''] (content A u)) \<and>
     (\<forall>u. GetNamespace A u = nestedString [''metadata'', ''namespace''] (content A u)) \<and>
     (\<forall>j u. content A (setContent A j u) = j)"

text \<open>Documented behaviour of \<open>metav1.SetMetaDataAnnotation\<close>: it sets one annotation.\<close>

definition annotating_ok :: "'u api \<Rightarrow> bool" where
  "annotating_ok A \<longleftrightarrow>
     (\<forall>ann v m. SetMetaDataAnnotation A ann v m = m\<lparr>om_annotations := (om_annotations m)(ann \<mapsto> v)\<rparr>)"

text \<open>
  Documented behaviour of a conversion: what was written reads back, with the kind of the type;
  a typed object has the name and the namespace of the object it was read from.
\<close>

definition codec_ok :: "'u api \<Rightarrow> string \<Rightarrow> ('t \<Rightarrow> objectMeta) \<Rightarrow> ('u, 't) codec \<Rightarrow> bool" where
  "codec_ok A kind meta c \<longleftrightarrow>
     (\<forall>t u u'. encode c t u = Inr u' \<longrightarrow> decode c u' = Inr t \<and> GetKind A u' = kind) \<and>
     (\<forall>u t. decode c u = Inr t \<longrightarrow>
        om_name (meta t) = GetName A u \<and> om_namespace (meta t) = GetNamespace A u)"

text \<open>
  The shape every typed transformer has: guard on the kind, convert, edit, convert back when the
  edit reports a change.
\<close>

definition convertEdit ::
  "'u api \<Rightarrow> string \<Rightarrow> ('u, 't) codec \<Rightarrow> ('t \<Rightarrow> 't \<times> bool) \<Rightarrow> 'u transformer" where
  "convertEdit A kind c f u =
     (if GetKind A u = kind
      then bindE (decode c u) (\<lambda>t. let (t', changed) = f t in if changed then encode c t' u else Ok u)
      else Ok u)"

abbreviation always :: "('t \<Rightarrow> 't) \<Rightarrow> 't \<Rightarrow> 't \<times> bool" where
  "always f \<equiv> (\<lambda>t. (f t, True))"

definition onDeployment :: "'u api \<Rightarrow> (deployment \<Rightarrow> deployment \<times> bool) \<Rightarrow> 'u transformer" where
  "onDeployment A f = convertEdit A ''Deployment'' (deployments A) f"

text \<open>
  The same shape read as a specification: compute the edited object, and write it back exactly
  when it differs.
\<close>

definition writeIfChanged ::
  "'u api \<Rightarrow> string \<Rightarrow> ('u, 't) codec \<Rightarrow> ('t \<Rightarrow> 't) \<Rightarrow> 'u transformer" where
  "writeIfChanged A kind c f u =
     (if GetKind A u = kind
      then bindE (decode c u) (\<lambda>t. if f t = t then Ok u else encode c (f t) u)
      else Ok u)"

lemma convertEdit_other: "GetKind A u \<noteq> kind \<Longrightarrow> convertEdit A kind c f u = Inr u"
  by (simp add: convertEdit_def)

context tracked_edit
begin

lemma convertEdit_exact: "convertEdit A kind c edit = writeIfChanged A kind c (\<lambda>t. fst (edit t))"
proof
  fix u
  show "convertEdit A kind c edit u = writeIfChanged A kind c (\<lambda>t. fst (edit t)) u"
    by (cases "decode c u") (simp_all add: convertEdit_def writeIfChanged_def split_def exact)
qed

end

lemma writeIfChanged_decodes:
  assumes "codec_ok A kind meta c"
    and "decode c u = Inr t" "GetKind A u = kind" "writeIfChanged A kind c f u = Inr u'"
  shows "decode c u' = Inr (f t) \<and> GetKind A u' = kind"
  using assms by (auto simp: writeIfChanged_def codec_ok_def split: if_splits)

lemma convertEdit_decodes:
  assumes "codec_ok A kind meta c"
    and "decode c u = Inr t" "GetKind A u = kind" "convertEdit A kind c (always f) u = Inr u'"
  shows "decode c u' = Inr (f t) \<and> GetKind A u' = kind"
  using assms by (auto simp: convertEdit_def codec_ok_def)

text \<open>An edit that keeps name and namespace keeps the identity of the unstructured object.\<close>

definition sameIdentity :: "'u api \<Rightarrow> 'u \<Rightarrow> 'u \<Rightarrow> bool" where
  "sameIdentity A u u' \<longleftrightarrow>
     GetKind A u' = GetKind A u \<and> GetName A u' = GetName A u \<and> GetNamespace A u' = GetNamespace A u"

lemma sameIdentity_refl [simp]: "sameIdentity A u u"
  by (simp add: sameIdentity_def)

lemma sameIdentity_trans: "sameIdentity A u v \<Longrightarrow> sameIdentity A v w \<Longrightarrow> sameIdentity A u w"
  by (simp add: sameIdentity_def)

lemma encode_identity:
  assumes "codec_ok A kind meta c" and "GetKind A u = kind" "decode c u = Inr t" "encode c t' u = Inr u'"
    and "om_name (meta t') = om_name (meta t)" "om_namespace (meta t') = om_namespace (meta t)"
  shows "sameIdentity A u u'"
proof -
  have "decode c u' = Inr t' \<and> GetKind A u' = kind"
    using assms(1,4) by (auto simp: codec_ok_def)
  then show ?thesis
    using assms unfolding sameIdentity_def codec_ok_def by metis
qed

lemma convertEdit_identity:
  assumes c: "codec_ok A kind meta c"
    and f: "\<And>t. om_name (meta (fst (f t))) = om_name (meta t)"
           "\<And>t. om_namespace (meta (fst (f t))) = om_namespace (meta t)"
    and u: "convertEdit A kind c f u = Inr u'"
  shows "sameIdentity A u u'"
proof (cases "GetKind A u = kind")
  case False
  then show ?thesis using u by (simp add: convertEdit_def)
next
  case True
  then obtain t where t: "decode c u = Inr t"
    using u by (auto simp: convertEdit_def bindE_Ok)
  show ?thesis
  proof (cases "snd (f t)")
    case changed: True
    then have "encode c (fst (f t)) u = Inr u'"
      using u t True by (simp add: convertEdit_def split_def)
    then show ?thesis using encode_identity [OF c True t _ f] by blast
  next
    case False
    then show ?thesis using u t True by (simp add: convertEdit_def split_def)
  qed
qed

section \<open>Edits of a Deployment\<close>

text \<open>
  The contract of the edits that the transformers make to a Deployment: they never rename, add,
  drop or reorder a container, and leave the identity of the Deployment alone.
\<close>

locale deployment_edit =
  fixes edit :: "deployment \<Rightarrow> deployment"
  assumes same_containers: "map c_name (containers (edit d)) = map c_name (containers d)"
    and same_name: "om_name (d_meta (edit d)) = om_name (d_meta d)"
    and same_namespace: "om_namespace (d_meta (edit d)) = om_namespace (d_meta d)"
begin

lemma container_present:
  "lookup_by c_name n (containers (edit d)) = None \<longleftrightarrow> lookup_by c_name n (containers d) = None"
proof -
  have "c_name ` set (containers (edit d)) = c_name ` set (containers d)"
    using same_containers [of d] by (metis set_map)
  then show ?thesis by (simp add: lookup_by_None_iff)
qed

lemma on_identity:
  assumes "codec_ok A ''Deployment'' d_meta (deployments A)"
    and "\<And>d. fst (g d) = edit d" and "onDeployment A g u = Inr u'"
  shows "sameIdentity A u u'"
  using convertEdit_identity [OF assms(1) _ _ assms(3) [unfolded onDeployment_def]]
    same_name same_namespace assms(2) by simp

end

text \<open>
  Editing the first container of a name: with the \<open>changed\<close> flag, as the loops of the code do,
  and as a plain function on Deployments.
\<close>

definition editContainer :: "string \<Rightarrow> (container \<Rightarrow> container \<times> bool) \<Rightarrow> deployment \<Rightarrow> deployment \<times> bool" where
  "editContainer name f d =
     (let (cs, changed) = edit_first (\<lambda>c. c_name c = name) f (containers d)
      in (setContainers cs d, changed))"

definition updContainer :: "string \<Rightarrow> (container \<Rightarrow> container) \<Rightarrow> deployment \<Rightarrow> deployment" where
  "updContainer name f d = setContainers (upd_first (\<lambda>c. c_name c = name) f (containers d)) d"

lemma fst_editContainer: "fst (editContainer n f d) = updContainer n (\<lambda>c. fst (f c)) d"
  by (simp add: editContainer_def updContainer_def split_def Let_def fst_edit_first)

lemma setContainers_eq_iff: "setContainers cs d = d \<longleftrightarrow> cs = containers d"
  by (metis template_simps(1) template_idem(2))

lemma volumes_updContainer [simp]: "volumes (updContainer n f d) = volumes d"
  by (simp add: updContainer_def)

locale container_edit =
  fixes cedit :: "container \<Rightarrow> container"
  assumes keeps_name: "c_name (cedit c) = c_name c"
begin

lemma lookup_container:
  "lookup_by c_name k (containers (updContainer n cedit d)) =
     (if k = n then map_option cedit (lookup_by c_name n (containers d))
      else lookup_by c_name k (containers d))"
  using keeps_name by (simp add: updContainer_def lookup_by_upd_first)

lemma idempotent:
  assumes "\<And>c. cedit (cedit c) = cedit c"
  shows "updContainer n cedit (updContainer n cedit d) = updContainer n cedit d"
  by (simp add: updContainer_def upd_first_idem assms keeps_name)

sublocale dep: deployment_edit "updContainer n cedit" for n
  by unfold_locales (simp_all add: updContainer_def upd_first_map_frame keeps_name)

end

text \<open>
  A container edit with an exact flag: the transformer built on it is the specification that
  writes back exactly what changed.
\<close>

locale tracked_container_edit = tracked_edit edit for edit :: "container \<Rightarrow> container \<times> bool" +
  assumes keeps_container_name: "c_name (fst (edit c)) = c_name c"
begin

lemma editContainer_exact: "snd (editContainer n edit d) \<longleftrightarrow> fst (editContainer n edit d) \<noteq> d"
  by (simp add: editContainer_def split_def Let_def setContainers_eq_iff edit_first_exact)

sublocale named: tracked_edit "editContainer n edit" for n
  by unfold_locales (rule editContainer_exact)

sublocale plain: container_edit "\<lambda>c. fst (edit c)"
  by unfold_locales (rule keeps_container_name)

lemma transformer_exact:
  "onDeployment A (editContainer n edit) =
     writeIfChanged A ''Deployment'' (deployments A) (updContainer n (\<lambda>c. fst (edit c)))"
  using named.convertEdit_exact by (simp add: onDeployment_def fst_editContainer)

end

end
