(* ===== verification/ApiTypes.thy ===== *)
theory ApiTypes
  imports KubeTypes
begin

text \<open>
  The custom resource: \<^verbatim>\<open>api/keda/v1alpha1/kedacontroller_types.go\<close>. A pointer, and a slice or map
  whose nil value the code tells from an empty one, is an \<open>option\<close>; where the code only asks for
  the length, nil and empty are one value.
\<close>

section \<open>Phases and status\<close>

datatype KedaControllerPhase = PhaseNone | PhaseInstallSucceeded | PhaseIgnored | PhaseFailed

record HTTPAddonStatus =
  has_phase :: KedaControllerPhase
  has_reason :: string
  has_version :: string

datatype GCPWorkloadIdentitySource =
    GCPWorkloadIdentitySourceKedaController
  | GCPWorkloadIdentitySourceOperatorEnvironment

record GCPWorkloadIdentityStatus =
  gws_source :: GCPWorkloadIdentitySource
  gws_serviceAccountEmail :: string
  gws_audience :: string
  gws_projectID :: string

record KedaControllerStatus =
  kcs_phase :: KedaControllerPhase
  kcs_reason :: string
  kcs_version :: string
  kcs_configMapDataSum :: string
  kcs_secretDataSum :: string
  kcs_httpAddon :: "HTTPAddonStatus option"
  kcs_gcpWorkloadIdentity :: "GCPWorkloadIdentityStatus option"

definition SetPhase :: "KedaControllerPhase \<Rightarrow> KedaControllerStatus \<Rightarrow> KedaControllerStatus" where
  "SetPhase p kcs = kcs\<lparr>kcs_phase := p\<rparr>"

definition SetReason :: "string \<Rightarrow> KedaControllerStatus \<Rightarrow> KedaControllerStatus" where
  "SetReason r kcs = kcs\<lparr>kcs_reason := r\<rparr>"

definition MarkIgnored :: "string \<Rightarrow> KedaControllerStatus \<Rightarrow> KedaControllerStatus" where
  "MarkIgnored r kcs = kcs\<lparr>kcs_phase := PhaseIgnored, kcs_reason := r\<rparr>"

definition MarkInstallSucceeded :: "string \<Rightarrow> KedaControllerStatus \<Rightarrow> KedaControllerStatus" where
  "MarkInstallSucceeded r kcs = kcs\<lparr>kcs_phase := PhaseInstallSucceeded, kcs_reason := r\<rparr>"

definition MarkInstallFailed :: "string \<Rightarrow> KedaControllerStatus \<Rightarrow> KedaControllerStatus" where
  "MarkInstallFailed r kcs = kcs\<lparr>kcs_phase := PhaseFailed, kcs_reason := r\<rparr>"

definition MarkAddonInstallSucceeded :: "string \<Rightarrow> HTTPAddonStatus \<Rightarrow> HTTPAddonStatus" where
  "MarkAddonInstallSucceeded r s = s\<lparr>has_phase := PhaseInstallSucceeded, has_reason := r\<rparr>"

definition MarkAddonInstallFailed :: "string \<Rightarrow> HTTPAddonStatus \<Rightarrow> HTTPAddonStatus" where
  "MarkAddonInstallFailed r s = s\<lparr>has_phase := PhaseFailed, has_reason := r\<rparr>"

section \<open>Specification\<close>

record resourceSpec =
  rs_limits :: "smap option"
  rs_requests :: "smap option"
  rs_claims :: json

record GenericDeploymentSpec =
  gd_replicas :: "int32 option"
  gd_deploymentAnnotations :: smap
  gd_deploymentLabels :: smap
  gd_podAnnotations :: smap
  gd_podLabels :: smap
  gd_nodeSelector :: smap
  gd_tolerations :: "json list"
  gd_affinity :: "json option"
  gd_priorityClassName :: string
  gd_resources :: resourceSpec
  gd_volumes :: "volume list option"
  gd_volumeMounts :: "volumeMount list option"
  gd_env :: "envVar list"

record GCPWorkloadIdentitySpec =
  gwi_serviceAccountEmail :: string
  gwi_audience :: string
  gwi_projectNumber :: string
  gwi_poolID :: string
  gwi_providerID :: string
  gwi_projectID :: string
  gwi_subjectTokenAudience :: string

record KedaOperatorSpec =
  ko_logLevel :: string
  ko_logEncoder :: string
  ko_logTimeEncoding :: string
  ko_generic :: GenericDeploymentSpec
  ko_args :: "string list"
  ko_networkEgressAllowAll :: string
  ko_caConfigMaps :: "string list"
  ko_gcpWorkloadIdentity :: "GCPWorkloadIdentitySpec option"

record AuditLifetime =
  al_maxAge :: string
  al_maxBackup :: string
  al_maxSize :: string

record AuditPolicy =
  ap_rules :: "json list option"
  ap_omitStages :: "string list option"
  ap_omitManagedFields :: bool

record AuditConfig =
  ac_logOutputVolumeClaim :: string
  ac_policy :: AuditPolicy
  ac_logFormat :: string
  ac_lifetime :: AuditLifetime

record KedaMetricsServerSpec =
  km_logLevel :: string
  km_generic :: GenericDeploymentSpec
  km_auditConfig :: AuditConfig
  km_args :: "string list"
  km_networkEgressAllowAll :: string

record KedaAdmissionWebhooksSpec =
  kw_logLevel :: string
  kw_logEncoder :: string
  kw_logTimeEncoding :: string
  kw_generic :: GenericDeploymentSpec
  kw_args :: "string list"

record KedaServiceAccountSpec =
  ks_annotations :: smap
  ks_labels :: smap

record HTTPAddonImageSpec =
  hi_name :: string
  hi_tag :: string

text \<open>The operator, interceptor and scaler specifications have the same fields.\<close>

record HTTPAddonComponentSpec =
  hc_logLevel :: string
  hc_logEncoder :: string
  hc_logTimeEncoding :: string
  hc_image :: HTTPAddonImageSpec
  hc_generic :: GenericDeploymentSpec

record HTTPAddonSpec =
  ha_enabled :: bool
  ha_version :: string
  ha_operator :: HTTPAddonComponentSpec
  ha_interceptor :: HTTPAddonComponentSpec
  ha_scaler :: HTTPAddonComponentSpec

record KedaControllerSpec =
  kc_watchNamespace :: string
  kc_operator :: KedaOperatorSpec
  kc_metricsServer :: KedaMetricsServerSpec
  kc_admissionWebhooks :: KedaAdmissionWebhooksSpec
  kc_serviceAccount :: KedaServiceAccountSpec
  kc_httpAddon :: HTTPAddonSpec

record KedaController =
  k_apiVersion :: string
  k_kind :: string
  k_meta :: objectMeta
  k_uid :: string
  k_finalizers :: "string list"
  k_deletionTimestamp :: "string option"
  k_spec :: KedaControllerSpec
  k_status :: KedaControllerStatus

text \<open>The zero values \<open>AuditPolicy{}\<close> and \<open>AuditConfig{}\<close> the code compares with.\<close>

definition zeroAuditPolicy :: AuditPolicy where
  "zeroAuditPolicy = \<lparr>ap_rules = None, ap_omitStages = None, ap_omitManagedFields = False\<rparr>"

definition zeroAuditConfig :: AuditConfig where
  "zeroAuditConfig = \<lparr>ac_logOutputVolumeClaim = [], ac_policy = zeroAuditPolicy, ac_logFormat = [],
     ac_lifetime = \<lparr>al_maxAge = [], al_maxBackup = [], al_maxSize = []\<rparr>\<rparr>"

text \<open>\<open>&KedaController{}\<close>: every field has its zero value.\<close>

definition zeroGenericDeploymentSpec :: GenericDeploymentSpec where
  "zeroGenericDeploymentSpec =
     \<lparr>gd_replicas = None, gd_deploymentAnnotations = Map.empty, gd_deploymentLabels = Map.empty,
      gd_podAnnotations = Map.empty, gd_podLabels = Map.empty, gd_nodeSelector = Map.empty, gd_tolerations = [],
      gd_affinity = None, gd_priorityClassName = [],
      gd_resources = \<lparr>rs_limits = None, rs_requests = None, rs_claims = JNull\<rparr>,
      gd_volumes = None, gd_volumeMounts = None, gd_env = []\<rparr>"

definition zeroHTTPAddonComponentSpec :: HTTPAddonComponentSpec where
  "zeroHTTPAddonComponentSpec =
     \<lparr>hc_logLevel = [], hc_logEncoder = [], hc_logTimeEncoding = [], hc_image = \<lparr>hi_name = [], hi_tag = []\<rparr>,
      hc_generic = zeroGenericDeploymentSpec\<rparr>"

definition zeroKedaControllerSpec :: KedaControllerSpec where
  "zeroKedaControllerSpec =
     \<lparr>kc_watchNamespace = [],
      kc_operator = \<lparr>ko_logLevel = [], ko_logEncoder = [], ko_logTimeEncoding = [], ko_generic = zeroGenericDeploymentSpec,
        ko_args = [], ko_networkEgressAllowAll = [], ko_caConfigMaps = [], ko_gcpWorkloadIdentity = None\<rparr>,
      kc_metricsServer = \<lparr>km_logLevel = [], km_generic = zeroGenericDeploymentSpec, km_auditConfig = zeroAuditConfig,
        km_args = [], km_networkEgressAllowAll = []\<rparr>,
      kc_admissionWebhooks = \<lparr>kw_logLevel = [], kw_logEncoder = [], kw_logTimeEncoding = [],
        kw_generic = zeroGenericDeploymentSpec, kw_args = []\<rparr>,
      kc_serviceAccount = \<lparr>ks_annotations = Map.empty, ks_labels = Map.empty\<rparr>,
      kc_httpAddon = \<lparr>ha_enabled = False, ha_version = [], ha_operator = zeroHTTPAddonComponentSpec,
        ha_interceptor = zeroHTTPAddonComponentSpec, ha_scaler = zeroHTTPAddonComponentSpec\<rparr>\<rparr>"

definition zeroKedaControllerStatus :: KedaControllerStatus where
  "zeroKedaControllerStatus =
     \<lparr>kcs_phase = PhaseNone, kcs_reason = [], kcs_version = [], kcs_configMapDataSum = [], kcs_secretDataSum = [],
      kcs_httpAddon = None, kcs_gcpWorkloadIdentity = None\<rparr>"

definition zeroKedaController :: KedaController where
  "zeroKedaController =
     \<lparr>k_apiVersion = [], k_kind = [], k_meta = \<lparr>om_name = [], om_namespace = [], om_labels = Map.empty, om_annotations = Map.empty, om_rest = JNull\<rparr>,
      k_uid = [], k_finalizers = [], k_deletionTimestamp = None, k_spec = zeroKedaControllerSpec,
      k_status = zeroKedaControllerStatus\<rparr>"

text \<open>
  What a status method leaves alone: only phase and reason change, so the versions, checksums and
  the reports on the add-on and on workload identity survive.
\<close>

lemma Mark_frames [frame_simps]:
  "kcs_httpAddon (MarkInstallFailed r s) = kcs_httpAddon s"
  "kcs_httpAddon (MarkInstallSucceeded r s) = kcs_httpAddon s"
  "kcs_gcpWorkloadIdentity (MarkInstallFailed r s) = kcs_gcpWorkloadIdentity s"
  "kcs_gcpWorkloadIdentity (MarkInstallSucceeded r s) = kcs_gcpWorkloadIdentity s"
  "kcs_configMapDataSum (MarkInstallFailed r s) = kcs_configMapDataSum s"
  "kcs_secretDataSum (MarkInstallFailed r s) = kcs_secretDataSum s"
  "kcs_phase (MarkInstallFailed r s) = PhaseFailed"
  "kcs_phase (MarkInstallSucceeded r s) = PhaseInstallSucceeded"
  "kcs_phase (MarkIgnored r s) = PhaseIgnored"
  by (simp_all add: MarkInstallFailed_def MarkInstallSucceeded_def MarkIgnored_def)

end
