(* ===== verification/GcpConfig.thy ===== *)
theory GcpConfig
  imports ApiTypes
begin

text \<open>
  GCP Workload Identity Federation parameters: \<^verbatim>\<open>internal/controller/keda/gcp/config.go\<close>, and the
  choice between the two sources in \<^verbatim>\<open>gcp_workload_identity.go\<close>. A formatted error is its format
  string with the arguments in order.
\<close>

section \<open>Constants\<close>

definition EnvServiceAccountEmail :: string where "EnvServiceAccountEmail = ''SERVICE_ACCOUNT_EMAIL''"
definition EnvAudience :: string where "EnvAudience = ''AUDIENCE''"
definition EnvProjectNumber :: string where "EnvProjectNumber = ''PROJECT_NUMBER''"
definition EnvPoolID :: string where "EnvPoolID = ''POOL_ID''"
definition EnvProviderID :: string where "EnvProviderID = ''PROVIDER_ID''"
definition EnvProjectID :: string where "EnvProjectID = ''CLOUDSDK_CORE_PROJECT''"
definition EnvSubjectTokenAudience :: string where "EnvSubjectTokenAudience = ''SUBJECT_TOKEN_AUDIENCE''"
definition DefaultSubjectTokenAudience :: string where "DefaultSubjectTokenAudience = ''openshift''"

lemmas env_defs = EnvServiceAccountEmail_def EnvAudience_def EnvProjectNumber_def EnvPoolID_def
  EnvProviderID_def EnvProjectID_def EnvSubjectTokenAudience_def

text \<open>\<open>fmt.Sprintf(audienceFormat, ...)\<close>\<close>

definition audienceFormat :: "string \<Rightarrow> string \<Rightarrow> string \<Rightarrow> string" where
  "audienceFormat project pool provider =
     ''//iam.googleapis.com/projects/'' @ project @ ''/locations/global/workloadIdentityPools/'' @ pool @
     ''/providers/'' @ provider"

definition audienceRegexp :: rx where
  "audienceRegexp =
     (let seg = rplus (\<lambda>c. c \<noteq> CHR ''/'')
      in RSeq (rlit ''//iam.'') (RSeq seg (RSeq (rlit ''/projects/'') (RSeq seg (RSeq (rlit ''/locations/'') (RSeq seg
           (RSeq (rlit ''/workloadIdentityPools/'') (RSeq seg (RSeq (rlit ''/providers/'') seg)))))))))"

definition projectNumberRegexp :: rx where "projectNumberRegexp = rplus isDigit"

definition isIdentifierChar :: "char \<Rightarrow> bool" where
  "isIdentifierChar c =
     (let n = of_char c :: nat
      in (65 \<le> n \<and> n \<le> 90) \<or> (97 \<le> n \<and> n \<le> 122) \<or> isDigit c \<or>
         c = CHR ''.'' \<or> c = CHR ''_'' \<or> c = CHR ''-'')"

definition identifierRegexp :: rx where "identifierRegexp = rplus isIdentifierChar"

section \<open>Config\<close>

record Config =
  cfg_source :: GCPWorkloadIdentitySource
  cfg_audience :: string
  cfg_serviceAccountEmail :: string
  cfg_projectID :: string
  cfg_subjectTokenAudience :: string

definition specFieldNames :: "(string \<times> string) list" where
  "specFieldNames =
     [(EnvServiceAccountEmail, ''serviceAccountEmail''), (EnvAudience, ''audience''),
      (EnvProjectNumber, ''projectNumber''), (EnvPoolID, ''poolID''), (EnvProviderID, ''providerID''),
      (EnvProjectID, ''projectID''), (EnvSubjectTokenAudience, ''subjectTokenAudience'')]"

definition validateServiceAccountEmail :: "string \<Rightarrow> (string \<Rightarrow> string) \<Rightarrow> error option" where
  "validateServiceAccountEmail email name =
     (let (local, domain, found) = Cut email (CHR ''@'')
      in if \<not> found \<or> local = [] \<or> domain = [] \<or> Contains domain ''@'' \<or> \<not> Contains domain ''.''
         then Some (Errorf ''%s %q is not a service account email address'' [name EnvServiceAccountEmail, email])
         else None)"

definition resolveAudience ::
  "string \<Rightarrow> string \<Rightarrow> string \<Rightarrow> string \<Rightarrow> (string \<Rightarrow> string) \<Rightarrow> error + string" where
  "resolveAudience audience projectNumber poolID providerID name =
     (let tripletSet = (projectNumber \<noteq> [] \<or> poolID \<noteq> [] \<or> providerID \<noteq> []);
          names = [name EnvProjectNumber, name EnvPoolID, name EnvProviderID]
      in if audience = [] \<and> \<not> tripletSet then
           Err (Errorf ''either %s or all of %s, %s and %s must be set'' (name EnvAudience # names))
         else if audience \<noteq> [] \<and> \<not> MatchString audienceRegexp audience then
           Err (Errorf ''%s %q is not a workload identity provider resource name of the form %s''
             [name EnvAudience, audience, audienceFormat ''<project_number>'' ''<pool_id>'' ''<provider_id>''])
         else if \<not> tripletSet then Ok audience
         else
           (let missing = map (\<lambda>(k, v). name k) (filter (\<lambda>(k, v). v = [])
                  [(EnvProjectNumber, projectNumber), (EnvPoolID, poolID), (EnvProviderID, providerID)])
            in if missing \<noteq> [] then
                 Err (Errorf ''%s must be set together with %s, %s and %s'' (Join missing '' and '' # names))
               else if \<not> MatchString projectNumberRegexp projectNumber then
                 Err (Errorf ''%s %q must be numeric'' [name EnvProjectNumber, projectNumber])
               else if \<not> MatchString identifierRegexp poolID then
                 Err (Errorf ''%s %q contains characters not allowed in a workload identity pool ID''
                   [name EnvPoolID, poolID])
               else if \<not> MatchString identifierRegexp providerID then
                 Err (Errorf ''%s %q contains characters not allowed in a workload identity provider ID''
                   [name EnvProviderID, providerID])
               else
                 (let built = audienceFormat projectNumber poolID providerID
                  in if audience \<noteq> [] \<and> audience \<noteq> built then
                       Err (Errorf ''%s %q does not match the provider %q built from %s, %s and %s; set only one of them''
                         ([name EnvAudience, audience, built] @ names))
                     else Ok built)))"

definition parseConfig ::
  "(string \<Rightarrow> string) \<Rightarrow> (string \<Rightarrow> string) \<Rightarrow> bool \<Rightarrow> GCPWorkloadIdentitySource \<Rightarrow> error + Config option" where
  "parseConfig lookup name required source =
     (let email = TrimSpace (lookup EnvServiceAccountEmail);
          audience = TrimSpace (lookup EnvAudience);
          projectNumber = TrimSpace (lookup EnvProjectNumber);
          poolID = TrimSpace (lookup EnvPoolID);
          providerID = TrimSpace (lookup EnvProviderID);
          subjectTokenAudience = TrimSpace (lookup EnvSubjectTokenAudience)
      in if \<not> required \<and> email = [] \<and> audience = [] \<and> projectNumber = [] \<and> poolID = [] \<and> providerID = [] \<and>
            subjectTokenAudience = []
         then Ok None
         else
           (let emailErrs = (if email = [] then [Errorf ''%s must be set'' [name EnvServiceAccountEmail]]
                             else case validateServiceAccountEmail email name of None \<Rightarrow> [] | Some e \<Rightarrow> [e]);
                resolved = resolveAudience audience projectNumber poolID providerID name
            in case resolved of
                 Inl e \<Rightarrow> Err (Joined (emailErrs @ [e]))
               | Inr aud \<Rightarrow>
                   if emailErrs \<noteq> [] then Err (Joined emailErrs)
                   else Ok (Some \<lparr>cfg_source = source, cfg_audience = aud, cfg_serviceAccountEmail = email,
                     cfg_projectID = TrimSpace (lookup EnvProjectID),
                     cfg_subjectTokenAudience =
                       (if subjectTokenAudience = [] then DefaultSubjectTokenAudience else subjectTokenAudience)\<rparr>)))"

definition ParseConfig :: "(string \<Rightarrow> string) \<Rightarrow> error + Config option" where
  "ParseConfig getenv = parseConfig getenv (\<lambda>env. env) False GCPWorkloadIdentitySourceOperatorEnvironment"

text \<open>\<open>os.Getenv\<close> is the environment of the process: a function from names to values.\<close>

definition ConfigFromEnv :: "(string \<Rightarrow> string) \<Rightarrow> error + Config option" where
  "ConfigFromEnv getenv = ParseConfig getenv"

text \<open>A missing key of a Go map of strings reads as the empty string.\<close>

definition mapGet :: "(string \<times> string) list \<Rightarrow> string \<Rightarrow> string" where
  "mapGet m k = (case map_of m k of None \<Rightarrow> [] | Some v \<Rightarrow> v)"

definition ConfigFromSpec :: "GCPWorkloadIdentitySpec \<Rightarrow> error + Config option" where
  "ConfigFromSpec spec =
     (let vals = [(EnvServiceAccountEmail, gwi_serviceAccountEmail spec), (EnvAudience, gwi_audience spec),
            (EnvProjectNumber, gwi_projectNumber spec), (EnvPoolID, gwi_poolID spec),
            (EnvProviderID, gwi_providerID spec), (EnvProjectID, gwi_projectID spec),
            (EnvSubjectTokenAudience, gwi_subjectTokenAudience spec)]
      in parseConfig (mapGet vals) (mapGet specFieldNames) True GCPWorkloadIdentitySourceKedaController)"

definition gcpWorkloadIdentityConfig :: "(string \<Rightarrow> string) \<Rightarrow> KedaController \<Rightarrow> error + Config option" where
  "gcpWorkloadIdentityConfig getenv instance' =
     (let envConfig = ConfigFromEnv getenv
      in case ko_gcpWorkloadIdentity (kc_operator (k_spec instance')) of
           Some spec \<Rightarrow> (case ConfigFromSpec spec of
               Inl e \<Rightarrow> Err (Wrapf ''in spec.operator.gcpWorkloadIdentity: %w'' e)
             | Inr cfg \<Rightarrow> Ok cfg)
         | None \<Rightarrow> (case envConfig of
               Inl e \<Rightarrow> Err (Wrapf ''in the operator environment: %w'' e)
             | Inr cfg \<Rightarrow> Ok cfg))"

section \<open>Audiences\<close>

definition slashFree :: "string \<Rightarrow> bool" where
  "slashFree s \<longleftrightarrow> s \<noteq> [] \<and> CHR ''/'' \<notin> set s"

lemma in_segment: "in_rx (rplus (\<lambda>c. c \<noteq> CHR ''/'')) s \<longleftrightarrow> slashFree s"
  by (auto simp: in_rplus slashFree_def list_all_iff)

lemma seq_literal: "in_rx (RSeq (rlit l) r) s \<longleftrightarrow> (\<exists>t. s = l @ t \<and> in_rx r t)"
  by (auto simp: in_rx_simps(5) in_rlit)

lemma seq_segment:
  "in_rx (RSeq (rplus (\<lambda>c. c \<noteq> CHR ''/'')) r) s \<longleftrightarrow> (\<exists>h t. s = h @ t \<and> slashFree h \<and> in_rx r t)"
  by (auto simp: in_rx_simps(5) in_segment)

lemma audienceRegexp_iff:
  "MatchString audienceRegexp s \<longleftrightarrow>
     (\<exists>h a l p v. s = ''//iam.'' @ h @ ''/projects/'' @ a @ ''/locations/'' @ l @ ''/workloadIdentityPools/'' @ p @
        ''/providers/'' @ v \<and> slashFree h \<and> slashFree a \<and> slashFree l \<and> slashFree p \<and> slashFree v)"
  unfolding MatchString_iff audienceRegexp_def Let_def
  by (simp only: seq_literal seq_segment in_segment)
    (rule iffI; elim exE conjE; hypsubst; intro exI conjI; (rule refl | assumption)+)

lemma not_identifier_slash: "\<not> isIdentifierChar (CHR ''/'')" "\<not> isDigit (CHR ''/'')"
  by (simp_all add: isIdentifierChar_def isDigit_def)

lemma projectNumber_iff: "MatchString projectNumberRegexp s \<longleftrightarrow> s \<noteq> [] \<and> list_all isDigit s"
  by (simp add: MatchString_iff projectNumberRegexp_def in_rplus)

lemma identifier_iff: "MatchString identifierRegexp s \<longleftrightarrow> s \<noteq> [] \<and> list_all isIdentifierChar s"
  by (simp add: MatchString_iff identifierRegexp_def in_rplus)

lemma matched_slashFree:
  "MatchString projectNumberRegexp s \<Longrightarrow> slashFree s" "MatchString identifierRegexp s \<Longrightarrow> slashFree s"
  using not_identifier_slash by (auto simp: projectNumber_iff identifier_iff slashFree_def list_all_iff)

lemma audienceFormat_matches:
  assumes "slashFree a" "slashFree p" "slashFree v"
  shows "MatchString audienceRegexp (audienceFormat a p v)"
proof -
  have "slashFree ''googleapis.com''" "slashFree ''global''" by (simp_all add: slashFree_def)
  then show ?thesis
    unfolding audienceRegexp_iff audienceFormat_def using assms
    by (intro exI [of _ "''googleapis.com''"] exI [of _ a] exI [of _ "''global''"] exI [of _ p] exI [of _ v]) simp
qed

lemma split_at_slash:
  assumes "x @ CHR ''/'' # r = y @ CHR ''/'' # t" "CHR ''/'' \<notin> set x" "CHR ''/'' \<notin> set y"
  shows "x = y \<and> r = t"
  using assms by (induction x y rule: list_induct2') auto

lemma audienceFormat_inject:
  assumes "slashFree a" "slashFree p" "slashFree a'" "slashFree p'"
    and "audienceFormat a p v = audienceFormat a' p' v'"
  shows "a = a' \<and> p = p' \<and> v = v'"
proof -
  have "a @ CHR ''/'' # (''locations/global/workloadIdentityPools/'' @ p @ ''/providers/'' @ v) =
      a' @ CHR ''/'' # (''locations/global/workloadIdentityPools/'' @ p' @ ''/providers/'' @ v')"
    using assms(5) by (simp add: audienceFormat_def)
  from split_at_slash [OF this] have "a = a'" and "p @ CHR ''/'' # (''providers/'' @ v) = p' @ CHR ''/'' # (''providers/'' @ v')"
    using assms(1-4) by (simp_all add: slashFree_def)
  moreover from split_at_slash [OF this(2)] have "p = p' \<and> v = v'"
    using assms(1-4) by (simp add: slashFree_def)
  ultimately show ?thesis by blast
qed

lemma resolveAudience_iff:
  "resolveAudience audience project pool provider name = Inr aud \<longleftrightarrow>
     MatchString audienceRegexp aud \<and>
     (if project = [] \<and> pool = [] \<and> provider = [] then audience = aud
      else MatchString projectNumberRegexp project \<and> MatchString identifierRegexp pool \<and>
           MatchString identifierRegexp provider \<and> aud = audienceFormat project pool provider \<and>
           (audience = [] \<or> audience = aud))"
proof (cases "project = [] \<and> pool = [] \<and> provider = []")
  case True
  have "\<not> MatchString audienceRegexp []" by (simp add: audienceRegexp_iff)
  then show ?thesis using True by (auto simp: resolveAudience_def Let_def)
next
  case False
  have valid: "MatchString audienceRegexp (audienceFormat project pool provider)"
    if "MatchString projectNumberRegexp project" "MatchString identifierRegexp pool"
      "MatchString identifierRegexp provider"
    using that by (intro audienceFormat_matches) (simp_all add: matched_slashFree)
  have nonempty: "MatchString projectNumberRegexp [] = False" "MatchString identifierRegexp [] = False"
    by (simp_all add: projectNumber_iff identifier_iff)
  show ?thesis
    using False valid by (auto simp: resolveAudience_def Let_def nonempty)
qed

text \<open>
  C34. \<open>resolveAudience\<close> returns an audience in exactly two cases: the audience alone is given and
  is a provider resource name, or all three components are given in valid form and the
  audience, if given as well, is the one built from them. What it returns always is a provider
  resource name, so a partial or contradictory configuration never reaches the credentials.
\<close>

theorem resolveAudience_ok_iff:
  "resolveAudience audience project pool provider name = Inr aud \<longleftrightarrow>
     MatchString audienceRegexp aud \<and>
     (if project = [] \<and> pool = [] \<and> provider = [] then audience = aud
      else MatchString projectNumberRegexp project \<and> MatchString identifierRegexp pool \<and>
           MatchString identifierRegexp provider \<and> aud = audienceFormat project pool provider \<and>
           (audience = [] \<or> audience = aud))"
  by (rule resolveAudience_iff)

section \<open>Whole configurations\<close>

definition isServiceAccountEmail :: "string \<Rightarrow> bool" where
  "isServiceAccountEmail email \<longleftrightarrow>
     (\<exists>local domain. email = local @ ''@'' @ domain \<and> local \<noteq> [] \<and> CHR ''@'' \<notin> set local \<and>
        CHR ''@'' \<notin> set domain \<and> CHR ''.'' \<in> set domain)"

lemma validateServiceAccountEmail_iff:
  "validateServiceAccountEmail email name = None \<longleftrightarrow> isServiceAccountEmail email"
proof
  assume "validateServiceAccountEmail email name = None"
  then obtain local domain where cut: "Cut email (CHR ''@'') = (local, domain, True)"
    and parts: "local \<noteq> []" "CHR ''@'' \<notin> set domain" "CHR ''.'' \<in> set domain"
    by (auto simp: validateServiceAccountEmail_def Contains_char split: prod.splits if_splits)
  then show "isServiceAccountEmail email"
    using Cut_found [OF cut] by (auto simp: isServiceAccountEmail_def)
next
  assume "isServiceAccountEmail email"
  then obtain local domain where "email = local @ CHR ''@'' # domain" and l: "local \<noteq> []" "CHR ''@'' \<notin> set local"
    and d: "CHR ''@'' \<notin> set domain" "CHR ''.'' \<in> set domain"
    by (auto simp: isServiceAccountEmail_def)
  then have "Cut email (CHR ''@'') = (local, domain, True)" by (simp add: Cut_append)
  then show "validateServiceAccountEmail email name = None"
    using l d by (auto simp: validateServiceAccountEmail_def Contains_char)
qed

text \<open>A parameter counts as given when it is not blank.\<close>

definition given :: "(string \<Rightarrow> string) \<Rightarrow> string \<Rightarrow> bool" where
  "given lookup key \<longleftrightarrow> TrimSpace (lookup key) \<noteq> []"

lemma not_email_Nil: "\<not> isServiceAccountEmail []"
  by (simp add: isServiceAccountEmail_def)

lemma parseConfig_cases:
  "(parseConfig lookup name required source = Inr None \<longleftrightarrow>
      \<not> required \<and> (\<forall>k \<in> {EnvServiceAccountEmail, EnvAudience, EnvProjectNumber, EnvPoolID, EnvProviderID,
        EnvSubjectTokenAudience}. \<not> given lookup k))
   \<and> (parseConfig lookup name required source = Inr (Some cfg) \<longrightarrow>
        isServiceAccountEmail (cfg_serviceAccountEmail cfg) \<and> MatchString audienceRegexp (cfg_audience cfg) \<and>
        cfg_subjectTokenAudience cfg \<noteq> [] \<and> cfg_source cfg = source \<and>
        cfg_serviceAccountEmail cfg = TrimSpace (lookup EnvServiceAccountEmail) \<and>
        cfg_projectID cfg = TrimSpace (lookup EnvProjectID))
   \<and> ((\<exists>cfg. parseConfig lookup name required source = Inr (Some cfg)) \<longleftrightarrow>
        isServiceAccountEmail (TrimSpace (lookup EnvServiceAccountEmail)) \<and>
        (\<exists>aud. resolveAudience (TrimSpace (lookup EnvAudience)) (TrimSpace (lookup EnvProjectNumber))
           (TrimSpace (lookup EnvPoolID)) (TrimSpace (lookup EnvProviderID)) name = Inr aud))"
proof -
  let ?email = "TrimSpace (lookup EnvServiceAccountEmail)"
  let ?aud = "resolveAudience (TrimSpace (lookup EnvAudience)) (TrimSpace (lookup EnvProjectNumber))
    (TrimSpace (lookup EnvPoolID)) (TrimSpace (lookup EnvProviderID)) name"
  let ?none = "\<not> required \<and> (\<forall>k \<in> {EnvServiceAccountEmail, EnvAudience, EnvProjectNumber, EnvPoolID, EnvProviderID,
    EnvSubjectTokenAudience}. \<not> given lookup k)"
  show ?thesis
  proof (cases ?none)
    case True
    then have "parseConfig lookup name required source = Inr None"
      by (simp add: parseConfig_def given_def Let_def)
    then show ?thesis using True not_email_Nil by (simp add: given_def)
  next
    case False
    then have run: "parseConfig lookup name required source =
        (case ?aud of
           Inl e \<Rightarrow> Inl (Joined ((if isServiceAccountEmail ?email then []
             else [if ?email = [] then Errorf ''%s must be set'' [name EnvServiceAccountEmail]
                   else the (validateServiceAccountEmail ?email name)]) @ [e]))
         | Inr aud \<Rightarrow> if \<not> isServiceAccountEmail ?email
             then Inl (Joined [if ?email = [] then Errorf ''%s must be set'' [name EnvServiceAccountEmail]
                   else the (validateServiceAccountEmail ?email name)])
             else Inr (Some \<lparr>cfg_source = source, cfg_audience = aud, cfg_serviceAccountEmail = ?email,
               cfg_projectID = TrimSpace (lookup EnvProjectID),
               cfg_subjectTokenAudience = (if given lookup EnvSubjectTokenAudience
                 then TrimSpace (lookup EnvSubjectTokenAudience) else DefaultSubjectTokenAudience)\<rparr>))"
      using not_email_Nil validateServiceAccountEmail_iff [of ?email name, symmetric]
      by (auto simp: parseConfig_def given_def Let_def split: sum.split option.split)
    show ?thesis
    proof (cases ?aud)
      case (Inl e)
      then show ?thesis using False run by simp
    next
      case (Inr aud)
      then have "MatchString audienceRegexp aud" using resolveAudience_iff by blast
      then show ?thesis
        using False Inr run
        by (auto simp: given_def DefaultSubjectTokenAudience_def split: if_splits)
    qed
  qed
qed


text \<open>A specification with a service account and an audience, used in the witnesses.\<close>

definition demoGcpSpec :: GCPWorkloadIdentitySpec where
  "demoGcpSpec =
     \<lparr>gwi_serviceAccountEmail = '' keda@p.iam.gserviceaccount.com'', gwi_audience = [], gwi_projectNumber = ''42'',
      gwi_poolID = ''pool'', gwi_providerID = ''ocp'', gwi_projectID = [], gwi_subjectTokenAudience = []\<rparr>"

definition demoGcpConfig :: Config where
  "demoGcpConfig =
     \<lparr>cfg_source = GCPWorkloadIdentitySourceKedaController,
      cfg_audience = ''//iam.googleapis.com/projects/42/locations/global/workloadIdentityPools/pool/providers/ocp'',
      cfg_serviceAccountEmail = ''keda@p.iam.gserviceaccount.com'', cfg_projectID = [],
      cfg_subjectTokenAudience = ''openshift''\<rparr>"

lemma demoGcpSpec_config: "ConfigFromSpec demoGcpSpec = Inr (Some demoGcpConfig)"
  by code_simp


lemma parseConfig_required: "parseConfig lookup name True source \<noteq> Inr None"
  using parseConfig_cases [of lookup name True source] by simp

lemma parseConfig_source: "parseConfig lookup name required source = Inr (Some cfg) \<Longrightarrow> cfg_source cfg = source"
  using parseConfig_cases [of lookup name required source cfg] by simp

lemma ConfigFromSpec_source:
  "ConfigFromSpec spec = Inr c \<Longrightarrow> \<exists>cfg. c = Some cfg \<and> cfg_source cfg = GCPWorkloadIdentitySourceKedaController"
  unfolding ConfigFromSpec_def Let_def using parseConfig_required parseConfig_source by (cases c) blast+

lemma ConfigFromEnv_source:
  "ConfigFromEnv getenv = Inr (Some cfg) \<Longrightarrow> cfg_source cfg = GCPWorkloadIdentitySourceOperatorEnvironment"
  unfolding ConfigFromEnv_def ParseConfig_def by (rule parseConfig_source)

text \<open>
  C36. Exactly one source of Workload Identity parameters applies: with the section in the spec the
  environment of the operator has no influence at all, not even when it is invalid, and an empty
  section is an error rather than "not configured"; the source recorded in the configuration says
  which of the two it was.
\<close>

theorem gcpWorkloadIdentityConfig_one_source:
  "(ko_gcpWorkloadIdentity (kc_operator (k_spec k)) \<noteq> None \<longrightarrow>
      gcpWorkloadIdentityConfig env1 k = gcpWorkloadIdentityConfig env2 k \<and>
      gcpWorkloadIdentityConfig env1 k \<noteq> Inr None)
   \<and> (gcpWorkloadIdentityConfig env1 k = Inr (Some cfg) \<longrightarrow>
        (cfg_source cfg = GCPWorkloadIdentitySourceKedaController \<longleftrightarrow>
           ko_gcpWorkloadIdentity (kc_operator (k_spec k)) \<noteq> None))"
proof (cases "ko_gcpWorkloadIdentity (kc_operator (k_spec k))")
  case None
  then show ?thesis
    using ConfigFromEnv_source [of env1 cfg] by (simp add: gcpWorkloadIdentityConfig_def Let_def split: sum.split)
next
  case (Some spec)
  then show ?thesis
    using ConfigFromSpec_source [of spec]
    by (auto simp: gcpWorkloadIdentityConfig_def Let_def split: sum.split)
qed

definition demoGcpController :: KedaController where
  "demoGcpController = zeroKedaController\<lparr>k_spec := zeroKedaControllerSpec
     \<lparr>kc_operator := (kc_operator zeroKedaControllerSpec)\<lparr>ko_gcpWorkloadIdentity := Some demoGcpSpec\<rparr>\<rparr>\<rparr>"

lemma demoGcpController_spec: "ko_gcpWorkloadIdentity (kc_operator (k_spec demoGcpController)) = Some demoGcpSpec"
  by (simp add: demoGcpController_def)

theorem gcpWorkloadIdentityConfig_one_source_witness:
  "ko_gcpWorkloadIdentity (kc_operator (k_spec demoGcpController)) \<noteq> None
   \<and> gcpWorkloadIdentityConfig (\<lambda>_. ''garbage'') demoGcpController = gcpWorkloadIdentityConfig (\<lambda>_. []) demoGcpController
   \<and> gcpWorkloadIdentityConfig (\<lambda>_. []) demoGcpController = Inr (Some demoGcpConfig)
   \<and> cfg_source demoGcpConfig = GCPWorkloadIdentitySourceKedaController"
proof -
  have cfg: "gcpWorkloadIdentityConfig (\<lambda>_. []) demoGcpController = Inr (Some demoGcpConfig)"
    by (simp add: gcpWorkloadIdentityConfig_def demoGcpController_spec demoGcpSpec_config)
  then show ?thesis
    using gcpWorkloadIdentityConfig_one_source [of demoGcpController "\<lambda>_. ''garbage''" "\<lambda>_. []"]
      gcpWorkloadIdentityConfig_one_source [of demoGcpController "\<lambda>_. []" "\<lambda>_. []" demoGcpConfig]
      demoGcpController_spec by simp
qed

end
