(* ===== verification/GoJson.thy ===== *)
theory GoJson
  imports GoStd
begin

text \<open>
  What the source uses of \<^verbatim>\<open>encoding/json\<close>: the string literals that \<open>json.MarshalIndent\<close> writes,
  with HTML escaping on, over UTF-8 bytes; and a reader for such literals, which shows that a
  literal determines the string and where it ends.
\<close>

section \<open>UTF-8\<close>

definition byteIn :: "nat \<Rightarrow> nat \<Rightarrow> char \<Rightarrow> bool" where
  "byteIn lo hi c = (lo \<le> (of_char c :: nat) \<and> (of_char c :: nat) \<le> hi)"

text \<open>
  The first two bytes of a sequence of length two, three and four, and a continuation byte.
\<close>

definition lead2 :: "char \<Rightarrow> char \<Rightarrow> bool" where
  "lead2 a b = (byteIn 0xC2 0xDF a \<and> byteIn 0x80 0xBF b)"

definition lead3 :: "char \<Rightarrow> char \<Rightarrow> bool" where
  "lead3 a b =
     (byteIn 0xE0 0xE0 a \<and> byteIn 0xA0 0xBF b \<or> byteIn 0xE1 0xEC a \<and> byteIn 0x80 0xBF b \<or>
      byteIn 0xED 0xED a \<and> byteIn 0x80 0x9F b \<or> byteIn 0xEE 0xEF a \<and> byteIn 0x80 0xBF b)"

definition lead4 :: "char \<Rightarrow> char \<Rightarrow> bool" where
  "lead4 a b =
     (byteIn 0xF0 0xF0 a \<and> byteIn 0x90 0xBF b \<or> byteIn 0xF1 0xF3 a \<and> byteIn 0x80 0xBF b \<or>
      byteIn 0xF4 0xF4 a \<and> byteIn 0x80 0x8F b)"

definition contAt :: "nat \<Rightarrow> string \<Rightarrow> bool" where
  "contAt i s = (i < length s \<and> byteIn 0x80 0xBF (s ! i))"

text \<open>The length of the multi-byte sequence at the front, zero when it is not well formed.\<close>

fun runeWidth :: "string \<Rightarrow> nat" where
  "runeWidth (a # b # s) =
     (if lead2 a b then 2
      else if lead3 a b \<and> contAt 0 s then 3
      else if lead4 a b \<and> contAt 0 s \<and> contAt 1 s then 4
      else 0)"
| "runeWidth _ = 0"

section \<open>Writing a string literal\<close>

abbreviation backslash :: char where "backslash \<equiv> CHR 0x5C"
abbreviation dquote :: char where "dquote \<equiv> CHR 0x22"

definition hexDigit :: "nat \<Rightarrow> char" where
  "hexDigit n = (if n < 10 then char_of (48 + n) else char_of (87 + n))"

definition escapeAscii :: "char \<Rightarrow> string" where
  "escapeAscii c =
     (let n = of_char c :: nat in
      if c = backslash \<or> c = dquote then [backslash, c]
      else if n = 8 then [backslash, CHR ''b'']
      else if n = 12 then [backslash, CHR ''f'']
      else if n = 10 then [backslash, CHR ''n'']
      else if n = 13 then [backslash, CHR ''r'']
      else if n = 9 then [backslash, CHR ''t'']
      else if n < 32 \<or> c = CHR ''<'' \<or> c = CHR ''>'' \<or> c = CHR ''&''
      then [backslash, CHR ''u'', CHR ''0'', CHR ''0'', hexDigit (n div 16), hexDigit (n mod 16)]
      else [c])"

text \<open>The separators U+2028 and U+2029, which the encoder escapes.\<close>

definition lineSeparators :: "(string \<times> string) list" where
  "lineSeparators =
     [([CHR 0xE2, CHR 0x80, CHR 0xA8], backslash # ''u2028''), ([CHR 0xE2, CHR 0x80, CHR 0xA9], backslash # ''u2029'')]"

definition escapeRune :: "string \<Rightarrow> string" where
  "escapeRune r = (case map_of lineSeparators r of Some e \<Rightarrow> e | None \<Rightarrow> r)"

function quoteBody :: "string \<Rightarrow> string" where
  "quoteBody [] = []"
| "quoteBody (c # s) =
     (if (of_char c :: nat) < 128 then escapeAscii c @ quoteBody s
      else if runeWidth (c # s) = 0 then backslash # ''ufffd'' @ quoteBody s
      else escapeRune (take (runeWidth (c # s)) (c # s)) @ quoteBody (drop (runeWidth (c # s) - 1) s))"
  by pat_completeness auto
termination by (relation "measure length") auto

definition quoteString :: "string \<Rightarrow> string" where
  "quoteString s = dquote # quoteBody s @ [dquote]"

section \<open>Reading a string literal\<close>

definition hexVal :: "char \<Rightarrow> nat" where
  "hexVal c = (let n = of_char c :: nat in if n < 58 then n - 48 else n - 87)"

text \<open>Reads up to the closing quote: the string and what follows it.\<close>

fun scanBody :: "string \<Rightarrow> (string \<times> string) option" where
  "scanBody [] = None"
| "scanBody (c # s) =
     (if c = dquote then Some ([], s)
      else if c = backslash then
        (case s of
           [] \<Rightarrow> None
         | e # t \<Rightarrow>
             if e = CHR ''u'' then
               (case t of
                  w # x # y # z # r \<Rightarrow>
                    (case scanBody r of
                       None \<Rightarrow> None
                     | Some (out, rest) \<Rightarrow>
                         if [w, x] = ''20'' then Some ([CHR 0xE2, CHR 0x80, char_of (0xA0 + hexVal z)] @ out, rest)
                         else Some (char_of (16 * hexVal y + hexVal z) # out, rest))
                | _ \<Rightarrow> None)
             else
               (case scanBody t of
                  None \<Rightarrow> None
                | Some (out, rest) \<Rightarrow>
                    Some ((if e = CHR ''b'' then CHR 0x08 else if e = CHR ''f'' then CHR 0x0C
                           else if e = CHR ''n'' then CHR 0x0A else if e = CHR ''r'' then CHR 0x0D
                           else if e = CHR ''t'' then CHR 0x09 else e) # out, rest)))
      else (case scanBody s of None \<Rightarrow> None | Some (out, rest) \<Rightarrow> Some (c # out, rest)))"

text \<open>A string is well formed when every byte outside ASCII starts or continues a rune.\<close>

function validUtf8 :: "string \<Rightarrow> bool" where
  "validUtf8 [] = True"
| "validUtf8 (c # s) =
     (if (of_char c :: nat) < 128 then validUtf8 s
      else runeWidth (c # s) \<noteq> 0 \<and> validUtf8 (drop (runeWidth (c # s) - 1) s))"
  by pat_completeness auto
termination by (relation "measure length") auto

section \<open>A literal determines its string\<close>

definition scanned :: "string \<Rightarrow> (string \<times> string) option \<Rightarrow> (string \<times> string) option" where
  "scanned p r = map_option (\<lambda>(out, rest). (p @ out, rest)) r"

lemma scanned_simps [simp]: "scanned p None = None" "scanned p (Some (out, rest)) = Some (p @ out, rest)"
  by (simp_all add: scanned_def)

lemma hexVal_hexDigit: "n < 16 \<Longrightarrow> hexVal (hexDigit n) = n"
  by (auto simp: hexVal_def hexDigit_def Let_def)

lemma scan_plain:
  "c \<noteq> dquote \<Longrightarrow> c \<noteq> backslash \<Longrightarrow> scanBody (c # s) = scanned [c] (scanBody s)"
  by (auto split: option.split)

lemma scan_simple_escape:
  "e \<noteq> CHR ''u'' \<Longrightarrow> scanBody (backslash # e # s) =
     scanned [if e = CHR ''b'' then CHR 0x08 else if e = CHR ''f'' then CHR 0x0C else if e = CHR ''n'' then CHR 0x0A
       else if e = CHR ''r'' then CHR 0x0D else if e = CHR ''t'' then CHR 0x09 else e] (scanBody s)"
  by (simp split: option.split)

lemma scan_hex_escape:
  "n < 128 \<Longrightarrow> scanBody (backslash # CHR ''u'' # CHR ''0'' # CHR ''0'' # hexDigit (n div 16) # hexDigit (n mod 16) # s) =
     scanned [char_of n] (scanBody s)"
  by (simp add: hexVal_hexDigit split: option.split)

lemma scan_escapeAscii:
  assumes "(of_char c :: nat) < 128"
  shows "scanBody (escapeAscii c @ s) = scanned [c] (scanBody s)"
proof (cases "c = backslash \<or> c = dquote")
  case True
  then show ?thesis by (auto simp: escapeAscii_def scan_simple_escape simp del: scanBody.simps)
next
  case plain: False
  let ?n = "of_char c :: nat"
  show ?thesis
  proof (cases "c \<in> {CHR 0x08, CHR 0x0C, CHR 0x0A, CHR 0x0D, CHR 0x09}")
    case True
    then show ?thesis by (auto simp: escapeAscii_def scan_simple_escape simp del: scanBody.simps)
  next
    case False
    then have "?n \<noteq> of_char (CHR 0x08)" "?n \<noteq> of_char (CHR 0x0C)" "?n \<noteq> of_char (CHR 0x0A)"
      "?n \<noteq> of_char (CHR 0x0D)" "?n \<noteq> of_char (CHR 0x09)"
      by (auto simp only: of_char_eq_iff)
    then have "escapeAscii c = (if ?n < 32 \<or> c = CHR ''<'' \<or> c = CHR ''>'' \<or> c = CHR ''&''
        then [backslash, CHR ''u'', CHR ''0'', CHR ''0'', hexDigit (?n div 16), hexDigit (?n mod 16)] else [c])"
      using plain by (simp add: escapeAscii_def Let_def)
    then show ?thesis
      using scan_hex_escape [OF assms] scan_plain plain by (simp del: scanBody.simps)
  qed
qed

lemma scan_high_bytes:
  "list_all (\<lambda>c. 128 \<le> (of_char c :: nat)) r \<Longrightarrow> scanBody (r @ s) = scanned r (scanBody s)"
proof (induction r)
  case Nil
  then show ?case by (cases "scanBody s") auto
next
  case (Cons c r)
  then have "c \<noteq> dquote" "c \<noteq> backslash" by auto
  then show ?case using Cons by (simp add: scan_plain scanned_def option.map_comp comp_def split_def del: scanBody.simps)
qed

lemma lead_high:
  "lead2 a b \<or> lead3 a b \<or> lead4 a b \<Longrightarrow> 128 \<le> (of_char a :: nat) \<and> 128 \<le> (of_char b :: nat)"
  by (auto simp: lead2_def lead3_def lead4_def byteIn_def)

lemma contAt_high: "contAt i s \<Longrightarrow> i < length s \<and> 128 \<le> (of_char (s ! i) :: nat)"
  by (simp add: contAt_def byteIn_def)

lemma rune_high_bytes: "list_all (\<lambda>c. 128 \<le> (of_char c :: nat)) (take (runeWidth s) s)"
proof (cases s rule: runeWidth.cases)
  case (1 a b t)
  have "list_all (\<lambda>c. 128 \<le> (of_char c :: nat)) (take 1 t)" if "contAt 0 t"
    using contAt_high [OF that] by (cases t) auto
  moreover have "list_all (\<lambda>c. 128 \<le> (of_char c :: nat)) (take 2 t)" if "contAt 0 t" "contAt 1 t"
    using contAt_high [OF that(1)] contAt_high [OF that(2)] by (cases t; cases "tl t") (auto simp: numeral_2_eq_2)
  ultimately show ?thesis using 1 lead_high [of a b] by (auto simp: numeral_eq_Suc)
qed auto

lemma scan_escapeRune:
  assumes "list_all (\<lambda>c. 128 \<le> (of_char c :: nat)) r"
  shows "scanBody (escapeRune r @ s) = scanned r (scanBody s)"
proof (cases "r \<in> {[CHR 0xE2, CHR 0x80, CHR 0xA8], [CHR 0xE2, CHR 0x80, CHR 0xA9]}")
  case False
  then have "escapeRune r = r" by (simp add: escapeRune_def lineSeparators_def)
  then show ?thesis using scan_high_bytes [OF assms] by simp
next
  case True
  have c: "char_of (0xA0 + 8 :: nat) = CHR 0xA8" "char_of (0xA0 + 9 :: nat) = CHR 0xA9" by code_simp+
  have "hexVal (CHR ''8'') = 8" "hexVal (CHR ''9'') = 9" by (simp_all add: hexVal_def)
  then show ?thesis using True
    by (auto simp: escapeRune_def lineSeparators_def c [simplified] split: option.split)
qed

lemma scan_quoteBody: "validUtf8 s \<Longrightarrow> scanBody (quoteBody s @ dquote # r) = Some (s, r)"
proof (induction s rule: quoteBody.induct)
  case 1
  show ?case by simp
next
  case (2 c s)
  show ?case
  proof (cases "(of_char c :: nat) < 128")
    case True
    then show ?thesis using 2 by (simp add: scan_escapeAscii del: scanBody.simps)
  next
    case False
    let ?w = "runeWidth (c # s)"
    have w: "?w \<noteq> 0" and rest: "validUtf8 (drop (?w - 1) s)" using 2(4) False by (simp_all split: if_splits)
    have "scanBody (quoteBody (drop (?w - 1) s) @ dquote # r) = Some (drop (?w - 1) s, r)"
      using 2(3) False w rest by blast
    moreover have "take ?w (c # s) @ drop (?w - 1) s = c # s"
      using w by (metis append_take_drop_id drop_Cons' )
    ultimately show ?thesis
      using False w scan_escapeRune [OF rune_high_bytes, of "c # s"] by (simp del: scanBody.simps runeWidth.simps)
  qed
qed

lemma runeWidth_append: "runeWidth s \<noteq> 0 \<Longrightarrow> runeWidth (s @ t) = runeWidth s"
  by (cases s rule: runeWidth.cases) (auto simp: contAt_def nth_append split: if_splits)

lemma runeWidth_le: "runeWidth s \<le> length s"
  by (cases s rule: runeWidth.cases) (auto simp: contAt_def Suc_le_eq)

lemma validUtf8_append: "validUtf8 s \<Longrightarrow> validUtf8 t \<Longrightarrow> validUtf8 (s @ t)"
proof (induction s rule: validUtf8.induct)
  case (2 c s)
  show ?case
  proof (cases "(of_char c :: nat) < 128")
    case True
    then show ?thesis using 2 by simp
  next
    case False
    let ?w = "runeWidth (c # s)"
    have w: "?w \<noteq> 0" and rest: "validUtf8 (drop (?w - 1) s)" using 2(3) False by (simp_all split: if_splits)
    have "?w - 1 \<le> length s" using runeWidth_le [of "c # s"] by (simp del: runeWidth.simps)
    moreover have "runeWidth (c # s @ t) = ?w" using runeWidth_append [OF w, of t] by simp
    ultimately show ?thesis
      using 2(2) [OF False rest 2(4)] False w by (simp del: runeWidth.simps)
  qed
qed simp

lemma validUtf8_ascii: "list_all (\<lambda>c. (of_char c :: nat) < 128) s \<Longrightarrow> validUtf8 s"
  by (induction s) auto

lemma quote_inject:
  assumes "validUtf8 s" "validUtf8 t" and "quoteString s @ r = quoteString t @ q"
  shows "s = t \<and> r = q"
proof -
  have "scanBody (quoteBody s @ dquote # r) = scanBody (quoteBody t @ dquote # q)"
    using assms(3) by (simp add: quoteString_def)
  then show ?thesis using scan_quoteBody [OF assms(1)] scan_quoteBody [OF assms(2)] by simp
qed

section \<open>Indented objects\<close>

text \<open>\<open>json.MarshalIndent(v, "", "  ")\<close> for structs whose leaves are strings, fields in order.\<close>

datatype doc = Text string | Object "(string \<times> doc) list"

definition newline :: "nat \<Rightarrow> string" where
  "newline depth = CHR 0x0A # concat (replicate depth ''  '')"

lemma size_doc_entry: "kv \<in> set kvs \<Longrightarrow> size (snd kv) < size (Object kvs)"
  by (induction kvs) (auto simp: size_prod_def split: prod.splits)

function marshalIndent :: "nat \<Rightarrow> doc \<Rightarrow> string" where
  "marshalIndent depth (Text s) = quoteString s"
| "marshalIndent depth (Object kvs) =
     (if kvs = [] then ''{}''
      else ''{'' @ Join (map (\<lambda>kv. newline (Suc depth) @ quoteString (fst kv) @ '': '' @
             marshalIndent (Suc depth) (snd kv)) kvs) '','' @ newline depth @ ''}'')"
  by pat_completeness auto
termination
  by (relation "measure (\<lambda>(d, v). size v)") (use size_doc_entry in fastforce)+

end
