(* ===== verification/KubeDemo.thy ===== *)
theory KubeDemo
  imports KubeTypes
begin

text \<open>
  A concrete API machinery that has the documented behaviour the theorems assume of the real
  one. The witnesses evaluate on it: an object carries its unstructured content next to one typed
  value per kind, and conversions go through the typed value.
\<close>

section \<open>Small objects\<close>

definition demoMeta :: "string \<Rightarrow> string \<Rightarrow> objectMeta" where
  "demoMeta name ns =
     \<lparr>om_name = name, om_namespace = ns, om_labels = Map.empty, om_annotations = Map.empty, om_rest = JNull\<rparr>"

definition demoContainer :: "string \<Rightarrow> container" where
  "demoContainer name =
     \<lparr>c_name = name, c_image = [], c_args = [], c_env = [], c_volumeMounts = [],
      c_resources = \<lparr>rr_limits = Map.empty, rr_requests = Map.empty, rr_claims = JNull\<rparr>,
      c_securityContext = None, c_rest = JNull\<rparr>"

definition demoDeployment :: "objectMeta \<Rightarrow> container list \<Rightarrow> deployment" where
  "demoDeployment m cs =
     \<lparr>d_meta = m, d_replicas = None,
      d_template = \<lparr>pt_labels = Map.empty, pt_annotations = Map.empty,
        pt_spec = \<lparr>ps_volumes = [], ps_containers = cs, ps_securityContext = None, ps_nodeSelector = Map.empty,
          ps_tolerations = [], ps_affinity = None, ps_priorityClassName = [], ps_rest = JNull\<rparr>,
        pt_rest = JNull\<rparr>,
      d_rest = JNull\<rparr>"

definition demoNetworkPolicy :: "objectMeta \<Rightarrow> labelSelectorRequirement list \<Rightarrow> egressRule list \<Rightarrow> networkPolicy" where
  "demoNetworkPolicy m es eg =
     \<lparr>np_meta = m, np_podSelector = \<lparr>ls_matchLabels = Map.empty, ls_matchExpressions = es\<rparr>,
      np_egress = eg, np_rest = JNull\<rparr>"

definition demoRoleBinding :: "objectMeta \<Rightarrow> roleBinding" where
  "demoRoleBinding m =
     \<lparr>rb_meta = m, rb_roleRef = \<lparr>rf_apiGroup = [], rf_kind = [], rf_name = []\<rparr>, rb_subjects = []\<rparr>"

section \<open>The object store of the instance\<close>

record demoObj =
  do_content :: json
  do_annotations :: smap
  do_deployment :: deployment
  do_roleBinding :: roleBinding
  do_serviceAccount :: serviceAccount
  do_webhookConfiguration :: validatingWebhookConfiguration
  do_apiService :: apiService
  do_networkPolicy :: networkPolicy

definition demoContent :: "string \<Rightarrow> objectMeta \<Rightarrow> json" where
  "demoContent kind m =
     JObj [(''kind'', JStr kind),
           (''metadata'', JObj [(''name'', JStr (om_name m)), (''namespace'', JStr (om_namespace m))])]"

definition demoObject :: "string \<Rightarrow> string \<Rightarrow> string \<Rightarrow> demoObj" where
  "demoObject kind name ns =
     (let m = demoMeta name ns in
      \<lparr>do_content = demoContent kind m, do_annotations = Map.empty,
       do_deployment = demoDeployment m [], do_roleBinding = demoRoleBinding m,
       do_serviceAccount = \<lparr>sa_meta = m, sa_rest = JNull\<rparr>,
       do_webhookConfiguration = \<lparr>vwc_meta = m, vwc_rest = JNull\<rparr>,
       do_apiService = \<lparr>as_meta = m, as_insecureSkipTLSVerify = True, as_rest = JNull\<rparr>,
       do_networkPolicy = demoNetworkPolicy m [] []\<rparr>)"

text \<open>A conversion reads the typed value with the name and namespace of the content, and writes both.\<close>

definition withIdentity :: "json \<Rightarrow> objectMeta \<Rightarrow> objectMeta" where
  "withIdentity j m =
     m\<lparr>om_name := nestedString [''metadata'', ''name''] j, om_namespace := nestedString [''metadata'', ''namespace''] j\<rparr>"

definition demoCodec ::
  "string \<Rightarrow> (demoObj \<Rightarrow> 't) \<Rightarrow> ('t \<Rightarrow> demoObj \<Rightarrow> demoObj) \<Rightarrow> ('t \<Rightarrow> objectMeta) \<Rightarrow>
   (objectMeta \<Rightarrow> 't \<Rightarrow> 't) \<Rightarrow> (demoObj, 't) codec" where
  "demoCodec kind get put meta setMeta =
     \<lparr>decode = (\<lambda>u. Ok (setMeta (withIdentity (do_content u) (meta (get u))) (get u))),
      encode = (\<lambda>t u. Ok ((put t u)\<lparr>do_content := demoContent kind (meta t)\<rparr>))\<rparr>"

text \<open>
  \<open>mf.InjectOwner\<close> leaves identity and typed parts alone here, and \<open>mf.Transform\<close> runs every
  transformer on every resource, in order.
\<close>

definition demoApi :: "demoObj api" where
  "demoApi =
     \<lparr>GetKind = (\<lambda>u. nestedString [''kind''] (do_content u)),
      GetName = (\<lambda>u. nestedString [''metadata'', ''name''] (do_content u)),
      GetNamespace = (\<lambda>u. nestedString [''metadata'', ''namespace''] (do_content u)),
      GetAnnotations = do_annotations,
      SetAnnotations = (\<lambda>m u. u\<lparr>do_annotations := m\<rparr>),
      content = do_content,
      setContent = (\<lambda>j u. u\<lparr>do_content := j\<rparr>),
      deployments = demoCodec ''Deployment'' do_deployment (\<lambda>t u. u\<lparr>do_deployment := t\<rparr>) d_meta
        (\<lambda>m t. t\<lparr>d_meta := m\<rparr>),
      roleBindings = demoCodec ''RoleBinding'' do_roleBinding (\<lambda>t u. u\<lparr>do_roleBinding := t\<rparr>) rb_meta
        (\<lambda>m t. t\<lparr>rb_meta := m\<rparr>),
      serviceAccounts = demoCodec ''ServiceAccount'' do_serviceAccount (\<lambda>t u. u\<lparr>do_serviceAccount := t\<rparr>)
        sa_meta (\<lambda>m t. t\<lparr>sa_meta := m\<rparr>),
      webhookConfigurations = demoCodec ''ValidatingWebhookConfiguration'' do_webhookConfiguration
        (\<lambda>t u. u\<lparr>do_webhookConfiguration := t\<rparr>) vwc_meta (\<lambda>m t. t\<lparr>vwc_meta := m\<rparr>),
      apiServices = demoCodec ''APIService'' do_apiService (\<lambda>t u. u\<lparr>do_apiService := t\<rparr>) as_meta
        (\<lambda>m t. t\<lparr>as_meta := m\<rparr>),
      networkPolicies = demoCodec ''NetworkPolicy'' do_networkPolicy (\<lambda>t u. u\<lparr>do_networkPolicy := t\<rparr>) np_meta
        (\<lambda>m t. t\<lparr>np_meta := m\<rparr>),
      SetMetaDataAnnotation = (\<lambda>ann v m. m\<lparr>om_annotations := (om_annotations m)(ann \<mapsto> v)\<rparr>),
      mfInjectOwner = (\<lambda>owner u. Ok u),
      mfTransform = (\<lambda>ts us. foldr (\<lambda>u r. bindE (fold (\<lambda>t m. bindE m t) ts (Ok u))
        (\<lambda>u'. bindE r (\<lambda>us'. Ok (u' # us')))) us (Ok []))\<rparr>"

lemma demoApi_simps [simp]:
  "GetKind demoApi u = nestedString [''kind''] (do_content u)"
  "GetName demoApi u = nestedString [''metadata'', ''name''] (do_content u)"
  "GetNamespace demoApi u = nestedString [''metadata'', ''namespace''] (do_content u)"
  "GetAnnotations demoApi u = do_annotations u"
  "SetAnnotations demoApi m u = u\<lparr>do_annotations := m\<rparr>"
  "content demoApi u = do_content u"
  "setContent demoApi j u = u\<lparr>do_content := j\<rparr>"
  "mfInjectOwner demoApi owner u = Inr u"
  by (simp_all add: demoApi_def)

lemma demoApi_codecs_def:
  "deployments demoApi = demoCodec ''Deployment'' do_deployment (\<lambda>t u. u\<lparr>do_deployment := t\<rparr>) d_meta
     (\<lambda>m t. t\<lparr>d_meta := m\<rparr>)"
  "roleBindings demoApi = demoCodec ''RoleBinding'' do_roleBinding (\<lambda>t u. u\<lparr>do_roleBinding := t\<rparr>) rb_meta
     (\<lambda>m t. t\<lparr>rb_meta := m\<rparr>)"
  "serviceAccounts demoApi = demoCodec ''ServiceAccount'' do_serviceAccount (\<lambda>t u. u\<lparr>do_serviceAccount := t\<rparr>)
     sa_meta (\<lambda>m t. t\<lparr>sa_meta := m\<rparr>)"
  "webhookConfigurations demoApi = demoCodec ''ValidatingWebhookConfiguration'' do_webhookConfiguration
     (\<lambda>t u. u\<lparr>do_webhookConfiguration := t\<rparr>) vwc_meta (\<lambda>m t. t\<lparr>vwc_meta := m\<rparr>)"
  "apiServices demoApi = demoCodec ''APIService'' do_apiService (\<lambda>t u. u\<lparr>do_apiService := t\<rparr>) as_meta
     (\<lambda>m t. t\<lparr>as_meta := m\<rparr>)"
  "networkPolicies demoApi = demoCodec ''NetworkPolicy'' do_networkPolicy (\<lambda>t u. u\<lparr>do_networkPolicy := t\<rparr>)
     np_meta (\<lambda>m t. t\<lparr>np_meta := m\<rparr>)"
  by (simp_all add: demoApi_def)

lemma withIdentity_demoContent: "withIdentity (demoContent kind m) m = m"
  by (simp add: withIdentity_def demoContent_def)

lemma demoApi_accessors: "accessors_ok demoApi"
  by (simp add: accessors_ok_def)

lemma demoCodec_ok:
  assumes "\<And>t u. get (put t u) = t" and "\<And>j u. get (u\<lparr>do_content := j\<rparr>) = get u"
    and "\<And>m t. meta (setMeta m t) = m" and "\<And>t. setMeta (meta t) t = t"
  shows "codec_ok demoApi kind meta (demoCodec kind get put meta setMeta)"
proof -
  have "decode (demoCodec kind get put meta setMeta) u' = Inr t \<and> GetKind demoApi u' = kind"
    if "encode (demoCodec kind get put meta setMeta) t u = Inr u'" for t u u'
    using that assms by (auto simp: demoCodec_def withIdentity_demoContent) (simp add: demoContent_def)
  moreover have "om_name (meta t) = GetName demoApi u \<and> om_namespace (meta t) = GetNamespace demoApi u"
    if "decode (demoCodec kind get put meta setMeta) u = Inr t" for t u
    using that assms by (auto simp: demoCodec_def withIdentity_def)
  ultimately show ?thesis unfolding codec_ok_def by blast
qed

lemma demoApi_codecs:
  "codec_ok demoApi ''Deployment'' d_meta (deployments demoApi)"
  "codec_ok demoApi ''RoleBinding'' rb_meta (roleBindings demoApi)"
  "codec_ok demoApi ''ServiceAccount'' sa_meta (serviceAccounts demoApi)"
  "codec_ok demoApi ''ValidatingWebhookConfiguration'' vwc_meta (webhookConfigurations demoApi)"
  "codec_ok demoApi ''APIService'' as_meta (apiServices demoApi)"
  "codec_ok demoApi ''NetworkPolicy'' np_meta (networkPolicies demoApi)"
  unfolding demoApi_codecs_def by (rule demoCodec_ok; simp)+

end
