(* ===== verification/TransformArgs.thy ===== *)
theory TransformArgs
  imports KubeDemo
begin

text \<open>
  The transformers of \<^verbatim>\<open>internal/controller/keda/transform/transform.go\<close> that edit the command
  line arguments of a container: \<open>replaceContainerArg\<close> and \<open>replaceContainerArgs\<close>, and the log,
  audit, certificate and arbitrary-argument transformers built on them.
\<close>

section \<open>Constants\<close>

definition logLevels :: "string list" where
  "logLevels = [''debug'', ''info'', ''error'']"

definition logEncoders :: "string list" where
  "logEncoders = [''json'', ''console'']"

definition logTimeEncodings :: "string list" where
  "logTimeEncodings = [''epoch'', ''millis'', ''nano'', ''iso8601'', ''rfc3339'', ''rfc3339nano'']"

type_synonym argPrefix = string

definition LogLevelArg :: argPrefix where "LogLevelArg = ''--zap-log-level=''"
definition LogEncoderArg :: argPrefix where "LogEncoderArg = ''--zap-encoder=''"
definition LogTimeEncodingArg :: argPrefix where "LogTimeEncodingArg = ''--zap-time-encoding=''"
definition LogLevelMetricsServer :: argPrefix where "LogLevelMetricsServer = ''--v=''"
definition ClientCAFile :: argPrefix where "ClientCAFile = ''--client-ca-file=''"
definition TLSCertFile :: argPrefix where "TLSCertFile = ''--tls-cert-file=''"
definition TLSPrivateKeyFile :: argPrefix where "TLSPrivateKeyFile = ''--tls-private-key-file=''"
definition CertRotation :: argPrefix where "CertRotation = ''--enable-cert-rotation=''"
definition CADir :: argPrefix where "CADir = ''--ca-dir=''"

definition containerNameKedaOperator :: string where
  "containerNameKedaOperator = ''keda-operator''"
definition containerNameMetricsServer :: string where
  "containerNameMetricsServer = ''keda-metrics-apiserver''"
definition containerNameAdmissionWebhooks :: string where
  "containerNameAdmissionWebhooks = ''keda-admission-webhooks''"

section \<open>replaceContainerArg\<close>

text \<open>The loop over the arguments: the new arguments, \<open>argFound\<close> and \<open>changed\<close>.\<close>

fun replaceArg :: "string \<Rightarrow> argPrefix \<Rightarrow> string list \<Rightarrow> string list \<times> bool \<times> bool" where
  "replaceArg value prefix [] = ([], False, False)"
| "replaceArg value prefix (arg # args) =
     (if HasPrefix arg prefix then
        (if prefix = [] then
           (if arg = value then (arg # args, True, False)
            else (let (args', found, changed) = replaceArg value prefix args
                  in (arg # args', found, changed)))
         else if TrimPrefix arg prefix \<noteq> value then ((prefix @ value) # args, True, True)
         else (arg # args, True, False))
      else (let (args', found, changed) = replaceArg value prefix args
            in (arg # args', found, changed)))"

definition replaceArgInContainer :: "string \<Rightarrow> argPrefix \<Rightarrow> container \<Rightarrow> container \<times> bool" where
  "replaceArgInContainer value prefix c =
     (let (args, argFound, changed) = replaceArg value prefix (c_args c)
      in if argFound then (c\<lparr>c_args := args\<rparr>, changed)
         else (c\<lparr>c_args := args @ [prefix @ value]\<rparr>, True))"

definition replaceContainerArg :: "'u api \<Rightarrow> string \<Rightarrow> argPrefix \<Rightarrow> string \<Rightarrow> 'u transformer" where
  "replaceContainerArg A value prefix containerName =
     onDeployment A (editContainer containerName (replaceArgInContainer value prefix))"

section \<open>replaceContainerArgs\<close>

text \<open>The loop that builds \<open>newArgs\<close>; the flag is \<open>argFound\<close>.\<close>

fun buildArgs :: "string list \<Rightarrow> argPrefix \<Rightarrow> bool \<Rightarrow> string list \<Rightarrow> string list \<times> bool" where
  "buildArgs values prefix argFound [] = ([], argFound)"
| "buildArgs values prefix argFound (arg # args) =
     (if \<not> HasPrefix arg prefix then
        (let (rest, found) = buildArgs values prefix argFound args in (arg # rest, found))
      else if argFound then buildArgs values prefix argFound args
      else (let (rest, found) = buildArgs values prefix True args
            in (map ((@) prefix) values @ rest, found)))"

definition replaceArgsInContainer :: "string list \<Rightarrow> argPrefix \<Rightarrow> container \<Rightarrow> container \<times> bool" where
  "replaceArgsInContainer values prefix c =
     (let (newArgs, argFound) = buildArgs values prefix False (c_args c)
      in if argFound then
           (if c_args c \<noteq> newArgs then (c\<lparr>c_args := newArgs\<rparr>, True) else (c, False))
         else if values \<noteq> [] then (c\<lparr>c_args := c_args c @ map ((@) prefix) values\<rparr>, True)
         else (c, False))"

definition replaceContainerArgs :: "'u api \<Rightarrow> string list \<Rightarrow> argPrefix \<Rightarrow> string \<Rightarrow> 'u transformer" where
  "replaceContainerArgs A values prefix containerName u =
     (if prefix = [] then Ok u
      else onDeployment A (editContainer containerName (replaceArgsInContainer values prefix)) u)"

section \<open>Log settings\<close>

definition isLogLevel :: "string \<Rightarrow> bool" where
  "isLogLevel logLevel = (logLevel \<in> set logLevels \<or> ParseUint logLevel \<noteq> None)"

definition ReplaceLogLevel :: "'u api \<Rightarrow> string \<Rightarrow> string \<Rightarrow> 'u transformer" where
  "ReplaceLogLevel A logLevel containerName =
     (if \<not> isLogLevel logLevel then Ok
      else replaceContainerArg A logLevel LogLevelArg containerName)"

definition ReplaceLogEncoder :: "'u api \<Rightarrow> string \<Rightarrow> string \<Rightarrow> 'u transformer" where
  "ReplaceLogEncoder A logEncoder containerName =
     (if logEncoder \<notin> set logEncoders then Ok
      else replaceContainerArg A logEncoder LogEncoderArg containerName)"

definition ReplaceLogTimeEncoding :: "'u api \<Rightarrow> string \<Rightarrow> string \<Rightarrow> 'u transformer" where
  "ReplaceLogTimeEncoding A logTimeEncoding containerName =
     (if logTimeEncoding \<notin> set logTimeEncodings then Ok
      else replaceContainerArg A logTimeEncoding LogTimeEncodingArg containerName)"

definition ReplaceKedaOperatorLogLevel :: "'u api \<Rightarrow> string \<Rightarrow> 'u transformer" where
  "ReplaceKedaOperatorLogLevel A logLevel =
     (if \<not> isLogLevel logLevel then Ok
      else replaceContainerArg A logLevel LogLevelArg containerNameKedaOperator)"

definition ReplaceKedaOperatorLogEncoder :: "'u api \<Rightarrow> string \<Rightarrow> 'u transformer" where
  "ReplaceKedaOperatorLogEncoder A logEncoder =
     (if logEncoder \<notin> set logEncoders then Ok
      else replaceContainerArg A logEncoder LogEncoderArg containerNameKedaOperator)"

definition ReplaceKedaOperatorLogTimeEncoding :: "'u api \<Rightarrow> string \<Rightarrow> 'u transformer" where
  "ReplaceKedaOperatorLogTimeEncoding A logTimeEncoding =
     (if logTimeEncoding \<notin> set logTimeEncodings then Ok
      else replaceContainerArg A logTimeEncoding LogTimeEncodingArg containerNameKedaOperator)"

definition ReplaceMetricsServerLogLevel :: "'u api \<Rightarrow> string \<Rightarrow> 'u transformer" where
  "ReplaceMetricsServerLogLevel A logLevel =
     (if ParseUint logLevel = None then Ok
      else replaceContainerArg A logLevel LogLevelMetricsServer containerNameMetricsServer)"

definition ReplaceAdmissionWebhooksLogLevel :: "'u api \<Rightarrow> string \<Rightarrow> 'u transformer" where
  "ReplaceAdmissionWebhooksLogLevel A logLevel =
     (if \<not> isLogLevel logLevel then Ok
      else replaceContainerArg A logLevel LogLevelArg containerNameAdmissionWebhooks)"

definition ReplaceAdmissionWebhooksLogEncoder :: "'u api \<Rightarrow> string \<Rightarrow> 'u transformer" where
  "ReplaceAdmissionWebhooksLogEncoder A logEncoder =
     (if logEncoder \<notin> set logEncoders then Ok
      else replaceContainerArg A logEncoder LogEncoderArg containerNameAdmissionWebhooks)"

definition ReplaceAdmissionWebhooksLogTimeEncoding :: "'u api \<Rightarrow> string \<Rightarrow> 'u transformer" where
  "ReplaceAdmissionWebhooksLogTimeEncoding A logTimeEncoding =
     (if logTimeEncoding \<notin> set logTimeEncodings then Ok
      else replaceContainerArg A logTimeEncoding LogTimeEncodingArg containerNameAdmissionWebhooks)"

section \<open>Arbitrary, certificate and audit arguments\<close>

text \<open>
  How \<open>ReplaceArbitraryArg\<close> reads an argument: prefix and value. The code indexes the pieces
  of \<open>SplitAfter\<close> at 0 and 1; both exist when the argument contains the separator.
\<close>

definition splitArgument :: "string \<Rightarrow> argPrefix \<times> string" where
  "splitArgument argument =
     (if Contains argument ''='' then
        (let stringSplit = SplitAfter argument (CHR ''='');
             prefixStr = (if \<not> HasPrefix (stringSplit ! 0) ''--'' then ''--'' @ stringSplit ! 0
                          else stringSplit ! 0)
         in (prefixStr, stringSplit ! 1))
      else ('''', argument))"

definition ReplaceArbitraryArg :: "'u api \<Rightarrow> string \<Rightarrow> string \<Rightarrow> 'u transformer" where
  "ReplaceArbitraryArg A argument resource =
     (let (prefix, argTrue) = splitArgument argument
      in if resource = ''operator'' then replaceContainerArg A argTrue prefix containerNameKedaOperator
         else if resource = ''metricsserver'' then
           replaceContainerArg A argTrue prefix containerNameMetricsServer
         else if resource = ''admissionwebhooks'' then
           replaceContainerArg A argTrue prefix containerNameAdmissionWebhooks
         else Ok)"

definition SetOperatorCertRotation :: "'u api \<Rightarrow> bool \<Rightarrow> 'u transformer" where
  "SetOperatorCertRotation A enable =
     replaceContainerArg A (if enable then ''true'' else ''false'') CertRotation containerNameKedaOperator"

definition ReplaceAuditConfig :: "'u api \<Rightarrow> string \<Rightarrow> string \<Rightarrow> 'u transformer" where
  "ReplaceAuditConfig A argument selector =
     (case map_of [(''policyfile'', ''--audit-policy-file=''), (''logformat'', ''--audit-log-format=''),
        (''logpath'', ''--audit-log-path=''), (''maxage'', ''--audit-log-maxage=''),
        (''maxbackup'', ''--audit-log-maxbackup=''), (''maxsize'', ''--audit-log-maxsize='')] selector of
        None \<Rightarrow> Ok
      | Some prefix \<Rightarrow> replaceContainerArg A argument prefix containerNameMetricsServer)"

text \<open>The loop indexes \<open>prefixes\<close> by the positions of \<open>values\<close>: a shorter \<open>prefixes\<close> panics.\<close>

definition EnsurePathsToCertsInDeployment ::
  "'u api \<Rightarrow> string list \<Rightarrow> argPrefix list \<Rightarrow> error + 'u transformer list" where
  "EnsurePathsToCertsInDeployment A values prefixes =
     (if length prefixes < length values then Err (Panic ''index out of range'')
      else Ok (map (\<lambda>i. replaceContainerArg A (values ! i) (prefixes ! i) containerNameMetricsServer)
                 [0..<length values]))"

section \<open>What the argument loops compute\<close>

text \<open>The reference: overwrite the first argument with the prefix, or append it.\<close>

definition setArg :: "string \<Rightarrow> argPrefix \<Rightarrow> string list \<Rightarrow> string list" where
  "setArg value prefix args =
     (if prefix = [] then (if value \<in> set args then args else args @ [value])
      else if list_ex (\<lambda>a. HasPrefix a prefix) args
      then upd_first (\<lambda>a. HasPrefix a prefix) (\<lambda>_. prefix @ value) args
      else args @ [prefix @ value])"

lemma replaceArg_prefix:
  assumes "prefix \<noteq> []"
  shows "replaceArg value prefix args =
    (upd_first (\<lambda>a. HasPrefix a prefix) (\<lambda>_. prefix @ value) args,
     list_ex (\<lambda>a. HasPrefix a prefix) args,
     upd_first (\<lambda>a. HasPrefix a prefix) (\<lambda>_. prefix @ value) args \<noteq> args)"
  using assms by (induction args) (auto simp: TrimPrefix_eq_iff)

lemma replaceArg_bare: "replaceArg value [] args = (args, value \<in> set args, False)"
  by (induction args) auto

lemma fst_replaceArgInContainer:
  "fst (replaceArgInContainer value prefix c) = c\<lparr>c_args := setArg value prefix (c_args c)\<rparr>"
proof (cases "prefix = []")
  case True
  then show ?thesis by (simp add: replaceArgInContainer_def setArg_def replaceArg_bare)
next
  case False
  have "\<not> list_ex (\<lambda>a. HasPrefix a prefix) (c_args c) \<Longrightarrow>
      upd_first (\<lambda>a. HasPrefix a prefix) (\<lambda>_. prefix @ value) (c_args c) = c_args c"
    by (intro upd_first_id) (auto simp: list_ex_iff)
  then show ?thesis
    using False by (simp add: replaceArgInContainer_def setArg_def replaceArg_prefix)
qed

lemma c_args_eq_iff: "c\<lparr>c_args := as\<rparr> = c \<longleftrightarrow> as = c_args c"
  by (metis container.surjective container.update_convs(3) container.select_convs(3))

interpretation arg: tracked_container_edit "replaceArgInContainer v p" for v p
proof
  fix c
  show "snd (replaceArgInContainer v p c) \<longleftrightarrow> fst (replaceArgInContainer v p c) \<noteq> c"
    by (cases "p = []")
      (auto simp: replaceArgInContainer_def replaceArg_bare replaceArg_prefix c_args_eq_iff
        dest: arg_cong [where f = length])
  show "c_name (fst (replaceArgInContainer v p c)) = c_name c"
    by (simp add: fst_replaceArgInContainer)
qed

lemma setArg_found:
  assumes "prefix \<noteq> []"
  shows "List.find (\<lambda>a. HasPrefix a prefix) (setArg value prefix args) = Some (prefix @ value)"
  using assms by (induction args) (auto simp: setArg_def)

lemma setArg_others:
  "prefix \<noteq> [] \<Longrightarrow>
   filter (\<lambda>a. \<not> HasPrefix a prefix) (setArg value prefix args) = filter (\<lambda>a. \<not> HasPrefix a prefix) args"
  by (induction args) (auto simp: setArg_def split: if_splits)

lemma upd_first_const_twice:
  "p y \<Longrightarrow> upd_first p (\<lambda>_. z) (upd_first p (\<lambda>_. y) xs) = upd_first p (\<lambda>_. z) xs"
  by (induction xs) auto

lemma list_ex_upd_first: "p y \<Longrightarrow> list_ex p (upd_first p (\<lambda>_. y) xs) = list_ex p xs"
  by (induction xs) auto

lemma upd_first_snoc:
  "\<not> list_ex p xs \<Longrightarrow> p x \<Longrightarrow> upd_first p f (xs @ [x]) = xs @ [f x]"
  by (induction xs) auto

lemma setArg_override:
  assumes "prefix \<noteq> []"
  shows "setArg value2 prefix (setArg value1 prefix args) = setArg value2 prefix args"
proof (cases "list_ex (\<lambda>a. HasPrefix a prefix) args")
  case True
  then show ?thesis
    using assms by (simp add: setArg_def upd_first_const_twice list_ex_upd_first)
next
  case False
  then show ?thesis using assms by (simp add: setArg_def upd_first_snoc)
qed

lemma setArg_idem: "setArg value prefix (setArg value prefix args) = setArg value prefix args"
  by (cases "prefix = []") (simp_all add: setArg_override, simp add: setArg_def)

text \<open>
  C26. \<open>replaceContainerArg\<close> is equivalent to its specification: the loop with its early exits, flags
  and special case for an empty prefix computes \<open>setArg\<close> on the first container of that name,
  leaves every other part of the Deployment alone, passes conversion errors on, does nothing to
  objects that are not Deployments, and writes the object back exactly when something changed.
\<close>

theorem replaceContainerArg_exact:
  "replaceContainerArg A value prefix n =
     writeIfChanged A ''Deployment'' (deployments A)
       (updContainer n (\<lambda>c. c\<lparr>c_args := setArg value prefix (c_args c)\<rparr>))"
  by (simp add: replaceContainerArg_def arg.transformer_exact fst_replaceArgInContainer)



subsection \<open>Several values for one flag\<close>

lemma buildArgs_after: "buildArgs values prefix True args = (filter (\<lambda>a. \<not> HasPrefix a prefix) args, True)"
  by (induction args) (auto simp: Let_def split_def)

lemma buildArgs_found: "snd (buildArgs values prefix False args) = list_ex (\<lambda>a. HasPrefix a prefix) args"
  by (induction args) (auto simp: Let_def split_def buildArgs_after)

lemma buildArgs_unfound:
  "\<not> list_ex (\<lambda>a. HasPrefix a prefix) args \<Longrightarrow> fst (buildArgs values prefix False args) = args"
  by (induction args) (auto simp: Let_def split_def)

lemma filter_prefixed: "filter (\<lambda>a. HasPrefix a prefix) (map ((@) prefix) values) = map ((@) prefix) values"
  "filter (\<lambda>a. \<not> HasPrefix a prefix) (map ((@) prefix) values) = []"
  by (induction "values") auto

lemma filter_contradiction: "filter p (filter (\<lambda>a. \<not> p a) xs) = []"
  by (induction xs) auto

lemma buildArgs_prefixed:
  "list_ex (\<lambda>a. HasPrefix a prefix) args \<Longrightarrow>
   filter (\<lambda>a. HasPrefix a prefix) (fst (buildArgs values prefix False args)) = map ((@) prefix) values"
  by (induction args) (auto simp: Let_def split_def buildArgs_after filter_prefixed filter_contradiction)

lemma buildArgs_others:
  "filter (\<lambda>a. \<not> HasPrefix a prefix) (fst (buildArgs values prefix False args)) =
   filter (\<lambda>a. \<not> HasPrefix a prefix) args"
  by (induction args) (auto simp: Let_def split_def buildArgs_after filter_prefixed)

text \<open>The reference: the values take the place of the first old one, or go to the end.\<close>

definition setArgs :: "string list \<Rightarrow> argPrefix \<Rightarrow> string list \<Rightarrow> string list" where
  "setArgs values prefix args =
     takeWhile (\<lambda>a. \<not> HasPrefix a prefix) args @ map ((@) prefix) values @
     filter (\<lambda>a. \<not> HasPrefix a prefix) (dropWhile (\<lambda>a. \<not> HasPrefix a prefix) args)"

lemma buildArgs_setArgs:
  "list_ex (\<lambda>a. HasPrefix a prefix) args \<Longrightarrow> fst (buildArgs values prefix False args) = setArgs values prefix args"
  by (induction args) (auto simp: Let_def split_def buildArgs_after setArgs_def)

lemma fst_replaceArgsInContainer:
  "fst (replaceArgsInContainer values prefix c) = c\<lparr>c_args := setArgs values prefix (c_args c)\<rparr>"
proof (cases "list_ex (\<lambda>a. HasPrefix a prefix) (c_args c)")
  case True
  then show ?thesis
    by (auto simp: replaceArgsInContainer_def split_def Let_def buildArgs_found buildArgs_setArgs
        c_args_eq_iff [symmetric])
next
  case False
  then have no: "\<forall>a \<in> set (c_args c). \<not> HasPrefix a prefix" by (simp add: list_ex_iff)
  then have "setArgs values prefix (c_args c) = c_args c @ map ((@) prefix) values"
    by (simp add: setArgs_def takeWhile_eq_all_conv [THEN iffD2] dropWhile_eq_Nil_conv [THEN iffD2])
  then show ?thesis using False
    by (auto simp: replaceArgsInContainer_def split_def Let_def buildArgs_found c_args_eq_iff [symmetric])
qed

interpretation args: tracked_container_edit "replaceArgsInContainer vs p" for vs p
proof
  fix c
  show "snd (replaceArgsInContainer vs p c) \<longleftrightarrow> fst (replaceArgsInContainer vs p c) \<noteq> c"
    by (auto simp: replaceArgsInContainer_def split_def Let_def c_args_eq_iff)
  show "c_name (fst (replaceArgsInContainer vs p c)) = c_name c"
    by (simp add: fst_replaceArgsInContainer)
qed

lemma setArgs_prefixed: "filter (\<lambda>a. HasPrefix a prefix) (setArgs values prefix args) = map ((@) prefix) values"
proof -
  have "filter (\<lambda>a. HasPrefix a prefix) (takeWhile (\<lambda>a. \<not> HasPrefix a prefix) args) = []"
    by (simp add: filter_empty_conv) (metis set_takeWhileD)
  then show ?thesis by (simp add: setArgs_def filter_prefixed filter_contradiction)
qed

lemma setArgs_others:
  "filter (\<lambda>a. \<not> HasPrefix a prefix) (setArgs values prefix args) = filter (\<lambda>a. \<not> HasPrefix a prefix) args"
proof -
  let ?q = "\<lambda>a. \<not> HasPrefix a prefix"
  have "filter ?q args = filter ?q (takeWhile ?q args) @ filter ?q (dropWhile ?q args)"
    by (metis filter_append takeWhile_dropWhile_id)
  then show ?thesis by (simp add: setArgs_def filter_prefixed)
qed

text \<open>
  C28. \<open>replaceContainerArgs\<close> for a flag prefix writes back, exactly when that differs, the
  Deployment in which the arguments with the prefix of the first container of that name are the
  given values in order, whatever number of them there was before, and the other arguments are
  unchanged in number and order.
\<close>

theorem replaceContainerArgs_exact:
  assumes "prefix \<noteq> []"
  shows "replaceContainerArgs A values prefix n =
      writeIfChanged A ''Deployment'' (deployments A)
        (updContainer n (\<lambda>c. c\<lparr>c_args := setArgs values prefix (c_args c)\<rparr>))
    \<and> filter (\<lambda>a. HasPrefix a prefix) (setArgs values prefix as) = map ((@) prefix) values
    \<and> filter (\<lambda>a. \<not> HasPrefix a prefix) (setArgs values prefix as) = filter (\<lambda>a. \<not> HasPrefix a prefix) as"
proof -
  have "replaceContainerArgs A values prefix n =
      onDeployment A (editContainer n (replaceArgsInContainer values prefix))"
    using assms by (auto simp: replaceContainerArgs_def)
  then show ?thesis
    by (simp add: args.transformer_exact fst_replaceArgsInContainer setArgs_prefixed setArgs_others)
qed

theorem replaceContainerArgs_exact_witness:
  "CADir \<noteq> [] \<and>
   filter (\<lambda>a. HasPrefix a CADir) (setArgs [''/a'', ''/b''] CADir [''--x'', ''--ca-dir=/old'', ''--y''])
     = [''--ca-dir=/a'', ''--ca-dir=/b'']"
proof -
  have "CADir \<noteq> []" by (simp add: CADir_def)
  from replaceContainerArgs_exact
      [OF this, of demoApi "[''/a'', ''/b'']" "[]" "[''--x'', ''--ca-dir=/old'', ''--y'']"]
  show ?thesis by (simp add: CADir_def)
qed

subsection \<open>Arbitrary arguments\<close>

lemma Contains_eq: "Contains (k @ CHR ''='' # v) ''=''"
  by (simp add: Contains_char)

lemma splitArgument_key:
  assumes "CHR ''='' \<notin> set k"
  shows "splitArgument (k @ CHR ''='' # v) =
    ((if HasPrefix (k @ ''='') ''--'' then k @ ''='' else ''--'' @ k @ ''=''),
     hd (SplitAfter v (CHR ''='')))"
  using assms SplitAfter_nonempty [of v "CHR ''=''"]
  by (simp add: splitArgument_def Contains_eq SplitAfter_append Let_def hd_conv_nth)

text \<open>
  An argument \<open>--key=value\<close> whose key and value hold no further \<open>=\<close> is applied as the flag
  \<open>--key=\<close> with that value to the keda-operator container; \<open>key=value\<close> means the same flag; and
  a bare argument is added only if it is not there yet.
\<close>

theorem ReplaceArbitraryArg_forms:
  assumes "CHR ''='' \<notin> set k" and "CHR ''='' \<notin> set v"
  shows "ReplaceArbitraryArg A (''--'' @ k @ ''='' @ v) ''operator''
           = replaceContainerArg A v (''--'' @ k @ ''='') containerNameKedaOperator
    \<and> (\<not> HasPrefix (k @ ''='') ''--'' \<longrightarrow>
         ReplaceArbitraryArg A (k @ ''='' @ v) ''operator'' = ReplaceArbitraryArg A (''--'' @ k @ ''='' @ v) ''operator'')
    \<and> ReplaceArbitraryArg A v ''operator'' = replaceContainerArg A v [] containerNameKedaOperator
    \<and> setArg v [] as = (if v \<in> set as then as else as @ [v])"
proof -
  have d: "CHR ''='' \<notin> set (''--'' @ k)" using assms(1) by simp
  have 1: "splitArgument (''--'' @ k @ ''='' @ v) = (''--'' @ k @ ''='', v)"
    using splitArgument_key [OF d, of v] assms(2) by (simp add: SplitAfter_no_sep HasPrefix_def)
  have 2: "splitArgument (k @ ''='' @ v) = (''--'' @ k @ ''='', v)" if "\<not> HasPrefix (k @ ''='') ''--''"
    using splitArgument_key [OF assms(1), of v] assms(2) that by (simp add: SplitAfter_no_sep)
  have 3: "splitArgument v = ([], v)" using assms(2) by (simp add: splitArgument_def Contains_char)
  show ?thesis using 1 2 3 by (simp add: ReplaceArbitraryArg_def setArg_def)
qed

theorem ReplaceArbitraryArg_forms_witness:
  "CHR ''='' \<notin> set ''v'' \<and> CHR ''='' \<notin> set ''4'' \<and> \<not> HasPrefix (''v'' @ ''='') ''--'' \<and>
   ReplaceArbitraryArg demoApi ''v=4'' ''operator'' = ReplaceArbitraryArg demoApi ''--v=4'' ''operator''"
proof -
  have "\<not> HasPrefix (''v'' @ ''='') ''--''" by (simp add: HasPrefix_def)
  then show ?thesis using ReplaceArbitraryArg_forms [of "''v''" "''4''" demoApi] by simp
qed

text \<open>
  What follows a second \<open>=\<close> of an argument is lost: \<open>--key=a=b\<close> is applied as \<open>--key=a=\<close>, so
  the effect of the argument does not depend on \<open>b\<close>. A flag whose value is itself of the form
  \<open>name=value\<close> (for example \<open>--feature-gates=X=true\<close>) cannot be set.
\<close>

theorem ReplaceArbitraryArg_drops_after_second_eq:
  assumes "CHR ''='' \<notin> set k" and "CHR ''='' \<notin> set v"
  shows "ReplaceArbitraryArg A (''--'' @ k @ ''='' @ v @ ''='' @ w) ''operator''
           = replaceContainerArg A (v @ ''='') (''--'' @ k @ ''='') containerNameKedaOperator"
proof -
  have d: "CHR ''='' \<notin> set (''--'' @ k)" using assms(1) by simp
  have "splitArgument (''--'' @ k @ ''='' @ v @ ''='' @ w) = (''--'' @ k @ ''='', v @ ''='')"
    using splitArgument_key [OF d, of "v @ CHR ''='' # w"] assms(2)
    by (simp add: SplitAfter_append HasPrefix_def)
  then show ?thesis by (simp add: ReplaceArbitraryArg_def)
qed

theorem ReplaceArbitraryArg_drops_after_second_eq_witness:
  "ReplaceArbitraryArg demoApi ''--feature-gates=X=true'' ''operator''
     = replaceContainerArg demoApi ''X='' ''--feature-gates='' containerNameKedaOperator"
  using ReplaceArbitraryArg_drops_after_second_eq [of "''feature-gates''" "''X''" demoApi "''true''"] by simp

subsection \<open>Log levels\<close>

lemma isLogLevel_Itoa: "isLogLevel (Itoa n) \<longleftrightarrow> n < 2 ^ 64"
proof -
  have "Itoa n \<notin> set logLevels"
  proof
    assume "Itoa n \<in> set logLevels"
    moreover have "list_all isDigit (Itoa n)" using Itoa_digits by blast
    ultimately show False by (auto simp: logLevels_def isDigit_def)
  qed
  then show ?thesis
    using Itoa_digits [of n] by (simp add: isLogLevel_def ParseUint_def decimal_Itoa)
qed


end
