(* ===== verification/TransformMeta.thy ===== *)
theory TransformMeta
  imports KubeDemo
begin

text \<open>
  The transformers of \<^verbatim>\<open>internal/controller/keda/transform/transform.go\<close> that edit metadata and
  objects other than Deployments: namespaces, owners, annotations and labels, the injection of
  certificates, and the network policies.
\<close>

section \<open>Namespaces and owners\<close>

definition defaultNamespace :: string where "defaultNamespace = ''keda''"

lemma size_snd_entry: "kv \<in> set kvs \<Longrightarrow> size (snd kv) < size (JObj kvs)"
  by (induction kvs) (auto simp: size_prod_def split: prod.splits)

lemma size_elem: "x \<in> set xs \<Longrightarrow> size x < size (JArr xs)"
  by (induction xs) auto

text \<open>
  The recursive helper of \<open>ReplaceAllNamespaces\<close>. It mutates maps in place while ranging over
  them, each entry on its own, so the result does not depend on the iteration order.
\<close>

function replaceNamespaces :: "string \<Rightarrow> json \<Rightarrow> json" where
  "replaceNamespaces ns (JObj kvs) =
     JObj (map (\<lambda>kv. (fst kv, if fst kv = ''namespace'' \<and> snd kv = JStr defaultNamespace then JStr ns
                             else replaceNamespaces ns (snd kv))) kvs)"
| "replaceNamespaces ns (JArr xs) = JArr (map (replaceNamespaces ns) xs)"
| "replaceNamespaces ns JNull = JNull"
| "replaceNamespaces ns (JBool b) = JBool b"
| "replaceNamespaces ns (JNum n) = JNum n"
| "replaceNamespaces ns (JStr s) = JStr s"
  by pat_completeness auto
termination
  by (relation "measure (\<lambda>(ns, j). size j)") (use size_snd_entry size_elem in fastforce)+

definition ReplaceAllNamespaces :: "'u api \<Rightarrow> string \<Rightarrow> 'u transformer" where
  "ReplaceAllNamespaces A ns u = Ok (setContent A (replaceNamespaces ns (content A u)) u)"

definition ReplaceNamespace :: "'u api \<Rightarrow> string \<Rightarrow> string \<Rightarrow> 'u transformer" where
  "ReplaceNamespace A name ns u =
     (if GetName A u = name
      then bindE (decode (roleBindings A) u) (\<lambda>rb.
             encode (roleBindings A) (rb\<lparr>rb_meta := (rb_meta rb)\<lparr>om_namespace := ns\<rparr>\<rparr>) u)
      else Ok u)"

definition InjectOwner :: "'u api \<Rightarrow> objectMeta \<Rightarrow> 'u transformer" where
  "InjectOwner A owner u =
     (if GetNamespace A u = om_namespace owner then mfInjectOwner A owner u else Ok u)"

section \<open>Annotations and labels\<close>

definition updateMap :: "smap \<Rightarrow> smap \<Rightarrow> smap" where
  "updateMap mapToUpdate newValues =
     (if mapToUpdate \<noteq> Map.empty then mapToUpdate ++ newValues else newValues)"

definition AddServiceAccountAnnotations :: "'u api \<Rightarrow> smap \<Rightarrow> 'u transformer" where
  "AddServiceAccountAnnotations A annotations =
     convertEdit A ''ServiceAccount'' (serviceAccounts A) (always (\<lambda>sa.
       sa\<lparr>sa_meta := (sa_meta sa)\<lparr>om_annotations := updateMap (om_annotations (sa_meta sa)) annotations\<rparr>\<rparr>))"

definition AddServiceAccountLabels :: "'u api \<Rightarrow> smap \<Rightarrow> 'u transformer" where
  "AddServiceAccountLabels A labels =
     convertEdit A ''ServiceAccount'' (serviceAccounts A) (always (\<lambda>sa.
       sa\<lparr>sa_meta := (sa_meta sa)\<lparr>om_labels := updateMap (om_labels (sa_meta sa)) labels\<rparr>\<rparr>))"

definition addPodAnnotations :: "smap \<Rightarrow> deployment \<Rightarrow> deployment" where
  "addPodAnnotations annotations d =
     d\<lparr>d_template := (d_template d)\<lparr>pt_annotations := updateMap (pt_annotations (d_template d)) annotations\<rparr>\<rparr>"

definition AddPodAnnotations :: "'u api \<Rightarrow> smap \<Rightarrow> 'u transformer" where
  "AddPodAnnotations A annotations = onDeployment A (always (addPodAnnotations annotations))"

definition addPodLabels :: "smap \<Rightarrow> deployment \<Rightarrow> deployment" where
  "addPodLabels labels d =
     d\<lparr>d_template := (d_template d)\<lparr>pt_labels := updateMap (pt_labels (d_template d)) labels\<rparr>\<rparr>"

definition AddPodLabels :: "'u api \<Rightarrow> smap \<Rightarrow> 'u transformer" where
  "AddPodLabels A labels = onDeployment A (always (addPodLabels labels))"

definition addDeploymentAnnotations :: "smap \<Rightarrow> deployment \<Rightarrow> deployment" where
  "addDeploymentAnnotations annotations d =
     d\<lparr>d_meta := (d_meta d)\<lparr>om_annotations := updateMap (om_annotations (d_meta d)) annotations\<rparr>\<rparr>"

definition AddDeploymentAnnotations :: "'u api \<Rightarrow> smap \<Rightarrow> 'u transformer" where
  "AddDeploymentAnnotations A annotations = onDeployment A (always (addDeploymentAnnotations annotations))"

definition addDeploymentLabels :: "smap \<Rightarrow> deployment \<Rightarrow> deployment" where
  "addDeploymentLabels labels d =
     d\<lparr>d_meta := (d_meta d)\<lparr>om_labels := updateMap (om_labels (d_meta d)) labels\<rparr>\<rparr>"

definition AddDeploymentLabels :: "'u api \<Rightarrow> smap \<Rightarrow> 'u transformer" where
  "AddDeploymentLabels A labels = onDeployment A (always (addDeploymentLabels labels))"

section \<open>Injection of certificates\<close>

definition EnsureCABundleInjectionForValidatingWebhookConfiguration ::
  "'u api \<Rightarrow> string \<Rightarrow> string \<Rightarrow> 'u transformer" where
  "EnsureCABundleInjectionForValidatingWebhookConfiguration A annotation annotationValue =
     convertEdit A ''ValidatingWebhookConfiguration'' (webhookConfigurations A) (always (\<lambda>vwc.
       vwc\<lparr>vwc_meta := SetMetaDataAnnotation A annotation annotationValue (vwc_meta vwc)\<rparr>))"

definition EnsureCABundleInjectionForAPIService :: "'u api \<Rightarrow> string \<Rightarrow> string \<Rightarrow> 'u transformer" where
  "EnsureCABundleInjectionForAPIService A annotation annotationValue =
     convertEdit A ''APIService'' (apiServices A) (always (\<lambda>a.
       a\<lparr>as_meta := SetMetaDataAnnotation A annotation annotationValue (as_meta a),
         as_insecureSkipTLSVerify := False\<rparr>))"

definition EnsureCertInjectionForService :: "'u api \<Rightarrow> string \<Rightarrow> string \<Rightarrow> string \<Rightarrow> 'u transformer" where
  "EnsureCertInjectionForService A serviceName annotation annotationValue u =
     (if GetKind A u = ''Service'' \<and> GetName A u = serviceName
      then Ok (SetAnnotations A ((GetAnnotations A u)(annotation \<mapsto> annotationValue)) u)
      else Ok u)"

section \<open>Network policies\<close>

definition dnsPeer :: networkPolicyPeer where
  "dnsPeer =
     \<lparr>npp_podSelector = Some \<lparr>ls_matchLabels = [''dns.operator.openshift.io/daemonset-dns'' \<mapsto> ''default''],
        ls_matchExpressions = []\<rparr>,
      npp_namespaceSelector = Some \<lparr>ls_matchLabels = [''kubernetes.io/metadata.name'' \<mapsto> ''openshift-dns''],
        ls_matchExpressions = []\<rparr>,
      npp_ipBlock = None\<rparr>"

definition AddOpenShiftPodToDNSNetworkPolicy :: "'u api \<Rightarrow> 'u transformer" where
  "AddOpenShiftPodToDNSNetworkPolicy A u =
     (if GetKind A u = ''NetworkPolicy''
      then bindE (decode (networkPolicies A) u) (\<lambda>policy.
             if om_name (np_meta policy) = ''keda-allow-egress-to-dns'' then
               (case np_egress policy of
                  [e] \<Rightarrow> encode (networkPolicies A) (policy\<lparr>np_egress := [e\<lparr>er_to := [dnsPeer]\<rparr>]\<rparr>) u
                | _ \<Rightarrow> Err (Errorf ''invalid manifest. Expected NetworkPolicy keda-allow-egress-to-dns to have exactly 1 `Egress` field'' []))
             else encode (networkPolicies A) policy u)
      else Ok u)"

text \<open>
  The backward loop of \<open>RemoveNetworkPolicyPodSelector\<close>: index, expressions, \<open>changed\<close>. The
  inner loop removes the first occurrence of the pod name and breaks; an expression left without
  values is cut out of the slice.
\<close>

fun removePodLoop ::
  "string \<Rightarrow> nat \<Rightarrow> labelSelectorRequirement list \<Rightarrow> bool \<Rightarrow> labelSelectorRequirement list \<times> bool" where
  "removePodLoop podName 0 exprs changed = (exprs, changed)"
| "removePodLoop podName (Suc i) exprs changed =
     (let e = exprs ! i in
      if lr_key e = ''app'' \<and> lr_operator e = ''In'' \<and> podName \<in> set (lr_values e) then
        (let vs = remove1 podName (lr_values e)
         in removePodLoop podName i
              (if vs = [] then take i exprs @ drop (Suc i) exprs else exprs[i := e\<lparr>lr_values := vs\<rparr>]) True)
      else removePodLoop podName i exprs changed)"

definition removePodSelector :: "string \<Rightarrow> networkPolicy \<Rightarrow> networkPolicy \<times> bool" where
  "removePodSelector podName policy =
     (if om_name (np_meta policy) = ''keda-allow-egress-to-all'' then
        (let exprs = ls_matchExpressions (np_podSelector policy);
             (exprs', changed) = removePodLoop podName (length exprs) exprs False
         in (policy\<lparr>np_podSelector := (np_podSelector policy)\<lparr>ls_matchExpressions := exprs'\<rparr>\<rparr>, changed))
      else (policy, False))"

definition RemoveNetworkPolicyPodSelector :: "'u api \<Rightarrow> string \<Rightarrow> 'u transformer" where
  "RemoveNetworkPolicyPodSelector A podName =
     convertEdit A ''NetworkPolicy'' (networkPolicies A) (removePodSelector podName)"

definition RemoveNetworkPolicyPodSelectorFromKedaOperator :: "'u api \<Rightarrow> 'u transformer" where
  "RemoveNetworkPolicyPodSelectorFromKedaOperator A = RemoveNetworkPolicyPodSelector A ''keda-operator''"

definition RemoveNetworkPolicyPodSelectorFromMetricsServer :: "'u api \<Rightarrow> 'u transformer" where
  "RemoveNetworkPolicyPodSelectorFromMetricsServer A = RemoveNetworkPolicyPodSelector A ''keda-metrics-apiserver''"

text \<open>The predicate of \<^verbatim>\<open>kedacontroller_controller.go\<close> that selects the policy to delete.\<close>

definition isEmptyAllowEgress :: "networkPolicy \<Rightarrow> bool" where
  "isEmptyAllowEgress policy =
     (om_name (np_meta policy) = ''keda-allow-egress-to-all'' \<and>
      (let matchExprs = ls_matchExpressions (np_podSelector policy)
       in if matchExprs = [] then True
          else list_ex (\<lambda>e. lr_key e = ''app'' \<and> lr_operator e = ''In'' \<and> lr_values e = []) matchExprs))"

definition getIsEmptyKedaAllowEgressToAllNetworkPolicyPredicate :: "'u api \<Rightarrow> 'u \<Rightarrow> bool" where
  "getIsEmptyKedaAllowEgressToAllNetworkPolicyPredicate A u =
     (GetKind A u = ''NetworkPolicy'' \<and>
      (case decode (networkPolicies A) u of Inl _ \<Rightarrow> False | Inr policy \<Rightarrow> isEmptyAllowEgress policy))"

section \<open>What the namespace traversal does\<close>

text \<open>Addressing a value inside unstructured content.\<close>

datatype step = Field string | Index nat

fun valueAt :: "step list \<Rightarrow> json \<Rightarrow> json option" where
  "valueAt [] j = Some j"
| "valueAt (Field k # p) (JObj kvs) = (case map_of kvs k of None \<Rightarrow> None | Some v \<Rightarrow> valueAt p v)"
| "valueAt (Index i # p) (JArr xs) = (if i < length xs then valueAt p (xs ! i) else None)"
| "valueAt (s # p) j = None"

definition isDefaultNamespace :: "step \<Rightarrow> json \<Rightarrow> bool" where
  "isDefaultNamespace s v = (s = Field ''namespace'' \<and> v = JStr defaultNamespace)"

lemma map_of_map_entry:
  "map_of (map (\<lambda>kv. (fst kv, f (fst kv) (snd kv))) kvs) k = map_option (f k) (map_of kvs k)"
  by (induction kvs) auto

lemma valueAt_snoc:
  "valueAt (s # p @ [t]) (replaceNamespaces ns j) =
     (case valueAt [s] j of None \<Rightarrow> None
      | Some v \<Rightarrow> if isDefaultNamespace s v then None else valueAt (p @ [t]) (replaceNamespaces ns v))"
proof (cases s)
  case (Field k)
  then show ?thesis
    using map_of_map_entry [of "\<lambda>k v. if k = ''namespace'' \<and> v = JStr defaultNamespace then JStr ns
        else replaceNamespaces ns v"]
    by (cases j; cases p; cases t) (auto simp: isDefaultNamespace_def split: option.splits)
next
  case (Index i)
  then show ?thesis by (cases j) (auto simp: isDefaultNamespace_def)
qed

lemma valueAt_replaceNamespaces:
  "valueAt (p @ [s]) (replaceNamespaces ns j) =
     map_option (\<lambda>v. if isDefaultNamespace s v then JStr ns else replaceNamespaces ns v) (valueAt (p @ [s]) j)"
proof (induction p arbitrary: j)
  case Nil
  show ?case
    using map_of_map_entry [of "\<lambda>k v. if k = ''namespace'' \<and> v = JStr defaultNamespace then JStr ns
        else replaceNamespaces ns v"]
    by (cases s; cases j) (auto simp: isDefaultNamespace_def split: option.splits)
next
  case (Cons t p)
  have step: "valueAt (t # q) j = (case valueAt [t] j of None \<Rightarrow> None | Some v \<Rightarrow> valueAt q v)" for q
    by (cases t; cases j) (auto split: option.splits)
  show ?case
  proof (cases "valueAt [t] j")
    case None
    then show ?thesis using valueAt_snoc [of t p s ns j] step [of "p @ [s]"] by simp
  next
    case (Some v)
    have "valueAt (p @ [s]) v = None" if "isDefaultNamespace t v"
      using that by (cases p; cases s) (auto simp: isDefaultNamespace_def)
    then show ?thesis
      using Some valueAt_snoc [of t p s ns j] step [of "p @ [s]"] Cons.IH [of v] by auto
  qed
qed

text \<open>Whether some entry, at any depth, is a namespace field with the given value.\<close>

function mentionsNamespace :: "string \<Rightarrow> json \<Rightarrow> bool" where
  "mentionsNamespace x (JObj kvs) =
     list_ex (\<lambda>kv. (fst kv = ''namespace'' \<and> snd kv = JStr x) \<or> mentionsNamespace x (snd kv)) kvs"
| "mentionsNamespace x (JArr xs) = list_ex (mentionsNamespace x) xs"
| "mentionsNamespace x JNull = False"
| "mentionsNamespace x (JBool b) = False"
| "mentionsNamespace x (JNum n) = False"
| "mentionsNamespace x (JStr s) = False"
  by pat_completeness auto
termination
  by (relation "measure (\<lambda>(x, j). size j)") (use size_snd_entry size_elem in fastforce)+

lemma replaceNamespaces_JStr_iff: "replaceNamespaces ns j = JStr s \<longleftrightarrow> j = JStr s"
  by (cases j) auto

lemma no_default_namespace_left:
  "ns \<noteq> defaultNamespace \<Longrightarrow> \<not> mentionsNamespace defaultNamespace (replaceNamespaces ns j)"
  by (induction ns j rule: replaceNamespaces.induct)
    (auto simp: list_ex_iff replaceNamespaces_JStr_iff split: if_splits)

lemma replaceNamespaces_absent:
  "\<not> mentionsNamespace defaultNamespace j \<Longrightarrow> replaceNamespaces ns j = j"
proof (induction ns j rule: replaceNamespaces.induct)
  case (1 ns kvs)
  then show ?case by (auto simp: list_ex_iff intro!: map_idI)
next
  case (2 ns xs)
  then show ?case by (auto simp: list_ex_iff intro!: map_idI)
qed auto

text \<open>
  C30. \<open>ReplaceAllNamespaces\<close> is complete and touches nothing else: afterwards no namespace field at
  any depth is still \<open>keda\<close> (unless that is the target), an object without such a field is
  unchanged, and every addressed value is the new namespace where it was a \<open>keda\<close> namespace field,
  and its own traversal otherwise, which for a string is the string itself.
\<close>

theorem ReplaceAllNamespaces_complete:
  assumes "accessors_ok A" and "ReplaceAllNamespaces A ns u = Inr u'"
  shows "(ns = defaultNamespace \<or> \<not> mentionsNamespace defaultNamespace (content A u'))
    \<and> (mentionsNamespace defaultNamespace (content A u) \<or> content A u' = content A u)
    \<and> (valueAt (p @ [s]) (content A u) = Some (JStr x) \<longrightarrow>
         valueAt (p @ [s]) (content A u') =
           Some (JStr (if s = Field ''namespace'' \<and> x = defaultNamespace then ns else x)))"
proof -
  have u': "content A u' = replaceNamespaces ns (content A u)"
    using assms by (auto simp: ReplaceAllNamespaces_def accessors_ok_def)
  show ?thesis
    unfolding u' using no_default_namespace_left replaceNamespaces_absent
    by (auto simp: valueAt_replaceNamespaces isDefaultNamespace_def)
qed

theorem ReplaceAllNamespaces_complete_witness:
  "\<exists>u'. ReplaceAllNamespaces demoApi ''ocp'' (demoObject ''Service'' ''keda-operator'' ''keda'') = Inr u' \<and>
     valueAt ([Field ''metadata''] @ [Field ''namespace'']) (content demoApi u') = Some (JStr ''ocp'')"
proof -
  let ?u = "demoObject ''Service'' ''keda-operator'' ''keda''"
  obtain u' where u': "ReplaceAllNamespaces demoApi ''ocp'' ?u = Inr u'"
    by (simp add: ReplaceAllNamespaces_def)
  have "valueAt ([Field ''metadata''] @ [Field ''namespace'']) (content demoApi ?u) = Some (JStr ''keda'')"
    by (simp add: demoObject_def demoContent_def demoMeta_def Let_def)
  then have "valueAt ([Field ''metadata''] @ [Field ''namespace'']) (content demoApi u') = Some (JStr ''ocp'')"
    using ReplaceAllNamespaces_complete
      [OF demoApi_accessors u', of "[Field ''metadata'']" "Field ''namespace''" "''keda''"]
    by (simp add: defaultNamespace_def)
  then show ?thesis using u' by blast
qed

lemma nestedString_valueAt:
  "nestedString ks j = (case valueAt (map Field ks) j of Some (JStr s) \<Rightarrow> s | _ \<Rightarrow> [])"
proof (induction ks arbitrary: j)
  case Nil
  show ?case by (cases j) auto
next
  case (Cons k ks)
  then show ?case by (cases j) (auto split: option.splits)
qed

lemma nestedString_replaceNamespaces:
  "nestedString (ks @ [k]) (replaceNamespaces ns j) =
     (let s = nestedString (ks @ [k]) j in if k = ''namespace'' \<and> s = defaultNamespace then ns else s)"
proof (cases "valueAt (map Field ks @ [Field k]) j")
  case None
  then show ?thesis
    by (simp add: nestedString_valueAt valueAt_replaceNamespaces defaultNamespace_def Let_def)
next
  case (Some v)
  then show ?thesis
    by (cases v) (auto simp: nestedString_valueAt valueAt_replaceNamespaces isDefaultNamespace_def
        defaultNamespace_def Let_def)
qed

lemma ReplaceAllNamespaces_moves:
  assumes "accessors_ok A" and "ReplaceAllNamespaces A ns u = Inr u'"
  shows "GetKind A u' = GetKind A u \<and> GetName A u' = GetName A u \<and>
    GetNamespace A u' = (if GetNamespace A u = defaultNamespace then ns else GetNamespace A u)"
proof -
  have u': "content A u' = replaceNamespaces ns (content A u)"
    using assms by (auto simp: ReplaceAllNamespaces_def accessors_ok_def)
  show ?thesis
    using assms(1) u' nestedString_replaceNamespaces [of "[]" "''kind''" ns "content A u"]
      nestedString_replaceNamespaces [of "[''metadata'']" "''name''" ns "content A u"]
      nestedString_replaceNamespaces [of "[''metadata'']" "''namespace''" ns "content A u"]
    by (simp add: accessors_ok_def Let_def)
qed

text \<open>
  \<open>ReplaceAllNamespaces\<close> keeps the kind and the name of an object, and moves it to the target
  namespace exactly when it was in the namespace \<open>keda\<close>; in particular cluster-scoped objects and
  objects of other namespaces stay where they are.
\<close>

theorem ReplaceAllNamespaces_identity:
  assumes "accessors_ok A" and "ReplaceAllNamespaces A ns u = Inr u'"
  shows "GetKind A u' = GetKind A u \<and> GetName A u' = GetName A u \<and>
    GetNamespace A u' = (if GetNamespace A u = defaultNamespace then ns else GetNamespace A u)"
  using assms by (rule ReplaceAllNamespaces_moves)

theorem ReplaceAllNamespaces_identity_witness:
  "\<exists>u'. ReplaceAllNamespaces demoApi ''ocp'' (demoObject ''Service'' ''keda-operator'' ''keda'') = Inr u' \<and>
     GetName demoApi u' = ''keda-operator'' \<and> GetNamespace demoApi u' = ''ocp''"
proof -
  let ?u = "demoObject ''Service'' ''keda-operator'' ''keda''"
  obtain u' where u': "ReplaceAllNamespaces demoApi ''ocp'' ?u = Inr u'"
    by (simp add: ReplaceAllNamespaces_def)
  have "GetName demoApi ?u = ''keda-operator'' \<and> GetNamespace demoApi ?u = ''keda''"
    by (simp add: demoObject_def demoContent_def demoMeta_def Let_def)
  then show ?thesis
    using ReplaceAllNamespaces_identity [OF demoApi_accessors u'] u' by (simp add: defaultNamespace_def)
qed

section \<open>What the network policy edit does\<close>

text \<open>The reference: what becomes of one match expression.\<close>

definition dropPod :: "string \<Rightarrow> labelSelectorRequirement \<Rightarrow> labelSelectorRequirement list" where
  "dropPod podName e =
     (if lr_key e = ''app'' \<and> lr_operator e = ''In'' \<and> podName \<in> set (lr_values e) then
        (if remove1 podName (lr_values e) = [] then [] else [e\<lparr>lr_values := remove1 podName (lr_values e)\<rparr>])
      else [e])"

definition hasPod :: "string \<Rightarrow> labelSelectorRequirement \<Rightarrow> bool" where
  "hasPod podName e = (lr_key e = ''app'' \<and> lr_operator e = ''In'' \<and> podName \<in> set (lr_values e))"

lemma removePodLoop_spec:
  "removePodLoop pod (length xs) (xs @ ys) b =
     (concat (map (dropPod pod) xs) @ ys, b \<or> list_ex (hasPod pod) xs)"
proof (induction xs arbitrary: ys b rule: rev_induct)
  case Nil
  show ?case by simp
next
  case (snoc e xs)
  have "removePodLoop pod (Suc (length xs)) (xs @ e # ys) b =
      removePodLoop pod (length xs) (xs @ dropPod pod e @ ys) (b \<or> hasPod pod e)"
    by (auto simp: dropPod_def hasPod_def Let_def)
  then show ?case using snoc.IH [of "dropPod pod e @ ys"] by auto
qed

lemma removePodLoop_all:
  "removePodLoop pod (length xs) xs False = (concat (map (dropPod pod) xs), list_ex (hasPod pod) xs)"
  using removePodLoop_spec [of pod xs "[]"] by simp

text \<open>The number of values shrinks with every removal, so a reported change is a change.\<close>

definition valueCount :: "labelSelectorRequirement list \<Rightarrow> nat" where
  "valueCount es = sum_list (map (\<lambda>e. length (lr_values e)) es)"

lemma valueCount_simps [simp]:
  "valueCount [] = 0"
  "valueCount (e # es) = length (lr_values e) + valueCount es"
  "valueCount (es @ fs) = valueCount es + valueCount fs"
  by (simp_all add: valueCount_def)

lemma dropPod_cases:
  "hasPod pod e \<Longrightarrow> valueCount (dropPod pod e) < length (lr_values e)"
  "\<not> hasPod pod e \<Longrightarrow> dropPod pod e = [e]"
proof -
  show "valueCount (dropPod pod e) < length (lr_values e)" if "hasPod pod e"
  proof -
    have "0 < length (lr_values e)" using that by (auto simp: hasPod_def intro: length_pos_if_in_set)
    then show ?thesis using that by (simp add: dropPod_def hasPod_def length_remove1)
  qed
qed (auto simp: dropPod_def hasPod_def)

lemma concat_dropPod_le: "valueCount (concat (map (dropPod pod) xs)) \<le> valueCount xs"
proof (induction xs)
  case (Cons x xs)
  have "valueCount (dropPod pod x) \<le> length (lr_values x)"
    using dropPod_cases [of pod x] by (cases "hasPod pod x") auto
  with Cons show ?case by simp
qed simp

lemma concat_dropPod_changed:
  "list_ex (hasPod pod) xs \<Longrightarrow> valueCount (concat (map (dropPod pod) xs)) < valueCount xs"
proof (induction xs)
  case (Cons x xs)
  show ?case
  proof (cases "hasPod pod x")
    case True
    then show ?thesis using dropPod_cases(1) [of pod x] concat_dropPod_le [of pod xs] by simp
  next
    case False
    then show ?thesis using Cons by (simp add: dropPod_cases(2))
  qed
qed simp

lemma concat_dropPod_same: "\<not> list_ex (hasPod pod) xs \<Longrightarrow> concat (map (dropPod pod) xs) = xs"
  by (induction xs) (auto simp: dropPod_cases(2))

definition dropPodFromPolicy :: "string \<Rightarrow> networkPolicy \<Rightarrow> networkPolicy" where
  "dropPodFromPolicy pod policy =
     (if om_name (np_meta policy) = ''keda-allow-egress-to-all''
      then policy\<lparr>np_podSelector := (np_podSelector policy)
        \<lparr>ls_matchExpressions := concat (map (dropPod pod) (ls_matchExpressions (np_podSelector policy)))\<rparr>\<rparr>
      else policy)"

lemma fst_removePodSelector: "fst (removePodSelector pod policy) = dropPodFromPolicy pod policy"
  by (simp add: removePodSelector_def dropPodFromPolicy_def removePodLoop_all Let_def)

lemma matchExpressions_eq_iff:
  "policy\<lparr>np_podSelector := (np_podSelector policy)\<lparr>ls_matchExpressions := es\<rparr>\<rparr> = policy \<longleftrightarrow>
     es = ls_matchExpressions (np_podSelector policy)"
proof
  assume "policy\<lparr>np_podSelector := (np_podSelector policy)\<lparr>ls_matchExpressions := es\<rparr>\<rparr> = policy"
  then have "ls_matchExpressions (np_podSelector
      (policy\<lparr>np_podSelector := (np_podSelector policy)\<lparr>ls_matchExpressions := es\<rparr>\<rparr>)) =
      ls_matchExpressions (np_podSelector policy)" by simp
  then show "es = ls_matchExpressions (np_podSelector policy)" by simp
qed simp

interpretation pod: tracked_edit "removePodSelector p" for p
proof
  fix policy
  show "snd (removePodSelector p policy) \<longleftrightarrow> fst (removePodSelector p policy) \<noteq> policy"
    using concat_dropPod_changed [of p "ls_matchExpressions (np_podSelector policy)"]
      concat_dropPod_same [of p "ls_matchExpressions (np_podSelector policy)"]
    by (auto simp: removePodSelector_def removePodLoop_all matchExpressions_eq_iff Let_def)
qed

lemma RemoveNetworkPolicyPodSelector_edit:
  "RemoveNetworkPolicyPodSelector A pod = writeIfChanged A ''NetworkPolicy'' (networkPolicies A) (dropPodFromPolicy pod)"
  by (simp add: RemoveNetworkPolicyPodSelector_def pod.convertEdit_exact fst_removePodSelector)

text \<open>
  C31. \<open>RemoveNetworkPolicyPodSelector\<close> with its backward loop over a slice it shortens is
  equivalent to treating each match expression of the policy \<open>keda-allow-egress-to-all\<close> on its
  own: the pod loses its first occurrence in every \<open>app In\<close> expression, an expression left empty
  is dropped, the others are kept in order; other policies and other kinds are left alone, and
  the object is written back exactly when something changed.
\<close>

theorem RemoveNetworkPolicyPodSelector_exact:
  "RemoveNetworkPolicyPodSelector A pod =
     writeIfChanged A ''NetworkPolicy'' (networkPolicies A) (dropPodFromPolicy pod)"
  by (rule RemoveNetworkPolicyPodSelector_edit)

end
