(* ===== verification/TransformPods.thy ===== *)
theory TransformPods
  imports TransformArgs TransformMeta
begin

text \<open>
  The transformers of \<^verbatim>\<open>internal/controller/keda/transform/transform.go\<close> that edit the pod
  template of a Deployment: environment variables, images, resources, scheduling and the seccomp
  profile.
\<close>

section \<open>Environment variables\<close>

definition setWatchNamespace :: "string \<Rightarrow> container \<Rightarrow> container \<times> bool" where
  "setWatchNamespace watchNamespace c =
     (let (env, changed) = edit_first (\<lambda>e. env_name e = ''WATCH_NAMESPACE'')
            (\<lambda>e. if env_value e \<noteq> watchNamespace then (e\<lparr>env_value := watchNamespace\<rparr>, True) else (e, False))
            (c_env c)
      in (c\<lparr>c_env := env\<rparr>, changed))"

definition ReplaceWatchNamespace :: "'u api \<Rightarrow> string \<Rightarrow> string \<Rightarrow> 'u transformer" where
  "ReplaceWatchNamespace A watchNamespace containerName =
     onDeployment A (editContainer containerName (setWatchNamespace watchNamespace))"

text \<open>
  \<open>ReplaceContainerEnv\<close> ranges over the new variables and, for each, over the slice as it is at
  that moment.
\<close>

definition mergeEnv :: "envVar list \<Rightarrow> envVar list \<Rightarrow> envVar list" where
  "mergeEnv envVars existing = fold (upsert_first env_name) envVars existing"

definition replaceContainerEnv :: "envVar list \<Rightarrow> string \<Rightarrow> deployment \<Rightarrow> deployment" where
  "replaceContainerEnv envVars containerName =
     updContainer containerName (\<lambda>c. c\<lparr>c_env := mergeEnv envVars (c_env c)\<rparr>)"

definition ReplaceContainerEnv :: "'u api \<Rightarrow> envVar list \<Rightarrow> string \<Rightarrow> 'u transformer" where
  "ReplaceContainerEnv A envVars containerName = onDeployment A (always (replaceContainerEnv envVars containerName))"

text \<open>The loop body of \<open>EnsureEnvVarInAllContainers\<close> for one container, with its \<open>changed\<close> flag.\<close>

definition ensureEnvVar :: "string \<Rightarrow> string \<Rightarrow> container \<Rightarrow> container \<times> bool" where
  "ensureEnvVar name v c =
     (if list_ex (\<lambda>e. env_name e = name) (c_env c) then
        (let (env, changed) = edit_first (\<lambda>e. env_name e = name)
               (\<lambda>e. if env_value e \<noteq> v then (e\<lparr>env_value := v\<rparr>, True) else (e, False)) (c_env c)
         in (c\<lparr>c_env := env\<rparr>, changed))
      else (c\<lparr>c_env := c_env c @ [\<lparr>env_name = name, env_value = v, env_valueFrom = None\<rparr>]\<rparr>, True))"

definition ensureEnvVarInAll :: "string \<Rightarrow> string \<Rightarrow> deployment \<Rightarrow> deployment \<times> bool" where
  "ensureEnvVarInAll name v d =
     (setContainers (map (\<lambda>c. fst (ensureEnvVar name v c)) (containers d)) d,
      list_ex (\<lambda>c. snd (ensureEnvVar name v c)) (containers d))"

definition EnsureEnvVarInAllContainers :: "'u api \<Rightarrow> string \<Rightarrow> string \<Rightarrow> 'u transformer" where
  "EnsureEnvVarInAllContainers A name v = onDeployment A (ensureEnvVarInAll name v)"

section \<open>Images, resources, scheduling\<close>

definition replaceContainerImage :: "'u api \<Rightarrow> string \<Rightarrow> string \<Rightarrow> 'u transformer" where
  "replaceContainerImage A img containerName =
     onDeployment A (always (updContainer containerName (\<lambda>c. c\<lparr>c_image := img\<rparr>)))"

definition ReplaceMetricsServerImage :: "'u api \<Rightarrow> string \<Rightarrow> 'u transformer" where
  "ReplaceMetricsServerImage A img = replaceContainerImage A img containerNameMetricsServer"

definition ReplaceKedaOperatorImage :: "'u api \<Rightarrow> string \<Rightarrow> 'u transformer" where
  "ReplaceKedaOperatorImage A img = replaceContainerImage A img containerNameKedaOperator"

definition ReplaceAdmissionWebhooksImage :: "'u api \<Rightarrow> string \<Rightarrow> 'u transformer" where
  "ReplaceAdmissionWebhooksImage A img = replaceContainerImage A img containerNameAdmissionWebhooks"

definition ReplaceContainerImage :: "'u api \<Rightarrow> string \<Rightarrow> string \<Rightarrow> 'u transformer" where
  "ReplaceContainerImage A img containerName = replaceContainerImage A img containerName"

definition replaceResources :: "'u api \<Rightarrow> resourceRequirements \<Rightarrow> string \<Rightarrow> 'u transformer" where
  "replaceResources A resources containerName =
     onDeployment A (always (updContainer containerName (\<lambda>c. c\<lparr>c_resources := resources\<rparr>)))"

definition ReplaceKedaOperatorResources :: "'u api \<Rightarrow> resourceRequirements \<Rightarrow> 'u transformer" where
  "ReplaceKedaOperatorResources A resources = replaceResources A resources containerNameKedaOperator"

definition ReplaceMetricsServerResources :: "'u api \<Rightarrow> resourceRequirements \<Rightarrow> 'u transformer" where
  "ReplaceMetricsServerResources A resources = replaceResources A resources containerNameMetricsServer"

definition ReplaceAdmissionWebhooksResources :: "'u api \<Rightarrow> resourceRequirements \<Rightarrow> 'u transformer" where
  "ReplaceAdmissionWebhooksResources A resources = replaceResources A resources containerNameAdmissionWebhooks"

definition ReplaceContainerResources :: "'u api \<Rightarrow> resourceRequirements \<Rightarrow> string \<Rightarrow> 'u transformer" where
  "ReplaceContainerResources A resources containerName = replaceResources A resources containerName"

definition ReplaceNodeSelector :: "'u api \<Rightarrow> smap \<Rightarrow> 'u transformer" where
  "ReplaceNodeSelector A nodeSelector =
     onDeployment A (always (updSpec (\<lambda>s. s\<lparr>ps_nodeSelector := nodeSelector\<rparr>)))"

definition ReplaceTolerations :: "'u api \<Rightarrow> json list \<Rightarrow> 'u transformer" where
  "ReplaceTolerations A tolerations =
     onDeployment A (always (updSpec (\<lambda>s. s\<lparr>ps_tolerations := tolerations\<rparr>)))"

definition ReplaceAffinity :: "'u api \<Rightarrow> json option \<Rightarrow> 'u transformer" where
  "ReplaceAffinity A affinity = onDeployment A (always (updSpec (\<lambda>s. s\<lparr>ps_affinity := affinity\<rparr>)))"

definition ReplacePriorityClassName :: "'u api \<Rightarrow> string \<Rightarrow> 'u transformer" where
  "ReplacePriorityClassName A priorityClassName =
     onDeployment A (always (updSpec (\<lambda>s. s\<lparr>ps_priorityClassName := priorityClassName\<rparr>)))"

definition ReplaceReplicas :: "'u api \<Rightarrow> int32 option \<Rightarrow> 'u transformer" where
  "ReplaceReplicas A replicas = onDeployment A (always (\<lambda>d. d\<lparr>d_replicas := replicas\<rparr>))"

section \<open>The seccomp profile\<close>

definition runtimeDefault :: "securityContext option \<Rightarrow> bool" where
  "runtimeDefault sc =
     (case sc of None \<Rightarrow> False
      | Some c \<Rightarrow> (case sc_seccompProfile c of None \<Rightarrow> False | Some p \<Rightarrow> sp_type p = ''RuntimeDefault''))"

definition clearSeccomp :: "securityContext option \<Rightarrow> securityContext option" where
  "clearSeccomp sc = map_option (\<lambda>c. c\<lparr>sc_seccompProfile := None\<rparr>) sc"

text \<open>
  The container loop breaks only where it clears a profile: it acts on the first container of the
  name that has the runtime default, not merely on the first container of the name.
\<close>

definition removeSeccompProfile :: "string \<Rightarrow> deployment \<Rightarrow> deployment \<times> bool" where
  "removeSeccompProfile containerName d =
     (let podSC = ps_securityContext (pt_spec (d_template d));
          d1 = (if runtimeDefault podSC
                then updSpec (\<lambda>s. s\<lparr>ps_securityContext := clearSeccomp podSC\<rparr>) d else d);
          (cs, changed) = edit_first (\<lambda>c. c_name c = containerName \<and> runtimeDefault (c_securityContext c))
            (\<lambda>c. (c\<lparr>c_securityContext := clearSeccomp (c_securityContext c)\<rparr>, True)) (containers d)
      in (setContainers cs d1, runtimeDefault podSC \<or> changed))"

definition RemoveSeccompProfile :: "'u api \<Rightarrow> string \<Rightarrow> 'u transformer" where
  "RemoveSeccompProfile A containerName = onDeployment A (removeSeccompProfile containerName)"

definition RemoveSeccompProfileFromKedaOperator :: "'u api \<Rightarrow> 'u transformer" where
  "RemoveSeccompProfileFromKedaOperator A = RemoveSeccompProfile A containerNameKedaOperator"

definition RemoveSeccompProfileFromMetricsServer :: "'u api \<Rightarrow> 'u transformer" where
  "RemoveSeccompProfileFromMetricsServer A = RemoveSeccompProfile A containerNameMetricsServer"

definition RemoveSeccompProfileFromAdmissionWebhooks :: "'u api \<Rightarrow> 'u transformer" where
  "RemoveSeccompProfileFromAdmissionWebhooks A = RemoveSeccompProfile A containerNameAdmissionWebhooks"

section \<open>The contracts of the edits\<close>

lemma env_value_eq_iff: "e\<lparr>env_value := v\<rparr> = e \<longleftrightarrow> env_value e = v"
proof
  assume "e\<lparr>env_value := v\<rparr> = e"
  then have "env_value (e\<lparr>env_value := v\<rparr>) = env_value e" by simp
  then show "env_value e = v" by simp
qed simp

lemma c_env_eq_iff: "c\<lparr>c_env := es\<rparr> = c \<longleftrightarrow> es = c_env c"
proof
  assume "c\<lparr>c_env := es\<rparr> = c"
  then have "c_env (c\<lparr>c_env := es\<rparr>) = c_env c" by simp
  then show "es = c_env c" by simp
qed simp

lemma c_securityContext_eq_iff: "c\<lparr>c_securityContext := s\<rparr> = c \<longleftrightarrow> s = c_securityContext c"
proof
  assume "c\<lparr>c_securityContext := s\<rparr> = c"
  then have "c_securityContext (c\<lparr>c_securityContext := s\<rparr>) = c_securityContext c" by simp
  then show "s = c_securityContext c" by simp
qed simp

abbreviation setEnvValue :: "string \<Rightarrow> envVar \<Rightarrow> envVar \<times> bool" where
  "setEnvValue v e \<equiv> (if env_value e \<noteq> v then (e\<lparr>env_value := v\<rparr>, True) else (e, False))"

lemma fst_setEnvValue: "(\<lambda>e. fst (setEnvValue v e)) = (\<lambda>e. e\<lparr>env_value := v\<rparr>)"
  by (rule ext) (simp add: env_value_eq_iff)

interpretation envValue: tracked_edit "setEnvValue v" for v
  by unfold_locales (auto simp: env_value_eq_iff)

interpretation watch: tracked_container_edit "setWatchNamespace w" for w
proof
  fix c
  show "snd (setWatchNamespace w c) \<longleftrightarrow> fst (setWatchNamespace w c) \<noteq> c"
    using envValue.edit_first_exact [of "\<lambda>e. env_name e = ''WATCH_NAMESPACE''" w "c_env c"]
    by (simp add: setWatchNamespace_def split_def Let_def c_env_eq_iff)
  show "c_name (fst (setWatchNamespace w c)) = c_name c"
    by (simp add: setWatchNamespace_def split_def Let_def)
qed

interpretation ensureEnv: tracked_container_edit "ensureEnvVar n v" for n v
proof
  fix c
  show "snd (ensureEnvVar n v c) \<longleftrightarrow> fst (ensureEnvVar n v c) \<noteq> c"
    using envValue.edit_first_exact [of "\<lambda>e. env_name e = n" v "c_env c"]
    by (simp add: ensureEnvVar_def split_def Let_def c_env_eq_iff)
  show "c_name (fst (ensureEnvVar n v c)) = c_name c"
    by (simp add: ensureEnvVar_def split_def Let_def)
qed

lemma map_eq_self: "map f xs = xs \<longleftrightarrow> (\<forall>x \<in> set xs. f x = x)"
  by (induction xs) auto

interpretation allEnv: tracked_edit "ensureEnvVarInAll n v" for n v
proof
  fix d
  show "snd (ensureEnvVarInAll n v d) \<longleftrightarrow> fst (ensureEnvVarInAll n v d) \<noteq> d"
    by (auto simp: ensureEnvVarInAll_def setContainers_eq_iff map_eq_self list_ex_iff ensureEnv.exact)
qed

interpretation env: container_edit "\<lambda>c. c\<lparr>c_env := mergeEnv es (c_env c)\<rparr>" for es
  by unfold_locales simp

interpretation img: container_edit "\<lambda>c. c\<lparr>c_image := i\<rparr>" for i
  by unfold_locales simp

interpretation res: container_edit "\<lambda>c. c\<lparr>c_resources := r\<rparr>" for r
  by unfold_locales simp

section \<open>Environment variables: what the loops compute\<close>

lemma mergeEnv_lookup:
  "lookup_by env_name k (mergeEnv envVars es) =
     (case lookup_by env_name k (rev envVars) of None \<Rightarrow> lookup_by env_name k es | Some e \<Rightarrow> Some e)"
  by (simp add: mergeEnv_def first_store.fold_put_lookup)

lemma mergeEnv_distinct: "distinct (map env_name es) \<Longrightarrow> distinct (map env_name (mergeEnv envVars es))"
  by (simp add: mergeEnv_def first_store.fold_put_distinct)

text \<open>
  User-defined environment variables take precedence: after \<open>ReplaceContainerEnv\<close> every
  variable of the named container is the last one given for its name, if any, and the previous
  one otherwise; a container without repeated variables has none afterwards; the other
  containers and the volumes are untouched.
\<close>

theorem ReplaceContainerEnv_last_wins:
  assumes "lookup_by c_name n (containers d) = Some c"
  shows "\<exists>c'. lookup_by c_name n (containers (replaceContainerEnv envVars n d)) = Some c'
      \<and> (\<forall>k. lookup_by env_name k (c_env c') =
           (case lookup_by env_name k (rev envVars) of None \<Rightarrow> lookup_by env_name k (c_env c) | Some e \<Rightarrow> Some e))
      \<and> (distinct (map env_name (c_env c)) \<longrightarrow> distinct (map env_name (c_env c')))
      \<and> c_args c' = c_args c \<and> c_volumeMounts c' = c_volumeMounts c
    \<and> (\<forall>m. m \<noteq> n \<longrightarrow> lookup_by c_name m (containers (replaceContainerEnv envVars n d)) =
           lookup_by c_name m (containers d))
    \<and> volumes (replaceContainerEnv envVars n d) = volumes d"
  using assms
  by (auto simp: replaceContainerEnv_def env.lookup_container mergeEnv_lookup mergeEnv_distinct)

theorem ReplaceContainerEnv_last_wins_witness:
  "\<exists>c'. lookup_by c_name ''keda-operator'' (containers (replaceContainerEnv
        [\<lparr>env_name = ''A'', env_value = ''1'', env_valueFrom = None\<rparr>, \<lparr>env_name = ''A'', env_value = ''2'', env_valueFrom = None\<rparr>]
        ''keda-operator'' (demoDeployment (demoMeta ''keda-operator'' ''keda'') [demoContainer ''keda-operator'']))) = Some c'
     \<and> lookup_by env_name ''A'' (c_env c') = Some \<lparr>env_name = ''A'', env_value = ''2'', env_valueFrom = None\<rparr>"
proof -
  let ?d = "demoDeployment (demoMeta ''keda-operator'' ''keda'') [demoContainer ''keda-operator'']"
  have "lookup_by c_name ''keda-operator'' (containers ?d) = Some (demoContainer ''keda-operator'')"
    by (simp add: demoDeployment_def containers_def demoContainer_def)
  from ReplaceContainerEnv_last_wins [OF this, of "[\<lparr>env_name = ''A'', env_value = ''1'', env_valueFrom = None\<rparr>,
      \<lparr>env_name = ''A'', env_value = ''2'', env_valueFrom = None\<rparr>]"]
  obtain c' where "lookup_by c_name ''keda-operator'' (containers (replaceContainerEnv
      [\<lparr>env_name = ''A'', env_value = ''1'', env_valueFrom = None\<rparr>,
       \<lparr>env_name = ''A'', env_value = ''2'', env_valueFrom = None\<rparr>] ''keda-operator'' ?d)) = Some c'"
    and "lookup_by env_name ''A'' (c_env c') = Some \<lparr>env_name = ''A'', env_value = ''2'', env_valueFrom = None\<rparr>"
    by fastforce
  then show ?thesis by blast
qed

lemma ensureEnvVar_lookup:
  "lookup_by env_name n (c_env (fst (ensureEnvVar n v c))) =
     (case lookup_by env_name n (c_env c) of
        None \<Rightarrow> Some \<lparr>env_name = n, env_value = v, env_valueFrom = None\<rparr>
      | Some e \<Rightarrow> Some (e\<lparr>env_value := v\<rparr>))"
proof (cases "list_ex (\<lambda>e. env_name e = n) (c_env c)")
  case True
  have "c_env (fst (ensureEnvVar n v c)) =
      upd_first (\<lambda>e. env_name e = n) (\<lambda>e. e\<lparr>env_value := v\<rparr>) (c_env c)"
    using True by (simp add: ensureEnvVar_def split_def Let_def fst_edit_first fst_setEnvValue)
  then show ?thesis
    using True by (auto simp: lookup_by_upd_first list_ex_iff lookup_by_None_iff split: option.splits)
next
  case False
  then have "lookup_by env_name n (c_env c) = None"
    by (auto simp: lookup_by_None_iff list_ex_iff)
  then show ?thesis using False by (simp add: ensureEnvVar_def lookup_by_append)
qed

lemma ensureEnvVar_lookup_other:
  "k \<noteq> n \<Longrightarrow> lookup_by env_name k (c_env (fst (ensureEnvVar n v c))) = lookup_by env_name k (c_env c)"
  by (auto simp: ensureEnvVar_def split_def Let_def fst_edit_first fst_setEnvValue lookup_by_upd_first
      lookup_by_append split: option.splits)

text \<open>
  \<open>EnsureEnvVarInAllContainers\<close> is equivalent to its specification, which writes back exactly
  what changed, and afterwards the variable has the value in every container. Only the value is
  set: a variable that took it from a reference keeps the reference beside the value.
\<close>

theorem EnsureEnvVarInAllContainers_exact:
  "EnsureEnvVarInAllContainers A n v =
     writeIfChanged A ''Deployment'' (deployments A) (\<lambda>d. fst (ensureEnvVarInAll n v d))
   \<and> map (\<lambda>c. lookup_by env_name n (c_env c)) (containers (fst (ensureEnvVarInAll n v d))) =
       map (\<lambda>c. case lookup_by env_name n (c_env c) of
              None \<Rightarrow> Some \<lparr>env_name = n, env_value = v, env_valueFrom = None\<rparr>
            | Some e \<Rightarrow> Some (e\<lparr>env_value := v\<rparr>)) (containers d)"
  by (simp add: EnsureEnvVarInAllContainers_def onDeployment_def allEnv.convertEdit_exact)
    (simp add: ensureEnvVarInAll_def ensureEnvVar_lookup)

section \<open>The seccomp profile: what is removed\<close>

lemma clearSeccomp_changes: "runtimeDefault sc \<Longrightarrow> clearSeccomp sc \<noteq> sc"
proof
  assume "runtimeDefault sc" and same: "clearSeccomp sc = sc"
  then obtain c p where c: "sc = Some c" "sc_seccompProfile c = Some p"
    by (auto simp: runtimeDefault_def split: option.splits)
  then have "c\<lparr>sc_seccompProfile := None\<rparr> = c" using same by (simp add: clearSeccomp_def)
  then have "sc_seccompProfile (c\<lparr>sc_seccompProfile := None\<rparr>) = sc_seccompProfile c" by simp
  then show False using c by simp
qed

lemma not_runtimeDefault_clear: "\<not> runtimeDefault (clearSeccomp sc)"
  by (cases sc) (simp_all add: runtimeDefault_def clearSeccomp_def)

lemma clearContainer_changes:
  "runtimeDefault (c_securityContext c) \<Longrightarrow> c\<lparr>c_securityContext := clearSeccomp (c_securityContext c)\<rparr> \<noteq> c"
  by (simp add: c_securityContext_eq_iff clearSeccomp_changes)

text \<open>What is left: the pod-level profile and that of the first container that has one to clear.\<close>

definition dropSeccomp :: "string \<Rightarrow> deployment \<Rightarrow> deployment" where
  "dropSeccomp n d =
     setContainers (upd_first (\<lambda>c. c_name c = n \<and> runtimeDefault (c_securityContext c))
         (\<lambda>c. c\<lparr>c_securityContext := clearSeccomp (c_securityContext c)\<rparr>) (containers d))
       (updSpec (\<lambda>s. s\<lparr>ps_securityContext := (if runtimeDefault (ps_securityContext s)
          then clearSeccomp (ps_securityContext s) else ps_securityContext s)\<rparr>) d)"

lemma updSpec_same: "f (pt_spec (d_template d)) = pt_spec (d_template d) \<Longrightarrow> updSpec f d = d"
  by (simp add: updSpec_def)

lemma updSpec_cong:
  "f (pt_spec (d_template d)) = g (pt_spec (d_template d)) \<Longrightarrow> updSpec f d = updSpec g d"
  by (simp add: updSpec_def)

lemma podSpec_securityContext [simp]:
  "ps_securityContext (pt_spec (d_template (setContainers cs d))) = ps_securityContext (pt_spec (d_template d))"
  "ps_securityContext (pt_spec (d_template (updSpec f d))) = ps_securityContext (f (pt_spec (d_template d)))"
  by (simp_all add: setContainers_def updSpec_def)

lemma fst_removeSeccompProfile: "fst (removeSeccompProfile n d) = dropSeccomp n d"
proof -
  let ?sc = "ps_securityContext (pt_spec (d_template d))"
  let ?f = "\<lambda>s. s\<lparr>ps_securityContext := (if runtimeDefault (ps_securityContext s)
    then clearSeccomp (ps_securityContext s) else ps_securityContext s)\<rparr>"
  have "(if runtimeDefault ?sc then updSpec (\<lambda>s. s\<lparr>ps_securityContext := clearSeccomp ?sc\<rparr>) d else d) = updSpec ?f d"
    by (cases "runtimeDefault ?sc") (auto intro: updSpec_cong updSpec_same [symmetric])
  then show ?thesis
    by (simp add: removeSeccompProfile_def dropSeccomp_def split_def Let_def fst_edit_first)
qed

lemma edit_first_always_exact:
  "(\<And>x. p x \<Longrightarrow> f x \<noteq> x) \<Longrightarrow> snd (edit_first p (\<lambda>x. (f x, True)) xs) \<longleftrightarrow> upd_first p f xs \<noteq> xs"
  by (induction xs) (auto simp: split_def Let_def)

interpretation seccomp: tracked_edit "removeSeccompProfile n" for n
proof
  fix d :: deployment
  let ?p = "\<lambda>c. c_name c = n \<and> runtimeDefault (c_securityContext c)"
  let ?f = "\<lambda>c. c\<lparr>c_securityContext := clearSeccomp (c_securityContext c)\<rparr>"
  let ?sc = "ps_securityContext (pt_spec (d_template d))"
  have "snd (edit_first ?p (\<lambda>c. (?f c, True)) (containers d)) \<longleftrightarrow> upd_first ?p ?f (containers d) \<noteq> containers d"
    using clearContainer_changes by (intro edit_first_always_exact) blast
  then have flag: "snd (removeSeccompProfile n d) \<longleftrightarrow>
      runtimeDefault ?sc \<or> upd_first ?p ?f (containers d) \<noteq> containers d"
    by (simp add: removeSeccompProfile_def split_def Let_def)
  have parts: "containers (dropSeccomp n d) = upd_first ?p ?f (containers d)"
    "ps_securityContext (pt_spec (d_template (dropSeccomp n d))) = (if runtimeDefault ?sc then clearSeccomp ?sc else ?sc)"
    by (simp_all add: dropSeccomp_def)
  have "dropSeccomp n d = d" if "\<not> runtimeDefault ?sc" "upd_first ?p ?f (containers d) = containers d"
  proof -
    have "updSpec (\<lambda>s. s\<lparr>ps_securityContext := (if runtimeDefault (ps_securityContext s)
        then clearSeccomp (ps_securityContext s) else ps_securityContext s)\<rparr>) d = d"
      using that(1) by (intro updSpec_same) simp
    then show ?thesis using that(2) by (simp add: dropSeccomp_def)
  qed
  then show "snd (removeSeccompProfile n d) \<longleftrightarrow> fst (removeSeccompProfile n d) \<noteq> d"
    unfolding flag fst_removeSeccompProfile using parts clearSeccomp_changes [of ?sc] by (metis (full_types))
qed

lemma dropSeccomp_none_left:
  assumes "distinct (map c_name (containers d))" and "lookup_by c_name n (containers (dropSeccomp n d)) = Some c"
  shows "\<not> runtimeDefault (c_securityContext c)"
proof -
  let ?f = "\<lambda>c. c\<lparr>c_securityContext := clearSeccomp (c_securityContext c)\<rparr>"
  have "lookup_by c_name n (upd_first (\<lambda>c. c_name c = n \<and> runtimeDefault (c_securityContext c)) ?f cs) = Some c \<Longrightarrow>
      distinct (map c_name cs) \<Longrightarrow> \<not> runtimeDefault (c_securityContext c)" for cs
    by (induction cs) (auto simp: not_runtimeDefault_clear split: if_splits)
  then show ?thesis using assms by (simp add: dropSeccomp_def)
qed

text \<open>
  On clusters that do not support it, \<open>RemoveSeccompProfile\<close> takes the \<open>RuntimeDefault\<close> profile
  away: for a Deployment whose containers have distinct names the transformer succeeds exactly
  as the specification that writes back what changed, and afterwards neither the pod nor the
  named container has the profile.
\<close>

theorem RemoveSeccompProfile_removes:
  assumes "distinct (map c_name (containers d))"
  shows "RemoveSeccompProfile A n = writeIfChanged A ''Deployment'' (deployments A) (dropSeccomp n)
    \<and> \<not> runtimeDefault (ps_securityContext (pt_spec (d_template (dropSeccomp n d))))
    \<and> (\<forall>c. lookup_by c_name n (containers (dropSeccomp n d)) = Some c \<longrightarrow> \<not> runtimeDefault (c_securityContext c))
    \<and> volumes (dropSeccomp n d) = volumes d"
proof -
  have "RemoveSeccompProfile A n = writeIfChanged A ''Deployment'' (deployments A) (dropSeccomp n)"
    by (simp add: RemoveSeccompProfile_def onDeployment_def seccomp.convertEdit_exact fst_removeSeccompProfile)
  then show ?thesis
    using dropSeccomp_none_left [OF assms]
    by (auto simp: dropSeccomp_def not_runtimeDefault_clear volumes_def [symmetric])
qed

theorem RemoveSeccompProfile_removes_witness:
  "let c = (demoContainer ''keda-operator'')\<lparr>c_securityContext := Some \<lparr>sc_seccompProfile =
         Some \<lparr>sp_type = ''RuntimeDefault'', sp_localhostProfile = None\<rparr>, sc_rest = JNull\<rparr>\<rparr>;
       d = demoDeployment (demoMeta ''keda-operator'' ''keda'') [c, demoContainer ''sidecar'']
   in runtimeDefault (c_securityContext c) \<and>
      (\<forall>c'. lookup_by c_name ''keda-operator'' (containers (dropSeccomp ''keda-operator'' d)) = Some c' \<longrightarrow>
         \<not> runtimeDefault (c_securityContext c'))"
proof -
  let ?c = "(demoContainer ''keda-operator'')\<lparr>c_securityContext := Some \<lparr>sc_seccompProfile =
    Some \<lparr>sp_type = ''RuntimeDefault'', sp_localhostProfile = None\<rparr>, sc_rest = JNull\<rparr>\<rparr>"
  have "distinct (map c_name (containers (demoDeployment (demoMeta ''keda-operator'' ''keda'')
      [?c, demoContainer ''sidecar''])))"
    by (simp add: demoDeployment_def containers_def demoContainer_def)
  moreover have "runtimeDefault (c_securityContext ?c)" by (simp add: runtimeDefault_def)
  ultimately show ?thesis
    unfolding Let_def using RemoveSeccompProfile_removes by blast
qed

end
