(* ===== verification/TransformVolumes.thy ===== *)
theory TransformVolumes
  imports TransformPods
begin

text \<open>
  The transformers of \<^verbatim>\<open>internal/controller/keda/transform/transform.go\<close> that edit the volumes of
  a Deployment and the volume mounts of its containers: certificates, audit policy and log, the
  user's volumes and mounts, and the CA certificate ConfigMaps.
\<close>

section \<open>Volumes\<close>

definition mount :: "string \<Rightarrow> string \<Rightarrow> bool \<Rightarrow> volumeMount" where
  "mount name path ro = \<lparr>vm_name = name, vm_mountPath = path, vm_readOnly = ro, vm_rest = JNull\<rparr>"

text \<open>
  Several transformers share a tail: store a volume under its name (replacing every volume of
  that name), and store a mount in the first container of a name.
\<close>

definition ensureVolume :: "volume \<Rightarrow> deployment \<Rightarrow> deployment" where
  "ensureVolume v d = setVolumes (upsert_all vol_name v (volumes d)) d"

definition ensureMount :: "string \<Rightarrow> volumeMount \<Rightarrow> deployment \<Rightarrow> deployment" where
  "ensureMount containerName m =
     updContainer containerName (\<lambda>c. c\<lparr>c_volumeMounts := upsert_all vm_name m (c_volumeMounts c)\<rparr>)"

definition kedaOperatorEnsureCertificates :: "string \<Rightarrow> string \<Rightarrow> deployment \<Rightarrow> deployment" where
  "kedaOperatorEnsureCertificates serviceSecretName grpcClientCertsSecretName d =
     ensureMount containerNameAdmissionWebhooks (mount ''certificates'' ''/certs'' True)
       (ensureVolume \<lparr>vol_name = ''certificates'', vol_source = ProjectedSource
           [SecretProjection serviceSecretName [(''tls.crt'', ''tls.crt''), (''tls.key'', ''tls.key'')],
            SecretProjection grpcClientCertsSecretName [(''ca.crt'', ''ca.crt'')]]\<rparr> d)"

definition KedaOperatorEnsureCertificatesVolume :: "'u api \<Rightarrow> string \<Rightarrow> string \<Rightarrow> 'u transformer" where
  "KedaOperatorEnsureCertificatesVolume A serviceSecretName grpcClientCertsSecretName =
     onDeployment A (always (kedaOperatorEnsureCertificates serviceSecretName grpcClientCertsSecretName))"

definition admissionWebhooksEnsureCertificates :: "string \<Rightarrow> string \<Rightarrow> deployment \<Rightarrow> deployment" where
  "admissionWebhooksEnsureCertificates configMapName secretName d =
     ensureMount containerNameAdmissionWebhooks (mount ''certificates'' ''/certs'' True)
       (ensureVolume \<lparr>vol_name = ''certificates'', vol_source = ProjectedSource
           [SecretProjection secretName [],
            ConfigMapProjection configMapName [(''service-ca.crt'', ''ca.crt'')]]\<rparr> d)"

definition AdmissionWebhooksEnsureCertificatesVolume :: "'u api \<Rightarrow> string \<Rightarrow> string \<Rightarrow> 'u transformer" where
  "AdmissionWebhooksEnsureCertificatesVolume A configMapName secretName =
     onDeployment A (always (admissionWebhooksEnsureCertificates configMapName secretName))"

definition caCertVolPrefix :: string where "caCertVolPrefix = ''cabundle''"

text \<open>
  \<open>ensureCertificatesVolumeForDeployment\<close>: for the operator container also the \<open>cabundle\<close> volume.
  The code replaces entries of both names in one pass and appends what is missing afterwards,
  \<open>cabundle\<close> first; replacing never renames an entry, so this is one store after the other.
\<close>

definition ensureCertificates :: "string \<Rightarrow> string \<Rightarrow> string \<Rightarrow> deployment \<Rightarrow> deployment" where
  "ensureCertificates containerName configMapName secretName d =
     (let isOperator = (containerName = containerNameKedaOperator);
          d1 = (if isOperator
                then ensureVolume \<lparr>vol_name = caCertVolPrefix, vol_source = ConfigMapSource configMapName\<rparr> d else d);
          d2 = ensureVolume \<lparr>vol_name = ''certificates'', vol_source = ProjectedSource
                 [SecretProjection ''kedaorg-certs'' [(''tls.crt'', ''tls.crt''), (''tls.key'', ''tls.key'')],
                  SecretProjection secretName [(''tls.crt'', ''ocp-tls.crt''), (''tls.key'', ''ocp-tls.key'')],
                  ConfigMapProjection configMapName [(''service-ca.crt'', ''ca.crt'')]]\<rparr> d1;
          d3 = (if isOperator then ensureMount containerName (mount caCertVolPrefix ''/custom/ca'' False) d2 else d2)
      in ensureMount containerName (mount ''certificates'' ''/certs'' True) d3)"

definition ensureCertificatesVolumeForDeployment ::
  "'u api \<Rightarrow> string \<Rightarrow> string \<Rightarrow> string \<Rightarrow> 'u transformer" where
  "ensureCertificatesVolumeForDeployment A containerName configMapName secretName =
     onDeployment A (always (ensureCertificates containerName configMapName secretName))"

definition MetricsServerEnsureCertificatesVolume :: "'u api \<Rightarrow> string \<Rightarrow> string \<Rightarrow> 'u transformer" where
  "MetricsServerEnsureCertificatesVolume A configMapName secretName =
     ensureCertificatesVolumeForDeployment A containerNameMetricsServer configMapName secretName"

definition ensureAuditPolicy :: "string \<Rightarrow> deployment \<Rightarrow> deployment" where
  "ensureAuditPolicy configMapName d =
     ensureMount containerNameMetricsServer (mount ''audit-policy'' ''/var/audit-policy'' False)
       (ensureVolume \<lparr>vol_name = ''audit-policy'', vol_source = ConfigMapSource configMapName\<rparr> d)"

definition EnsureAuditPolicyConfigMapMountsVolume :: "'u api \<Rightarrow> string \<Rightarrow> 'u transformer" where
  "EnsureAuditPolicyConfigMapMountsVolume A configMapName =
     onDeployment A (always (ensureAuditPolicy configMapName))"

definition ensureAuditLog :: "string \<Rightarrow> string \<Rightarrow> deployment \<Rightarrow> deployment" where
  "ensureAuditLog pvc path d =
     ensureMount containerNameMetricsServer (mount ''audit-log'' path False)
       (ensureVolume \<lparr>vol_name = ''audit-log'', vol_source = PersistentVolumeClaimSource pvc\<rparr> d)"

definition EnsureAuditLogMount :: "'u api \<Rightarrow> string \<Rightarrow> string \<Rightarrow> 'u transformer" where
  "EnsureAuditLogMount A pvc path = onDeployment A (always (ensureAuditLog pvc path))"

text \<open>
  \<open>EnsureCertSecretVolume\<close> breaks after the first replacement, and looks only at the first
  container of the name.
\<close>

definition ensureCertSecret :: "string \<Rightarrow> string \<Rightarrow> deployment \<Rightarrow> deployment" where
  "ensureCertSecret containerName secretName d =
     (let volumeName = containerName @ ''-certs'';
          vol = \<lparr>vol_name = volumeName, vol_source = SecretSource secretName\<rparr>
      in updContainer containerName
           (\<lambda>c. c\<lparr>c_volumeMounts := upsert_first vm_name (mount volumeName ''/certs'' True) (c_volumeMounts c)\<rparr>)
           (setVolumes (upsert_first vol_name vol (volumes d)) d))"

definition EnsureCertSecretVolume :: "'u api \<Rightarrow> string \<Rightarrow> string \<Rightarrow> 'u transformer" where
  "EnsureCertSecretVolume A containerName secretName =
     onDeployment A (always (ensureCertSecret containerName secretName))"

text \<open>
  \<open>ReplaceDeploymentVolumes\<close> ranges over the slice as it was before the loop: a wanted volume
  replaces the first original volume of its name, and is appended when no original volume has its
  name, even if an earlier wanted volume of that name was appended.
\<close>

definition placeVolume :: "volume list \<Rightarrow> volume \<Rightarrow> volume list \<Rightarrow> volume list" where
  "placeVolume original v vs =
     (if list_ex (\<lambda>o'. vol_name o' = vol_name v) original
      then upd_first (\<lambda>o'. vol_name o' = vol_name v) (\<lambda>_. v) vs else vs @ [v])"

definition replaceDeploymentVolumes :: "volume list \<Rightarrow> deployment \<Rightarrow> deployment" where
  "replaceDeploymentVolumes desired d = setVolumes (fold (placeVolume (volumes d)) desired (volumes d)) d"

definition ReplaceDeploymentVolumes :: "'u api \<Rightarrow> volume list \<Rightarrow> 'u transformer" where
  "ReplaceDeploymentVolumes A desired = onDeployment A (always (replaceDeploymentVolumes desired))"

definition mergeMounts :: "volumeMount list \<Rightarrow> container \<Rightarrow> container" where
  "mergeMounts desired c = c\<lparr>c_volumeMounts := fold (upsert_first vm_name) desired (c_volumeMounts c)\<rparr>"

definition replaceDeploymentVolumeMounts :: "volumeMount list \<Rightarrow> deployment \<Rightarrow> deployment" where
  "replaceDeploymentVolumeMounts desired d =
     setContainers (map (\<lambda>c.
       if c_name c \<noteq> containerNameKedaOperator \<and> c_name c \<noteq> containerNameMetricsServer \<and>
          c_name c \<noteq> containerNameAdmissionWebhooks then c
       else mergeMounts desired c) (containers d)) d"

definition ReplaceDeploymentVolumeMounts :: "'u api \<Rightarrow> volumeMount list \<Rightarrow> 'u transformer" where
  "ReplaceDeploymentVolumeMounts A desired = onDeployment A (always (replaceDeploymentVolumeMounts desired))"

definition replaceContainerVolumeMounts :: "volumeMount list \<Rightarrow> string \<Rightarrow> deployment \<Rightarrow> deployment" where
  "replaceContainerVolumeMounts desired containerName d =
     setContainers (map (\<lambda>c. if c_name c \<noteq> containerName then c else mergeMounts desired c) (containers d)) d"

definition ReplaceContainerVolumeMounts :: "'u api \<Rightarrow> volumeMount list \<Rightarrow> string \<Rightarrow> 'u transformer" where
  "ReplaceContainerVolumeMounts A desired containerName =
     onDeployment A (always (replaceContainerVolumeMounts desired containerName))"

section \<open>CA certificates\<close>

text \<open>
  \<open>ensureCACertVolumesAndMounts\<close> keeps its new volumes in a Go map keyed by ConfigMap name and its
  new mounts in one keyed by volume name. A Go map is an association list with distinct keys here,
  and \<open>ordV\<close> and \<open>ordM\<close> are the orders in which the run time happens to range over the two.
\<close>

fun mapPut :: "'k \<Rightarrow> 'v \<Rightarrow> ('k \<times> 'v) list \<Rightarrow> ('k \<times> 'v) list" where
  "mapPut k v [] = [(k, v)]"
| "mapPut k v (kv # kvs) = (if fst kv = k then (k, v) # kvs else kv # mapPut k v kvs)"

definition caVolume :: "nat \<Rightarrow> string \<Rightarrow> volume" where
  "caVolume i configMapName = \<lparr>vol_name = caCertVolPrefix @ Itoa i, vol_source = ConfigMapSource configMapName\<rparr>"

definition caMount :: "nat \<Rightarrow> volumeMount" where
  "caMount i = mount (caCertVolPrefix @ Itoa i) (''/custom/ca'' @ Itoa i) False"

definition cabundleVolumes :: "string list \<Rightarrow> (string \<times> volume) list" where
  "cabundleVolumes names =
     fold (\<lambda>(i, n). mapPut n (caVolume i n)) (enumerate 0 names) []"

definition cabundleVolumeMounts :: "string list \<Rightarrow> (string \<times> volumeMount) list" where
  "cabundleVolumeMounts names =
     fold (\<lambda>(i, n). mapPut (caCertVolPrefix @ Itoa i) (caMount i)) (enumerate 0 names) []"

text \<open>The loop over the entries present, and the one that appends what was not found.\<close>

definition keptEntry :: "('a \<Rightarrow> string) \<Rightarrow> (string \<times> 'a) list \<Rightarrow> 'a \<Rightarrow> 'a list" where
  "keptEntry name new x =
     (case map_of new (name x) of
        Some y \<Rightarrow> [y]
      | None \<Rightarrow> if HasPrefix (name x) caCertVolPrefix then [] else [x])"

definition refreshEntries ::
  "('a \<Rightarrow> string) \<Rightarrow> ((string \<times> 'a) list \<Rightarrow> (string \<times> 'a) list) \<Rightarrow> (string \<times> 'a) list \<Rightarrow> 'a list \<Rightarrow> 'a list" where
  "refreshEntries name ord new present =
     concat (map (keptEntry name new) present) @
     map snd (filter (\<lambda>(k, _). k \<notin> name ` set present) (ord new))"

definition ensureCACerts ::
  "((string \<times> volume) list \<Rightarrow> (string \<times> volume) list) \<Rightarrow>
   ((string \<times> volumeMount) list \<Rightarrow> (string \<times> volumeMount) list) \<Rightarrow>
   string list \<Rightarrow> string \<Rightarrow> deployment \<Rightarrow> deployment" where
  "ensureCACerts ordV ordM configMapNames containerName d =
     updContainer containerName
       (\<lambda>c. c\<lparr>c_volumeMounts := refreshEntries vm_name ordM (cabundleVolumeMounts configMapNames) (c_volumeMounts c)\<rparr>)
       (setVolumes (refreshEntries vol_name ordV (cabundleVolumes configMapNames) (volumes d)) d)"

definition ensureCACertVolumesAndMounts ::
  "'u api \<Rightarrow> ((string \<times> volume) list \<Rightarrow> (string \<times> volume) list) \<Rightarrow>
   ((string \<times> volumeMount) list \<Rightarrow> (string \<times> volumeMount) list) \<Rightarrow>
   string list \<Rightarrow> string \<Rightarrow> 'u transformer" where
  "ensureCACertVolumesAndMounts A ordV ordM configMapNames containerName =
     onDeployment A (always (ensureCACerts ordV ordM configMapNames containerName))"

definition caDirs :: "string list \<Rightarrow> string list" where
  "caDirs configMapNames = map (\<lambda>i. ''/custom/ca'' @ Itoa i) [0..<length configMapNames]"

definition EnsureCACertsForOperatorDeployment ::
  "'u api \<Rightarrow> ((string \<times> volume) list \<Rightarrow> (string \<times> volume) list) \<Rightarrow>
   ((string \<times> volumeMount) list \<Rightarrow> (string \<times> volumeMount) list) \<Rightarrow> string list \<Rightarrow> 'u transformer list" where
  "EnsureCACertsForOperatorDeployment A ordV ordM configMapNames =
     [replaceContainerArgs A (caDirs configMapNames) CADir containerNameKedaOperator,
      ensureCACertVolumesAndMounts A ordV ordM configMapNames containerNameKedaOperator]"

definition EnsureCACertsForInterceptorDeployment ::
  "'u api \<Rightarrow> ((string \<times> volume) list \<Rightarrow> (string \<times> volume) list) \<Rightarrow>
   ((string \<times> volumeMount) list \<Rightarrow> (string \<times> volumeMount) list) \<Rightarrow>
   string list \<Rightarrow> string \<Rightarrow> 'u transformer list" where
  "EnsureCACertsForInterceptorDeployment A ordV ordM configMapNames containerName =
     [ReplaceContainerEnv A
        [\<lparr>env_name = ''KEDA_HTTP_TLS_CA_DIRS'', env_value = Join (caDirs configMapNames) '','', env_valueFrom = None\<rparr>]
        containerName,
      ensureCACertVolumesAndMounts A ordV ordM configMapNames containerName]"

section \<open>The contracts of the edits\<close>

interpretation mnt: container_edit "\<lambda>c. c\<lparr>c_volumeMounts := f (c_volumeMounts c)\<rparr>" for f
  by unfold_locales simp

lemma c_name_mergeMounts [simp]: "c_name (mergeMounts ms c) = c_name c"
  by (simp add: mergeMounts_def)

interpretation dvm: deployment_edit "replaceDeploymentVolumeMounts ms" for ms
  by unfold_locales (simp_all add: replaceDeploymentVolumeMounts_def)

interpretation cvm: deployment_edit "replaceContainerVolumeMounts ms n" for ms n
  by unfold_locales (simp_all add: replaceContainerVolumeMounts_def)

interpretation dvol: deployment_edit "replaceDeploymentVolumes vs" for vs
  by unfold_locales (simp_all add: replaceDeploymentVolumes_def)

section \<open>Volumes and mounts: what the loops compute\<close>

lemma placeVolume_names:
  "vol_name ` set (placeVolume os v vs) \<subseteq> insert (vol_name v) (vol_name ` set vs)"
  by (auto simp: placeVolume_def dest: subsetD [OF set_upd_first_subset] split: if_splits)

lemma placeVolume_upsert:
  assumes "vol_name v \<in> vol_name ` set vs \<longleftrightarrow> vol_name v \<in> vol_name ` set os"
  shows "placeVolume os v vs = upsert_first vol_name v vs"
proof (cases "vol_name v \<in> vol_name ` set vs")
  case True
  then have "upd_first (\<lambda>o'. vol_name o' = vol_name v) (\<lambda>_. v) vs = upsert_first vol_name v vs"
    by (induction vs) auto
  then show ?thesis using True assms by (auto simp: placeVolume_def list_ex_iff)
next
  case False
  then have "upsert_first vol_name v vs = vs @ [v]" by (induction vs) auto
  then show ?thesis using False assms by (auto simp: placeVolume_def list_ex_iff image_iff)
qed

lemma fold_placeVolume:
  assumes "distinct (map vol_name desired)"
    and "\<And>v. v \<in> set desired \<Longrightarrow> vol_name v \<in> vol_name ` set vs \<longleftrightarrow> vol_name v \<in> vol_name ` set os"
  shows "fold (placeVolume os) desired vs = fold (upsert_first vol_name) desired vs"
  using assms
proof (induction desired arbitrary: vs)
  case (Cons v desired)
  have v: "placeVolume os v vs = upsert_first vol_name v vs"
    using Cons.prems(2) [of v] by (intro placeVolume_upsert) simp
  have "fold (placeVolume os) desired (upsert_first vol_name v vs) =
      fold (upsert_first vol_name) desired (upsert_first vol_name v vs)"
  proof (rule Cons.IH)
    fix w assume w: "w \<in> set desired"
    then have "vol_name w \<noteq> vol_name v" using Cons.prems(1) by (metis distinct.simps(2) image_eqI list.set_map list.simps(9))
    then show "vol_name w \<in> vol_name ` set (upsert_first vol_name v vs) \<longleftrightarrow> vol_name w \<in> vol_name ` set os"
      using Cons.prems(2) [of w] w by (simp add: upsert_first_names)
  qed (use Cons.prems(1) in simp)
  then show ?case using v by simp
qed simp

text \<open>
  C32. \<open>ReplaceDeploymentVolumes\<close> stores every wanted volume under its name and keeps the volumes of
  other names, provided the wanted volumes have distinct names; the containers are untouched.
\<close>

theorem ReplaceDeploymentVolumes_stores:
  assumes "distinct (map vol_name desired)"
  shows "(\<forall>v \<in> set desired. lookup_by vol_name (vol_name v) (volumes (replaceDeploymentVolumes desired d)) = Some v)
    \<and> (\<forall>k. k \<notin> vol_name ` set desired \<longrightarrow>
         lookup_by vol_name k (volumes (replaceDeploymentVolumes desired d)) = lookup_by vol_name k (volumes d))
    \<and> (distinct (map vol_name (volumes d)) \<longrightarrow>
         distinct (map vol_name (volumes (replaceDeploymentVolumes desired d))))
    \<and> containers (replaceDeploymentVolumes desired d) = containers d"
proof -
  have "volumes (replaceDeploymentVolumes desired d) = fold (upsert_first vol_name) desired (volumes d)"
    using fold_placeVolume [OF assms, of "volumes d" "volumes d"] by (simp add: replaceDeploymentVolumes_def)
  then show ?thesis
    using assms first_store.fold_put_stored [of vol_name desired]
    by (auto simp: first_store.fold_put_other first_store.fold_put_distinct replaceDeploymentVolumes_def)
qed

theorem ReplaceDeploymentVolumes_stores_witness:
  "lookup_by vol_name ''x'' (volumes (replaceDeploymentVolumes [\<lparr>vol_name = ''x'', vol_source = SecretSource ''s''\<rparr>]
     (demoDeployment (demoMeta ''d'' ''keda'') []))) = Some \<lparr>vol_name = ''x'', vol_source = SecretSource ''s''\<rparr>"
  using ReplaceDeploymentVolumes_stores [of "[\<lparr>vol_name = ''x'', vol_source = SecretSource ''s''\<rparr>]"
      "demoDeployment (demoMeta ''d'' ''keda'') []"] by simp

text \<open>
  Two wanted volumes of the same new name are both appended, so the Deployment ends up with
  two volumes of one name, which the API server rejects: the search for an existing volume of the
  name looks only at the volumes there were before the loop. (The volume mounts and environment
  variables next to it search the list as it grows.)
\<close>

theorem ReplaceDeploymentVolumes_duplicates:
  assumes "vol_name v = vol_name w" and "vol_name v \<notin> vol_name ` set (volumes d)"
  shows "volumes (replaceDeploymentVolumes [v, w] d) = volumes d @ [v, w]"
proof -
  have "\<not> list_ex (\<lambda>o'. vol_name o' = vol_name w) (volumes d)"
    using assms by (metis (mono_tags) image_eqI list_ex_iff)
  then show ?thesis using assms(1) by (simp add: replaceDeploymentVolumes_def placeVolume_def)
qed

theorem ReplaceDeploymentVolumes_duplicates_witness:
  "volumes (replaceDeploymentVolumes [\<lparr>vol_name = ''x'', vol_source = SecretSource ''s''\<rparr>,
      \<lparr>vol_name = ''x'', vol_source = SecretSource ''t''\<rparr>] (demoDeployment (demoMeta ''d'' ''keda'') []))
   = [\<lparr>vol_name = ''x'', vol_source = SecretSource ''s''\<rparr>, \<lparr>vol_name = ''x'', vol_source = SecretSource ''t''\<rparr>]"
  using ReplaceDeploymentVolumes_duplicates [of "\<lparr>vol_name = ''x'', vol_source = SecretSource ''s''\<rparr>"
      "\<lparr>vol_name = ''x'', vol_source = SecretSource ''t''\<rparr>" "demoDeployment (demoMeta ''d'' ''keda'') []"]
  by (simp add: demoDeployment_def volumes_def)

lemma lookup_by_map_container:
  assumes "\<And>c. c_name (f c) = c_name c"
  shows "lookup_by c_name k (map f cs) = map_option f (lookup_by c_name k cs)"
  using assms by (induction cs) auto

lemma mergeMounts_lookup:
  "lookup_by vm_name k (c_volumeMounts (mergeMounts ms c)) =
     (case lookup_by vm_name k (rev ms) of None \<Rightarrow> lookup_by vm_name k (c_volumeMounts c) | Some m \<Rightarrow> Some m)"
  by (simp add: mergeMounts_def first_store.fold_put_lookup)

definition operandContainers :: "string set" where
  "operandContainers = {containerNameKedaOperator, containerNameMetricsServer, containerNameAdmissionWebhooks}"

text \<open>
  \<open>ReplaceDeploymentVolumeMounts\<close> gives each operand container the last wanted mount of every
  name and keeps its other mounts, and leaves every sidecar exactly as it was.
\<close>

theorem ReplaceDeploymentVolumeMounts_operands_only:
  "lookup_by c_name n (containers (replaceDeploymentVolumeMounts ms d)) =
     (if n \<in> operandContainers then map_option (mergeMounts ms) (lookup_by c_name n (containers d))
      else lookup_by c_name n (containers d))
   \<and> lookup_by vm_name k (c_volumeMounts (mergeMounts ms c)) =
     (case lookup_by vm_name k (rev ms) of None \<Rightarrow> lookup_by vm_name k (c_volumeMounts c) | Some m \<Rightarrow> Some m)"
proof -
  let ?f = "\<lambda>c. if c_name c \<noteq> containerNameKedaOperator \<and> c_name c \<noteq> containerNameMetricsServer \<and>
      c_name c \<noteq> containerNameAdmissionWebhooks then c else mergeMounts ms c"
  have "containers (replaceDeploymentVolumeMounts ms d) = map ?f (containers d)"
    by (simp add: replaceDeploymentVolumeMounts_def)
  moreover have "lookup_by c_name n (map ?f (containers d)) = map_option ?f (lookup_by c_name n (containers d))"
    by (rule lookup_by_map_container) simp
  ultimately show ?thesis
    using lookup_by_SomeD [of c_name n "containers d"]
    by (cases "lookup_by c_name n (containers d)") (auto simp: operandContainers_def mergeMounts_lookup)
qed

section \<open>A volume and its mount\<close>

text \<open>
  What the certificate and audit transformers promise: the volume is there, the container mounts
  it, and volumes, mounts and containers of other names are as before.
\<close>

definition mountsVolume :: "string \<Rightarrow> volume \<Rightarrow> volumeMount \<Rightarrow> deployment \<Rightarrow> deployment \<Rightarrow> bool" where
  "mountsVolume n v m d d' \<longleftrightarrow>
     (\<forall>k. lookup_by vol_name k (volumes d') = (if k = vol_name v then Some v else lookup_by vol_name k (volumes d))) \<and>
     (\<forall>k. k \<noteq> n \<longrightarrow> lookup_by c_name k (containers d') = lookup_by c_name k (containers d)) \<and>
     (\<forall>c. lookup_by c_name n (containers d) = Some c \<longrightarrow>
        (\<exists>c'. lookup_by c_name n (containers d') = Some c' \<and>
          (\<forall>k. lookup_by vm_name k (c_volumeMounts c') =
             (if k = vm_name m then Some m else lookup_by vm_name k (c_volumeMounts c)))))"

lemma ensure_mountsVolume: "mountsVolume n v m d (ensureMount n m (ensureVolume v d))"
  by (simp add: mountsVolume_def ensureMount_def ensureVolume_def mnt.lookup_container all_store.put_lookup)

lemma ensureCertSecret_mountsVolume:
  "mountsVolume n \<lparr>vol_name = n @ ''-certs'', vol_source = SecretSource s\<rparr> (mount (n @ ''-certs'') ''/certs'' True) d
     (ensureCertSecret n s d)"
  by (simp add: mountsVolume_def ensureCertSecret_def Let_def mnt.lookup_container first_store.put_lookup mount_def)

lemma mountsVolume_container:
  assumes "mountsVolume n v m d d'" and "lookup_by c_name n (containers d) = Some c"
  obtains c' where "lookup_by c_name n (containers d') = Some c'"
    and "lookup_by vm_name (vm_name m) (c_volumeMounts c') = Some m"
  using assms by (auto simp: mountsVolume_def)

text \<open>
  The audit policy, the audit log and the serving certificates are mounted from a volume that
  is there: each transformer stores the volume and the mount of the container under one name
  and keeps every other volume, mount and container.
\<close>

theorem ensure_volumes_mounted:
  "mountsVolume containerNameMetricsServer \<lparr>vol_name = ''audit-policy'', vol_source = ConfigMapSource cm\<rparr>
     (mount ''audit-policy'' ''/var/audit-policy'' False) d (ensureAuditPolicy cm d)
   \<and> mountsVolume containerNameMetricsServer \<lparr>vol_name = ''audit-log'', vol_source = PersistentVolumeClaimSource pvc\<rparr>
     (mount ''audit-log'' path False) d (ensureAuditLog pvc path d)
   \<and> mountsVolume containerNameAdmissionWebhooks
     \<lparr>vol_name = ''certificates'', vol_source = ProjectedSource
        [SecretProjection secret [], ConfigMapProjection cm [(''service-ca.crt'', ''ca.crt'')]]\<rparr>
     (mount ''certificates'' ''/certs'' True) d (admissionWebhooksEnsureCertificates cm secret d)
   \<and> mountsVolume n \<lparr>vol_name = n @ ''-certs'', vol_source = SecretSource secret\<rparr>
     (mount (n @ ''-certs'') ''/certs'' True) d (ensureCertSecret n secret d)"
  by (simp add: ensureAuditPolicy_def ensureAuditLog_def admissionWebhooksEnsureCertificates_def
      ensure_mountsVolume ensureCertSecret_mountsVolume)

text \<open>
  \<open>KedaOperatorEnsureCertificatesVolume\<close> never gives the keda-operator container a mount: it
  compares with the name of the admission webhooks container, so in the Deployment of the
  operator the certificates volume is stored and mounted nowhere.
\<close>

theorem KedaOperatorEnsureCertificatesVolume_mounts_nothing:
  "lookup_by c_name containerNameKedaOperator (containers (kedaOperatorEnsureCertificates s g d)) =
     lookup_by c_name containerNameKedaOperator (containers d)
   \<and> (lookup_by c_name containerNameAdmissionWebhooks (containers d) = None \<longrightarrow>
       containers (kedaOperatorEnsureCertificates s g d) = containers d)"
proof -
  let ?n = containerNameAdmissionWebhooks
  have "containerNameKedaOperator \<noteq> ?n"
    by (simp add: containerNameKedaOperator_def containerNameAdmissionWebhooks_def)
  then have "lookup_by c_name containerNameKedaOperator (containers (kedaOperatorEnsureCertificates s g d)) =
      lookup_by c_name containerNameKedaOperator (containers d)"
    using ensure_mountsVolume unfolding kedaOperatorEnsureCertificates_def mountsVolume_def by blast
  moreover have "containers (kedaOperatorEnsureCertificates s g d) = containers d"
    if "lookup_by c_name ?n (containers d) = None"
  proof -
    have "upd_first (\<lambda>c. c_name c = ?n) f (containers d) = containers d" for f
      using that by (intro upd_first_id) (metis imageI lookup_by_None_iff)
    then show ?thesis
      by (simp add: kedaOperatorEnsureCertificates_def ensureMount_def ensureVolume_def updContainer_def)
  qed
  ultimately show ?thesis by blast
qed

theorem KedaOperatorEnsureCertificatesVolume_mounts_nothing_witness:
  "containers (kedaOperatorEnsureCertificates ''s'' ''g''
      (demoDeployment (demoMeta ''keda-operator'' ''keda'') [demoContainer ''keda-operator'']))
   = [demoContainer ''keda-operator'']"
proof -
  let ?d = "demoDeployment (demoMeta ''keda-operator'' ''keda'') [demoContainer ''keda-operator'']"
  have "lookup_by c_name containerNameAdmissionWebhooks (containers ?d) = None"
    by (simp add: demoDeployment_def containers_def demoContainer_def containerNameAdmissionWebhooks_def)
  then have "containers (kedaOperatorEnsureCertificates ''s'' ''g'' ?d) = containers ?d"
    using KedaOperatorEnsureCertificatesVolume_mounts_nothing by blast
  then show ?thesis by (simp add: demoDeployment_def containers_def)
qed

section \<open>CA certificates: what the loops compute\<close>

lemma mapPut_new: "k \<notin> fst ` set kvs \<Longrightarrow> mapPut k v kvs = kvs @ [(k, v)]"
  by (induction kvs) auto

lemma fold_mapPut_distinct:
  assumes "distinct (map f xs)" and "fst ` set kvs \<inter> f ` set xs = {}"
  shows "fold (\<lambda>x. mapPut (f x) (g x)) xs kvs = kvs @ map (\<lambda>x. (f x, g x)) xs"
  using assms
proof (induction xs arbitrary: kvs)
  case (Cons x xs)
  have "f x \<notin> fst ` set kvs" using Cons.prems(2) by auto
  then have "mapPut (f x) (g x) kvs = kvs @ [(f x, g x)]" by (rule mapPut_new)
  moreover have "fold (\<lambda>x. mapPut (f x) (g x)) xs (kvs @ [(f x, g x)]) =
      (kvs @ [(f x, g x)]) @ map (\<lambda>x. (f x, g x)) xs"
    using Cons.prems by (intro Cons.IH) auto
  ultimately show ?case by simp
qed simp

lemma map_snd_enumerate: "map snd (enumerate k xs) = xs"
  by (simp add: enumerate_eq_zip)

lemma set_enumerate: "set (enumerate 0 xs) = (\<lambda>i. (i, xs ! i)) ` {0..<length xs}"
  by (force simp: in_set_enumerate_eq)

lemma map_fst_enumerate: "map fst (enumerate k xs) = [k..<k + length xs]"
  by (simp add: enumerate_eq_zip)

lemma cabundleVolumes_distinct:
  "distinct names \<Longrightarrow> cabundleVolumes names = map (\<lambda>p. (snd p, caVolume (fst p) (snd p))) (enumerate 0 names)"
  using fold_mapPut_distinct [of snd "enumerate 0 names" "[]" "\<lambda>p. caVolume (fst p) (snd p)"]
  by (simp add: cabundleVolumes_def split_def map_snd_enumerate)

lemma cabundleVolumeMounts_eq:
  "cabundleVolumeMounts names = map (\<lambda>i. (caCertVolPrefix @ Itoa i, caMount i)) [0..<length names]"
proof -
  have d: "distinct (map (\<lambda>p. caCertVolPrefix @ Itoa (fst p)) (enumerate 0 names))"
    by (simp add: distinct_map inj_on_def enumerate_eq_zip distinct_zipI1) (auto simp: in_set_zip)
  have "cabundleVolumeMounts names =
      map (\<lambda>p. (caCertVolPrefix @ Itoa (fst p), caMount (fst p))) (enumerate 0 names)"
    using fold_mapPut_distinct [OF d, of "[]" "\<lambda>p. caMount (fst p)"]
    by (simp add: cabundleVolumeMounts_def split_def)
  also have "\<dots> = map (\<lambda>i. (caCertVolPrefix @ Itoa i, caMount i)) (map fst (enumerate 0 names))"
    by (simp only: map_map comp_def)
  finally show ?thesis by (simp only: map_fst_enumerate) simp
qed

text \<open>A run-time order ranges over every entry of a map exactly once.\<close>

definition mapOrder :: "('a list \<Rightarrow> 'a list) \<Rightarrow> bool" where
  "mapOrder ord \<longleftrightarrow> (\<forall>m. mset (ord m) = mset m)"

lemma mapOrder_set: "mapOrder ord \<Longrightarrow> set (ord m) = set m"
  by (metis mapOrder_def set_mset_mset)

lemma mapOrder_distinct: "mapOrder ord \<Longrightarrow> distinct (map f (ord m)) = distinct (map f m)"
  by (metis mapOrder_def mset_map mset_eq_imp_distinct_iff)

lemma mapOrder_map_of:
  assumes "mapOrder ord" and "distinct (map fst m)"
  shows "map_of (ord m) = map_of m"
  using map_of_inject_set [of "ord m" m] assms(2) mapOrder_set [OF assms(1), of m]
    mapOrder_distinct [OF assms(1), of fst m] by blast

lemma lookup_appended:
  assumes "\<forall>p \<in> set kvs. name (snd p) = fst p"
  shows "lookup_by name k (map snd (filter (\<lambda>(j, _). j \<notin> S) kvs)) = (if k \<in> S then None else map_of kvs k)"
  using assms by (induction kvs) (auto simp: split_def)

lemma lookup_keptEntry:
  assumes "\<forall>p \<in> set new. name (snd p) = fst p"
  shows "lookup_by name k (keptEntry name new x) =
    (if name x \<noteq> k then None
     else case map_of new k of Some y \<Rightarrow> Some y | None \<Rightarrow> if HasPrefix k caCertVolPrefix then None else Some x)"
proof -
  have "map_of new (name x) = Some y \<Longrightarrow> name y = name x" for y
    using assms map_of_SomeD by fastforce
  then show ?thesis by (cases "name x = k") (simp_all add: keptEntry_def split: option.split)
qed

lemma lookup_kept:
  assumes "\<forall>p \<in> set new. name (snd p) = fst p"
  shows "lookup_by name k (concat (map (keptEntry name new) present)) =
    (if k \<in> name ` set present then
       (case map_of new k of Some y \<Rightarrow> Some y
        | None \<Rightarrow> if HasPrefix k caCertVolPrefix then None else lookup_by name k present)
     else None)"
  by (induction present) (auto simp: lookup_by_append lookup_keptEntry [OF assms] split: option.split)

text \<open>
  What \<open>refreshEntries\<close> holds under a name when the map is keyed by entry name, as the map of
  mounts is: a new entry if one has the name, nothing if the name is reserved for CA bundles, the
  old entry otherwise.
\<close>

lemma refreshEntries_keyed_lookup:
  assumes ord: "mapOrder ord" and keys: "\<forall>p \<in> set new. name (snd p) = fst p"
    and dist: "distinct (map fst new)"
  shows "lookup_by name k (refreshEntries name ord new present) =
    (case map_of new k of Some y \<Rightarrow> Some y
     | None \<Rightarrow> if HasPrefix k caCertVolPrefix then None else lookup_by name k present)"
proof -
  have "\<forall>p \<in> set (ord new). name (snd p) = fst p"
    using keys mapOrder_set [OF ord] by blast
  then have "lookup_by name k (map snd (filter (\<lambda>(j, _). j \<notin> name ` set present) (ord new))) =
      (if k \<in> name ` set present then None else map_of new k)"
    using lookup_appended mapOrder_map_of [OF ord dist] by metis
  then show ?thesis
    using lookup_by_None_iff [of name k present]
    by (auto simp: refreshEntries_def lookup_by_append lookup_kept [OF keys] split: option.split)
qed

text \<open>
  When the map is keyed by something that is no name of a present entry, all new entries are
  appended and the stale CA bundle entries are dropped.
\<close>

lemma keptEntry_foreign:
  "map_of new (name x) = None \<Longrightarrow>
   keptEntry name new x = (if HasPrefix (name x) caCertVolPrefix then [] else [x])"
  by (simp add: keptEntry_def)

lemma refreshEntries_foreign:
  assumes "fst ` set new \<inter> name ` set present = {}" and "mapOrder ord"
  shows "refreshEntries name ord new present =
    filter (\<lambda>x. \<not> HasPrefix (name x) caCertVolPrefix) present @ map snd (ord new)"
proof -
  have "map_of new (name x) = None" if "x \<in> set present" for x
    using that assms(1) map_of_eq_None_iff by fast
  then have "concat (map (keptEntry name new) present) =
      filter (\<lambda>x. \<not> HasPrefix (name x) caCertVolPrefix) present"
    by (induction present) (auto simp: keptEntry_foreign)
  moreover have "filter (\<lambda>(j, _). j \<notin> name ` set present) (ord new) = ord new"
    using assms(1) mapOrder_set [OF assms(2), of new] by (intro filter_True) auto
  ultimately show ?thesis by (simp add: refreshEntries_def)
qed

lemma lookup_unprefixed:
  "lookup_by name k (filter (\<lambda>x. \<not> HasPrefix (name x) p) xs) =
     (if HasPrefix k p then None else lookup_by name k xs)"
  by (induction xs) auto

definition caName :: "nat \<Rightarrow> string" where "caName i = caCertVolPrefix @ Itoa i"

lemma caName_simps [simp]:
  "vol_name (caVolume i n) = caName i" "vm_name (caMount i) = caName i"
  "caName i = caName j \<longleftrightarrow> i = j" "HasPrefix (caName i) caCertVolPrefix"
  by (simp_all add: caVolume_def caMount_def mount_def caName_def)

lemma caMounts_map_of:
  "map_of (cabundleVolumeMounts names) k =
     (if \<exists>i < length names. k = caName i then Some (caMount (THE i. k = caName i)) else None)"
proof -
  let ?f = "\<lambda>i. (caName i, caMount i)"
  have "distinct (map fst (map ?f [0..<n]))" for n by (simp add: distinct_map inj_on_def comp_def)
  then have "map_of (map ?f [0..<length names]) (caName i) = Some (caMount i)" if "i < length names" for i
    using that by (intro map_of_is_SomeI) auto
  moreover have "map_of (map ?f [0..<length names]) k = None" if "\<nexists>i. i < length names \<and> k = caName i"
    using that by (auto simp: map_of_eq_None_iff)
  ultimately show ?thesis
    by (auto simp: cabundleVolumeMounts_eq caName_def [symmetric])
qed

lemma caMounts_distinct: "distinct (map fst (cabundleVolumeMounts names))"
  by (simp add: cabundleVolumeMounts_eq comp_def caName_def [symmetric] distinct_map inj_on_def)

lemma caMounts_keys: "\<forall>p \<in> set (cabundleVolumeMounts names). vm_name (snd p) = fst p"
  by (auto simp: cabundleVolumeMounts_eq caName_def)

lemma caMounts_lookup:
  assumes "mapOrder ord"
  shows "lookup_by vm_name (caName i) (refreshEntries vm_name ord (cabundleVolumeMounts names) present) =
      (if i < length names then Some (caMount i) else None)"
    and "HasPrefix k caCertVolPrefix \<Longrightarrow> \<forall>i < length names. k \<noteq> caName i \<Longrightarrow>
      lookup_by vm_name k (refreshEntries vm_name ord (cabundleVolumeMounts names) present) = None"
    and "\<not> HasPrefix k caCertVolPrefix \<Longrightarrow>
      lookup_by vm_name k (refreshEntries vm_name ord (cabundleVolumeMounts names) present) = lookup_by vm_name k present"
  using refreshEntries_keyed_lookup [where name = vm_name, OF assms caMounts_keys [of names] caMounts_distinct [of names], of _ present]
  by (auto simp: caMounts_map_of)

lemma caVolumes_lookup:
  assumes ord: "mapOrder ord" and d: "distinct names"
  shows "lookup_by vol_name (caName i) (map snd (ord (cabundleVolumes names))) =
      (if i < length names then Some (caVolume i (names ! i)) else None)"
    and "\<forall>i < length names. k \<noteq> caName i \<Longrightarrow>
      lookup_by vol_name k (map snd (ord (cabundleVolumes names))) = None"
proof -
  let ?vs = "map snd (ord (cabundleVolumes names))"
  have "set ?vs = snd ` set (cabundleVolumes names)"
    by (simp add: mapOrder_set [OF ord])
  then have set: "set ?vs = (\<lambda>i. caVolume i (names ! i)) ` {0..<length names}"
    by (simp add: cabundleVolumes_distinct [OF d] set_enumerate image_image)
  have "map (\<lambda>p. vol_name (snd p)) (cabundleVolumes names) = map caName (map fst (enumerate 0 names))"
    by (simp only: cabundleVolumes_distinct [OF d] map_map comp_def snd_conv caName_simps)
  then have "distinct (map (\<lambda>p. vol_name (snd p)) (cabundleVolumes names))"
    by (simp only: map_fst_enumerate) (simp add: distinct_map inj_on_def)
  then have dist: "distinct (map vol_name ?vs)"
    using mapOrder_distinct [OF ord, of "\<lambda>p. vol_name (snd p)" "cabundleVolumes names"] by (simp add: comp_def)
  show none: "lookup_by vol_name k ?vs = None" if "\<forall>i < length names. k \<noteq> caName i" for k
    using that unfolding lookup_by_None_iff set by auto
  have "lookup_by vol_name (caName i) ?vs = Some (caVolume i (names ! i))" if "i < length names"
    using lookup_by_distinct [OF dist, of "caVolume i (names ! i)"] that unfolding set by auto
  then show "lookup_by vol_name (caName i) ?vs =
      (if i < length names then Some (caVolume i (names ! i)) else None)"
    using none [of "caName i"] by auto
qed


lemma caName_literals:
  "caCertVolPrefix @ Itoa 0 = ''cabundle0''" "caCertVolPrefix @ Itoa 1 = ''cabundle1''"
  by code_simp+


text \<open>
  The same ConfigMap given twice breaks the Deployment: the map of volumes is keyed by
  ConfigMap name, so only the volume \<open>cabundle1\<close> is left, while the container mounts \<open>cabundle0\<close>
  as well, a mount without a volume, which the API server rejects.
\<close>

theorem ensureCACerts_repeated_configmap:
  assumes "mapOrder ordV" "mapOrder ordM" and "a \<notin> vol_name ` set (volumes d)"
    and "lookup_by c_name n (containers d) = Some c"
  shows "\<exists>c'. lookup_by c_name n (containers (ensureCACerts ordV ordM [a, a] n d)) = Some c'
    \<and> lookup_by vm_name (caCertVolPrefix @ Itoa 0) (c_volumeMounts c') = Some (caMount 0)
    \<and> lookup_by vol_name (caCertVolPrefix @ Itoa 0) (volumes (ensureCACerts ordV ordM [a, a] n d)) = None"
proof -
  let ?c' = "c\<lparr>c_volumeMounts := refreshEntries vm_name ordM (cabundleVolumeMounts [a, a]) (c_volumeMounts c)\<rparr>"
  have c': "lookup_by c_name n (containers (ensureCACerts ordV ordM [a, a] n d)) = Some ?c'"
    using assms(4) by (simp add: ensureCACerts_def mnt.lookup_container)
  have one: "cabundleVolumes [a, a] = [(a, caVolume 1 a)]"
    by (simp add: cabundleVolumes_def enumerate_eq_zip)
  have "set (ordV [(a, caVolume 1 a)]) = {(a, caVolume 1 a)}"
    by (simp add: mapOrder_set [OF assms(1)])
  then have "lookup_by vol_name (caName 0) (map snd (ordV [(a, caVolume 1 a)])) = None"
    by (auto simp: lookup_by_None_iff)
  moreover have "volumes (ensureCACerts ordV ordM [a, a] n d) =
      filter (\<lambda>x. \<not> HasPrefix (vol_name x) caCertVolPrefix) (volumes d) @ map snd (ordV [(a, caVolume 1 a)])"
    using assms(1,3) by (simp add: ensureCACerts_def one refreshEntries_foreign)
  ultimately have "lookup_by vol_name (caName 0) (volumes (ensureCACerts ordV ordM [a, a] n d)) = None"
    by (simp add: lookup_by_append lookup_unprefixed)
  then show ?thesis
    using c' caMounts_lookup(1) [OF assms(2), of 0 "[a, a]"]
    by (intro exI [of _ ?c']) (simp add: caName_def [symmetric])
qed

theorem ensureCACerts_repeated_configmap_witness:
  "lookup_by vol_name ''cabundle0'' (volumes (ensureCACerts id id [''ca'', ''ca''] ''keda-operator''
     (demoDeployment (demoMeta ''keda-operator'' ''keda'') [demoContainer ''keda-operator'']))) = None"
proof -
  let ?d = "demoDeployment (demoMeta ''keda-operator'' ''keda'') [demoContainer ''keda-operator'']"
  have "mapOrder (id :: (string \<times> volume) list \<Rightarrow> _)" "mapOrder (id :: (string \<times> volumeMount) list \<Rightarrow> _)"
    by (simp_all add: mapOrder_def)
  moreover have "''ca'' \<notin> vol_name ` set (volumes ?d)" by (simp add: demoDeployment_def volumes_def)
  moreover have "lookup_by c_name ''keda-operator'' (containers ?d) = Some (demoContainer ''keda-operator'')"
    by (simp add: demoDeployment_def containers_def demoContainer_def)
  ultimately show ?thesis
    using ensureCACerts_repeated_configmap [of id id "''ca''" ?d "''keda-operator''"]
    unfolding caName_literals by blast
qed

end
