(* ===== verification/Pipeline.thy ===== *)
theory Pipeline
  imports TransformVolumes
begin

text \<open>
  Running a list of transformers over the resources of a manifest, as \<open>Manifest.Transform\<close> does, and
  what a transformer does to the Deployment behind an unstructured object: a transformer
  \<open>realizes\<close> an edit when a successful run turns an object that converts to \<open>d\<close> into one that
  converts to the edited \<open>d\<close>. Lists of transformers realize the composition of their edits.
\<close>

section \<open>Manifest.Transform\<close>

fun runTransforms :: "'u transformer list \<Rightarrow> 'u transformer" where
  "runTransforms [] u = Ok u"
| "runTransforms (t # ts) u = bindE (t u) (runTransforms ts)"

fun mapE :: "('a \<Rightarrow> 'e + 'b) \<Rightarrow> 'a list \<Rightarrow> 'e + 'b list" where
  "mapE f [] = Ok []"
| "mapE f (x # xs) = bindE (f x) (\<lambda>y. bindE (mapE f xs) (\<lambda>ys. Ok (y # ys)))"

text \<open>
  Documented behaviour of \<^verbatim>\<open>manifestival\<close>: every transformer is applied to every resource, in order,
  on a copy; the first error ends it.
\<close>

definition mf_ok :: "'u api \<Rightarrow> bool" where
  "mf_ok A \<longleftrightarrow> (\<forall>ts us. mfTransform A ts us = mapE (runTransforms ts) us)"

lemma runTransforms_append: "runTransforms (ts @ ss) u = bindE (runTransforms ts u) (runTransforms ss)"
proof (induction ts arbitrary: u)
  case (Cons t ts)
  then show ?case by (cases "t u") simp_all
qed simp

lemma mapE_Ok: "mapE f xs = Inr ys \<longleftrightarrow> list_all2 (\<lambda>x y. f x = Inr y) xs ys"
proof (induction xs arbitrary: ys)
  case (Cons x xs)
  then show ?case by (cases ys) (auto simp: bindE_Ok)
qed auto

lemma mapE_Err: "mapE f xs = Inl e \<Longrightarrow> \<exists>x \<in> set xs. f x = Inl e"
  by (induction xs) (auto simp: bindE_Err)

lemma foldr_mapE: "foldr (\<lambda>u r. bindE (f u) (\<lambda>u'. bindE r (\<lambda>us'. Inr (u' # us')))) us (Inr []) = mapE f us"
  by (induction us) simp_all

lemma fold_bindE_error: "fold (\<lambda>t m. bindE m t) ts (Inl e) = Inl e"
  by (induction ts) simp_all

lemma fold_runTransforms: "fold (\<lambda>t m. bindE m t) ts (Inr u) = runTransforms ts u"
proof (induction ts arbitrary: u)
  case (Cons t ts)
  then show ?case by (cases "t u") (simp_all add: fold_bindE_error)
qed simp

lemma demoApi_mf_ok: "mf_ok demoApi"
  by (simp add: mf_ok_def demoApi_def fold_runTransforms foldr_mapE)

section \<open>Identity through a pipeline\<close>

definition keepsIdentity :: "'u api \<Rightarrow> 'u transformer \<Rightarrow> bool" where
  "keepsIdentity A t \<longleftrightarrow> (\<forall>u u'. t u = Inr u' \<longrightarrow> sameIdentity A u u')"

lemma keepsIdentity_run:
  assumes "\<forall>t \<in> set ts. keepsIdentity A t"
  shows "keepsIdentity A (runTransforms ts)"
proof -
  have "runTransforms ts u = Inr u' \<Longrightarrow> sameIdentity A u u'" for u u'
    using assms
  proof (induction ts arbitrary: u)
    case (Cons t ts)
    then obtain v where "t u = Inr v" "runTransforms ts v = Inr u'" by (auto simp: bindE_Ok)
    then show ?case using Cons sameIdentity_trans unfolding keepsIdentity_def by fastforce
  qed simp
  then show ?thesis by (simp add: keepsIdentity_def)
qed

lemma keepsIdentity_Ok: "keepsIdentity A Inr"
  by (simp add: keepsIdentity_def)

section \<open>Edits behind transformers\<close>

definition realizes :: "'u api \<Rightarrow> 'u transformer \<Rightarrow> (deployment \<Rightarrow> deployment) \<Rightarrow> bool" where
  "realizes A t f \<longleftrightarrow>
     (\<forall>u u' d. GetKind A u = ''Deployment'' \<longrightarrow> decode (deployments A) u = Inr d \<longrightarrow> t u = Inr u' \<longrightarrow>
        GetKind A u' = ''Deployment'' \<and> decode (deployments A) u' = Inr (f d))"

lemma realizesD:
  "realizes A t f \<Longrightarrow> GetKind A u = ''Deployment'' \<Longrightarrow> decode (deployments A) u = Inr d \<Longrightarrow> t u = Inr u' \<Longrightarrow>
   GetKind A u' = ''Deployment'' \<and> decode (deployments A) u' = Inr (f d)"
  unfolding realizes_def by blast

lemma realizes_run:
  assumes "list_all2 (realizes A) ts fs"
  shows "realizes A (runTransforms ts) (fold (\<lambda>f. f) fs)"
proof -
  have "GetKind A u = ''Deployment'' \<Longrightarrow> decode (deployments A) u = Inr d \<Longrightarrow> runTransforms ts u = Inr u' \<Longrightarrow>
      GetKind A u' = ''Deployment'' \<and> decode (deployments A) u' = Inr (fold (\<lambda>f. f) fs d)" for u u' d
    using assms
  proof (induction ts fs arbitrary: u d rule: list_all2_induct)
    case (Cons t ts f fs)
    then obtain v where v: "t u = Inr v" "runTransforms ts v = Inr u'" by (auto simp: bindE_Ok)
    have "GetKind A v = ''Deployment'' \<and> decode (deployments A) v = Inr (f d)"
      using realizesD [OF Cons(1) _ _ v(1)] Cons.prems by blast
    then show ?case using Cons(3) [of v "f d"] v(2) by simp
  qed simp
  then show ?thesis unfolding realizes_def by blast
qed

lemma realizes_always:
  "codec_ok A ''Deployment'' d_meta (deployments A) \<Longrightarrow> realizes A (onDeployment A (always f)) f"
  using convertEdit_decodes [of A "''Deployment''" d_meta "deployments A"]
  unfolding realizes_def onDeployment_def by blast

lemma realizes_skip: "realizes A Inr id"
  by (simp add: realizes_def)

lemma realizes_writeIfChanged:
  "codec_ok A ''Deployment'' d_meta (deployments A) \<Longrightarrow>
   realizes A (writeIfChanged A ''Deployment'' (deployments A) f) f"
  using writeIfChanged_decodes [of A "''Deployment''" d_meta "deployments A"]
  unfolding realizes_def by blast

text \<open>
  The last transformer of a pipeline decides: whatever came before, a Deployment that comes out
  is the edit of the last one applied to some Deployment.
\<close>

lemma last_edit_decides:
  assumes "codec_ok A ''Deployment'' d_meta (deployments A)"
    and "runTransforms (ts @ [onDeployment A (always f)]) u = Inr u'" and "GetKind A u' = ''Deployment''"
  obtains v d where "runTransforms ts u = Inr v" "GetKind A v = ''Deployment''" "decode (deployments A) v = Inr d"
    and "decode (deployments A) u' = Inr (f d)"
proof -
  obtain v where v: "runTransforms ts u = Inr v" and last: "onDeployment A (always f) v = Inr u'"
    using assms(2) by (auto simp: runTransforms_append bindE_Ok)
  have kind: "GetKind A v = ''Deployment''"
    using last assms(3) by (auto simp: onDeployment_def convertEdit_def split: if_splits)
  then obtain d where d: "decode (deployments A) v = Inr d"
    using last by (auto simp: onDeployment_def convertEdit_def bindE_Ok)
  then show ?thesis
    using that v kind realizesD [OF realizes_always [OF assms(1)] kind d last] by blast
qed

end
