(* ===== verification/GcpCredentials.thy ===== *)
theory GcpCredentials
  imports GcpConfig GoJson Pipeline
begin

text \<open>
  The GCP credential configuration and its wiring into the keda-operator Deployment:
  \<^verbatim>\<open>internal/controller/keda/gcp/credentials.go\<close>. The hash function is a parameter.
\<close>

definition CredentialsSecretName :: string where "CredentialsSecretName = ''keda-gcp-credentials''"
definition CredentialsSecretKey :: string where "CredentialsSecretKey = ''service_account.json''"
definition credentialsVolumeName :: string where "credentialsVolumeName = ''gcp-credentials''"
definition credentialsMountPath :: string where "credentialsMountPath = ''/var/run/secrets/gcp''"
definition CredentialsFilePath :: string where
  "CredentialsFilePath = credentialsMountPath @ ''/'' @ CredentialsSecretKey"
definition boundSATokenVolumeName :: string where "boundSATokenVolumeName = ''bound-sa-token''"
definition boundSATokenMountPath :: string where
  "boundSATokenMountPath = ''/var/run/secrets/openshift/serviceaccount''"
definition boundSATokenFileName :: string where "boundSATokenFileName = ''token''"
definition SubjectTokenFilePath :: string where
  "SubjectTokenFilePath = boundSATokenMountPath @ ''/'' @ boundSATokenFileName"
definition DefaultUniverseDomain :: string where "DefaultUniverseDomain = ''googleapis.com''"
definition CredentialsHashAnnotation :: string where
  "CredentialsHashAnnotation = ''kedacontroller.keda.sh/gcp-credentials-hash''"
definition envGoogleApplicationCredentials :: string where
  "envGoogleApplicationCredentials = ''GOOGLE_APPLICATION_CREDENTIALS''"
definition envCloudSDKCoreProject :: string where "envCloudSDKCoreProject = ''CLOUDSDK_CORE_PROJECT''"
definition kedaOperatorName :: string where "kedaOperatorName = ''keda-operator''"

definition CredentialsSecretLabels :: "(string \<times> string) list" where
  "CredentialsSecretLabels =
     [(''app.kubernetes.io/name'', CredentialsSecretName), (''app.kubernetes.io/part-of'', kedaOperatorName)]"

text \<open>The struct \<open>externalAccountCredentials\<close> with its JSON field names, in order.\<close>

definition externalAccountCredentials :: "Config \<Rightarrow> string \<Rightarrow> doc" where
  "externalAccountCredentials c universeDomain =
     Object ([(''type'', Text ''external_account''),
       (''audience'', Text (cfg_audience c)),
       (''subject_token_type'', Text ''urn:ietf:params:oauth:token-type:jwt''),
       (''token_url'', Text (''https://sts.'' @ universeDomain @ ''/v1/token'')),
       (''service_account_impersonation_url'', Text (''https://iamcredentials.'' @ universeDomain @
          ''/v1/projects/-/serviceAccounts/'' @ cfg_serviceAccountEmail c @ '':generateAccessToken'')),
       (''credential_source'', Object [(''file'', Text SubjectTokenFilePath),
          (''format'', Object [(''type'', Text ''text'')])])] @
       (if universeDomain \<noteq> DefaultUniverseDomain \<and> universeDomain \<noteq> []
        then [(''universe_domain'', Text universeDomain)] else []))"

text \<open>Marshalling a struct of strings cannot fail, so the error branch of the code is dead.\<close>

definition CredentialsJSON :: "Config \<Rightarrow> string \<Rightarrow> string" where
  "CredentialsJSON c universeDomain =
     marshalIndent 0 (externalAccountCredentials c
       (if universeDomain = [] then DefaultUniverseDomain else universeDomain))"

definition CredentialsHash :: "(string \<Rightarrow> string) \<Rightarrow> string \<Rightarrow> string" where
  "CredentialsHash sha256Hex credentials = sha256Hex credentials"

record gcpPlatformStatus =
  gps_projectID :: string
  gps_universeDomain :: string

record infrastructure =
  inf_platformStatus :: "gcpPlatformStatus option option"

definition PlatformFromInfrastructure :: "infrastructure option \<Rightarrow> string \<times> string" where
  "PlatformFromInfrastructure infra =
     (case infra of None \<Rightarrow> ([], [])
      | Some i \<Rightarrow> (case inf_platformStatus i of None \<Rightarrow> ([], [])
          | Some p \<Rightarrow> (case p of None \<Rightarrow> ([], []) | Some g \<Rightarrow> (gps_projectID g, gps_universeDomain g))))"

definition gcpVolumes :: "Config \<Rightarrow> volume list" where
  "gcpVolumes cfg =
     [\<lparr>vol_name = boundSATokenVolumeName, vol_source = ProjectedSource
         [ServiceAccountTokenProjection (cfg_subjectTokenAudience cfg) boundSATokenFileName]\<rparr>,
      \<lparr>vol_name = credentialsVolumeName, vol_source = SecretSource CredentialsSecretName\<rparr>]"

definition gcpMounts :: "volumeMount list" where
  "gcpMounts =
     [mount boundSATokenVolumeName boundSATokenMountPath True, mount credentialsVolumeName credentialsMountPath True]"

definition gcpEnv :: "string \<Rightarrow> envVar list" where
  "gcpEnv projectID =
     [\<lparr>env_name = envGoogleApplicationCredentials, env_value = CredentialsFilePath, env_valueFrom = None\<rparr>] @
     (if projectID \<noteq> [] then [\<lparr>env_name = envCloudSDKCoreProject, env_value = projectID, env_valueFrom = None\<rparr>] else [])"

definition DeploymentTransforms :: "'u api \<Rightarrow> Config \<Rightarrow> string \<Rightarrow> string \<Rightarrow> 'u transformer list" where
  "DeploymentTransforms A cfg projectID credentialsHash =
     [ReplaceDeploymentVolumes A (gcpVolumes cfg),
      ReplaceContainerVolumeMounts A gcpMounts kedaOperatorName,
      ReplaceContainerEnv A (gcpEnv projectID) kedaOperatorName,
      AddPodAnnotations A [CredentialsHashAnnotation \<mapsto> credentialsHash]]"

section \<open>The credentials determine the configuration\<close>

definition effectiveUniverse :: "string \<Rightarrow> string" where
  "effectiveUniverse u = (if u = [] then DefaultUniverseDomain else u)"

definition tokenURL :: "string \<Rightarrow> string" where
  "tokenURL u = ''https://sts.'' @ u @ ''/v1/token''"

definition impersonationURL :: "Config \<Rightarrow> string \<Rightarrow> string" where
  "impersonationURL c u = ''https://iamcredentials.'' @ u @ ''/v1/projects/-/serviceAccounts/'' @
     cfg_serviceAccountEmail c @ '':generateAccessToken''"

definition field :: "string \<Rightarrow> string" where
  "field k = newline 1 @ quoteString k @ '': ''"

text \<open>The document, cut at the three values that depend on the configuration.\<close>

definition credentialsHead :: string where
  "credentialsHead = ''{'' @ field ''type'' @ quoteString ''external_account'' @ '','' @ field ''audience''"

definition credentialsTail :: "Config \<Rightarrow> string \<Rightarrow> string \<Rightarrow> string" where
  "credentialsTail c u rest =
     quoteString (cfg_audience c) @ '','' @ field ''subject_token_type'' @
     quoteString ''urn:ietf:params:oauth:token-type:jwt'' @ '','' @ field ''token_url'' @
     quoteString (tokenURL u) @ '','' @ field ''service_account_impersonation_url'' @
     quoteString (impersonationURL c u) @ rest"

lemma credentials_layout: "\<exists>rest. CredentialsJSON c u = credentialsHead @ credentialsTail c (effectiveUniverse u) rest"
  by (simp add: CredentialsJSON_def externalAccountCredentials_def effectiveUniverse_def [symmetric]
      tokenURL_def impersonationURL_def field_def credentialsHead_def credentialsTail_def)

lemma CredentialsJSON_cong:
  assumes "cfg_audience c1 = cfg_audience c2" "cfg_serviceAccountEmail c1 = cfg_serviceAccountEmail c2"
    "effectiveUniverse u1 = effectiveUniverse u2"
  shows "CredentialsJSON c1 u1 = CredentialsJSON c2 u2"
  unfolding CredentialsJSON_def effectiveUniverse_def [symmetric] externalAccountCredentials_def assms by simp

lemma credentials_inject:
  assumes valid: "validUtf8 (cfg_audience c1)" "validUtf8 (cfg_audience c2)"
      "validUtf8 (cfg_serviceAccountEmail c1)" "validUtf8 (cfg_serviceAccountEmail c2)" "validUtf8 u1" "validUtf8 u2"
    and same: "CredentialsJSON c1 u1 = CredentialsJSON c2 u2"
  shows "cfg_audience c1 = cfg_audience c2 \<and> cfg_serviceAccountEmail c1 = cfg_serviceAccountEmail c2 \<and>
    effectiveUniverse u1 = effectiveUniverse u2"
proof -
  let ?u1 = "effectiveUniverse u1" and ?u2 = "effectiveUniverse u2"
  have u: "validUtf8 ?u1" "validUtf8 ?u2"
    using valid(5,6) by (simp_all add: effectiveUniverse_def DefaultUniverseDomain_def)
  have urls: "validUtf8 (tokenURL ?u1)" "validUtf8 (tokenURL ?u2)"
    "validUtf8 (impersonationURL c1 ?u1)" "validUtf8 (impersonationURL c2 ?u2)"
    using u valid unfolding tokenURL_def impersonationURL_def
    by (intro validUtf8_append; simp)+
  obtain r1 r2 where "credentialsTail c1 ?u1 r1 = credentialsTail c2 ?u2 r2"
    using same credentials_layout [of c1 u1] credentials_layout [of c2 u2] by (metis same_append_eq)
  from quote_inject [OF valid(1,2) this [unfolded credentialsTail_def]] have aud: "cfg_audience c1 = cfg_audience c2"
    and "quoteString (tokenURL ?u1) @ '','' @ field ''service_account_impersonation_url'' @
       quoteString (impersonationURL c1 ?u1) @ r1 =
     quoteString (tokenURL ?u2) @ '','' @ field ''service_account_impersonation_url'' @
       quoteString (impersonationURL c2 ?u2) @ r2"
    by simp_all
  from quote_inject [OF urls(1,2) this(2)] have tok: "tokenURL ?u1 = tokenURL ?u2"
    and "quoteString (impersonationURL c1 ?u1) @ r1 = quoteString (impersonationURL c2 ?u2) @ r2"
    by simp_all
  from quote_inject [OF urls(3,4) this(2)] have imp: "impersonationURL c1 ?u1 = impersonationURL c2 ?u2" ..
  have un: "?u1 = ?u2" using tok by (simp add: tokenURL_def)
  then have "cfg_serviceAccountEmail c1 = cfg_serviceAccountEmail c2"
    using imp by (simp add: impersonationURL_def)
  then show ?thesis using aud un by blast
qed

text \<open>
  The credential document is faithful to the configuration: for well-formed UTF-8 text, two
  configurations give the same bytes exactly when they agree on audience, service account and
  universe domain, whatever characters these hold, so that a value cannot break out of its
  field. Hence the pod annotation changes whenever the hash tells the two documents apart.
\<close>

theorem CredentialsJSON_faithful:
  assumes "validUtf8 (cfg_audience c1)" "validUtf8 (cfg_audience c2)"
    "validUtf8 (cfg_serviceAccountEmail c1)" "validUtf8 (cfg_serviceAccountEmail c2)" "validUtf8 u1" "validUtf8 u2"
  shows "(CredentialsJSON c1 u1 = CredentialsJSON c2 u2 \<longleftrightarrow>
      cfg_audience c1 = cfg_audience c2 \<and> cfg_serviceAccountEmail c1 = cfg_serviceAccountEmail c2 \<and>
      effectiveUniverse u1 = effectiveUniverse u2)
    \<and> (inj_on sha256Hex {CredentialsJSON c1 u1, CredentialsJSON c2 u2} \<longrightarrow>
        (CredentialsHash sha256Hex (CredentialsJSON c1 u1) = CredentialsHash sha256Hex (CredentialsJSON c2 u2) \<longleftrightarrow>
         CredentialsJSON c1 u1 = CredentialsJSON c2 u2))"
proof -
  have "CredentialsJSON c1 u1 = CredentialsJSON c2 u2 \<longleftrightarrow>
      cfg_audience c1 = cfg_audience c2 \<and> cfg_serviceAccountEmail c1 = cfg_serviceAccountEmail c2 \<and>
      effectiveUniverse u1 = effectiveUniverse u2"
    using credentials_inject [OF assms] CredentialsJSON_cong by blast
  moreover have "inj_on sha256Hex {x, y} \<Longrightarrow> CredentialsHash sha256Hex x = CredentialsHash sha256Hex y \<longleftrightarrow> x = y" for x y
    by (auto simp: CredentialsHash_def inj_on_def)
  ultimately show ?thesis by blast
qed

text \<open>The default universe written out or left empty gives the same document.\<close>

theorem CredentialsJSON_faithful_witness:
  "CredentialsJSON demoGcpConfig [] = CredentialsJSON demoGcpConfig ''googleapis.com'' \<and>
   CredentialsJSON demoGcpConfig [] \<noteq> CredentialsJSON demoGcpConfig ''example.com'' \<and>
   CredentialsHash id (CredentialsJSON demoGcpConfig []) \<noteq> CredentialsHash id (CredentialsJSON demoGcpConfig ''example.com'')"
proof -
  have "validUtf8 (cfg_audience demoGcpConfig)" "validUtf8 (cfg_serviceAccountEmail demoGcpConfig)"
    "validUtf8 ''googleapis.com''" "validUtf8 ''example.com''" "validUtf8 []"
    by (simp_all add: demoGcpConfig_def)
  note v = this
  have "inj_on id {CredentialsJSON demoGcpConfig [], CredentialsJSON demoGcpConfig ''example.com''}" by simp
  then show ?thesis
    using CredentialsJSON_faithful [OF v(1) v(1) v(2) v(2) v(5) v(3)]
      CredentialsJSON_faithful [OF v(1) v(1) v(2) v(2) v(5) v(4), of id]
    by (simp add: effectiveUniverse_def DefaultUniverseDomain_def)
qed

section \<open>The wiring of the Deployment\<close>

definition wireGcp :: "Config \<Rightarrow> string \<Rightarrow> string \<Rightarrow> deployment \<Rightarrow> deployment" where
  "wireGcp cfg projectID hash d =
     addPodAnnotations [CredentialsHashAnnotation \<mapsto> hash]
       (replaceContainerEnv (gcpEnv projectID) kedaOperatorName
         (replaceContainerVolumeMounts gcpMounts kedaOperatorName
           (replaceDeploymentVolumes (gcpVolumes cfg) d)))"

lemma DeploymentTransforms_realizes:
  assumes "codec_ok A ''Deployment'' d_meta (deployments A)"
  shows "realizes A (runTransforms (DeploymentTransforms A cfg projectID hash)) (wireGcp cfg projectID hash)"
proof -
  have "realizes A (runTransforms (DeploymentTransforms A cfg projectID hash))
      (fold (\<lambda>f. f) [replaceDeploymentVolumes (gcpVolumes cfg), replaceContainerVolumeMounts gcpMounts kedaOperatorName,
        replaceContainerEnv (gcpEnv projectID) kedaOperatorName, addPodAnnotations [CredentialsHashAnnotation \<mapsto> hash]])"
    using realizes_always [OF assms]
    by (intro realizes_run)
      (simp add: DeploymentTransforms_def ReplaceDeploymentVolumes_def ReplaceContainerVolumeMounts_def
        ReplaceContainerEnv_def AddPodAnnotations_def)
  then show ?thesis by (simp add: wireGcp_def [abs_def] comp_def)
qed

lemma addPodAnnotations_simps [simp]:
  "containers (addPodAnnotations m d) = containers d" "volumes (addPodAnnotations m d) = volumes d"
  by (simp_all add: addPodAnnotations_def containers_def volumes_def)

lemma replaceContainerVolumeMounts_lookup:
  "lookup_by c_name k (containers (replaceContainerVolumeMounts ms n d)) =
     (if k = n then map_option (mergeMounts ms) (lookup_by c_name n (containers d))
      else lookup_by c_name k (containers d))"
proof -
  let ?f = "\<lambda>c. if c_name c \<noteq> n then c else mergeMounts ms c"
  have "lookup_by c_name k (map ?f (containers d)) = map_option ?f (lookup_by c_name k (containers d))"
    by (rule lookup_by_map_container) simp
  then show ?thesis
    using lookup_by_SomeD [of c_name k "containers d"]
    by (cases "lookup_by c_name k (containers d)") (auto simp: replaceContainerVolumeMounts_def)
qed

lemma gcpVolumes_distinct: "distinct (map vol_name (gcpVolumes cfg))"
  by (simp add: gcpVolumes_def boundSATokenVolumeName_def credentialsVolumeName_def)

lemma wireGcp_volumes:
  "volumes (wireGcp cfg projectID hash d) = fold (upsert_first vol_name) (gcpVolumes cfg) (volumes d)"
  using fold_placeVolume [OF gcpVolumes_distinct, of cfg "volumes d" "volumes d"]
  by (simp add: wireGcp_def replaceContainerEnv_def replaceContainerVolumeMounts_def replaceDeploymentVolumes_def)

lemma wireGcp_containers:
  "lookup_by c_name k (containers (wireGcp cfg projectID hash d)) =
     (if k = kedaOperatorName
      then map_option (\<lambda>c. (mergeMounts gcpMounts c)\<lparr>c_env := mergeEnv (gcpEnv projectID) (c_env c)\<rparr>)
             (lookup_by c_name k (containers d))
      else lookup_by c_name k (containers d))"
  by (auto simp: wireGcp_def replaceContainerEnv_def env.lookup_container replaceContainerVolumeMounts_lookup
      replaceDeploymentVolumes_def option.map_comp comp_def mergeMounts_def)



end
