(* ===== verification/Util.thy ===== *)
theory Util
  imports ApiTypes GoJson
begin

text \<open>
  \<^verbatim>\<open>internal/controller/keda/util\<close>: data checksums, the cluster version check and the conversion of
  the TLS profile, and the validation of audit settings and the small decision functions of
  \<^verbatim>\<open>kedacontroller_controller.go\<close>. The hash, the order in which the run time ranges over a Go map, the
  Unicode digit table outside ASCII and the OpenSSL name table are parameters.
\<close>

section \<open>Checksums\<close>

definition CalculateConfigMapDataCheckSum ::
  "(string \<Rightarrow> string) \<Rightarrow> ((string \<times> string) list \<Rightarrow> (string \<times> string) list) \<Rightarrow> (string \<times> string) list \<Rightarrow> string" where
  "CalculateConfigMapDataCheckSum md5Hex ord m = md5Hex (concat (map (\<lambda>(k, v). k @ v) (ord m)))"

definition CalculateSecretedDataCheckSum ::
  "(string \<Rightarrow> string) \<Rightarrow> ((string \<times> string) list \<Rightarrow> (string \<times> string) list) \<Rightarrow> (string \<times> string) list \<Rightarrow> string" where
  "CalculateSecretedDataCheckSum md5Hex ord m = md5Hex (concat (map (\<lambda>(k, v). k @ v) (ord m)))"

section \<open>Cluster version\<close>

text \<open>The runes of a string, each as its bytes; an ill-formed byte is a rune of its own.\<close>

function runes :: "string \<Rightarrow> string list" where
  "runes [] = []"
| "runes (c # s) =
     (if (of_char c :: nat) < 128 \<or> runeWidth (c # s) = 0 then [c] # runes s
      else take (runeWidth (c # s)) (c # s) # runes (drop (runeWidth (c # s) - 1) s))"
  by pat_completeness auto
termination by (relation "measure length") auto

text \<open>\<open>unicode.IsDigit\<close>: an ASCII digit, or a well-formed longer rune that the table lists.\<close>

definition IsDigit :: "(string \<Rightarrow> bool) \<Rightarrow> string \<Rightarrow> bool" where
  "IsDigit wideDigit r = (case r of [c] \<Rightarrow> isDigit c | _ \<Rightarrow> wideDigit r)"

definition RunningOnClusterWithoutSeccompProfileDefault ::
  "(string \<Rightarrow> bool) \<Rightarrow> (error + string \<times> string) option \<Rightarrow> bool" where
  "RunningOnClusterWithoutSeccompProfileDefault wideDigit discoveryClient =
     (case discoveryClient of
        None \<Rightarrow> False
      | Some (Inl err) \<Rightarrow> False
      | Some (Inr (majorVersion, minorVersion)) \<Rightarrow>
          (case Atoi majorVersion of
             None \<Rightarrow> False
           | Some major \<Rightarrow>
               (case Atoi (concat (takeWhile (IsDigit wideDigit) (runes minorVersion))) of
                  None \<Rightarrow> False
                | Some minor \<Rightarrow> major \<le> 1 \<and> minor \<le> 23)))"

section \<open>TLS profile\<close>

record TLSProfileSpec =
  tls_ciphers :: "string list"
  tls_minTLSVersion :: string

definition ConvertTLSProfileSpec :: "(string list \<Rightarrow> string list) \<Rightarrow> TLSProfileSpec \<Rightarrow> string \<times> string list" where
  "ConvertTLSProfileSpec openSSLToIANA profile =
     (TrimPrefix (tls_minTLSVersion profile) ''Version'', openSSLToIANA (tls_ciphers profile))"

section \<open>Decisions of the controller\<close>

definition kedaControllerResourceName :: string where "kedaControllerResourceName = ''keda''"

definition isInteresting :: "string \<times> string \<Rightarrow> string \<Rightarrow> bool" where
  "isInteresting request ns = (fst request = kedaControllerResourceName \<and> snd request = ns)"

text \<open>An integer argument: absent is zero, and a conversion error names the flag.\<close>

definition lifetimeArg :: "string \<Rightarrow> string \<Rightarrow> error + int" where
  "lifetimeArg message s =
     (if s = [] then Ok 0 else case Atoi s of None \<Rightarrow> Err (Errorf message []) | Some i \<Rightarrow> Ok i)"

definition validateAuditLogVolumeWithArgs :: "string \<Rightarrow> AuditLifetime \<Rightarrow> error option" where
  "validateAuditLogVolumeWithArgs name ltArgs =
     (if name \<noteq> [] then None
      else
        (case bindE (lifetimeArg ''bad conversion of string in audit flag maxAge'' (al_maxAge ltArgs)) (\<lambda>maxage.
              bindE (lifetimeArg ''bad conversion of string in audit flag maxBackup'' (al_maxBackup ltArgs)) (\<lambda>maxbackup.
              bindE (lifetimeArg ''bad conversion of string in audit flag maxSize'' (al_maxSize ltArgs)) (\<lambda>maxsize.
                if maxage \<ge> 1 \<or> maxbackup \<ge> 1 \<or> maxsize \<ge> 1
                then Err (Errorf ''bad flag combination - don't use lifetime arguments when logging to stdout'' [])
                else Ok ()))) of
           Inl e \<Rightarrow> Some e
         | Inr _ \<Rightarrow> None))"

definition httpAddonResolveImage :: "HTTPAddonImageSpec \<Rightarrow> string \<Rightarrow> string \<Rightarrow> string" where
  "httpAddonResolveImage imageSpec defaultImage globalVersion =
     (let tag = (if hi_tag imageSpec = [] then globalVersion else hi_tag imageSpec)
      in if hi_name imageSpec = [] \<and> tag = [] then []
         else
           (let name = (if hi_name imageSpec = [] then defaultImage else hi_name imageSpec)
            in if tag = [] then name else name @ '':'' @ tag))"

section \<open>What the checksums tell apart\<close>

text \<open>
  The data checksum is not a function of the data: whatever the hash, moving the boundary
  between key and value gives the same checksum, so such a change goes unnoticed; and as soon as
  the hash tells the two texts apart, ranging over one and the same two-entry map in the other
  order gives a different checksum, so unchanged data is reported as changed.
\<close>

theorem checksum_not_a_function_of_data:
  "CalculateConfigMapDataCheckSum md5Hex id [(k @ w, v)] = CalculateConfigMapDataCheckSum md5Hex id [(k, w @ v)]
   \<and> (md5Hex ''a1b2'' \<noteq> md5Hex ''b2a1'' \<longrightarrow>
        CalculateConfigMapDataCheckSum md5Hex id [(''a'', ''1''), (''b'', ''2'')] \<noteq>
        CalculateConfigMapDataCheckSum md5Hex rev [(''a'', ''1''), (''b'', ''2'')])"
  by (simp add: CalculateConfigMapDataCheckSum_def)

theorem checksum_not_a_function_of_data_witness:
  "CalculateConfigMapDataCheckSum id id [(''a'', ''1''), (''b'', ''2'')] \<noteq>
   CalculateConfigMapDataCheckSum id rev [(''a'', ''1''), (''b'', ''2'')]"
  using checksum_not_a_function_of_data [of id] by simp

section \<open>The version check\<close>

lemma runes_ascii: "list_all (\<lambda>c. (of_char c :: nat) < 128) s \<Longrightarrow> runes s = map (\<lambda>c. [c]) s"
  by (induction s) auto

lemma digit_ascii: "isDigit c \<Longrightarrow> (of_char c :: nat) < 128"
  by (simp add: isDigit_def)

lemma leading_digits:
  assumes "list_all isDigit ds" and "s = [] \<or> (of_char (hd s) :: nat) < 128 \<and> \<not> isDigit (hd s)"
  shows "concat (takeWhile (IsDigit wide) (runes (ds @ s))) = ds"
  using assms(1)
proof (induction ds)
  case Nil
  then show ?case using assms(2) by (cases s) (auto simp: IsDigit_def)
next
  case (Cons d ds)
  then show ?case using digit_ascii [of d] by (simp add: IsDigit_def)
qed



section \<open>Audit settings\<close>

text \<open>A lifetime argument as the code reads it: absent counts as zero.\<close>

definition lifetimeOf :: "string \<Rightarrow> int option" where
  "lifetimeOf s = (if s = [] then Some 0 else Atoi s)"

lemma lifetimeArg_eq:
  "lifetimeArg m s = (case lifetimeOf s of None \<Rightarrow> Inl (Errorf m []) | Some i \<Rightarrow> Inr i)"
  by (simp add: lifetimeArg_def lifetimeOf_def)


end
