(* ===== verification/Client.thy ===== *)
theory Client
  imports GcpCredentials Util
begin

text \<open>
  Effects of the reconcilers. The cluster, the API client of \<^verbatim>\<open>controller-runtime\<close>, \<^verbatim>\<open>manifestival\<close>,
  the certificate rotator and the process environment are third-party code or the outside world: they are the
  record \<open>client\<close>, a parameter, over an abstract cluster state \<open>'w\<close> that any call may change. An
  operation of the operator is a function on the state of a reconcile run: the cluster, the local
  variable \<open>status\<close>, the field \<open>rotatorStarted\<close>, and a record of the calls that change the cluster,
  with their outcome, on which the theorems about order and about what is written rest.
\<close>

section \<open>Objects of the typed client\<close>

record ownerReference =
  or_kind :: string
  or_name :: string
  or_uid :: string
  or_controller :: bool

record secret =
  se_meta :: objectMeta
  se_owners :: "ownerReference list"
  se_type :: string
  se_data :: "(string \<times> string) list"
  se_stringData :: "(string \<times> string) list"

text \<open>A nil \<open>Data\<close> map of a ConfigMap reads as empty, and writing to it panics.\<close>

record configMap =
  cm_meta :: objectMeta
  cm_owners :: "ownerReference list"
  cm_data :: "(string \<times> string) list option"

record policyRule =
  pr_apiGroups :: "string list"
  pr_resources :: "string list"
  pr_verbs :: "string list"
  pr_rest :: json

record role =
  ro_meta :: objectMeta
  ro_owners :: "ownerReference list"
  ro_rules :: "policyRule list"

record ownedRoleBinding =
  rbo_binding :: roleBinding
  rbo_owners :: "ownerReference list"

record namespace' =
  ns_meta :: objectMeta

record apiServer =
  ap_tlsAdherence :: string
  ap_tlsSecurityProfile :: "json option"

type_synonym objectKey = "string \<times> string"

text \<open>The configuration of the certificate rotator.\<close>

record certRotator =
  cr_secretKey :: objectKey
  cr_caName :: string
  cr_caOrganization :: string
  cr_certDir :: string
  cr_requireLeaderElection :: bool
  cr_extKeyUsages :: "string list"

section \<open>Calls and the state of a run\<close>

text \<open>The calls that change the cluster.\<close>

datatype 'u call =
    ApplyManifest "'u list"
  | DeleteManifest "'u list"
  | WriteSecret secret
  | DeleteSecret secret
  | WriteConfigMap configMap
  | WriteRole role
  | WriteRoleBinding ownedRoleBinding
  | DeleteRoleBinding ownedRoleBinding
  | PatchStatus KedaControllerStatus
  | PatchController KedaController
  | CreateController KedaController
  | PatchNamespace namespace'
  | AddRotator certRotator

record ('u, 'w) run =
  r_cluster :: 'w
  r_calls :: "('u call \<times> bool) list"
  r_status :: KedaControllerStatus
  r_rotatorStarted :: bool

type_synonym ('u, 'w, 'a) io = "('u, 'w) run \<Rightarrow> (error + 'a) \<times> ('u, 'w) run"

type_synonym ('w, 'a) request = "'w \<Rightarrow> (error + 'a) \<times> 'w"

definition returnIO :: "'a \<Rightarrow> ('u, 'w, 'a) io" where "returnIO x s = (Ok x, s)"

definition failIO :: "error \<Rightarrow> ('u, 'w, 'a) io" where "failIO e s = (Err e, s)"

definition bindIO :: "('u, 'w, 'a) io \<Rightarrow> ('a \<Rightarrow> ('u, 'w, 'b) io) \<Rightarrow> ('u, 'w, 'b) io" where
  "bindIO m k s = (case m s of (r, s') \<Rightarrow> (case r of Inl e \<Rightarrow> (Err e, s') | Inr x \<Rightarrow> k x s'))"

definition thenIO :: "('u, 'w, 'a) io \<Rightarrow> ('u, 'w, 'b) io \<Rightarrow> ('u, 'w, 'b) io" where
  "thenIO m k = bindIO m (\<lambda>_. k)"

text \<open>\<open>if x, err := f(); err != nil { ... }\<close>: the error as a value.\<close>

definition tryIO :: "('u, 'w, 'a) io \<Rightarrow> ('u, 'w, error + 'a) io" where
  "tryIO m s = (case m s of (r, s') \<Rightarrow> (Ok r, s'))"

definition liftE :: "error + 'a \<Rightarrow> ('u, 'w, 'a) io" where "liftE r s = (r, s)"

definition whenIO :: "bool \<Rightarrow> ('u, 'w, unit) io \<Rightarrow> ('u, 'w, unit) io" where
  "whenIO b m = (if b then m else returnIO ())"

definition getStatus :: "('u, 'w, KedaControllerStatus) io" where "getStatus s = (Ok (r_status s), s)"

definition modifyStatus :: "(KedaControllerStatus \<Rightarrow> KedaControllerStatus) \<Rightarrow> ('u, 'w, unit) io" where
  "modifyStatus f s = (Ok (), s\<lparr>r_status := f (r_status s)\<rparr>)"

text \<open>A call that only reads, and one that changes the cluster.\<close>

definition reading :: "('w, 'a) request \<Rightarrow> ('u, 'w, 'a) io" where
  "reading f s = (case f (r_cluster s) of (r, w) \<Rightarrow> (r, s\<lparr>r_cluster := w\<rparr>))"

definition calling :: "'u call \<Rightarrow> ('w, 'a) request \<Rightarrow> ('u, 'w, 'a) io" where
  "calling c f s = (case f (r_cluster s) of (r, w) \<Rightarrow>
     (r, s\<lparr>r_cluster := w, r_calls := r_calls s @ [(c, case r of Inl _ \<Rightarrow> False | Inr _ \<Rightarrow> True)]\<rparr>))"

section \<open>The client\<close>

record ('u, 'w) client =
  getKedaController :: "objectKey \<Rightarrow> ('w, KedaController) request"
  createKedaController :: "KedaController \<Rightarrow> ('w, unit) request"
  patchKedaController :: "KedaController \<Rightarrow> ('w, unit) request"
  patchKedaControllerStatus :: "KedaController \<Rightarrow> KedaControllerStatus \<Rightarrow> ('w, unit) request"
  getNamespaceObject :: "string \<Rightarrow> ('w, namespace') request"
  patchNamespaceObject :: "namespace' \<Rightarrow> ('w, unit) request"
  getSecret :: "objectKey \<Rightarrow> ('w, secret) request"
  createSecret :: "secret \<Rightarrow> ('w, unit) request"
  updateSecret :: "secret \<Rightarrow> ('w, unit) request"
  deleteSecret :: "secret \<Rightarrow> ('w, unit) request"
  getConfigMap :: "objectKey \<Rightarrow> ('w, configMap) request"
  createConfigMap :: "configMap \<Rightarrow> ('w, unit) request"
  updateConfigMap :: "configMap \<Rightarrow> ('w, unit) request"
  getRole :: "objectKey \<Rightarrow> ('w, role) request"
  createRole :: "role \<Rightarrow> ('w, unit) request"
  updateRole :: "role \<Rightarrow> ('w, unit) request"
  getRoleBinding :: "objectKey \<Rightarrow> ('w, ownedRoleBinding) request"
  createRoleBinding :: "ownedRoleBinding \<Rightarrow> ('w, unit) request"
  updateRoleBinding :: "ownedRoleBinding \<Rightarrow> ('w, unit) request"
  deleteRoleBinding :: "ownedRoleBinding \<Rightarrow> ('w, unit) request"
  getPersistentVolumeClaim :: "objectKey \<Rightarrow> ('w, unit) request"
  getInfrastructure :: "string \<Rightarrow> ('w, infrastructure) request"
  getAPIServer :: "('w, apiServer) request"
  listGvk :: "string \<times> string \<times> string \<Rightarrow> ('w, unit) request"
  applyManifest :: "'u list \<Rightarrow> ('w, unit) request"
  deleteManifest :: "'u list \<Rightarrow> ('w, unit) request"
  addRotator :: "certRotator \<Rightarrow> ('w, unit) request"
  serverVersion :: "('w, string \<times> string) request option"
  timestamp :: "('w, string) request"
  waitForCacheSync :: "('w, bool) request"
  getenv :: "string \<Rightarrow> string"
  setControllerReference :: "KedaController \<Rightarrow> objectMeta \<Rightarrow> ownerReference list \<Rightarrow> error + ownerReference list"
  isControlledBy :: "ownerReference list \<Rightarrow> KedaController \<Rightarrow> bool"
  containsFinalizer :: "KedaController \<Rightarrow> string \<Rightarrow> bool"
  addFinalizerTo :: "KedaController \<Rightarrow> string \<Rightarrow> KedaController"
  removeFinalizerFrom :: "KedaController \<Rightarrow> string \<Rightarrow> KedaController"
  errorText :: "error \<Rightarrow> string"
  marshalPolicy :: "AuditPolicy \<Rightarrow> error + string"
  shouldHonorClusterTLSProfile :: "string \<Rightarrow> bool"
  getTLSProfileSpec :: "json option \<Rightarrow> error + TLSProfileSpec"
  openSSLToIANACipherSuites :: "string list \<Rightarrow> string list"
  sha256Hex :: "string \<Rightarrow> string"
  md5Hex :: "string \<Rightarrow> string"
  dataOrder :: "(string \<times> string) list \<Rightarrow> (string \<times> string) list"
  volumeOrder :: "(string \<times> volume) list \<Rightarrow> (string \<times> volume) list"
  mountOrder :: "(string \<times> volumeMount) list \<Rightarrow> (string \<times> volumeMount) list"
  wideDigit :: "string \<Rightarrow> bool"
  kube :: "'u api"

text \<open>
  Documented behaviour of the owner reference helpers: after \<open>SetControllerReference\<close> succeeds the
  object is controlled by the owner.
\<close>

definition ownership_ok :: "('u, 'w) client \<Rightarrow> bool" where
  "ownership_ok C \<longleftrightarrow>
     (\<forall>k m os os'. setControllerReference C k m os = Inr os' \<longrightarrow> isControlledBy C os' k)"

section \<open>Queries\<close>

definition isGvkPresent :: "('u, 'w) client \<Rightarrow> string \<times> string \<times> string \<Rightarrow> ('u, 'w, bool) io" where
  "isGvkPresent C gvk =
     bindIO (tryIO (reading (listGvk C gvk))) (\<lambda>r. returnIO (case r of Inl _ \<Rightarrow> False | Inr _ \<Rightarrow> True))"

definition RunningOnOpenshift :: "('u, 'w) client \<Rightarrow> ('u, 'w, bool) io" where
  "RunningOnOpenshift C = isGvkPresent C (''route.openshift.io'', ''v1'', ''route'')"

definition HasServiceMonitorCRD :: "('u, 'w) client \<Rightarrow> ('u, 'w, bool) io" where
  "HasServiceMonitorCRD C = isGvkPresent C (''monitoring.coreos.com'', ''v1'', ''ServiceMonitor'')"

definition HasPodMonitorCRD :: "('u, 'w) client \<Rightarrow> ('u, 'w, bool) io" where
  "HasPodMonitorCRD C = isGvkPresent C (''monitoring.coreos.com'', ''v1'', ''PodMonitor'')"

definition withoutSeccompProfileDefault :: "('u, 'w) client \<Rightarrow> ('u, 'w, bool) io" where
  "withoutSeccompProfileDefault C =
     (case serverVersion C of
        None \<Rightarrow> returnIO (RunningOnClusterWithoutSeccompProfileDefault (wideDigit C) None)
      | Some f \<Rightarrow> bindIO (tryIO (reading f)) (\<lambda>v.
          returnIO (RunningOnClusterWithoutSeccompProfileDefault (wideDigit C) (Some v))))"

definition UpdateKedaControllerStatus ::
  "('u, 'w) client \<Rightarrow> KedaController \<Rightarrow> KedaControllerStatus \<Rightarrow> ('u, 'w, unit) io" where
  "UpdateKedaControllerStatus C k status = calling (PatchStatus status) (patchKedaControllerStatus C k status)"

section \<open>Laws of the combinators\<close>

lemma io_simps [simp]:
  "returnIO x s = (Inr x, s)" "failIO e s = (Inl e, s)" "liftE r s = (r, s)"
  "getStatus s = (Inr (r_status s), s)" "modifyStatus f s = (Inr (), s\<lparr>r_status := f (r_status s)\<rparr>)"
  by (simp_all add: returnIO_def failIO_def liftE_def getStatus_def modifyStatus_def)

lemma bindIO_Ok: "bindIO m k s = (Inr y, t) \<longleftrightarrow> (\<exists>x u. m s = (Inr x, u) \<and> k x u = (Inr y, t))"
  by (auto simp: bindIO_def split: prod.splits sum.splits)

lemma bindIO_Err:
  "bindIO m k s = (Inl e, t) \<longleftrightarrow> m s = (Inl e, t) \<or> (\<exists>x u. m s = (Inr x, u) \<and> k x u = (Inl e, t))"
  by (auto simp: bindIO_def split: prod.splits sum.splits)

lemma thenIO_Ok: "thenIO m k s = (Inr y, t) \<longleftrightarrow> (\<exists>x u. m s = (Inr x, u) \<and> k u = (Inr y, t))"
  by (simp add: thenIO_def bindIO_Ok)

lemma thenIO_Err:
  "thenIO m k s = (Inl e, t) \<longleftrightarrow> m s = (Inl e, t) \<or> (\<exists>x u. m s = (Inr x, u) \<and> k u = (Inl e, t))"
  by (simp add: thenIO_def bindIO_Err)

lemma tryIO_eq: "tryIO m s = (r, t) \<longleftrightarrow> (\<exists>x. r = Inr x \<and> m s = (x, t))"
  by (auto simp: tryIO_def split: prod.splits)

text \<open>Reading leaves everything but the cluster alone.\<close>

definition quiet :: "('u, 'w, 'a) io \<Rightarrow> bool" where
  "quiet m \<longleftrightarrow> (\<forall>s r t. m s = (r, t) \<longrightarrow>
     r_calls t = r_calls s \<and> r_status t = r_status s \<and> r_rotatorStarted t = r_rotatorStarted s)"

lemma quietD:
  "quiet m \<Longrightarrow> m s = (r, t) \<Longrightarrow>
   r_calls t = r_calls s \<and> r_status t = r_status s \<and> r_rotatorStarted t = r_rotatorStarted s"
  unfolding quiet_def by blast

named_theorems quiet_intros \<open>operations that only read\<close>

lemma quiet_return [quiet_intros]: "quiet (returnIO x)" and quiet_fail [quiet_intros]: "quiet (failIO e)"
  and quiet_liftE [quiet_intros]: "quiet (liftE r)" and quiet_getStatus [quiet_intros]: "quiet getStatus"
  by (simp_all add: quiet_def)

lemma quiet_reading [quiet_intros]: "quiet (reading f)"
  by (auto simp: quiet_def reading_def split: prod.splits)

lemma quiet_bind [quiet_intros]:
  assumes "quiet m" "\<And>x. quiet (k x)"
  shows "quiet (bindIO m k)"
proof -
  have "r_calls t = r_calls s \<and> r_status t = r_status s \<and> r_rotatorStarted t = r_rotatorStarted s"
    if run: "bindIO m k s = (r, t)" for s r t
  proof -
    obtain x u where m: "m s = (x, u)" by (cases "m s")
    show ?thesis
    proof (cases x)
      case (Inl e)
      then show ?thesis using run m quietD [OF assms(1) m] by (auto simp: bindIO_def)
    next
      case (Inr y)
      then have "k y u = (r, t)" using run m by (simp add: bindIO_def)
      then show ?thesis using quietD [OF assms(1) m] quietD [OF assms(2)] by fastforce
    qed
  qed
  then show ?thesis unfolding quiet_def by blast
qed

lemma quiet_try [quiet_intros]: "quiet m \<Longrightarrow> quiet (tryIO m)"
  unfolding quiet_def tryIO_eq by blast

lemma quiet_then [quiet_intros]: "quiet m \<Longrightarrow> quiet k \<Longrightarrow> quiet (thenIO m k)"
  unfolding thenIO_def by (rule quiet_bind)

lemma quiet_queries [quiet_intros]:
  "quiet (RunningOnOpenshift C)" "quiet (HasServiceMonitorCRD C)" "quiet (HasPodMonitorCRD C)"
  "quiet (withoutSeccompProfileDefault C)"
  unfolding RunningOnOpenshift_def HasServiceMonitorCRD_def HasPodMonitorCRD_def isGvkPresent_def
    withoutSeccompProfileDefault_def
  by (auto intro!: quiet_intros split: option.split)

text \<open>After reading, either an error is passed on or the rest runs with the calls as they were.\<close>

lemma bind_quiet:
  assumes "quiet m" "bindIO m k s = (r, t)"
  shows "(\<exists>e. r = Inl e \<and> r_calls t = r_calls s) \<or> (\<exists>x u. k x u = (r, t) \<and> r_calls u = r_calls s)"
  using assms(2) quietD [OF assms(1), of s] by (cases "m s", cases "fst (m s)") (auto simp: bindIO_def)

lemma bind_quiet3:
  assumes "quiet m1" "\<And>a. quiet (m2 a)" "\<And>a b. quiet (m3 a b)"
    and run: "bindIO m1 (\<lambda>a. bindIO (m2 a) (\<lambda>b. bindIO (m3 a b) (\<lambda>c. k a b c))) s = (r, t)"
  shows "(\<exists>e. r = Inl e \<and> r_calls t = r_calls s) \<or> (\<exists>a b c u. k a b c u = (r, t) \<and> r_calls u = r_calls s)"
  using bind_quiet [OF assms(1) run]
proof (elim disjE exE conjE)
  fix a u
  assume "bindIO (m2 a) (\<lambda>b. bindIO (m3 a b) (\<lambda>c. k a b c)) u = (r, t)" and u: "r_calls u = r_calls s"
  from bind_quiet [OF assms(2) this(1)] show ?thesis
  proof (elim disjE exE conjE)
    fix b v
    assume "bindIO (m3 a b) (\<lambda>c. k a b c) v = (r, t)" and v: "r_calls v = r_calls u"
    from bind_quiet [OF assms(3) this(1)] show ?thesis using u v by force
  qed (use u in simp)
qed simp

section \<open>What the operations call\<close>

text \<open>\<open>emits P m\<close>: every call that \<open>m\<close> adds satisfies \<open>P\<close>.\<close>

definition emits :: "('u call \<Rightarrow> bool) \<Rightarrow> ('u, 'w, 'a) io \<Rightarrow> bool" where
  "emits P m \<longleftrightarrow> (\<forall>s r t. m s = (r, t) \<longrightarrow> (\<exists>cs. r_calls t = r_calls s @ cs \<and> list_all (\<lambda>c. P (fst c)) cs))"

named_theorems emits_intros \<open>which calls an operation makes\<close>

lemma emitsD:
  "emits P m \<Longrightarrow> m s = (r, t) \<Longrightarrow> \<exists>cs. r_calls t = r_calls s @ cs \<and> list_all (\<lambda>c. P (fst c)) cs"
  unfolding emits_def by blast

lemma quiet_emits: "quiet m \<Longrightarrow> emits P m"
  using quietD by (fastforce simp: emits_def)

lemma emits_bind [emits_intros]:
  assumes "emits P m" "\<And>x. emits P (k x)"
  shows "emits P (bindIO m k)"
proof -
  have "\<exists>cs. r_calls t = r_calls s @ cs \<and> list_all (\<lambda>c. P (fst c)) cs" if run: "bindIO m k s = (r, t)" for s r t
  proof -
    obtain x u where m: "m s = (x, u)" by (cases "m s")
    obtain cs where cs: "r_calls u = r_calls s @ cs" "list_all (\<lambda>c. P (fst c)) cs"
      using emitsD [OF assms(1) m] by blast
    show ?thesis
    proof (cases x)
      case (Inl e)
      then show ?thesis using run m cs by (auto simp: bindIO_def)
    next
      case (Inr y)
      then have "k y u = (r, t)" using run m by (simp add: bindIO_def)
      from emitsD [OF assms(2) this] show ?thesis using cs by (metis append.assoc list_all_append)
    qed
  qed
  then show ?thesis unfolding emits_def by blast
qed

lemma emits_then [emits_intros]: "emits P m \<Longrightarrow> emits P k \<Longrightarrow> emits P (thenIO m k)"
  unfolding thenIO_def by (rule emits_bind)

lemma emits_try [emits_intros]: "emits P m \<Longrightarrow> emits P (tryIO m)"
  unfolding emits_def tryIO_eq by blast

lemma emits_calling [emits_intros]: "P c \<Longrightarrow> emits P (calling c f)"
  by (auto simp: emits_def calling_def split: prod.splits)

lemma emits_modifyStatus [emits_intros]: "emits P (modifyStatus f)"
  by (auto simp: emits_def)

lemma emits_when [emits_intros]: "(b \<Longrightarrow> emits P m) \<Longrightarrow> emits P (whenIO b m)"
  by (simp add: whenIO_def quiet_emits quiet_intros)


lemma emits_reads [emits_intros]:
  "emits P (returnIO x)" "emits P (failIO e)" "emits P (liftE r)" "emits P getStatus" "emits P (reading f)"
  "emits P (RunningOnOpenshift C)" "emits P (HasServiceMonitorCRD C)" "emits P (HasPodMonitorCRD C)"
  "emits P (withoutSeccompProfileDefault C)"
  by (rule quiet_emits, rule quiet_intros)+

text \<open>The continuation after a call whose error is looked at.\<close>

lemma emits_result:
  "(\<And>e. emits P (f e)) \<Longrightarrow> (\<And>x. emits P (g x)) \<Longrightarrow> emits P (case r of Inl e \<Rightarrow> f e | Inr x \<Rightarrow> g x)"
  by (cases r) simp_all

lemma emits_if: "(b \<Longrightarrow> emits P m) \<Longrightarrow> (\<not> b \<Longrightarrow> emits P n) \<Longrightarrow> emits P (if b then m else n)"
  by simp

lemma emits_notFound:
  "(\<And>n. emits P (f n)) \<Longrightarrow> (\<And>e. emits P (g e)) \<Longrightarrow> emits P (case e of NotFound n \<Rightarrow> f n | _ \<Rightarrow> g e)"
  by (cases e) simp_all

text \<open>
  \<open>settles m\<close>: when \<open>m\<close> returns without an error, every call it made succeeded. The one failure that
  the code takes for success is deleting a Secret that is gone already.
\<close>

definition harmless :: "'u call \<times> bool \<Rightarrow> bool" where
  "harmless c = (case c of (DeleteSecret _, _) \<Rightarrow> True | (_, ok) \<Rightarrow> ok)"

definition settles :: "('u, 'w, 'a) io \<Rightarrow> bool" where
  "settles m \<longleftrightarrow> (\<forall>s x t. m s = (Inr x, t) \<longrightarrow> (\<exists>cs. r_calls t = r_calls s @ cs \<and> list_all harmless cs))"

named_theorems settles_intros \<open>operations that only succeed when their calls do\<close>

lemma harmless_True [simp]: "harmless (c, True)"
  by (cases c) (simp_all add: harmless_def)

lemma settlesD: "settles m \<Longrightarrow> m s = (Inr x, t) \<Longrightarrow> \<exists>cs. r_calls t = r_calls s @ cs \<and> list_all harmless cs"
  unfolding settles_def by blast

lemma quiet_settles: "quiet m \<Longrightarrow> settles m"
  using quietD by (fastforce simp: settles_def)

lemma settles_bind [settles_intros]:
  assumes "settles m" "\<And>x. settles (k x)"
  shows "settles (bindIO m k)"
proof -
  have "\<exists>cs. r_calls t = r_calls s @ cs \<and> list_all harmless cs" if run: "bindIO m k s = (Inr y, t)" for s y t
  proof -
    obtain x u where m: "m s = (Inr x, u)" and k: "k x u = (Inr y, t)" using run by (auto simp: bindIO_Ok)
    from settlesD [OF assms(1) m] settlesD [OF assms(2) k] show ?thesis
      by (metis append.assoc list_all_append)
  qed
  then show ?thesis unfolding settles_def by blast
qed

lemma settles_then [settles_intros]: "settles m \<Longrightarrow> settles k \<Longrightarrow> settles (thenIO m k)"
  unfolding thenIO_def by (rule settles_bind)

lemma settles_calling [settles_intros]: "settles (calling c f)"
  by (auto simp: settles_def calling_def split: prod.splits)

lemma settles_modifyStatus [settles_intros]: "settles (modifyStatus f)"
  by (auto simp: settles_def)

lemma settles_when [settles_intros]: "settles m \<Longrightarrow> settles (whenIO b m)"
  by (simp add: whenIO_def quiet_settles quiet_intros)

lemma settles_try_reading [settles_intros]: "settles (tryIO (reading f))"
  by (rule quiet_settles) (intro quiet_intros)

lemma settles_reads [settles_intros]:
  "settles (returnIO x)" "settles (failIO e)" "settles (liftE r)" "settles getStatus" "settles (reading f)"
  "settles (RunningOnOpenshift C)" "settles (HasServiceMonitorCRD C)" "settles (HasPodMonitorCRD C)"
  "settles (withoutSeccompProfileDefault C)"
  by (rule quiet_settles, rule quiet_intros)+

text \<open>An error that is looked at and then passed on.\<close>

definition fails :: "('u, 'w, 'a) io \<Rightarrow> bool" where
  "fails m \<longleftrightarrow> (\<forall>s. \<exists>e t. m s = (Inl e, t))"

lemma fails_failIO [simp]: "fails (failIO e)"
  by (simp add: fails_def)

lemma fails_thenIO: "fails k \<Longrightarrow> fails (thenIO m k)"
  unfolding fails_def thenIO_def bindIO_def by (metis (no_types, lifting) old.prod.case sum.case_eq_if surj_pair)

lemma settles_try_fail:
  assumes "settles m" "\<And>e. fails (f e)" "\<And>x. settles (g x)"
  shows "settles (bindIO (tryIO m) (\<lambda>r. case r of Inl e \<Rightarrow> f e | Inr x \<Rightarrow> g x))"
proof -
  have "\<exists>cs. r_calls t = r_calls s @ cs \<and> list_all harmless cs"
    if run: "bindIO (tryIO m) (\<lambda>r. case r of Inl e \<Rightarrow> f e | Inr x \<Rightarrow> g x) s = (Inr y, t)" for s y t
  proof -
    obtain r u where m: "m s = (r, u)" and k: "(case r of Inl e \<Rightarrow> f e | Inr x \<Rightarrow> g x) u = (Inr y, t)"
      using run by (auto simp: bindIO_Ok tryIO_eq)
    obtain x where x: "r = Inr x"
      using k assms(2) unfolding fails_def by (cases r) (simp, metis Inl_Inr_False prod.inject)
    show ?thesis
      using settlesD [OF assms(1), of s x u] settlesD [OF assms(3), of x u y t] m k x
      by (auto simp: list_all_append)
  qed
  then show ?thesis unfolding settles_def by blast
qed

section \<open>What an operation returns\<close>

text \<open>\<open>yields Q m\<close>: whenever \<open>m\<close> succeeds its result satisfies \<open>Q\<close>.\<close>

definition yields :: "('a \<Rightarrow> bool) \<Rightarrow> ('u, 'w, 'a) io \<Rightarrow> bool" where
  "yields Q m \<longleftrightarrow> (\<forall>s x t. m s = (Inr x, t) \<longrightarrow> Q x)"

named_theorems yields_intros \<open>what the result of an operation satisfies\<close>

lemma yields_return [yields_intros]: "Q x \<Longrightarrow> yields Q (returnIO x)"
  by (simp add: yields_def)

lemma yields_fail [yields_intros]: "yields Q (failIO e)"
  by (simp add: yields_def)

lemma yields_liftE [yields_intros]: "(\<And>x. r = Inr x \<Longrightarrow> Q x) \<Longrightarrow> yields Q (liftE r)"
  by (simp add: yields_def)

lemma yields_bind: "yields P m \<Longrightarrow> (\<And>x. P x \<Longrightarrow> yields Q (k x)) \<Longrightarrow> yields Q (bindIO m k)"
  unfolding yields_def bindIO_Ok by blast

lemma yields_after [yields_intros]: "(\<And>x. yields Q (k x)) \<Longrightarrow> yields Q (bindIO m k)"
  by (rule yields_bind [where P = "\<lambda>_. True"]) (simp_all add: yields_def)

lemma yields_then [yields_intros]: "yields Q k \<Longrightarrow> yields Q (thenIO m k)"
  unfolding thenIO_def by (rule yields_after)

lemma yields_if [yields_intros]: "(b \<Longrightarrow> yields Q m) \<Longrightarrow> (\<not> b \<Longrightarrow> yields Q n) \<Longrightarrow> yields Q (if b then m else n)"
  by simp

lemma emits_bind_yields:
  assumes "yields Q m" "emits P m" "\<And>x. Q x \<Longrightarrow> emits P (k x)"
  shows "emits P (bindIO m k)"
proof -
  have "\<exists>cs. r_calls t = r_calls s @ cs \<and> list_all (\<lambda>c. P (fst c)) cs" if run: "bindIO m k s = (r, t)" for s r t
  proof -
    obtain x u where m: "m s = (x, u)" by (cases "m s")
    obtain cs where cs: "r_calls u = r_calls s @ cs" "list_all (\<lambda>c. P (fst c)) cs"
      using emitsD [OF assms(2) m] by blast
    show ?thesis
    proof (cases x)
      case (Inl e)
      then show ?thesis using run m cs by (auto simp: bindIO_def)
    next
      case (Inr y)
      then have k: "k y u = (r, t)" and y: "Q y" using run m assms(1) by (auto simp: bindIO_def yields_def)
      from emitsD [OF assms(3) [OF y] k] show ?thesis using cs by (metis append.assoc list_all_append)
    qed
  qed
  then show ?thesis unfolding emits_def by blast
qed

lemma yields_reading: "(\<And>x w w'. f w = (Inr x, w') \<Longrightarrow> Q x) \<Longrightarrow> yields Q (reading f)"
  by (auto simp: yields_def reading_def split: prod.splits)

lemma yields_try:
  assumes "yields Q m"
  shows "yields (\<lambda>r. \<forall>x. r = Inr x \<longrightarrow> Q x) (tryIO m)"
  using assms unfolding yields_def tryIO_eq by blast

section \<open>A concrete client\<close>

text \<open>
  An instance for the witnesses: a cluster with nothing in it but one Secret, on which every write
  succeeds. \<open>openshift\<close> says whether the route API is there.
\<close>

record demoCluster =
  dc_openshift :: bool
  dc_secret :: "secret option"
  dc_controller :: "KedaController option"

definition absent :: "('w, 'a) request" where "absent w = (Err (NotFound []), w)"

definition succeed :: "('w, unit) request" where "succeed w = (Ok (), w)"

definition demoClient :: "(demoObj, demoCluster) client" where
  "demoClient =
     \<lparr>getKedaController = (\<lambda>key w. (case dc_controller w of None \<Rightarrow> Err (NotFound []) | Some k \<Rightarrow> Ok k, w)),
      createKedaController = (\<lambda>k w. (Ok (), w\<lparr>dc_controller := Some k\<rparr>)),
      patchKedaController = (\<lambda>k w. (Ok (), w\<lparr>dc_controller := Some k\<rparr>)),
      patchKedaControllerStatus = (\<lambda>k st w. (Ok (), w\<lparr>dc_controller := Some (k\<lparr>k_status := st\<rparr>)\<rparr>)),
      getNamespaceObject = (\<lambda>n. absent),
      patchNamespaceObject = (\<lambda>n. succeed),
      getSecret = (\<lambda>key w. (case dc_secret w of None \<Rightarrow> Err (NotFound []) | Some x \<Rightarrow> Ok x, w)),
      createSecret = (\<lambda>x w. (Ok (), w\<lparr>dc_secret := Some x\<rparr>)),
      updateSecret = (\<lambda>x w. (Ok (), w\<lparr>dc_secret := Some x\<rparr>)),
      deleteSecret = (\<lambda>x w. (Ok (), w\<lparr>dc_secret := None\<rparr>)),
      getConfigMap = (\<lambda>key. absent), createConfigMap = (\<lambda>x. succeed), updateConfigMap = (\<lambda>x. succeed),
      getRole = (\<lambda>key. absent), createRole = (\<lambda>x. succeed), updateRole = (\<lambda>x. succeed),
      getRoleBinding = (\<lambda>key. absent), createRoleBinding = (\<lambda>x. succeed), updateRoleBinding = (\<lambda>x. succeed),
      deleteRoleBinding = (\<lambda>x. succeed),
      getPersistentVolumeClaim = (\<lambda>key. absent), getInfrastructure = (\<lambda>n. absent), getAPIServer = absent,
      listGvk = (\<lambda>gvk w. (if dc_openshift w \<and> fst gvk = ''route.openshift.io'' then Ok () else Err (LibError ''no match''), w)),
      applyManifest = (\<lambda>us. succeed), deleteManifest = (\<lambda>us. succeed), addRotator = (\<lambda>c. succeed), serverVersion = None,
      timestamp = (\<lambda>w. (Ok ''2024.01.01-00:00'', w)), waitForCacheSync = (\<lambda>w. (Ok True, w)), getenv = (\<lambda>n. []),
      setControllerReference = (\<lambda>k m os. if list_ex (\<lambda>r. or_controller r \<and> or_uid r \<noteq> k_uid k) os
         then Err (AlreadyOwned [] [])
         else Ok (\<lparr>or_kind = ''KedaController'', or_name = om_name (k_meta k), or_uid = k_uid k, or_controller = True\<rparr> # os)),
      isControlledBy = (\<lambda>os k. list_ex (\<lambda>r. or_controller r \<and> or_uid r = k_uid k) os),
      containsFinalizer = (\<lambda>k f. f \<in> set (k_finalizers k)),
      addFinalizerTo = (\<lambda>k f. k\<lparr>k_finalizers := k_finalizers k @ [f]\<rparr>),
      removeFinalizerFrom = (\<lambda>k f. k\<lparr>k_finalizers := removeAll f (k_finalizers k)\<rparr>),
      errorText = (\<lambda>e. []),
      marshalPolicy = (\<lambda>p. Ok ''policy''), shouldHonorClusterTLSProfile = (\<lambda>p. False),
      getTLSProfileSpec = (\<lambda>p. Err (LibError [])), openSSLToIANACipherSuites = (\<lambda>cs. cs),
      sha256Hex = id, md5Hex = id, dataOrder = id, volumeOrder = id, mountOrder = id, wideDigit = (\<lambda>r. False),
      kube = demoApi\<rparr>"

definition demoRun :: "demoCluster \<Rightarrow> (demoObj, demoCluster) run" where
  "demoRun w = \<lparr>r_cluster = w, r_calls = [], r_status = zeroKedaControllerStatus, r_rotatorStarted = False\<rparr>"

lemma demoClient_ownership: "ownership_ok demoClient"
  by (simp add: ownership_ok_def demoClient_def)

end
