(* ===== verification/Upserts.thy ===== *)
theory Upserts
  imports Client
begin

text \<open>
  The objects the operator creates or brings in line through the typed client: the GCP credentials
  Secret (\<^verbatim>\<open>gcp_workload_identity.go\<close>), the CA bundle and audit policy ConfigMaps
  (\<^verbatim>\<open>kedacontroller_controller.go\<close>) and the Prometheus Role and RoleBinding (\<^verbatim>\<open>prometheus_rbac.go\<close>).
\<close>

section \<open>The shape of the operations\<close>

text \<open>Get; create when not found; pass other errors on; otherwise go on with the object.\<close>

definition withExisting ::
  "('u, 'w, 'a) io \<Rightarrow> ('u, 'w, unit) io \<Rightarrow> ('a \<Rightarrow> ('u, 'w, unit) io) \<Rightarrow> ('u, 'w, unit) io" where
  "withExisting get create k =
     bindIO (tryIO get) (\<lambda>r. case r of
        Inl (NotFound _) \<Rightarrow> create
      | Inl e \<Rightarrow> failIO e
      | Inr x \<Rightarrow> k x)"

text \<open>
  The common continuation: create a fresh object, or revise the one there and write it when the
  revision asks for an update.
\<close>

definition upsert ::
  "('w, 'o) request \<Rightarrow> error + 'o \<Rightarrow> ('o \<Rightarrow> 'u call) \<Rightarrow> ('o \<Rightarrow> ('w, unit) request) \<Rightarrow>
   ('o \<Rightarrow> error + ('o \<times> bool)) \<Rightarrow> ('o \<Rightarrow> ('w, unit) request) \<Rightarrow> ('u, 'w, unit) io" where
  "upsert get fresh wrote create revise update =
     withExisting (reading get)
       (bindIO (liftE fresh) (\<lambda>x. calling (wrote x) (create x)))
       (\<lambda>x. bindIO (liftE (revise x)) (\<lambda>(y, changed). whenIO changed (calling (wrote y) (update y))))"

text \<open>
  \<open>SetControllerReference\<close> on an object that may belong to someone else: an \<open>AlreadyOwnedError\<close> is
  tolerated and leaves the owners alone; success always asks for an update.
\<close>

definition claimOwnership ::
  "('u, 'w) client \<Rightarrow> KedaController \<Rightarrow> objectMeta \<Rightarrow> ownerReference list \<Rightarrow> error + ownerReference list option" where
  "claimOwnership C k m os =
     (case setControllerReference C k m os of
        Inr os' \<Rightarrow> Ok (Some os')
      | Inl (AlreadyOwned _ _) \<Rightarrow> Ok None
      | Inl e \<Rightarrow> Err e)"

definition newMeta :: "string \<Rightarrow> string \<Rightarrow> objectMeta" where
  "newMeta name ns =
     \<lparr>om_name = name, om_namespace = ns, om_labels = Map.empty, om_annotations = Map.empty, om_rest = JNull\<rparr>"

definition namespaceOf :: "KedaController \<Rightarrow> string" where
  "namespaceOf k = om_namespace (k_meta k)"

section \<open>The GCP credentials Secret\<close>

definition gcpCredentialsSecretKey :: "KedaController \<Rightarrow> objectKey" where
  "gcpCredentialsSecretKey k = (CredentialsSecretName, namespaceOf k)"

definition keyString :: "objectKey \<Rightarrow> string" where
  "keyString key = snd key @ ''/'' @ fst key"

text \<open>The loop over the wanted labels, with \<open>needsUpdate\<close>.\<close>

definition ensureLabels :: "(string \<times> string) list \<Rightarrow> smap \<Rightarrow> smap \<times> bool" where
  "ensureLabels desired labels =
     fold (\<lambda>(k, v) (ls, changed).
       if (case ls k of None \<Rightarrow> [] | Some x \<Rightarrow> x) \<noteq> v then (ls(k \<mapsto> v), True) else (ls, changed)) desired (labels, False)"

text \<open>
  What happens to a Secret that exists, with \<open>needsUpdate\<close>: first it is adopted unless it is
  controlled by the KedaController already, then data and labels are brought in line.
\<close>

definition adoptSecret :: "('u, 'w) client \<Rightarrow> KedaController \<Rightarrow> secret \<Rightarrow> error + (secret \<times> bool)" where
  "adoptSecret C k sec =
     (if isControlledBy C (se_owners sec) k then Ok (sec, False)
      else if se_type sec \<noteq> [] \<and> se_type sec \<noteq> ''Opaque'' then
        Err (Errorf ''secret %s has type %q and can't be used for GCP credentials; remove or rename it''
          [keyString (gcpCredentialsSecretKey k), se_type sec])
      else
        (case setControllerReference C k (se_meta sec) (se_owners sec) of
           Inr os \<Rightarrow> Ok (sec\<lparr>se_owners := os\<rparr>, True)
         | Inl (AlreadyOwned kind name) \<Rightarrow>
             Err (Errorf ''secret %s is controlled by %s %s and can't be used for GCP credentials''
               [keyString (gcpCredentialsSecretKey k), kind, name])
         | Inl e \<Rightarrow> Err e))"

definition fillSecret :: "string \<Rightarrow> secret \<Rightarrow> bool \<Rightarrow> secret \<times> bool" where
  "fillSecret credentials sec needsUpdate =
     (let dataDiffers = (mapGet (se_data sec) CredentialsSecretKey \<noteq> credentials \<or> length (se_data sec) \<noteq> 1);
          sec1 = (if dataDiffers
                  then sec\<lparr>se_data := [(CredentialsSecretKey, credentials)], se_stringData := []\<rparr> else sec);
          (labels, labelsDiffer) = ensureLabels CredentialsSecretLabels (om_labels (se_meta sec1))
      in (sec1\<lparr>se_meta := (se_meta sec1)\<lparr>om_labels := labels\<rparr>\<rparr>, needsUpdate \<or> dataDiffers \<or> labelsDiffer))"

definition reviseSecret ::
  "('u, 'w) client \<Rightarrow> KedaController \<Rightarrow> string \<Rightarrow> secret \<Rightarrow> error + (secret \<times> bool)" where
  "reviseSecret C k credentials sec =
     bindE (adoptSecret C k sec) (\<lambda>(sec1, needsUpdate). Ok (fillSecret credentials sec1 needsUpdate))"

definition ensureGCPCredentialsSecret ::
  "('u, 'w) client \<Rightarrow> KedaController \<Rightarrow> string \<Rightarrow> ('u, 'w, unit) io" where
  "ensureGCPCredentialsSecret C k credentials =
     (let key = gcpCredentialsSecretKey k;
          m = (newMeta (fst key) (snd key))\<lparr>om_labels := map_of CredentialsSecretLabels\<rparr>
      in upsert (getSecret C key)
           (bindE (setControllerReference C k m []) (\<lambda>os.
              Ok \<lparr>se_meta = m, se_owners = os, se_type = ''Opaque'',
                 se_data = [(CredentialsSecretKey, credentials)], se_stringData = []\<rparr>))
           WriteSecret (createSecret C) (reviseSecret C k credentials) (updateSecret C))"

definition deleteGCPCredentialsSecret :: "('u, 'w) client \<Rightarrow> KedaController \<Rightarrow> ('u, 'w, unit) io" where
  "deleteGCPCredentialsSecret C k =
     bindIO (tryIO (reading (getSecret C (gcpCredentialsSecretKey k)))) (\<lambda>r. case r of
        Inl (NotFound _) \<Rightarrow> returnIO ()
      | Inl e \<Rightarrow> failIO e
      | Inr sec \<Rightarrow>
          if \<not> isControlledBy C (se_owners sec) k then returnIO ()
          else bindIO (tryIO (calling (DeleteSecret sec) (deleteSecret C sec))) (\<lambda>d. case d of
             Inl (NotFound _) \<Rightarrow> returnIO ()
           | Inl e \<Rightarrow> failIO e
           | Inr _ \<Rightarrow> returnIO ()))"

definition gcpPlatform :: "('u, 'w) client \<Rightarrow> ('u, 'w, string \<times> string) io" where
  "gcpPlatform C =
     bindIO (RunningOnOpenshift C) (\<lambda>openshift.
       if \<not> openshift then returnIO ([], [])
       else bindIO (tryIO (reading (getInfrastructure C ''cluster''))) (\<lambda>r. case r of
          Inl e \<Rightarrow> failIO (Wrapf ''reading the cluster Infrastructure for the GCP project ID and universe domain: %w'' e)
        | Inr infra \<Rightarrow> returnIO (PlatformFromInfrastructure (Some infra))))"

definition gcpWorkloadIdentityTransforms ::
  "('u, 'w) client \<Rightarrow> KedaController \<Rightarrow> Config option \<Rightarrow> ('u, 'w, 'u transformer list) io" where
  "gcpWorkloadIdentityTransforms C k cfgOpt =
     (case cfgOpt of
        None \<Rightarrow> thenIO (modifyStatus (\<lambda>st. st\<lparr>kcs_gcpWorkloadIdentity := None\<rparr>)) (returnIO [])
      | Some cfg \<Rightarrow>
          bindIO (gcpPlatform C) (\<lambda>(platformProject, universeDomain).
            let projectID = (if cfg_projectID cfg \<noteq> [] then cfg_projectID cfg else platformProject);
                credentials = CredentialsJSON cfg universeDomain
            in thenIO (ensureGCPCredentialsSecret C k credentials)
                 (thenIO (modifyStatus (\<lambda>st. st\<lparr>kcs_gcpWorkloadIdentity := Some
                     \<lparr>gws_source = cfg_source cfg, gws_serviceAccountEmail = cfg_serviceAccountEmail cfg,
                      gws_audience = cfg_audience cfg, gws_projectID = projectID\<rparr>\<rparr>))
                   (returnIO (DeploymentTransforms (kube C) cfg projectID (CredentialsHash (sha256Hex C) credentials))))))"

section \<open>ConfigMaps\<close>

definition caBundleConfigMapName :: string where "caBundleConfigMapName = ''keda-ocp-cabundle''"
definition injectCABundleAnnotation :: string where
  "injectCABundleAnnotation = ''service.beta.openshift.io/inject-cabundle''"
definition injectCABundleAnnotationValue :: string where "injectCABundleAnnotationValue = ''true''"

text \<open>The annotation is set when absent or different; ownership is claimed; either asks for an update.\<close>

definition reviseCABundle :: "('u, 'w) client \<Rightarrow> KedaController \<Rightarrow> configMap \<Rightarrow> error + (configMap \<times> bool)" where
  "reviseCABundle C k cm =
     (let differs = (om_annotations (cm_meta cm) injectCABundleAnnotation \<noteq> Some injectCABundleAnnotationValue);
          cm1 = (if differs
                 then cm\<lparr>cm_meta := SetMetaDataAnnotation (kube C) injectCABundleAnnotation injectCABundleAnnotationValue (cm_meta cm)\<rparr>
                 else cm)
      in bindE (claimOwnership C k (cm_meta cm1) (cm_owners cm1)) (\<lambda>claimed. case claimed of
           None \<Rightarrow> Ok (cm1, differs)
         | Some os \<Rightarrow> Ok (cm1\<lparr>cm_owners := os\<rparr>, True)))"

definition ensureOpenshiftCABundleConfigMap :: "('u, 'w) client \<Rightarrow> KedaController \<Rightarrow> ('u, 'w, unit) io" where
  "ensureOpenshiftCABundleConfigMap C k =
     (let m = SetMetaDataAnnotation (kube C) injectCABundleAnnotation injectCABundleAnnotationValue
                (newMeta caBundleConfigMapName (namespaceOf k))
      in upsert (getConfigMap C (caBundleConfigMapName, namespaceOf k))
           (bindE (setControllerReference C k m []) (\<lambda>os. Ok \<lparr>cm_meta = m, cm_owners = os, cm_data = None\<rparr>))
           WriteConfigMap (createConfigMap C) (reviseCABundle C k) (updateConfigMap C))"

definition auditlogPolicyConfigMap :: string where "auditlogPolicyConfigMap = ''keda-metrics-server-audit-policy''"
definition auditPolicyFile :: string where "auditPolicyFile = ''policy.yaml''"

text \<open>Assigning to an entry of a nil map panics.\<close>

definition reviseAuditPolicy ::
  "('u, 'w) client \<Rightarrow> KedaController \<Rightarrow> string \<Rightarrow> configMap \<Rightarrow> error + (configMap \<times> bool)" where
  "reviseAuditPolicy C k dataBytes cm =
     (let differs = (mapGet (case cm_data cm of None \<Rightarrow> [] | Some kvs \<Rightarrow> kvs) auditPolicyFile \<noteq> dataBytes)
      in bindE
           (if \<not> differs then Ok cm
            else case cm_data cm of
                None \<Rightarrow> Err (Panic ''assignment to entry in nil map'')
              | Some kvs \<Rightarrow> Ok (cm\<lparr>cm_data := Some (mapPut auditPolicyFile dataBytes kvs)\<rparr>))
           (\<lambda>cm1. bindE (claimOwnership C k (cm_meta cm1) (cm_owners cm1)) (\<lambda>claimed. case claimed of
              None \<Rightarrow> Ok (cm1, differs)
            | Some os \<Rightarrow> Ok (cm1\<lparr>cm_owners := os\<rparr>, True))))"

definition ensureMetricsServerAuditLogPolicyConfigMap ::
  "('u, 'w) client \<Rightarrow> KedaController \<Rightarrow> ('u, 'w, unit) io" where
  "ensureMetricsServerAuditLogPolicyConfigMap C k =
     bindIO (liftE (marshalPolicy C (ac_policy (km_auditConfig (kc_metricsServer (k_spec k)))))) (\<lambda>dataBytes.
       let m = newMeta auditlogPolicyConfigMap (namespaceOf k)
       in upsert (getConfigMap C (auditlogPolicyConfigMap, namespaceOf k))
            (bindE (setControllerReference C k m []) (\<lambda>os.
               Ok \<lparr>cm_meta = m, cm_owners = os, cm_data = Some [(auditPolicyFile, dataBytes)]\<rparr>))
            WriteConfigMap (createConfigMap C) (reviseAuditPolicy C k dataBytes) (updateConfigMap C))"

definition checkAuditLogVolumeExists ::
  "('u, 'w) client \<Rightarrow> string \<Rightarrow> KedaController \<Rightarrow> ('u, 'w, unit) io" where
  "checkAuditLogVolumeExists C name k =
     bindIO (tryIO (reading (getPersistentVolumeClaim C (name, namespaceOf k)))) (\<lambda>r. case r of
        Inl (NotFound _) \<Rightarrow>
          failIO (Errorf ''persistentVolumeClaim '%s not found in namespace %s'' [name, namespaceOf k])
      | _ \<Rightarrow> returnIO ())"

section \<open>Prometheus RBAC\<close>

definition clusterMonitoringLabel :: string where "clusterMonitoringLabel = ''openshift.io/cluster-monitoring''"
definition prometheusMonitoringSAName :: string where "prometheusMonitoringSAName = ''prometheus-k8s''"
definition prometheusMonitoringSANamespace :: string where "prometheusMonitoringSANamespace = ''openshift-monitoring''"

definition prometheusRBACName :: "string \<Rightarrow> string" where
  "prometheusRBACName ns = ns @ ''-prometheus''"

definition prometheusRoleRules :: "policyRule list" where
  "prometheusRoleRules =
     [\<lparr>pr_apiGroups = [''''], pr_resources = [''services'', ''endpoints'', ''pods''],
       pr_verbs = [''get'', ''list'', ''watch''], pr_rest = JNull\<rparr>]"

definition namespaceHasClusterMonitoringEnabled :: "namespace' \<Rightarrow> bool" where
  "namespaceHasClusterMonitoringEnabled ns = (om_labels (ns_meta ns) clusterMonitoringLabel = Some ''true'')"

definition reviseRole :: "('u, 'w) client \<Rightarrow> KedaController \<Rightarrow> role \<Rightarrow> error + (role \<times> bool)" where
  "reviseRole C k existing =
     (let differs = (ro_rules existing \<noteq> prometheusRoleRules);
          r1 = (if differs then existing\<lparr>ro_rules := prometheusRoleRules\<rparr> else existing)
      in bindE (claimOwnership C k (ro_meta r1) (ro_owners r1)) (\<lambda>claimed. case claimed of
           None \<Rightarrow> Ok (r1, differs)
         | Some os \<Rightarrow> Ok (r1\<lparr>ro_owners := os\<rparr>, True)))"

definition ensurePrometheusRole :: "('u, 'w) client \<Rightarrow> KedaController \<Rightarrow> string \<Rightarrow> ('u, 'w, unit) io" where
  "ensurePrometheusRole C k rbacName =
     (let m = newMeta rbacName (namespaceOf k)
      in upsert (getRole C (rbacName, namespaceOf k))
           (bindE (setControllerReference C k m []) (\<lambda>os.
              Ok \<lparr>ro_meta = m, ro_owners = os, ro_rules = prometheusRoleRules\<rparr>))
           WriteRole (createRole C) (reviseRole C k) (updateRole C))"

definition desiredRoleBinding :: "KedaController \<Rightarrow> string \<Rightarrow> roleBinding" where
  "desiredRoleBinding k rbacName =
     \<lparr>rb_meta = newMeta rbacName (namespaceOf k),
      rb_roleRef = \<lparr>rf_apiGroup = ''rbac.authorization.k8s.io'', rf_kind = ''Role'', rf_name = rbacName\<rparr>,
      rb_subjects = [\<lparr>sj_kind = ''ServiceAccount'', sj_apiGroup = [], sj_name = prometheusMonitoringSAName,
        sj_namespace = prometheusMonitoringSANamespace\<rparr>]\<rparr>"

definition createDesiredRoleBinding :: "('u, 'w) client \<Rightarrow> KedaController \<Rightarrow> string \<Rightarrow> ('u, 'w, unit) io" where
  "createDesiredRoleBinding C k rbacName =
     (let desired = desiredRoleBinding k rbacName
      in bindIO (liftE (setControllerReference C k (rb_meta desired) [])) (\<lambda>os.
           let rb = \<lparr>rbo_binding = desired, rbo_owners = os\<rparr>
           in calling (WriteRoleBinding rb) (createRoleBinding C rb)))"

definition reviseRoleBinding ::
  "('u, 'w) client \<Rightarrow> KedaController \<Rightarrow> string \<Rightarrow> ownedRoleBinding \<Rightarrow> error + (ownedRoleBinding \<times> bool)" where
  "reviseRoleBinding C k rbacName existing =
     (let desired = desiredRoleBinding k rbacName;
          differs = (rb_subjects (rbo_binding existing) \<noteq> rb_subjects desired);
          e1 = (if differs
                then existing\<lparr>rbo_binding := (rbo_binding existing)\<lparr>rb_subjects := rb_subjects desired\<rparr>\<rparr> else existing)
      in bindE (claimOwnership C k (rb_meta (rbo_binding e1)) (rbo_owners e1)) (\<lambda>claimed. case claimed of
           None \<Rightarrow> Ok (e1, differs)
         | Some os \<Rightarrow> Ok (e1\<lparr>rbo_owners := os\<rparr>, True)))"

text \<open>A RoleRef is immutable: a binding with another one is deleted and created again.\<close>

definition ensurePrometheusRoleBinding :: "('u, 'w) client \<Rightarrow> KedaController \<Rightarrow> string \<Rightarrow> ('u, 'w, unit) io" where
  "ensurePrometheusRoleBinding C k rbacName =
     withExisting (reading (getRoleBinding C (rbacName, namespaceOf k)))
       (createDesiredRoleBinding C k rbacName)
       (\<lambda>existing.
          if rb_roleRef (rbo_binding existing) \<noteq> rb_roleRef (desiredRoleBinding k rbacName) then
            thenIO (calling (DeleteRoleBinding existing) (deleteRoleBinding C existing))
              (createDesiredRoleBinding C k rbacName)
          else bindIO (liftE (reviseRoleBinding C k rbacName existing)) (\<lambda>(rb, update).
            whenIO update (calling (WriteRoleBinding rb) (updateRoleBinding C rb))))"

definition ensurePrometheusMonitoringRBAC :: "('u, 'w) client \<Rightarrow> KedaController \<Rightarrow> ('u, 'w, unit) io" where
  "ensurePrometheusMonitoringRBAC C k =
     bindIO (RunningOnOpenshift C) (\<lambda>openshift.
       if \<not> openshift then returnIO ()
       else bindIO (tryIO (reading (getNamespaceObject C (namespaceOf k)))) (\<lambda>r. case r of
          Inl (NotFound _) \<Rightarrow> returnIO ()
        | Inl e \<Rightarrow> failIO e
        | Inr ns \<Rightarrow>
            if \<not> namespaceHasClusterMonitoringEnabled ns then returnIO ()
            else
              (let rbacName = prometheusRBACName (namespaceOf k)
               in thenIO (ensurePrometheusRole C k rbacName) (ensurePrometheusRoleBinding C k rbacName))))"

section \<open>The contract of an ensure operation\<close>

text \<open>
  What the operations promise when they succeed: the object read was as wanted and nothing was
  called, or the last call wrote an object as wanted, successfully. They never touch the status
  or the rotator flag, whether they succeed or fail.
\<close>

locale ensured =
  fixes ensure :: "('u, 'w, unit) io"
    and present :: "('w, 'o) request"
    and wrote :: "'o \<Rightarrow> 'u call"
    and wanted :: "'o \<Rightarrow> bool"
  assumes ok: "ensure s = (Inr (), t) \<Longrightarrow>
      (\<exists>x. present (r_cluster s) = (Inr x, r_cluster t) \<and> wanted x \<and> r_calls t = r_calls s) \<or>
      (\<exists>cs x. r_calls t = r_calls s @ cs @ [(wrote x, True)] \<and> wanted x)"
    and frame: "ensure s = (r, t) \<Longrightarrow> r_status t = r_status s \<and> r_rotatorStarted t = r_rotatorStarted s"
begin

text \<open>In particular: an object that is absent or not as wanted is written.\<close>

lemma writes_unless_wanted:
  assumes "ensure s = (Inr (), t)" and "\<And>x w. present (r_cluster s) = (Inr x, w) \<Longrightarrow> \<not> wanted x"
  obtains cs x where "r_calls t = r_calls s @ cs @ [(wrote x, True)]" "wanted x"
  using ok [OF assms(1)] assms(2) by blast

end

lemma withExisting_run:
  "withExisting (reading g) cr k s =
     (case g (r_cluster s) of (r, w) \<Rightarrow>
        (case r of Inl e \<Rightarrow> (case e of NotFound _ \<Rightarrow> cr (s\<lparr>r_cluster := w\<rparr>) | _ \<Rightarrow> (Inl e, s\<lparr>r_cluster := w\<rparr>))
         | Inr x \<Rightarrow> k x (s\<lparr>r_cluster := w\<rparr>)))"
  by (cases "g (r_cluster s)")
    (auto simp: withExisting_def bindIO_def tryIO_def reading_def split: sum.split error.split)

lemma calling_Ok:
  "calling c f s = (Inr x, t) \<Longrightarrow> r_calls t = r_calls s @ [(c, True)]"
  by (auto simp: calling_def split: prod.splits)

lemma calling_frame:
  "calling c f s = (r, t) \<Longrightarrow> r_status t = r_status s \<and> r_rotatorStarted t = r_rotatorStarted s"
  by (auto simp: calling_def split: prod.splits)

lemma upsert_frame:
  assumes "upsert get fresh wrote create revise update s = (r, t)"
  shows "r_status t = r_status s \<and> r_rotatorStarted t = r_rotatorStarted s"
  using assms
  by (auto simp: upsert_def withExisting_run bindIO_def whenIO_def calling_def
      split: prod.splits sum.splits error.splits if_splits)

lemma upsert_ok:
  assumes run: "upsert get fresh wrote create revise update s = (Inr (), t)"
    and fresh: "\<And>x. fresh = Inr x \<Longrightarrow> wanted x"
    and revised: "\<And>x y. revise x = Inr (y, True) \<Longrightarrow> wanted y" "\<And>x y. revise x = Inr (y, False) \<Longrightarrow> wanted x"
  shows "(\<exists>x. get (r_cluster s) = (Inr x, r_cluster t) \<and> wanted x \<and> r_calls t = r_calls s) \<or>
      (\<exists>cs x. r_calls t = r_calls s @ cs @ [(wrote x, True)] \<and> wanted x)"
proof -
  obtain g w where g: "get (r_cluster s) = (g, w)" by (cases "get (r_cluster s)")
  show ?thesis
  proof (cases g)
    case (Inl e)
    then obtain x where "fresh = Inr x" "calling (wrote x) (create x) (s\<lparr>r_cluster := w\<rparr>) = (Inr (), t)"
      using run g by (auto simp: upsert_def withExisting_run bindIO_Ok split: error.splits)
    then show ?thesis using calling_Ok fresh by fastforce
  next
    case (Inr x)
    then obtain y b where y: "revise x = Inr (y, b)"
      "whenIO b (calling (wrote y) (update y)) (s\<lparr>r_cluster := w\<rparr>) = (Inr (), t)"
      using run g by (auto simp: upsert_def withExisting_run bindIO_Ok)
    show ?thesis
    proof (cases b)
      case True
      then show ?thesis using y revised(1) calling_Ok by (fastforce simp: whenIO_def)
    next
      case False
      then show ?thesis using y revised(2) g Inr by (auto simp: whenIO_def)
    qed
  qed
qed

lemma upsert_ensured:
  assumes "\<And>x. fresh = Inr x \<Longrightarrow> wanted x" and "\<And>x y. revise x = Inr (y, True) \<Longrightarrow> wanted y"
    and "\<And>x y. revise x = Inr (y, False) \<Longrightarrow> wanted x"
  shows "ensured (upsert get fresh wrote create revise update) get wrote wanted"
  using upsert_ok [of get fresh wrote create revise update _ _ wanted] assms
    upsert_frame [of get fresh wrote create revise update]
  by unfold_locales blast+

section \<open>Every operation keeps the contract\<close>

lemma claimOwnership_None: "claimOwnership C k m os = Inr None \<Longrightarrow> \<exists>a b. setControllerReference C k m os = Inl (AlreadyOwned a b)"
  by (auto simp: claimOwnership_def split: sum.splits error.splits)

subsection \<open>The Secret\<close>

definition wantedSecret :: "string \<Rightarrow> secret \<Rightarrow> bool" where
  "wantedSecret credentials sec \<longleftrightarrow>
     mapGet (se_data sec) CredentialsSecretKey = credentials \<and> length (se_data sec) = 1 \<and>
     (\<forall>(l, v) \<in> set CredentialsSecretLabels. om_labels (se_meta sec) l = Some v)"

lemma ensureLabels_eq:
  "ensureLabels CredentialsSecretLabels ls =
     (ls ++ map_of CredentialsSecretLabels,
      \<not> (\<forall>(l, v) \<in> set CredentialsSecretLabels. ls l = Some v))"
  by (auto simp: ensureLabels_def CredentialsSecretLabels_def CredentialsSecretName_def kedaOperatorName_def
      fun_eq_iff map_add_def split: option.splits)

lemma labels_distinct: "(l, v) \<in> set CredentialsSecretLabels \<Longrightarrow> map_of CredentialsSecretLabels l = Some v"
  by (auto simp: CredentialsSecretLabels_def)

lemma fillSecret_wanted: "wantedSecret cr (fst (fillSecret cr sec b))"
  using labels_distinct by (auto simp: fillSecret_def wantedSecret_def ensureLabels_eq mapGet_def Let_def)

lemma fillSecret_unchanged: "\<not> snd (fillSecret cr sec b) \<Longrightarrow> \<not> b \<and> wantedSecret cr sec"
  by (auto simp: fillSecret_def wantedSecret_def ensureLabels_eq Let_def split: if_splits)

lemma fillSecret_owners: "se_owners (fst (fillSecret cr sec b)) = se_owners sec"
  by (simp add: fillSecret_def Let_def split_def)

lemma fillSecret_adopted: "b \<Longrightarrow> snd (fillSecret cr sec b)"
  by (simp add: fillSecret_def Let_def split_def)

lemma adoptSecret_cases:
  assumes "adoptSecret C k sec = Inr (sec1, b)"
  shows "isControlledBy C (se_owners sec) k \<and> sec1 = sec \<and> \<not> b \<or>
    \<not> isControlledBy C (se_owners sec) k \<and> b \<and>
      (\<exists>os. setControllerReference C k (se_meta sec) (se_owners sec) = Inr os \<and> sec1 = sec\<lparr>se_owners := os\<rparr>)"
  using assms by (auto simp: adoptSecret_def split: if_splits sum.splits error.splits)

lemma reviseSecret_wanted:
  assumes "reviseSecret C k cr sec = Inr (sec', changed)"
  shows "wantedSecret cr sec'" and "\<not> changed \<Longrightarrow> wantedSecret cr sec \<and> isControlledBy C (se_owners sec) k"
    and "ownership_ok C \<Longrightarrow> isControlledBy C (se_owners sec') k"
proof -
  obtain sec1 b where adopt: "adoptSecret C k sec = Inr (sec1, b)" and fill: "fillSecret cr sec1 b = (sec', changed)"
    using assms by (auto simp: reviseSecret_def bindE_Ok)
  show "wantedSecret cr sec'" using fillSecret_wanted [of cr sec1 b] fill by simp
  show "wantedSecret cr sec \<and> isControlledBy C (se_owners sec) k" if "\<not> changed"
    using fillSecret_unchanged [of cr sec1 b] fill that adoptSecret_cases [OF adopt] by auto
  show "isControlledBy C (se_owners sec') k" if "ownership_ok C"
    using adoptSecret_cases [OF adopt] fillSecret_owners [of cr sec1 b] fill that by (auto simp: ownership_ok_def)
qed

abbreviation controlled :: "('u, 'w) client \<Rightarrow> KedaController \<Rightarrow> ownerReference list \<Rightarrow> bool" where
  "controlled C k os \<equiv> (ownership_ok C \<longrightarrow> isControlledBy C os k)"

lemma fresh_wantedSecret:
  "wantedSecret cr \<lparr>se_meta = m\<lparr>om_labels := map_of CredentialsSecretLabels\<rparr>, se_owners = os, se_type = ty,
     se_data = [(CredentialsSecretKey, cr)], se_stringData = sd\<rparr>"
  using labels_distinct by (auto simp: wantedSecret_def mapGet_def)

interpretation gcpSecret: ensured "ensureGCPCredentialsSecret C k cr" "getSecret C (gcpCredentialsSecretKey k)"
    WriteSecret "\<lambda>x. wantedSecret cr x \<and> controlled C k (se_owners x)" for C k cr
  unfolding ensureGCPCredentialsSecret_def Let_def
  by (rule upsert_ensured)
    (auto simp: bindE_Ok fresh_wantedSecret ownership_ok_def [of C] dest: reviseSecret_wanted)

subsection \<open>The ConfigMaps and the Role\<close>

definition wantedCABundle :: "'u api \<Rightarrow> configMap \<Rightarrow> bool" where
  "wantedCABundle A cm \<longleftrightarrow>
     om_annotations (cm_meta cm) injectCABundleAnnotation = Some injectCABundleAnnotationValue \<or>
     (\<exists>m. cm_meta cm = SetMetaDataAnnotation A injectCABundleAnnotation injectCABundleAnnotationValue m)"

lemma wantedCABundle_annotated:
  "annotating_ok A \<Longrightarrow> wantedCABundle A cm \<Longrightarrow>
   om_annotations (cm_meta cm) injectCABundleAnnotation = Some injectCABundleAnnotationValue"
  by (auto simp: annotating_ok_def wantedCABundle_def)

lemma wantedCABundle_simps [simp]:
  "wantedCABundle A (x\<lparr>cm_owners := os\<rparr>) = wantedCABundle A x"
  "wantedCABundle A (x\<lparr>cm_meta := SetMetaDataAnnotation A injectCABundleAnnotation injectCABundleAnnotationValue m\<rparr>)"
  "wantedCABundle A \<lparr>cm_meta = SetMetaDataAnnotation A injectCABundleAnnotation injectCABundleAnnotationValue m,
     cm_owners = os, cm_data = d\<rparr>"
  "om_annotations (cm_meta x) injectCABundleAnnotation = Some injectCABundleAnnotationValue \<Longrightarrow> wantedCABundle A x"
  by (auto simp: wantedCABundle_def)

lemma reviseCABundle_wanted:
  assumes "reviseCABundle C k cm = Inr (cm', changed)"
  shows "wantedCABundle (kube C) cm'" "\<not> changed \<Longrightarrow> wantedCABundle (kube C) cm"
  using assms
  by (auto simp: reviseCABundle_def bindE_Ok Let_def split: option.splits if_splits)

interpretation caBundle: ensured "ensureOpenshiftCABundleConfigMap C k"
    "getConfigMap C (caBundleConfigMapName, namespaceOf k)" WriteConfigMap "wantedCABundle (kube C)" for C k
  unfolding ensureOpenshiftCABundleConfigMap_def Let_def
  by (rule upsert_ensured) (auto simp: bindE_Ok dest: reviseCABundle_wanted)

definition policyOf :: "KedaController \<Rightarrow> AuditPolicy" where
  "policyOf k = ac_policy (km_auditConfig (kc_metricsServer (k_spec k)))"

definition dataOf :: "configMap \<Rightarrow> (string \<times> string) list" where
  "dataOf cm = (case cm_data cm of None \<Rightarrow> [] | Some kvs \<Rightarrow> kvs)"

definition wantedAuditPolicy :: "('u, 'w) client \<Rightarrow> KedaController \<Rightarrow> configMap \<Rightarrow> bool" where
  "wantedAuditPolicy C k cm \<longleftrightarrow> marshalPolicy C (policyOf k) = Inr (mapGet (dataOf cm) auditPolicyFile)"

lemma mapGet_mapPut: "mapGet (mapPut key v kvs) key = v"
  by (induction kvs) (auto simp: mapGet_def)

lemma reviseAuditPolicy_wanted:
  assumes "reviseAuditPolicy C k b cm = Inr (cm', changed)"
  shows "mapGet (dataOf cm') auditPolicyFile = b" "\<not> changed \<Longrightarrow> mapGet (dataOf cm) auditPolicyFile = b"
  using assms
  by (auto simp: reviseAuditPolicy_def bindE_Ok dataOf_def mapGet_mapPut Let_def split: option.splits if_splits)

lemma bindIO_liftE_ensured:
  assumes "\<And>x. r = Inr x \<Longrightarrow> ensured (k x) get wrote wanted"
  shows "ensured (bindIO (liftE r) k) get wrote wanted"
proof (cases r)
  case (Inl e)
  then show ?thesis by unfold_locales (auto simp: bindIO_def)
next
  case (Inr x)
  then have "bindIO (liftE r) k = k x" by (auto simp: bindIO_def)
  then show ?thesis using assms Inr by simp
qed

interpretation auditPolicy: ensured "ensureMetricsServerAuditLogPolicyConfigMap C k"
    "getConfigMap C (auditlogPolicyConfigMap, namespaceOf k)" WriteConfigMap "wantedAuditPolicy C k" for C k
  unfolding ensureMetricsServerAuditLogPolicyConfigMap_def Let_def policyOf_def [symmetric]
  by (intro bindIO_liftE_ensured upsert_ensured)
    (auto simp: bindE_Ok wantedAuditPolicy_def dataOf_def mapGet_def
      dest: reviseAuditPolicy_wanted [unfolded dataOf_def mapGet_def])

lemma reviseRole_wanted:
  assumes "reviseRole C k ro = Inr (ro', changed)"
  shows "ro_rules ro' = prometheusRoleRules" "\<not> changed \<Longrightarrow> ro_rules ro = prometheusRoleRules"
  using assms by (auto simp: reviseRole_def bindE_Ok Let_def split: option.splits if_splits)

interpretation prometheusRole: ensured "ensurePrometheusRole C k n" "getRole C (n, namespaceOf k)" WriteRole
    "\<lambda>ro. ro_rules ro = prometheusRoleRules" for C k n
  unfolding ensurePrometheusRole_def Let_def
  by (rule upsert_ensured) (auto simp: bindE_Ok dest: reviseRole_wanted)

subsection \<open>The RoleBinding\<close>

definition wantedRoleBinding :: "KedaController \<Rightarrow> string \<Rightarrow> ownedRoleBinding \<Rightarrow> bool" where
  "wantedRoleBinding k n rb \<longleftrightarrow>
     rb_roleRef (rbo_binding rb) = rb_roleRef (desiredRoleBinding k n) \<and>
     rb_subjects (rbo_binding rb) = rb_subjects (desiredRoleBinding k n)"

lemma reviseRoleBinding_wanted:
  assumes "reviseRoleBinding C k n rb = Inr (rb', changed)"
    and "rb_roleRef (rbo_binding rb) = rb_roleRef (desiredRoleBinding k n)"
  shows "wantedRoleBinding k n rb'" "\<not> changed \<Longrightarrow> wantedRoleBinding k n rb"
  using assms
  by (auto simp: reviseRoleBinding_def wantedRoleBinding_def bindE_Ok Let_def split: option.splits if_splits)

lemma createDesiredRoleBinding_ok:
  assumes "createDesiredRoleBinding C k n s = (Inr (), t)"
  obtains rb where "r_calls t = r_calls s @ [(WriteRoleBinding rb, True)]" "wantedRoleBinding k n rb"
proof -
  obtain os where "calling (WriteRoleBinding \<lparr>rbo_binding = desiredRoleBinding k n, rbo_owners = os\<rparr>)
      (createRoleBinding C \<lparr>rbo_binding = desiredRoleBinding k n, rbo_owners = os\<rparr>) s = (Inr (), t)"
    using assms by (auto simp: createDesiredRoleBinding_def bindIO_Ok Let_def)
  from calling_Ok [OF this] show ?thesis using that by (simp add: wantedRoleBinding_def)
qed

lemma createDesiredRoleBinding_frame:
  "createDesiredRoleBinding C k n s = (r, t) \<Longrightarrow> r_status t = r_status s \<and> r_rotatorStarted t = r_rotatorStarted s"
  by (auto simp: createDesiredRoleBinding_def bindIO_def Let_def calling_def split: prod.splits sum.splits)

lemma ensurePrometheusRoleBinding_ok:
  assumes "ensurePrometheusRoleBinding C k n s = (Inr (), t)"
  shows "(\<exists>x. getRoleBinding C (n, namespaceOf k) (r_cluster s) = (Inr x, r_cluster t) \<and> wantedRoleBinding k n x \<and>
        r_calls t = r_calls s) \<or>
      (\<exists>cs x. r_calls t = r_calls s @ cs @ [(WriteRoleBinding x, True)] \<and> wantedRoleBinding k n x)"
proof -
  obtain g w where g: "getRoleBinding C (n, namespaceOf k) (r_cluster s) = (g, w)"
    by (cases "getRoleBinding C (n, namespaceOf k) (r_cluster s)")
  let ?s = "s\<lparr>r_cluster := w\<rparr>"
  show ?thesis
  proof (cases g)
    case (Inl e)
    then have "createDesiredRoleBinding C k n ?s = (Inr (), t)"
      using assms g by (auto simp: ensurePrometheusRoleBinding_def withExisting_run split: error.splits)
    then show ?thesis by (elim createDesiredRoleBinding_ok) auto
  next
    case (Inr x)
    show ?thesis
    proof (cases "rb_roleRef (rbo_binding x) = rb_roleRef (desiredRoleBinding k n)")
      case same: True
      then obtain y b where y: "reviseRoleBinding C k n x = Inr (y, b)"
        "whenIO b (calling (WriteRoleBinding y) (updateRoleBinding C y)) ?s = (Inr (), t)"
        using assms g Inr by (auto simp: ensurePrometheusRoleBinding_def withExisting_run bindIO_Ok)
      show ?thesis
      proof (cases b)
        case True
        then have "calling (WriteRoleBinding y) (updateRoleBinding C y) ?s = (Inr (), t)"
          using y(2) by (simp add: whenIO_def)
        from calling_Ok [OF this] show ?thesis using reviseRoleBinding_wanted(1) [OF y(1) same] by auto
      next
        case False
        then show ?thesis
          using y reviseRoleBinding_wanted(2) [OF y(1) same] g Inr by (auto simp: whenIO_def)
      qed
    next
      case False
      then obtain u where "calling (DeleteRoleBinding x) (deleteRoleBinding C x) ?s = (Inr (), u)"
        and "createDesiredRoleBinding C k n u = (Inr (), t)"
        using assms g Inr by (auto simp: ensurePrometheusRoleBinding_def withExisting_run thenIO_Ok)
      then show ?thesis using calling_Ok by (elim createDesiredRoleBinding_ok) fastforce
    qed
  qed
qed

interpretation prometheusRoleBinding: ensured "ensurePrometheusRoleBinding C k n"
    "getRoleBinding C (n, namespaceOf k)" WriteRoleBinding "wantedRoleBinding k n" for C k n
proof
  fix s t r
  assume "ensurePrometheusRoleBinding C k n s = (r, t)"
  then show "r_status t = r_status s \<and> r_rotatorStarted t = r_rotatorStarted s"
    by (auto simp: ensurePrometheusRoleBinding_def withExisting_run bindIO_def thenIO_def whenIO_def calling_def
        dest!: createDesiredRoleBinding_frame split: prod.splits sum.splits error.splits if_splits)
qed (rule ensurePrometheusRoleBinding_ok)

section \<open>What the operations guarantee\<close>

lemma wantedSecret_data:
  assumes "wantedSecret cr sec" and "cr \<noteq> []"
  shows "se_data sec = [(CredentialsSecretKey, cr)]"
proof -
  obtain kv where "se_data sec = [kv]" using assms(1) by (auto simp: wantedSecret_def length_Suc_conv)
  then show ?thesis using assms by (cases kv) (auto simp: wantedSecret_def mapGet_def split: if_splits)
qed

text \<open>
  C17. When \<open>ensureGCPCredentialsSecret\<close> succeeds there is a Secret, either the one found or the one
  it wrote last, whose data is exactly the credentials under the one key, which carries the
  operator's labels, and which the KedaController controls, so that garbage collection removes it.
\<close>

theorem ensureGCPCredentialsSecret_secures:
  assumes "ownership_ok C" and "credentials \<noteq> []" and "ensureGCPCredentialsSecret C k credentials s = (Inr (), t)"
  shows "\<exists>sec. se_data sec = [(CredentialsSecretKey, credentials)]
    \<and> (\<forall>(l, v) \<in> set CredentialsSecretLabels. om_labels (se_meta sec) l = Some v)
    \<and> isControlledBy C (se_owners sec) k
    \<and> (getSecret C (gcpCredentialsSecretKey k) (r_cluster s) = (Inr sec, r_cluster t) \<and> r_calls t = r_calls s \<or>
       (\<exists>cs. r_calls t = r_calls s @ cs @ [(WriteSecret sec, True)]))"
  using gcpSecret.ok [OF assms(3)] wantedSecret_data [OF _ assms(2)] assms(1)
  unfolding wantedSecret_def by blast

theorem ensureGCPCredentialsSecret_secures_witness:
  "\<exists>(sec :: secret) t. ensureGCPCredentialsSecret demoClient demoGcpController ''{}''
       (demoRun \<lparr>dc_openshift = True, dc_secret = None, dc_controller = None\<rparr>) = (Inr (), t)
     \<and> se_data sec = [(CredentialsSecretKey, ''{}'')] \<and> isControlledBy demoClient (se_owners sec) demoGcpController"
proof -
  let ?s = "demoRun \<lparr>dc_openshift = True, dc_secret = None, dc_controller = None\<rparr>"
  obtain t where t: "ensureGCPCredentialsSecret demoClient demoGcpController ''{}'' ?s = (Inr (), t)"
    by (simp add: ensureGCPCredentialsSecret_def Let_def upsert_def withExisting_run demoClient_def demoRun_def bindIO_def
        calling_def)
  have "''{}'' \<noteq> []" by simp
  from ensureGCPCredentialsSecret_secures [OF demoClient_ownership this t] show ?thesis
    using t by blast
qed

text \<open>
  C18. A Secret of that name that belongs to someone else is never changed: if the KedaController does
  not control it and it has another type or another controller, bringing it in line fails
  without any call, and deleting it does nothing.
\<close>

theorem foreign_secret_untouched:
  assumes "getSecret C (gcpCredentialsSecretKey k) (r_cluster s) = (Inr sec, w)"
    and "\<not> isControlledBy C (se_owners sec) k"
    and "se_type sec \<notin> {[], ''Opaque''} \<or>
      (\<exists>kind name. setControllerReference C k (se_meta sec) (se_owners sec) = Inl (AlreadyOwned kind name))"
  shows "(\<exists>e. ensureGCPCredentialsSecret C k credentials s = (Inl e, s\<lparr>r_cluster := w\<rparr>))
    \<and> deleteGCPCredentialsSecret C k s = (Inr (), s\<lparr>r_cluster := w\<rparr>)"
proof
  have "\<exists>e. adoptSecret C k sec = Inl e"
    using assms(2,3) by (auto simp: adoptSecret_def)
  then obtain e where "reviseSecret C k credentials sec = Inl e" by (auto simp: reviseSecret_def)
  then show "\<exists>e. ensureGCPCredentialsSecret C k credentials s = (Inl e, s\<lparr>r_cluster := w\<rparr>)"
    using assms(1) by (simp add: ensureGCPCredentialsSecret_def upsert_def withExisting_run bindIO_def Let_def)
  show "deleteGCPCredentialsSecret C k s = (Inr (), s\<lparr>r_cluster := w\<rparr>)"
    using assms(1,2) by (simp add: deleteGCPCredentialsSecret_def bindIO_def tryIO_def reading_def)
qed

theorem foreign_secret_untouched_witness:
  "let sec = \<lparr>se_meta = newMeta CredentialsSecretName ''keda'', se_owners = [], se_type = ''kubernetes.io/tls'',
         se_data = [], se_stringData = []\<rparr>;
       s = demoRun \<lparr>dc_openshift = True, dc_secret = Some sec, dc_controller = None\<rparr>
   in deleteGCPCredentialsSecret demoClient demoGcpController s = (Inr (), s)"
proof -
  let ?sec = "\<lparr>se_meta = newMeta CredentialsSecretName ''keda'', se_owners = [], se_type = ''kubernetes.io/tls'',
    se_data = [], se_stringData = []\<rparr>"
  let ?w = "\<lparr>dc_openshift = True, dc_secret = Some ?sec, dc_controller = None\<rparr>"
  have "getSecret demoClient (gcpCredentialsSecretKey demoGcpController) (r_cluster (demoRun ?w)) = (Inr ?sec, ?w)"
    "\<not> isControlledBy demoClient (se_owners ?sec) demoGcpController"
    by (simp_all add: demoClient_def demoRun_def)
  from foreign_secret_untouched [OF this] show ?thesis by (simp add: demoRun_def)
qed

section \<open>Which calls are made\<close>

lemma emits_withExisting:
  assumes "emits P get" "emits P cr" "\<And>x. emits P (k x)"
  shows "emits P (withExisting get cr k)"
  unfolding withExisting_def using assms
  by (auto intro!: emits_bind emits_try emits_reads split: sum.split error.split)

lemma emits_upsert: "(\<And>x. P (wrote x)) \<Longrightarrow> emits P (upsert get fresh wrote create revise update)"
  unfolding upsert_def by (auto intro!: emits_withExisting emits_intros split: prod.split)

lemma emits_ensureGCPCredentialsSecret [emits_intros]:
  "(\<And>x. P (WriteSecret x)) \<Longrightarrow> emits P (ensureGCPCredentialsSecret C k cr)"
  unfolding ensureGCPCredentialsSecret_def Let_def by (rule emits_upsert)

lemma emits_deleteGCPCredentialsSecret [emits_intros]:
  "(\<And>x. P (DeleteSecret x)) \<Longrightarrow> emits P (deleteGCPCredentialsSecret C k)"
  unfolding deleteGCPCredentialsSecret_def
  by (auto intro!: emits_intros split: sum.split error.split)

lemma emits_gcpPlatform [emits_intros]: "emits P (gcpPlatform C)"
  unfolding gcpPlatform_def by (auto intro!: emits_intros split: sum.split)

lemma emits_gcpTransforms [emits_intros]:
  "(\<And>x. P (WriteSecret x)) \<Longrightarrow> emits P (gcpWorkloadIdentityTransforms C k cfg)"
  unfolding gcpWorkloadIdentityTransforms_def Let_def
  by (auto intro!: emits_intros split: option.split prod.split)

lemma emits_configMaps [emits_intros]:
  "(\<And>x. P (WriteConfigMap x)) \<Longrightarrow> emits P (ensureOpenshiftCABundleConfigMap C k)"
  "(\<And>x. P (WriteConfigMap x)) \<Longrightarrow> emits P (ensureMetricsServerAuditLogPolicyConfigMap C k)"
  unfolding ensureOpenshiftCABundleConfigMap_def ensureMetricsServerAuditLogPolicyConfigMap_def Let_def
  by (auto intro!: emits_upsert emits_intros)

lemma emits_checkAuditLogVolumeExists [emits_intros]: "emits P (checkAuditLogVolumeExists C n k)"
  unfolding checkAuditLogVolumeExists_def by (auto intro!: emits_intros split: sum.split error.split)

lemma emits_prometheus [emits_intros]:
  assumes "\<And>x. P (WriteRole x)" "\<And>x. P (WriteRoleBinding x)" "\<And>x. P (DeleteRoleBinding x)"
  shows "emits P (ensurePrometheusMonitoringRBAC C k)"
proof -
  have role: "emits P (ensurePrometheusRole C k n)" for n
    unfolding ensurePrometheusRole_def Let_def using assms(1) by (rule emits_upsert)
  have create: "emits P (createDesiredRoleBinding C k n)" for n
    unfolding createDesiredRoleBinding_def Let_def by (auto intro!: emits_intros assms)
  have "emits P (ensurePrometheusRoleBinding C k n)" for n
    unfolding ensurePrometheusRoleBinding_def
    by (auto intro!: emits_withExisting emits_intros create assms split: prod.split)
  then show ?thesis
    unfolding ensurePrometheusMonitoringRBAC_def Let_def
    by (auto intro!: emits_intros role split: sum.split error.split)
qed

section \<open>Success means that the calls succeeded\<close>

lemma settles_withExisting:
  assumes "settles cr" "\<And>x. settles (k x)"
  shows "settles (withExisting (reading g) cr k)"
  unfolding withExisting_def using assms
  by (auto intro!: settles_bind settles_try_reading settles_reads split: sum.split error.split)

lemma settles_upsert: "settles (upsert get fresh wrote create revise update)"
  unfolding upsert_def by (auto intro!: settles_withExisting settles_intros split: prod.split)

lemma settles_deleteGCPCredentialsSecret [settles_intros]: "settles (deleteGCPCredentialsSecret C k)"
proof -
  have "settles (tryIO (calling (DeleteSecret sec) f))" for sec and f :: "('b, unit) request"
    by (auto simp: settles_def tryIO_def calling_def harmless_def split: prod.splits)
  then show ?thesis
    unfolding deleteGCPCredentialsSecret_def
    by (auto intro!: settles_intros split: sum.split error.split)
qed

lemma settles_gcp [settles_intros]:
  "settles (ensureGCPCredentialsSecret C k cr)" "settles (gcpPlatform C)"
  "settles (gcpWorkloadIdentityTransforms C k cfg)"
proof -
  show secret: "settles (ensureGCPCredentialsSecret C k cr)" for cr
    unfolding ensureGCPCredentialsSecret_def Let_def by (rule settles_upsert)
  show platform: "settles (gcpPlatform C)"
    unfolding gcpPlatform_def by (auto intro!: settles_intros split: sum.split)
  show "settles (gcpWorkloadIdentityTransforms C k cfg)"
    unfolding gcpWorkloadIdentityTransforms_def Let_def
    by (auto intro!: settles_intros secret platform split: option.split prod.split)
qed

lemma settles_configMaps [settles_intros]:
  "settles (ensureOpenshiftCABundleConfigMap C k)" "settles (ensureMetricsServerAuditLogPolicyConfigMap C k)"
  "settles (checkAuditLogVolumeExists C n k)"
  unfolding ensureOpenshiftCABundleConfigMap_def ensureMetricsServerAuditLogPolicyConfigMap_def Let_def
    checkAuditLogVolumeExists_def
  by (auto intro!: settles_upsert settles_intros split: sum.split error.split)

lemma settles_prometheus [settles_intros]: "settles (ensurePrometheusMonitoringRBAC C k)"
proof -
  have role: "settles (ensurePrometheusRole C k n)" for n
    unfolding ensurePrometheusRole_def Let_def by (rule settles_upsert)
  have create: "settles (createDesiredRoleBinding C k n)" for n
    unfolding createDesiredRoleBinding_def Let_def by (auto intro!: settles_intros)
  have "settles (ensurePrometheusRoleBinding C k n)" for n
    unfolding ensurePrometheusRoleBinding_def
    by (auto intro!: settles_withExisting settles_intros create split: prod.split)
  then show ?thesis
    unfolding ensurePrometheusMonitoringRBAC_def Let_def
    by (auto intro!: settles_intros role split: sum.split error.split)
qed

end
