(* ===== verification/Manifests.thy ===== *)
theory Manifests
  imports KubeDemo
begin

text \<open>
  How the embedded manifests are split into operands: \<open>parseManifestsFromFile\<close>,
  \<open>sortMetricsResources\<close> and \<open>parseHTTPAddonManifests\<close> of \<^verbatim>\<open>kedacontroller_controller.go\<close>, and the loading in
  \<^verbatim>\<open>resources/resources_handler.go\<close>. A manifest is the list of its resources; \<open>mf.ManifestFrom\<close> is the
  parameter \<open>manifestFrom\<close>.
\<close>

section \<open>Splitting the KEDA manifest\<close>

datatype operand = General | Controller | Metrics | Webhooks | Monitoring

text \<open>The switch over kind and name: the slice a resource is appended to, if any.\<close>

definition operandOf :: "'u api \<Rightarrow> 'u \<Rightarrow> operand option" where
  "operandOf A r =
     (let kind = GetKind A r; name = GetName A r in
      if kind \<in> {''APIService'', ''ValidatingWebhookConfiguration''} then
        (if name = ''keda-admission-webhooks'' \<or> name = ''keda-admission'' then Some Webhooks else Some Metrics)
      else if kind \<in> {''ClusterRole'', ''ClusterRoleBinding'', ''Deployment'', ''Role'', ''RoleBinding'', ''Service''} then
        (if name \<in> {''keda-operator'', ''keda:edit'', ''keda:view''} then Some Controller
         else if name \<in> {''keda-admission-webhooks'', ''keda-admission''} then Some Webhooks
         else Some Metrics)
      else if kind = ''Secret'' then Some Controller
      else if kind = ''ServiceAccount'' \<or> kind = ''NetworkPolicy'' then Some General
      else if kind = ''PodMonitor'' \<or> kind = ''ServiceMonitor'' then Some Monitoring
      else None)"

record 'u operands =
  op_general :: "'u list"
  op_controller :: "'u list"
  op_metrics :: "'u list"
  op_webhooks :: "'u list"
  op_monitoring :: "'u list"

text \<open>The body of the loop.\<close>

definition addResource :: "'u api \<Rightarrow> 'u \<Rightarrow> 'u operands \<Rightarrow> 'u operands" where
  "addResource A r s =
     (case operandOf A r of
        None \<Rightarrow> s
      | Some General \<Rightarrow> s\<lparr>op_general := op_general s @ [r]\<rparr>
      | Some Controller \<Rightarrow> s\<lparr>op_controller := op_controller s @ [r]\<rparr>
      | Some Metrics \<Rightarrow> s\<lparr>op_metrics := op_metrics s @ [r]\<rparr>
      | Some Webhooks \<Rightarrow> s\<lparr>op_webhooks := op_webhooks s @ [r]\<rparr>
      | Some Monitoring \<Rightarrow> s\<lparr>op_monitoring := op_monitoring s @ [r]\<rparr>)"

definition rank :: "'u api \<Rightarrow> 'u \<Rightarrow> nat" where
  "rank A r =
     (let kind = GetKind A r in
      if kind = ''ClusterRole'' then 0
      else if kind = ''RoleBinding'' then 1
      else if kind = ''ClusterRoleBinding'' then
        (if GetName A r = ''keda-hpa-controller-external-metrics'' then 2 else 3)
      else if kind = ''Service'' then 4
      else if kind = ''Deployment'' then 5
      else if kind = ''APIService'' then 6
      else 7)"

text \<open>\<open>slices.SortStableFunc\<close> on the rank: the stable sort of the library.\<close>

definition sortMetricsResources :: "'u api \<Rightarrow> 'u list \<Rightarrow> 'u list" where
  "sortMetricsResources A rs = sort_key (rank A) rs"

definition parseManifestsFromFile ::
  "'u api \<Rightarrow> ('u list \<Rightarrow> error + 'u list) \<Rightarrow> 'u list \<Rightarrow> error + 'u operands" where
  "parseManifestsFromFile A manifestFrom manifest =
     (let s = fold (addResource A) manifest
            \<lparr>op_general = [], op_controller = [], op_metrics = [], op_webhooks = [], op_monitoring = []\<rparr>
      in bindE (manifestFrom (op_general s)) (\<lambda>general.
         bindE (manifestFrom (op_controller s)) (\<lambda>controller.
         bindE (manifestFrom (sortMetricsResources A (op_metrics s))) (\<lambda>metrics.
         bindE (manifestFrom (op_webhooks s)) (\<lambda>webhooks.
         bindE (manifestFrom (op_monitoring s)) (\<lambda>monitoring.
           Ok \<lparr>op_general = general, op_controller = controller, op_metrics = metrics, op_webhooks = webhooks,
               op_monitoring = monitoring\<rparr>))))))"

section \<open>Splitting the HTTP add-on manifest\<close>

record 'u addons =
  ad_operator :: "'u list"
  ad_interceptor :: "'u list"
  ad_scaler :: "'u list"

definition addAddonResource :: "'u api \<Rightarrow> 'u \<Rightarrow> 'u addons \<Rightarrow> 'u addons" where
  "addAddonResource A res s =
     (let name = GetName A res in
      if Contains name ''interceptor'' then s\<lparr>ad_interceptor := ad_interceptor s @ [res]\<rparr>
      else if Contains name ''scaler'' \<or> Contains name ''external-scaler'' then s\<lparr>ad_scaler := ad_scaler s @ [res]\<rparr>
      else s\<lparr>ad_operator := ad_operator s @ [res]\<rparr>)"

definition parseHTTPAddonManifests ::
  "'u api \<Rightarrow> ('u list \<Rightarrow> error + 'u list) \<Rightarrow> 'u list \<Rightarrow> error + 'u addons" where
  "parseHTTPAddonManifests A manifestFrom manifest =
     (let s = fold (addAddonResource A) manifest \<lparr>ad_operator = [], ad_interceptor = [], ad_scaler = []\<rparr>
      in bindE (manifestFrom (ad_operator s)) (\<lambda>operator.
         bindE (manifestFrom (ad_interceptor s)) (\<lambda>interceptor.
         bindE (manifestFrom (ad_scaler s)) (\<lambda>scaler.
           Ok \<lparr>ad_operator = operator, ad_interceptor = interceptor, ad_scaler = scaler\<rparr>))))"

section \<open>Loading\<close>

text \<open>\<open>manifestFromEmbed\<close> reads one of the embedded files; both steps are parameters.\<close>

definition manifestFromEmbed ::
  "(string \<Rightarrow> error + string) \<Rightarrow> (string \<Rightarrow> error + 'u list) \<Rightarrow> string \<Rightarrow> error + 'u list" where
  "manifestFromEmbed readFile parseYaml name = bindE (readFile name) parseYaml"

definition GetResourcesManifest ::
  "(string \<Rightarrow> error + string) \<Rightarrow> (string \<Rightarrow> error + 'u list) \<Rightarrow> error + 'u list" where
  "GetResourcesManifest readFile parseYaml =
     bindE (manifestFromEmbed readFile parseYaml ''keda.yaml'') (\<lambda>kedamf.
     bindE (manifestFromEmbed readFile parseYaml ''keda-olm-operator.yaml'') (\<lambda>operatormf. Ok (kedamf @ operatormf)))"

definition GetHTTPAddonResourcesManifest ::
  "(string \<Rightarrow> error + string) \<Rightarrow> (string \<Rightarrow> error + 'u list) \<Rightarrow> error + 'u list" where
  "GetHTTPAddonResourcesManifest readFile parseYaml = manifestFromEmbed readFile parseYaml ''keda-http-addon.yaml''"

section \<open>The split is a partition\<close>

lemma fold_addResource:
  "fold (addResource A) rs s =
     \<lparr>op_general = op_general s @ filter (\<lambda>r. operandOf A r = Some General) rs,
      op_controller = op_controller s @ filter (\<lambda>r. operandOf A r = Some Controller) rs,
      op_metrics = op_metrics s @ filter (\<lambda>r. operandOf A r = Some Metrics) rs,
      op_webhooks = op_webhooks s @ filter (\<lambda>r. operandOf A r = Some Webhooks) rs,
      op_monitoring = op_monitoring s @ filter (\<lambda>r. operandOf A r = Some Monitoring) rs\<rparr>"
proof (induction rs arbitrary: s)
  case (Cons r rs)
  show ?case
  proof (cases "operandOf A r")
    case None
    then show ?thesis using Cons by (simp add: addResource_def)
  next
    case (Some op)
    then show ?thesis using Cons by (cases op) (simp_all add: addResource_def)
  qed
qed simp

lemma partition_mset:
  "mset xs = filter_mset (\<lambda>x. f x = None) (mset xs) + filter_mset (\<lambda>x. f x = Some General) (mset xs) +
     filter_mset (\<lambda>x. f x = Some Controller) (mset xs) + filter_mset (\<lambda>x. f x = Some Metrics) (mset xs) +
     filter_mset (\<lambda>x. f x = Some Webhooks) (mset xs) + filter_mset (\<lambda>x. f x = Some Monitoring) (mset xs)"
proof (induction xs)
  case (Cons x xs)
  show ?case
  proof (cases "f x")
    case None
    then show ?thesis using Cons by simp
  next
    case (Some op)
    then show ?thesis using Cons by (cases op) simp_all
  qed
qed simp

text \<open>Documented behaviour of \<open>mf.ManifestFrom(mf.Slice(rs))\<close>: the resources are those of the slice.\<close>

definition manifestFrom_ok :: "('u list \<Rightarrow> error + 'u list) \<Rightarrow> bool" where
  "manifestFrom_ok manifestFrom \<longleftrightarrow> (\<forall>rs m. manifestFrom rs = Inr m \<longrightarrow> m = rs)"

lemma manifests_partition:
  assumes "manifestFrom_ok manifestFrom" and "parseManifestsFromFile A manifestFrom rs = Inr s"
  shows "op_general s = filter (\<lambda>r. operandOf A r = Some General) rs
    \<and> op_controller s = filter (\<lambda>r. operandOf A r = Some Controller) rs
    \<and> op_webhooks s = filter (\<lambda>r. operandOf A r = Some Webhooks) rs
    \<and> op_monitoring s = filter (\<lambda>r. operandOf A r = Some Monitoring) rs
    \<and> sorted (map (rank A) (op_metrics s))
    \<and> (\<forall>k. filter (\<lambda>r. rank A r = k) (op_metrics s) = filter (\<lambda>r. operandOf A r = Some Metrics \<and> rank A r = k) rs)
    \<and> mset rs = mset (filter (\<lambda>r. operandOf A r = None) rs) + mset (op_general s) + mset (op_controller s) +
        mset (op_metrics s) + mset (op_webhooks s) + mset (op_monitoring s)"
proof -
  have s: "s = \<lparr>op_general = filter (\<lambda>r. operandOf A r = Some General) rs,
      op_controller = filter (\<lambda>r. operandOf A r = Some Controller) rs,
      op_metrics = sort_key (rank A) (filter (\<lambda>r. operandOf A r = Some Metrics) rs),
      op_webhooks = filter (\<lambda>r. operandOf A r = Some Webhooks) rs,
      op_monitoring = filter (\<lambda>r. operandOf A r = Some Monitoring) rs\<rparr>"
    using assms by (auto simp: parseManifestsFromFile_def fold_addResource bindE_Ok manifestFrom_ok_def
        sortMetricsResources_def Let_def)
  then show ?thesis
    using partition_mset [of rs "operandOf A"] by (simp add: sort_key_stable conj_commute)
qed

text \<open>
  C40. Loading splits the manifest without loss: each resource goes to the one operand that its kind
  and name select, in manifest order, and none is duplicated; what is left out are resources of
  the kinds not listed, such as the Namespace. The metrics server resources are sorted by rank,
  so that roles and bindings come before the Service and the Deployment and these before the
  APIService, and resources of one rank keep their order.
\<close>

theorem parseManifestsFromFile_partition:
  assumes "manifestFrom_ok manifestFrom" and "parseManifestsFromFile A manifestFrom rs = Inr s"
  shows "op_general s = filter (\<lambda>r. operandOf A r = Some General) rs
    \<and> op_controller s = filter (\<lambda>r. operandOf A r = Some Controller) rs
    \<and> op_webhooks s = filter (\<lambda>r. operandOf A r = Some Webhooks) rs
    \<and> op_monitoring s = filter (\<lambda>r. operandOf A r = Some Monitoring) rs
    \<and> sorted (map (rank A) (op_metrics s))
    \<and> (\<forall>k. filter (\<lambda>r. rank A r = k) (op_metrics s) = filter (\<lambda>r. operandOf A r = Some Metrics \<and> rank A r = k) rs)
    \<and> mset rs = mset (filter (\<lambda>r. operandOf A r = None) rs) + mset (op_general s) + mset (op_controller s) +
        mset (op_metrics s) + mset (op_webhooks s) + mset (op_monitoring s)"
  using assms by (rule manifests_partition)

theorem parseManifestsFromFile_partition_witness:
  "\<exists>s. parseManifestsFromFile demoApi Inr
        [demoObject ''Namespace'' ''keda'' [], demoObject ''Deployment'' ''keda-operator'' ''keda''] = Inr s
     \<and> op_controller s = [demoObject ''Deployment'' ''keda-operator'' ''keda'']"
proof -
  let ?ns = "demoObject ''Namespace'' ''keda'' []" and ?d = "demoObject ''Deployment'' ''keda-operator'' ''keda''"
  have "manifestFrom_ok Inr" by (simp add: manifestFrom_ok_def)
  moreover obtain s where "parseManifestsFromFile demoApi Inr [?ns, ?d] = Inr s"
    by (simp add: parseManifestsFromFile_def Let_def)
  ultimately have "op_controller s = filter (\<lambda>r. operandOf demoApi r = Some Controller) [?ns, ?d]"
    using parseManifestsFromFile_partition by blast
  then show ?thesis
    using \<open>parseManifestsFromFile demoApi Inr [?ns, ?d] = Inr s\<close>
    by (simp add: operandOf_def demoObject_def demoContent_def demoMeta_def Let_def)
qed

text \<open>The HTTP add-on: every resource goes to exactly one of the three parts, in order.\<close>

definition isInterceptor :: "'u api \<Rightarrow> 'u \<Rightarrow> bool" where
  "isInterceptor A r = Contains (GetName A r) ''interceptor''"

definition isScaler :: "'u api \<Rightarrow> 'u \<Rightarrow> bool" where
  "isScaler A r = (\<not> isInterceptor A r \<and> Contains (GetName A r) ''scaler'')"

lemma external_scaler: "Contains s ''external-scaler'' \<Longrightarrow> Contains s ''scaler''"
proof -
  assume "Contains s ''external-scaler''"
  then obtain a b where "s = (a @ ''external-'') @ ''scaler'' @ b" by (auto simp: Contains_iff)
  then show ?thesis unfolding Contains_iff by blast
qed

lemma fold_addAddonResource:
  "fold (addAddonResource A) rs s =
     \<lparr>ad_operator = ad_operator s @ filter (\<lambda>r. \<not> isInterceptor A r \<and> \<not> isScaler A r) rs,
      ad_interceptor = ad_interceptor s @ filter (isInterceptor A) rs,
      ad_scaler = ad_scaler s @ filter (isScaler A) rs\<rparr>"
proof (induction rs arbitrary: s)
  case (Cons r rs)
  then show ?case
    using external_scaler by (auto simp: addAddonResource_def isScaler_def isInterceptor_def Let_def)
qed simp

lemma parseHTTPAddonManifests_partition:
  assumes "manifestFrom_ok manifestFrom" and "parseHTTPAddonManifests A manifestFrom rs = Inr s"
  shows "ad_interceptor s = filter (isInterceptor A) rs" "ad_scaler s = filter (isScaler A) rs"
    "ad_operator s = filter (\<lambda>r. \<not> isInterceptor A r \<and> \<not> isScaler A r) rs"
  using assms
  by (auto simp: parseHTTPAddonManifests_def fold_addAddonResource bindE_Ok manifestFrom_ok_def Let_def)

end
