(* ===== verification/Operands.thy ===== *)
theory Operands
  imports Upserts Manifests
begin

text \<open>
  Rendering and installing the operands: the lists of transformers that the spec asks for, and
  the \<open>install...\<close> and \<open>delete...\<close> functions of \<^verbatim>\<open>kedacontroller_controller.go\<close>.
\<close>

section \<open>The reconciler\<close>

text \<open>
  The fields of \<open>KedaControllerReconciler\<close> that the operations read and that do not change after
  set-up: the manifests as loaded, the namespace, whether TLS variables are injected, the version
  that the build links in, and the two flags of the program that \<^verbatim>\<open>main\<close> passes on.
  \<open>rc_addonsLoaded\<close> says that the add-on manifests have a client.
\<close>

record 'u reconciler =
  rc_operands :: "'u operands"
  rc_addons :: "'u addons"
  rc_addonsLoaded :: bool
  rc_namespace :: string
  rc_injectTLSEnvVars :: bool
  rc_version :: string
  rc_certDir :: string
  rc_leaderElection :: bool

abbreviation onlyIf :: "bool \<Rightarrow> 'a list \<Rightarrow> 'a list" where
  "onlyIf b xs \<equiv> (if b then xs else [])"

definition requirements :: "resourceSpec \<Rightarrow> resourceRequirements" where
  "requirements rs =
     \<lparr>rr_limits = (case rs_limits rs of None \<Rightarrow> Map.empty | Some m \<Rightarrow> m),
      rr_requests = (case rs_requests rs of None \<Rightarrow> Map.empty | Some m \<Rightarrow> m), rr_claims = rs_claims rs\<rparr>"

definition hasResources :: "GenericDeploymentSpec \<Rightarrow> bool" where
  "hasResources g = (rs_limits (gd_resources g) \<noteq> None \<or> rs_requests (gd_resources g) \<noteq> None)"

section \<open>Transformers driven by the spec\<close>

text \<open>Annotations, labels and scheduling, in the order in which every operand has them.\<close>

definition placementTransforms :: "'u api \<Rightarrow> GenericDeploymentSpec \<Rightarrow> 'u transformer list" where
  "placementTransforms A g =
     onlyIf (gd_deploymentAnnotations g \<noteq> Map.empty) [AddDeploymentAnnotations A (gd_deploymentAnnotations g)] @
     onlyIf (gd_deploymentLabels g \<noteq> Map.empty) [AddDeploymentLabels A (gd_deploymentLabels g)] @
     onlyIf (gd_podAnnotations g \<noteq> Map.empty) [AddPodAnnotations A (gd_podAnnotations g)] @
     onlyIf (gd_podLabels g \<noteq> Map.empty) [AddPodLabels A (gd_podLabels g)] @
     onlyIf (gd_nodeSelector g \<noteq> Map.empty) [ReplaceNodeSelector A (gd_nodeSelector g)] @
     onlyIf (gd_tolerations g \<noteq> []) [ReplaceTolerations A (gd_tolerations g)] @
     onlyIf (gd_affinity g \<noteq> None) [ReplaceAffinity A (gd_affinity g)] @
     onlyIf (gd_priorityClassName g \<noteq> []) [ReplacePriorityClassName A (gd_priorityClassName g)]"

definition volumeTransforms :: "'u api \<Rightarrow> GenericDeploymentSpec \<Rightarrow> 'u transformer list" where
  "volumeTransforms A g =
     (case gd_volumes g of None \<Rightarrow> [] | Some vs \<Rightarrow> [ReplaceDeploymentVolumes A vs]) @
     (case gd_volumeMounts g of None \<Rightarrow> [] | Some ms \<Rightarrow> [ReplaceDeploymentVolumeMounts A ms])"

definition kedaOperatorSpecTransforms :: "'u api \<Rightarrow> KedaOperatorSpec \<Rightarrow> 'u transformer list" where
  "kedaOperatorSpecTransforms A spec =
     (let g = ko_generic spec in
      onlyIf (ko_logLevel spec \<noteq> []) [ReplaceKedaOperatorLogLevel A (ko_logLevel spec)] @
      onlyIf (ko_logEncoder spec \<noteq> []) [ReplaceKedaOperatorLogEncoder A (ko_logEncoder spec)] @
      onlyIf (ko_logTimeEncoding spec \<noteq> []) [ReplaceKedaOperatorLogTimeEncoding A (ko_logTimeEncoding spec)] @
      onlyIf (gd_replicas g \<noteq> None) [ReplaceReplicas A (gd_replicas g)] @
      placementTransforms A g @
      onlyIf (hasResources g) [ReplaceKedaOperatorResources A (requirements (gd_resources g))] @
      volumeTransforms A g @
      map (\<lambda>arg. ReplaceArbitraryArg A arg ''operator'') (ko_args spec))"

definition httpAddonComponentTransforms ::
  "'u api \<Rightarrow> GenericDeploymentSpec \<Rightarrow> string \<Rightarrow> string \<Rightarrow> int32 option \<Rightarrow> envVar list \<Rightarrow> string \<Rightarrow> string \<Rightarrow> string \<Rightarrow>
   KedaController \<Rightarrow> 'u transformer list" where
  "httpAddonComponentTransforms A g containerName img replicas env logLevel logEncoder logTimeEncoding k =
     [InjectOwner A (k_meta k), ReplaceAllNamespaces A (namespaceOf k)] @
     onlyIf (img \<noteq> []) [ReplaceContainerImage A img containerName] @
     onlyIf (replicas \<noteq> None) [ReplaceReplicas A replicas] @
     onlyIf (env \<noteq> []) [ReplaceContainerEnv A env containerName] @
     onlyIf (logLevel \<noteq> []) [ReplaceLogLevel A logLevel containerName] @
     onlyIf (logEncoder \<noteq> []) [ReplaceLogEncoder A logEncoder containerName] @
     onlyIf (logTimeEncoding \<noteq> []) [ReplaceLogTimeEncoding A logTimeEncoding containerName] @
     placementTransforms A g @
     onlyIf (hasResources g) [ReplaceContainerResources A (requirements (gd_resources g)) containerName] @
     (case gd_volumes g of None \<Rightarrow> [] | Some vs \<Rightarrow> [ReplaceDeploymentVolumes A vs]) @
     (case gd_volumeMounts g of None \<Rightarrow> [] | Some ms \<Rightarrow> [ReplaceContainerVolumeMounts A ms containerName])"

text \<open>\<open>auditConfigTransformation\<close> appends to the transformers so far.\<close>

definition auditConfigTransformation :: "'u api \<Rightarrow> 'u transformer list \<Rightarrow> AuditConfig \<Rightarrow> 'u transformer list" where
  "auditConfigTransformation A t ac =
     t @ onlyIf (ac_logFormat ac \<noteq> []) [ReplaceAuditConfig A (ac_logFormat ac) ''logformat''] @
     onlyIf (al_maxAge (ac_lifetime ac) \<noteq> []) [ReplaceAuditConfig A (al_maxAge (ac_lifetime ac)) ''maxage''] @
     onlyIf (al_maxBackup (ac_lifetime ac) \<noteq> []) [ReplaceAuditConfig A (al_maxBackup (ac_lifetime ac)) ''maxbackup''] @
     onlyIf (al_maxSize (ac_lifetime ac) \<noteq> []) [ReplaceAuditConfig A (al_maxSize (ac_lifetime ac)) ''maxsize'']"

section \<open>The cluster TLS profile\<close>

definition clusterTLSProfile :: "('u, 'w) client \<Rightarrow> ('u, 'w, (string \<times> string) option) io" where
  "clusterTLSProfile C =
     bindIO (tryIO (reading (getAPIServer C))) (\<lambda>r. returnIO (case r of
        Inl _ \<Rightarrow> None
      | Inr apiserver \<Rightarrow>
          if \<not> shouldHonorClusterTLSProfile C (ap_tlsAdherence apiserver) then None
          else (case getTLSProfileSpec C (ap_tlsSecurityProfile apiserver) of
             Inl _ \<Rightarrow> None
           | Inr profile \<Rightarrow>
               (let (minVer, ianaCiphers) = ConvertTLSProfileSpec (openSSLToIANACipherSuites C) profile
                in Some (minVer, Join ianaCiphers '','')))))"

definition kedaTLSEnvVarTransforms :: "('u, 'w) client \<Rightarrow> ('u, 'w, 'u transformer list) io" where
  "kedaTLSEnvVarTransforms C =
     bindIO (clusterTLSProfile C) (\<lambda>p. returnIO (case p of
        None \<Rightarrow> []
      | Some (minTLSVersion, cipherList) \<Rightarrow>
          [EnsureEnvVarInAllContainers (kube C) ''KEDA_SERVICE_MIN_TLS_VERSION'' minTLSVersion,
           EnsureEnvVarInAllContainers (kube C) ''KEDA_SERVICE_TLS_CIPHER_LIST'' cipherList]))"

definition httpAddonTLSEnvVarTransforms :: "('u, 'w) client \<Rightarrow> ('u, 'w, 'u transformer list) io" where
  "httpAddonTLSEnvVarTransforms C =
     bindIO (clusterTLSProfile C) (\<lambda>p. returnIO (case p of
        None \<Rightarrow> []
      | Some (minTLSVersion, cipherList) \<Rightarrow>
          [EnsureEnvVarInAllContainers (kube C) ''KEDA_HTTP_TLS_MIN_VERSION'' minTLSVersion,
           EnsureEnvVarInAllContainers (kube C) ''KEDA_HTTP_TLS_CIPHER_SUITES'' cipherList]))"

text \<open>\<open>if cond { transforms = append(transforms, f()...) }\<close>\<close>

definition listIf :: "bool \<Rightarrow> ('u, 'w, 'a list) io \<Rightarrow> ('u, 'w, 'a list) io" where
  "listIf b m = (if b then m else returnIO [])"

text \<open>\<open>RunningOnOpenshift && RunningOnClusterWithoutSeccompProfileDefault\<close>, evaluated from left to right.\<close>

definition needsSeccompRemoval :: "('u, 'w) client \<Rightarrow> ('u, 'w, bool) io" where
  "needsSeccompRemoval C =
     bindIO (RunningOnOpenshift C) (\<lambda>openshift.
       if openshift then withoutSeccompProfileDefault C else returnIO False)"

section \<open>General resources\<close>

definition transformManifest :: "('u, 'w) client \<Rightarrow> 'u transformer list \<Rightarrow> 'u list \<Rightarrow> ('u, 'w, 'u list) io" where
  "transformManifest C ts manifest = liftE (mfTransform (kube C) ts manifest)"

definition applyCall :: "('u, 'w) client \<Rightarrow> 'u list \<Rightarrow> ('u, 'w, unit) io" where
  "applyCall C us = calling (ApplyManifest us) (applyManifest C us)"

definition deleteCall :: "('u, 'w) client \<Rightarrow> 'u list \<Rightarrow> ('u, 'w, unit) io" where
  "deleteCall C us = calling (DeleteManifest us) (deleteManifest C us)"

definition generalTransforms :: "'u api \<Rightarrow> KedaController \<Rightarrow> bool \<Rightarrow> 'u transformer list" where
  "generalTransforms A k openshift =
     (let spec = k_spec k; sa = kc_serviceAccount spec in
      [InjectOwner A (k_meta k), ReplaceAllNamespaces A (namespaceOf k)] @
      onlyIf (ks_annotations sa \<noteq> Map.empty) [AddServiceAccountAnnotations A (ks_annotations sa)] @
      onlyIf (ks_labels sa \<noteq> Map.empty) [AddServiceAccountLabels A (ks_labels sa)] @
      onlyIf (km_networkEgressAllowAll (kc_metricsServer spec) = ''false'')
        [RemoveNetworkPolicyPodSelectorFromMetricsServer A] @
      onlyIf (ko_networkEgressAllowAll (kc_operator spec) = ''false'')
        [RemoveNetworkPolicyPodSelectorFromKedaOperator A] @
      onlyIf openshift [AddOpenShiftPodToDNSNetworkPolicy A])"

definition installGeneralResources :: "('u, 'w) client \<Rightarrow> 'u reconciler \<Rightarrow> KedaController \<Rightarrow> ('u, 'w, unit) io" where
  "installGeneralResources C R k =
     bindIO (RunningOnOpenshift C) (\<lambda>openshift.
     bindIO (transformManifest C (generalTransforms (kube C) k openshift) (op_general (rc_operands R))) (\<lambda>manifest.
       let isEmpty = getIsEmptyKedaAllowEgressToAllNetworkPolicyPredicate (kube C)
       in thenIO (deleteCall C (filter isEmpty manifest))
                 (applyCall C (filter (\<lambda>u. \<not> isEmpty u) manifest))))"

section \<open>The controller\<close>

text \<open>The transformers of \<open>installController\<close> up to the user's environment variables.\<close>

definition controllerTransforms ::
  "('u, 'w) client \<Rightarrow> KedaController \<Rightarrow> bool \<Rightarrow> bool \<Rightarrow> 'u transformer list \<Rightarrow> 'u transformer list \<Rightarrow> 'u transformer list" where
  "controllerTransforms C k openshift removeSeccomp tlsTransforms gcpTransforms =
     (let A = kube C; spec = kc_operator (k_spec k);
          caConfigMaps = (if openshift \<and> caBundleConfigMapName \<notin> set (ko_caConfigMaps spec)
                          then caBundleConfigMapName # ko_caConfigMaps spec else ko_caConfigMaps spec);
          img = getenv C ''KEDA_OPERATOR_IMAGE''
      in [InjectOwner A (k_meta k), ReplaceAllNamespaces A (namespaceOf k),
          ReplaceWatchNamespace A (kc_watchNamespace (k_spec k)) ''keda-operator''] @
         tlsTransforms @
         EnsureCACertsForOperatorDeployment A (volumeOrder C) (mountOrder C) caConfigMaps @
         (if openshift then
            [EnsureCertInjectionForService A ''keda-operator'' ''service.beta.openshift.io/serving-cert-secret-name''
               ''keda-operator-certs'',
             KedaOperatorEnsureCertificatesVolume A ''keda-operator-certs'' ''kedaorg-certs'',
             SetOperatorCertRotation A False] @
            onlyIf removeSeccomp [RemoveSeccompProfileFromKedaOperator A]
          else [SetOperatorCertRotation A True]) @
         onlyIf (img \<noteq> []) [ReplaceKedaOperatorImage A img] @
         kedaOperatorSpecTransforms A spec @
         gcpTransforms)"

definition userEnv :: "'u api \<Rightarrow> envVar list \<Rightarrow> string \<Rightarrow> 'u transformer list" where
  "userEnv A env containerName = onlyIf (env \<noteq> []) [ReplaceContainerEnv A env containerName]"

text \<open>
  \<open>r.rotatorStarted\<close> is only set when \<open>AddRotator\<close> succeeded.
\<close>

definition certRotatorOf :: "'u reconciler \<Rightarrow> certRotator" where
  "certRotatorOf R =
     \<lparr>cr_secretKey = (''kedaorg-certs'', rc_namespace R), cr_caName = ''KEDA'', cr_caOrganization = ''KEDAORG'',
      cr_certDir = rc_certDir R, cr_requireLeaderElection = rc_leaderElection R, cr_extKeyUsages = [''ClientAuth'']\<rparr>"

definition startRotator :: "('u, 'w) client \<Rightarrow> 'u reconciler \<Rightarrow> ('u, 'w, unit) io" where
  "startRotator C R s =
     (if r_rotatorStarted s then returnIO () s
      else bindIO (calling (AddRotator (certRotatorOf R)) (addRotator C (certRotatorOf R))) (\<lambda>_ t. (Ok (), t\<lparr>r_rotatorStarted := True\<rparr>)) s)"

definition installController ::
  "('u, 'w) client \<Rightarrow> 'u reconciler \<Rightarrow> KedaController \<Rightarrow> Config option \<Rightarrow> ('u, 'w, unit) io" where
  "installController C R k gcpConfig =
     bindIO (RunningOnOpenshift C) (\<lambda>openshift.
     bindIO (listIf (rc_injectTLSEnvVars R) (kedaTLSEnvVarTransforms C)) (\<lambda>tlsTransforms.
     bindIO (if openshift then withoutSeccompProfileDefault C else returnIO False) (\<lambda>removeSeccomp.
     bindIO (gcpWorkloadIdentityTransforms C k gcpConfig) (\<lambda>gcpTransforms.
     bindIO (transformManifest C
         (controllerTransforms C k openshift removeSeccomp tlsTransforms gcpTransforms @
          userEnv (kube C) (gd_env (ko_generic (kc_operator (k_spec k)))) ''keda-operator'')
         (op_controller (rc_operands R))) (\<lambda>manifest.
       thenIO (applyCall C manifest)
      (thenIO (whenIO (gcpConfig = None) (deleteGCPCredentialsSecret C k))
              (whenIO openshift (startRotator C R))))))))"

section \<open>The metrics server\<close>

text \<open>
  The audit transformers: the policy ConfigMap, the validation of the log settings, the check of
  the volume claim, and the log path, which holds the current time.
\<close>

definition auditTransforms :: "('u, 'w) client \<Rightarrow> KedaController \<Rightarrow> ('u, 'w, 'u transformer list) io" where
  "auditTransforms C k =
     (let A = kube C; ac = km_auditConfig (kc_metricsServer (k_spec k)); claim = ac_logOutputVolumeClaim ac in
      if ac_policy ac = zeroAuditPolicy then returnIO []
      else
        thenIO (ensureMetricsServerAuditLogPolicyConfigMap C k)
          (let policyTransforms = [EnsureAuditPolicyConfigMapMountsVolume A auditlogPolicyConfigMap,
                 ReplaceAuditConfig A (pathJoin [''/var/audit-policy'', auditPolicyFile]) ''policyfile'']
           in case validateAuditLogVolumeWithArgs claim (ac_lifetime ac) of
                Some e \<Rightarrow> failIO e
              | None \<Rightarrow>
                  if claim = [] then
                    returnIO (policyTransforms @ [ReplaceAuditConfig A (pathJoin [''-'', claim]) ''logpath''])
                  else
                    thenIO (checkAuditLogVolumeExists C claim k)
                      (bindIO (reading (timestamp C)) (\<lambda>now.
                         let logVolumePath = ''/var/audit-policy/log-'' @ now
                         in returnIO (policyTransforms @
                              [EnsureAuditLogMount A claim logVolumePath,
                               ReplaceAuditConfig A (pathJoin [logVolumePath, claim]) ''logpath''])))))"

text \<open>The serving certificates on OpenShift; the CA bundle ConfigMap is made sure of first.\<close>

definition metricsCertTransforms :: "('u, 'w) client \<Rightarrow> KedaController \<Rightarrow> ('u, 'w, 'u transformer list) io" where
  "metricsCertTransforms C k =
     (let A = kube C in
      bindIO (RunningOnOpenshift C) (\<lambda>openshift.
        if \<not> openshift then returnIO []
        else
          thenIO (ensureOpenshiftCABundleConfigMap C k)
            (bindIO (liftE (EnsurePathsToCertsInDeployment A [''/certs/ca.crt'', ''/certs/ocp-tls.crt'', ''/certs/ocp-tls.key'']
                 [ClientCAFile, TLSCertFile, TLSPrivateKeyFile])) (\<lambda>paths.
               returnIO ([EnsureCABundleInjectionForAPIService A injectCABundleAnnotation injectCABundleAnnotationValue,
                 EnsureCertInjectionForService A ''keda-metrics-apiserver''
                   ''service.beta.openshift.io/serving-cert-secret-name'' ''keda-metrics-apiserver-certs'',
                 MetricsServerEnsureCertificatesVolume A caBundleConfigMapName ''keda-metrics-apiserver-certs''] @ paths)))))"

definition metricsSpecTransforms :: "'u api \<Rightarrow> KedaMetricsServerSpec \<Rightarrow> 'u transformer list" where
  "metricsSpecTransforms A spec =
     (let g = km_generic spec in
      (let ts = onlyIf (km_logLevel spec \<noteq> []) [ReplaceMetricsServerLogLevel A (km_logLevel spec)] @
             onlyIf (gd_replicas g \<noteq> None) [ReplaceReplicas A (gd_replicas g)] @
             placementTransforms A g @
             onlyIf (hasResources g) [ReplaceMetricsServerResources A (requirements (gd_resources g))]
       in if km_auditConfig spec \<noteq> zeroAuditConfig then auditConfigTransformation A ts (km_auditConfig spec) else ts) @
      volumeTransforms A g @
      map (\<lambda>arg. ReplaceArbitraryArg A arg ''metricsserver'') (km_args spec))"

text \<open>The transformers of \<open>installMetricsServer\<close> up to the user's environment variables.\<close>

definition metricsTransforms ::
  "('u, 'w) client \<Rightarrow> KedaController \<Rightarrow> 'u transformer list \<Rightarrow> bool \<Rightarrow> 'u transformer list \<Rightarrow> 'u transformer list \<Rightarrow>
   'u transformer list" where
  "metricsTransforms C k tlsTransforms removeSeccomp certTransforms audit =
     (let A = kube C; img = getenv C ''KEDA_METRICS_SERVER_IMAGE'' in
      [InjectOwner A (k_meta k), ReplaceAllNamespaces A (namespaceOf k)] @
      onlyIf (img \<noteq> []) [ReplaceMetricsServerImage A img] @
      tlsTransforms @
      onlyIf removeSeccomp [RemoveSeccompProfileFromMetricsServer A] @
      certTransforms @
      audit @
      metricsSpecTransforms A (kc_metricsServer (k_spec k)))"

definition installMetricsServer :: "('u, 'w) client \<Rightarrow> 'u reconciler \<Rightarrow> KedaController \<Rightarrow> ('u, 'w, unit) io" where
  "installMetricsServer C R k =
     bindIO (listIf (rc_injectTLSEnvVars R) (kedaTLSEnvVarTransforms C)) (\<lambda>tlsTransforms.
     bindIO (needsSeccompRemoval C) (\<lambda>removeSeccomp.
     bindIO (metricsCertTransforms C k) (\<lambda>certTransforms.
     bindIO (auditTransforms C k) (\<lambda>audit.
     bindIO (transformManifest C
         (metricsTransforms C k tlsTransforms removeSeccomp certTransforms audit @
          userEnv (kube C) (gd_env (km_generic (kc_metricsServer (k_spec k)))) ''keda-metrics-apiserver'' @
          [ReplaceNamespace (kube C) ''keda-auth-reader'' ''kube-system''])
         (op_metrics (rc_operands R))) (\<lambda>manifest.
       applyCall C manifest)))))"

section \<open>The admission webhooks\<close>

definition webhooksSpecTransforms :: "'u api \<Rightarrow> KedaAdmissionWebhooksSpec \<Rightarrow> 'u transformer list" where
  "webhooksSpecTransforms A spec =
     (let g = kw_generic spec in
      onlyIf (kw_logLevel spec \<noteq> []) [ReplaceAdmissionWebhooksLogLevel A (kw_logLevel spec)] @
      onlyIf (kw_logEncoder spec \<noteq> []) [ReplaceAdmissionWebhooksLogEncoder A (kw_logEncoder spec)] @
      onlyIf (kw_logTimeEncoding spec \<noteq> []) [ReplaceAdmissionWebhooksLogTimeEncoding A (kw_logTimeEncoding spec)] @
      onlyIf (gd_replicas g \<noteq> None) [ReplaceReplicas A (gd_replicas g)] @
      placementTransforms A g @
      onlyIf (hasResources g) [ReplaceAdmissionWebhooksResources A (requirements (gd_resources g))] @
      volumeTransforms A g @
      map (\<lambda>arg. ReplaceArbitraryArg A arg ''admissionwebhooks'') (kw_args spec))"

text \<open>The transformers of \<open>installAdmissionWebhooks\<close> up to the user's environment variables.\<close>

definition webhooksTransforms ::
  "('u, 'w) client \<Rightarrow> KedaController \<Rightarrow> 'u transformer list \<Rightarrow> bool \<Rightarrow> bool \<Rightarrow> 'u transformer list" where
  "webhooksTransforms C k tlsTransforms removeSeccomp openshift =
     (let A = kube C; img = getenv C ''KEDA_ADMISSION_WEBHOOKS_IMAGE'' in
      [InjectOwner A (k_meta k), ReplaceAllNamespaces A (namespaceOf k),
       ReplaceWatchNamespace A (kc_watchNamespace (k_spec k)) ''keda-admission-webhooks''] @
      tlsTransforms @
      onlyIf removeSeccomp [RemoveSeccompProfileFromAdmissionWebhooks A] @
      onlyIf openshift
        [EnsureCABundleInjectionForValidatingWebhookConfiguration A injectCABundleAnnotation injectCABundleAnnotationValue,
         EnsureCertInjectionForService A ''keda-admission-webhooks''
           ''service.beta.openshift.io/serving-cert-secret-name'' ''keda-admission-webhooks-certs'',
         AdmissionWebhooksEnsureCertificatesVolume A caBundleConfigMapName ''keda-admission-webhooks-certs''] @
      onlyIf (img \<noteq> []) [ReplaceAdmissionWebhooksImage A img] @
      webhooksSpecTransforms A (kc_admissionWebhooks (k_spec k)))"

definition installAdmissionWebhooks :: "('u, 'w) client \<Rightarrow> 'u reconciler \<Rightarrow> KedaController \<Rightarrow> ('u, 'w, unit) io" where
  "installAdmissionWebhooks C R k =
     bindIO (listIf (rc_injectTLSEnvVars R) (kedaTLSEnvVarTransforms C)) (\<lambda>tlsTransforms.
     bindIO (needsSeccompRemoval C) (\<lambda>removeSeccomp.
     bindIO (RunningOnOpenshift C) (\<lambda>openshift.
     bindIO (transformManifest C
         (webhooksTransforms C k tlsTransforms removeSeccomp openshift @
          userEnv (kube C) (gd_env (kw_generic (kc_admissionWebhooks (k_spec k)))) ''keda-admission-webhooks'')
         (op_webhooks (rc_operands R))) (\<lambda>manifest.
       applyCall C manifest))))"

definition installMonitoring :: "('u, 'w) client \<Rightarrow> 'u reconciler \<Rightarrow> KedaController \<Rightarrow> ('u, 'w, unit) io" where
  "installMonitoring C R k =
     bindIO (HasServiceMonitorCRD C) (\<lambda>sm.
       if \<not> sm then returnIO ()
       else bindIO (HasPodMonitorCRD C) (\<lambda>pm.
         if \<not> pm then returnIO ()
         else bindIO (transformManifest C [InjectOwner (kube C) (k_meta k), ReplaceAllNamespaces (kube C) (namespaceOf k)]
                (op_monitoring (rc_operands R))) (\<lambda>manifest. applyCall C manifest)))"

section \<open>Deleting\<close>

definition renderForDelete ::
  "('u, 'w) client \<Rightarrow> 'u list \<Rightarrow> string \<Rightarrow> 'u transformer list \<Rightarrow> ('u, 'w, 'u list) io" where
  "renderForDelete C manifest ns extra = transformManifest C (ReplaceAllNamespaces (kube C) ns # extra) manifest"

definition deleteHTTPAddonManifest :: "('u, 'w) client \<Rightarrow> bool \<Rightarrow> 'u list \<Rightarrow> string \<Rightarrow> ('u, 'w, unit) io" where
  "deleteHTTPAddonManifest C hasClient manifest ns =
     (if \<not> hasClient \<and> manifest = [] then returnIO ()
      else bindIO (renderForDelete C manifest ns []) (deleteCall C))"

definition deleteHTTPAddon :: "('u, 'w) client \<Rightarrow> 'u reconciler \<Rightarrow> string \<Rightarrow> ('u, 'w, unit) io" where
  "deleteHTTPAddon C R ns =
     thenIO (deleteHTTPAddonManifest C (rc_addonsLoaded R) (ad_scaler (rc_addons R)) ns)
       (thenIO (deleteHTTPAddonManifest C (rc_addonsLoaded R) (ad_interceptor (rc_addons R)) ns)
               (deleteHTTPAddonManifest C (rc_addonsLoaded R) (ad_operator (rc_addons R)) ns))"

section \<open>The HTTP add-on\<close>

text \<open>The add-on status that an error path leaves behind.\<close>

definition failAddon :: "string \<Rightarrow> error \<Rightarrow> ('u, 'w, unit) io" where
  "failAddon reason e =
     thenIO (modifyStatus (\<lambda>st. st\<lparr>kcs_httpAddon := Some (MarkAddonInstallFailed reason
               \<lparr>has_phase = PhaseNone, has_reason = [], has_version = []\<rparr>)\<rparr>))
            (failIO e)"

text \<open>One component: transform, apply, and record the failure of either in the status.\<close>

definition installAddonComponent ::
  "('u, 'w) client \<Rightarrow> string \<Rightarrow> 'u transformer list \<Rightarrow> 'u list \<Rightarrow> ('u, 'w, unit) io" where
  "installAddonComponent C component transforms manifest =
     bindIO (tryIO (transformManifest C transforms manifest)) (\<lambda>r. case r of
        Inl e \<Rightarrow> failAddon (''Failed to transform HTTP Add-on '' @ component @ '' manifest'') e
      | Inr rendered \<Rightarrow> bindIO (tryIO (applyCall C rendered)) (\<lambda>a. case a of
          Inl e \<Rightarrow> failAddon (''Failed to install HTTP Add-on '' @ component) e
        | Inr _ \<Rightarrow> returnIO ()))"

definition addonImage :: "('u, 'w) client \<Rightarrow> string \<Rightarrow> HTTPAddonComponentSpec \<Rightarrow> string \<Rightarrow> string \<Rightarrow> string" where
  "addonImage C envName spec defaultImage globalVersion =
     (if getenv C envName \<noteq> [] then getenv C envName
      else httpAddonResolveImage (hc_image spec) defaultImage globalVersion)"

definition componentTransforms ::
  "('u, 'w) client \<Rightarrow> KedaController \<Rightarrow> HTTPAddonComponentSpec \<Rightarrow> string \<Rightarrow> string \<Rightarrow> bool \<Rightarrow> 'u transformer list" where
  "componentTransforms C k spec containerName img removeSeccomp =
     httpAddonComponentTransforms (kube C) (hc_generic spec) containerName img (gd_replicas (hc_generic spec))
       (gd_env (hc_generic spec)) (hc_logLevel spec) (hc_logEncoder spec) (hc_logTimeEncoding spec) k @
     onlyIf removeSeccomp [RemoveSeccompProfile (kube C) containerName]"

text \<open>What OpenShift adds to the interceptor: serving certificate, TLS settings, CA bundle.\<close>

definition interceptorOpenshiftTransforms :: "('u, 'w) client \<Rightarrow> 'u transformer list \<Rightarrow> 'u transformer list" where
  "interceptorOpenshiftTransforms C tlsTransforms =
     (let A = kube C in
      [EnsureCertInjectionForService A ''keda-add-ons-http-interceptor-proxy''
         ''service.beta.openshift.io/serving-cert-secret-name'' ''keda-add-ons-http-interceptor-proxy-certs'',
       EnsureCertSecretVolume A ''interceptor'' ''keda-add-ons-http-interceptor-proxy-certs'',
       EnsureEnvVarInAllContainers A ''KEDA_HTTP_PROXY_TLS_ENABLED'' ''true''] @
      tlsTransforms @
      EnsureCACertsForInterceptorDeployment A (volumeOrder C) (mountOrder C) [caBundleConfigMapName] ''interceptor'')"

definition installHTTPAddon :: "('u, 'w) client \<Rightarrow> 'u reconciler \<Rightarrow> KedaController \<Rightarrow> ('u, 'w, unit) io" where
  "installHTTPAddon C R k =
     (let addonSpec = kc_httpAddon (k_spec k); globalVersion = ha_version addonSpec in
      if \<not> ha_enabled addonSpec then
        bindIO getStatus (\<lambda>st.
          if kcs_httpAddon st = None then returnIO ()
          else thenIO (deleteHTTPAddon C R (namespaceOf k)) (modifyStatus (\<lambda>st. st\<lparr>kcs_httpAddon := None\<rparr>)))
      else if ad_operator (rc_addons R) = [] then
        failIO (Errorf ''HTTP Add-on is enabled but no manifests are available; ensure resources/keda-http-addon.yaml exists'' [])
      else
        bindIO (RunningOnOpenshift C) (\<lambda>openshift.
        bindIO (if openshift then withoutSeccompProfileDefault C else returnIO False) (\<lambda>removeSeccomp.
        thenIO (installAddonComponent C ''Operator''
          (componentTransforms C k (ha_operator addonSpec) ''operator''
             (addonImage C ''KEDA_HTTP_ADDON_OPERATOR_IMAGE'' (ha_operator addonSpec)
                ''ghcr.io/kedacore/http-add-on-operator'' globalVersion) removeSeccomp)
          (ad_operator (rc_addons R)))
       (bindIO (listIf (openshift \<and> rc_injectTLSEnvVars R) (httpAddonTLSEnvVarTransforms C)) (\<lambda>tlsTransforms.
        thenIO (installAddonComponent C ''Interceptor''
          (componentTransforms C k (ha_interceptor addonSpec) ''interceptor''
             (addonImage C ''KEDA_HTTP_ADDON_INTERCEPTOR_IMAGE'' (ha_interceptor addonSpec)
                ''ghcr.io/kedacore/http-add-on-interceptor'' globalVersion) removeSeccomp @
           onlyIf openshift (interceptorOpenshiftTransforms C tlsTransforms))
          (ad_interceptor (rc_addons R)))
       (thenIO (installAddonComponent C ''Scaler''
          (componentTransforms C k (ha_scaler addonSpec) ''scaler''
             (addonImage C ''KEDA_HTTP_ADDON_SCALER_IMAGE'' (ha_scaler addonSpec)
                ''ghcr.io/kedacore/http-add-on-scaler'' globalVersion) removeSeccomp)
          (ad_scaler (rc_addons R)))
        (modifyStatus (\<lambda>st. st\<lparr>kcs_httpAddon := Some (MarkAddonInstallSucceeded
           (''HTTP Add-on v'' @ globalVersion @ '' is installed in namespace '' @ [CHR 0x27] @ rc_namespace R @ [CHR 0x27])
           \<lparr>has_phase = PhaseNone, has_reason = [], has_version = globalVersion\<rparr>)\<rparr>))))))))"

end
