(* ===== verification/Installing.thy ===== *)
theory Installing
  imports Operands
begin

text \<open>
  What the \<open>install...\<close> and \<open>delete...\<close> operations do to the cluster: which calls they make, in which
  order, and that success is only reported when every call succeeded.
\<close>

section \<open>Calls of the installation\<close>

text \<open>An installation never touches the KedaController, its status or the namespace.\<close>

definition installCall :: "'u call \<Rightarrow> bool" where
  "installCall c = (case c of PatchStatus _ \<Rightarrow> False | PatchController _ \<Rightarrow> False | CreateController _ \<Rightarrow> False
     | PatchNamespace _ \<Rightarrow> False | _ \<Rightarrow> True)"

lemma installCall_simps [simp]:
  "installCall (ApplyManifest us)" "installCall (DeleteManifest us)" "installCall (WriteSecret x)"
  "installCall (DeleteSecret x)" "installCall (WriteConfigMap y)" "installCall (WriteRole ro)"
  "installCall (WriteRoleBinding rb)" "installCall (DeleteRoleBinding rb)" "installCall (AddRotator rot)"
  "\<not> installCall (PatchStatus st)" "\<not> installCall (PatchController k)"
  by (simp_all add: installCall_def)

lemma emits_pieces [emits_intros]:
  "emits P (transformManifest C ts us)" "P (ApplyManifest us) \<Longrightarrow> emits P (applyCall C us)"
  "P (DeleteManifest us) \<Longrightarrow> emits P (deleteCall C us)" "emits P m \<Longrightarrow> emits P (listIf b m)"
  "emits P (clusterTLSProfile C)" "emits P (kedaTLSEnvVarTransforms C)" "emits P (httpAddonTLSEnvVarTransforms C)"
  "emits P (needsSeccompRemoval C)" "emits P (renderForDelete C us ns extra)"
  unfolding transformManifest_def applyCall_def deleteCall_def listIf_def clusterTLSProfile_def
    kedaTLSEnvVarTransforms_def httpAddonTLSEnvVarTransforms_def needsSeccompRemoval_def renderForDelete_def
  by (auto intro!: emits_intros)

lemma settles_pieces [settles_intros]:
  "settles (transformManifest C ts us)" "settles (applyCall C us)" "settles (deleteCall C us)"
  "settles m \<Longrightarrow> settles (listIf b m)" "settles (clusterTLSProfile C)" "settles (kedaTLSEnvVarTransforms C)"
  "settles (httpAddonTLSEnvVarTransforms C)" "settles (needsSeccompRemoval C)" "settles (renderForDelete C us ns extra)"
  unfolding transformManifest_def applyCall_def deleteCall_def listIf_def clusterTLSProfile_def
    kedaTLSEnvVarTransforms_def httpAddonTLSEnvVarTransforms_def needsSeccompRemoval_def renderForDelete_def
  by (auto intro!: settles_intros)

lemma startRotator_eq:
  "startRotator C R s =
     (if r_rotatorStarted s then (Inr (), s)
      else bindIO (calling (AddRotator (certRotatorOf R)) (addRotator C (certRotatorOf R))) (\<lambda>_ t. (Ok (), t\<lparr>r_rotatorStarted := True\<rparr>)) s)"
  by (simp add: startRotator_def)

lemma emits_startRotator [emits_intros]: "P (AddRotator (certRotatorOf R)) \<Longrightarrow> emits P (startRotator C R)"
  by (auto simp: emits_def startRotator_eq bindIO_def calling_def split: prod.splits sum.splits if_splits)

lemma settles_startRotator [settles_intros]: "settles (startRotator C R)"
  by (auto simp: settles_def startRotator_eq bindIO_def calling_def split: prod.splits sum.splits if_splits)

lemma emits_audit [emits_intros]:
  "(\<And>x. P (WriteConfigMap x)) \<Longrightarrow> emits P (auditTransforms C k)"
  "(\<And>x. P (WriteConfigMap x)) \<Longrightarrow> emits P (metricsCertTransforms C k)"
  unfolding auditTransforms_def metricsCertTransforms_def Let_def
  by (auto intro!: emits_intros split: option.split)

lemma settles_audit [settles_intros]: "settles (auditTransforms C k)" "settles (metricsCertTransforms C k)"
  unfolding auditTransforms_def metricsCertTransforms_def Let_def
  by (auto intro!: settles_intros split: option.split)

lemma emits_addon [emits_intros]:
  "emits P (failAddon reason e)"
  "(\<And>us. P (ApplyManifest us)) \<Longrightarrow> emits P (installAddonComponent C component ts us)"
  "(\<And>us. P (DeleteManifest us)) \<Longrightarrow> emits P (deleteHTTPAddonManifest C b us ns)"
  "(\<And>us. P (DeleteManifest us)) \<Longrightarrow> emits P (deleteHTTPAddon C R ns)"
  unfolding failAddon_def installAddonComponent_def deleteHTTPAddonManifest_def deleteHTTPAddon_def
  by (auto intro!: emits_intros split: sum.split)

lemma fails_failAddon: "fails (failAddon reason e)"
  unfolding failAddon_def by (rule fails_thenIO) simp

lemma settles_addon [settles_intros]:
  "settles (installAddonComponent C component ts us)" "settles (deleteHTTPAddonManifest C b us ns)"
  "settles (deleteHTTPAddon C R ns)"
  unfolding installAddonComponent_def deleteHTTPAddonManifest_def deleteHTTPAddon_def
  by (auto intro!: settles_try_fail fails_failAddon settles_reads settles_pieces settles_then)
    (auto intro!: settles_intros)

section \<open>The installations\<close>

lemma emits_installs [emits_intros]:
  "emits installCall (installGeneralResources C R k)" "emits installCall (installController C R k cfg)"
  "emits installCall (installMetricsServer C R k)" "emits installCall (installAdmissionWebhooks C R k)"
  "emits installCall (installMonitoring C R k)" "emits installCall (installHTTPAddon C R k)"
  "emits installCall (ensurePrometheusMonitoringRBAC C k)"
  unfolding installGeneralResources_def installController_def installMetricsServer_def installAdmissionWebhooks_def
    installMonitoring_def installHTTPAddon_def Let_def
  by (auto intro!: emits_intros)

lemma settles_installs [settles_intros]:
  "settles (installGeneralResources C R k)" "settles (installController C R k cfg)"
  "settles (installMetricsServer C R k)" "settles (installAdmissionWebhooks C R k)"
  "settles (installMonitoring C R k)" "settles (installHTTPAddon C R k)"
  unfolding installGeneralResources_def installController_def installMetricsServer_def installAdmissionWebhooks_def
    installMonitoring_def installHTTPAddon_def Let_def
  by (auto intro!: settles_intros)

section \<open>A concrete installation\<close>

text \<open>For the witnesses: a controller in its namespace, and a reconciler with two Deployments.\<close>

definition demoController :: "string list \<Rightarrow> string option \<Rightarrow> KedaController" where
  "demoController finalizers deleted = zeroKedaController
     \<lparr>k_meta := newMeta ''keda'' ''keda'', k_uid := ''1'', k_finalizers := finalizers, k_deletionTimestamp := deleted\<rparr>"

definition demoReconciler :: "demoObj reconciler" where
  "demoReconciler =
     \<lparr>rc_operands = \<lparr>op_general = [], op_controller = [demoObject ''Deployment'' ''keda-operator'' ''keda''],
        op_metrics = [], op_webhooks = [demoObject ''Deployment'' ''keda-admission-webhooks'' ''keda''], op_monitoring = []\<rparr>,
      rc_addons = \<lparr>ad_operator = [], ad_interceptor = [], ad_scaler = []\<rparr>, rc_addonsLoaded = True,
      rc_namespace = ''keda'', rc_injectTLSEnvVars = False, rc_version = ''2.17'',
      rc_certDir = ''/certs'', rc_leaderElection = False\<rparr>"

definition demoState :: "KedaController \<Rightarrow> (demoObj, demoCluster) run" where
  "demoState k = demoRun \<lparr>dc_openshift = False, dc_secret = None, dc_controller = Some k\<rparr>"

lemma demoState_get:
  "getKedaController demoClient req (r_cluster (demoState k)) = (Inr k, r_cluster (demoState k))"
  "r_calls (demoState k) = []" "demoState k\<lparr>r_cluster := r_cluster (demoState k)\<rparr> = demoState k"
  by (simp_all add: demoClient_def demoState_def demoRun_def)

section \<open>Installing the controller\<close>

lemma quiet_pieces [quiet_intros]:
  "quiet m \<Longrightarrow> quiet (listIf b m)" "quiet (clusterTLSProfile C)" "quiet (kedaTLSEnvVarTransforms C)"
  "quiet (httpAddonTLSEnvVarTransforms C)" "quiet (needsSeccompRemoval C)"
  "quiet (if b then withoutSeccompProfileDefault C else returnIO False)"
  unfolding listIf_def clusterTLSProfile_def kedaTLSEnvVarTransforms_def httpAddonTLSEnvVarTransforms_def
    needsSeccompRemoval_def
  by (auto intro!: quiet_intros)

text \<open>
  A run of \<open>installController\<close>: after some reading comes the Workload Identity part, then the
  manifest is rendered and applied, then what an earlier configuration left behind is removed.
\<close>

definition renderController ::
  "('u, 'w) client \<Rightarrow> 'u reconciler \<Rightarrow> KedaController \<Rightarrow> bool \<Rightarrow> bool \<Rightarrow> 'u transformer list \<Rightarrow> 'u transformer list \<Rightarrow>
   error + 'u list" where
  "renderController C R k openshift removeSeccomp tls gts =
     mfTransform (kube C) (controllerTransforms C k openshift removeSeccomp tls gts @
       userEnv (kube C) (gd_env (ko_generic (kc_operator (k_spec k)))) ''keda-operator'') (op_controller (rc_operands R))"

definition afterApply :: "('u, 'w) client \<Rightarrow> 'u reconciler \<Rightarrow> KedaController \<Rightarrow> Config option \<Rightarrow> bool \<Rightarrow> ('u, 'w, unit) io" where
  "afterApply C R k cfg openshift =
     thenIO (whenIO (cfg = None) (deleteGCPCredentialsSecret C k)) (whenIO openshift (startRotator C R))"

lemma installController_run:
  assumes "installController C R k cfg s = (r, t)"
  shows "(\<exists>e. r = Inl e \<and> r_calls t = r_calls s) \<or>
    (\<exists>openshift tls removeSeccomp u. r_calls u = r_calls s \<and>
       ((\<exists>e. gcpWorkloadIdentityTransforms C k cfg u = (Inl e, t) \<and> r = Inl e) \<or>
        (\<exists>gts v. gcpWorkloadIdentityTransforms C k cfg u = (Inr gts, v) \<and>
           ((\<exists>e. r = Inl e \<and> t = v) \<or>
            (\<exists>manifest. renderController C R k openshift removeSeccomp tls gts = Inr manifest \<and>
               thenIO (applyCall C manifest) (afterApply C R k cfg openshift) v = (r, t))))))"
proof -
  let ?render = "\<lambda>openshift tls removeSeccomp gts.
    bindIO (liftE (renderController C R k openshift removeSeccomp tls gts)) (\<lambda>manifest.
      thenIO (applyCall C manifest) (afterApply C R k cfg openshift))"
  have "(\<exists>e. r = Inl e \<and> r_calls t = r_calls s) \<or>
      (\<exists>openshift tls removeSeccomp u.
         bindIO (gcpWorkloadIdentityTransforms C k cfg) (?render openshift tls removeSeccomp) u = (r, t) \<and>
         r_calls u = r_calls s)"
    using assms unfolding installController_def renderController_def afterApply_def transformManifest_def
    by (rule bind_quiet3 [rotated 3]) (intro quiet_intros)+
  then show ?thesis
  proof (elim disjE exE conjE)
    fix openshift tls removeSeccomp u
    assume run: "bindIO (gcpWorkloadIdentityTransforms C k cfg) (?render openshift tls removeSeccomp) u = (r, t)"
      and u: "r_calls u = r_calls s"
    obtain g v where g: "gcpWorkloadIdentityTransforms C k cfg u = (g, v)" by (cases "gcpWorkloadIdentityTransforms C k cfg u")
    show ?thesis
    proof (cases g)
      case (Inl e)
      then show ?thesis using run g u by (auto simp: bindIO_def)
    next
      case (Inr gts)
      then have "?render openshift tls removeSeccomp gts v = (r, t)" using run g by (simp add: bindIO_def)
      then show ?thesis using g u Inr
        by (cases "renderController C R k openshift removeSeccomp tls gts") (simp_all add: bindIO_def, blast+)
    qed
  qed simp
qed

lemma emits_afterApply:
  "emits (\<lambda>c. c = AddRotator (certRotatorOf R) \<or> cfg = None \<and> (\<exists>sec. c = DeleteSecret sec)) (afterApply C R k cfg openshift)"
  unfolding afterApply_def by (auto intro!: emits_intros)

lemma emits_gcp_writes: "emits (\<lambda>c. \<exists>sec. c = WriteSecret sec) (gcpWorkloadIdentityTransforms C k cfg)"
  by (auto intro!: emits_intros)

lemma applyCall_run:
  assumes "thenIO (applyCall C manifest) m s = (r, t)"
  shows "(\<exists>e. r = Inl e \<and> r_calls t = r_calls s @ [(ApplyManifest manifest, False)]) \<or>
    (\<exists>u. m u = (r, t) \<and> r_calls u = r_calls s @ [(ApplyManifest manifest, True)])"
  using assms by (auto simp: thenIO_def bindIO_def applyCall_def calling_def split: prod.splits sum.splits)

lemma controller_calls:
  assumes "installController C R k cfg s = (r, t)"
  shows "\<exists>before. list_all (\<lambda>c. \<exists>sec. fst c = WriteSecret sec) before \<and>
    (r_calls t = r_calls s @ before \<and> (\<exists>e. r = Inl e) \<or>
     (\<exists>manifest e. r_calls t = r_calls s @ before @ [(ApplyManifest manifest, False)] \<and> r = Inl e) \<or>
     (\<exists>manifest after. r_calls t = r_calls s @ before @ (ApplyManifest manifest, True) # after \<and>
        list_all (\<lambda>c. fst c = AddRotator (certRotatorOf R) \<or> cfg = None \<and> (\<exists>sec. fst c = DeleteSecret sec)) after))"
  using installController_run [OF assms]
proof (elim disjE exE conjE)
  fix e
  assume "r = Inl e" "r_calls t = r_calls s"
  then show ?thesis by (intro exI [of _ "[]"]) simp
next
  fix openshift tls removeSeccomp u e
  assume "r_calls u = r_calls s" "gcpWorkloadIdentityTransforms C k cfg u = (Inl e, t)" "r = Inl e"
  then show ?thesis using emitsD [OF emits_gcp_writes] by fastforce
next
  fix openshift tls removeSeccomp u gts v e
  assume "r_calls u = r_calls s" "gcpWorkloadIdentityTransforms C k cfg u = (Inr gts, v)" "r = Inl e" "t = v"
  then show ?thesis using emitsD [OF emits_gcp_writes] by fastforce
next
  fix openshift tls removeSeccomp u gts v manifest
  assume u: "r_calls u = r_calls s" and g: "gcpWorkloadIdentityTransforms C k cfg u = (Inr gts, v)"
    and run: "thenIO (applyCall C manifest) (afterApply C R k cfg openshift) v = (r, t)"
  obtain before where before: "r_calls v = r_calls s @ before" "list_all (\<lambda>c. \<exists>sec. fst c = WriteSecret sec) before"
    using emitsD [OF emits_gcp_writes g] u by auto
  from applyCall_run [OF run] show ?thesis
  proof (elim disjE exE conjE)
    fix w
    assume w: "afterApply C R k cfg openshift w = (r, t)" "r_calls w = r_calls v @ [(ApplyManifest manifest, True)]"
    obtain after where "r_calls t = r_calls w @ after"
      "list_all (\<lambda>c. fst c = AddRotator (certRotatorOf R) \<or> cfg = None \<and> (\<exists>sec. fst c = DeleteSecret sec)) after"
      using emitsD [OF emits_afterApply w(1)] by blast
    then show ?thesis using before w(2) by (intro exI [of _ before]) auto
  qed (use before in \<open>intro exI [of _ before], auto\<close>)
qed

text \<open>
  C7. The credentials Secret and the Deployment that mounts it change in a safe order: the Secret
  is written before the operator manifest is applied, and it is deleted only after the manifest has
  been applied successfully and only when Workload Identity is off. When rendering or applying
  fails nothing is deleted and the error is returned, so that no running Deployment refers to
  a Secret that the operator has taken away.
\<close>

theorem installController_secret_order:
  assumes "installController C R k cfg s = (r, t)"
  shows "\<exists>before. list_all (\<lambda>c. \<exists>sec. fst c = WriteSecret sec) before \<and>
    (r_calls t = r_calls s @ before \<and> (\<exists>e. r = Inl e) \<or>
     (\<exists>manifest e. r_calls t = r_calls s @ before @ [(ApplyManifest manifest, False)] \<and> r = Inl e) \<or>
     (\<exists>manifest after. r_calls t = r_calls s @ before @ (ApplyManifest manifest, True) # after \<and>
        list_all (\<lambda>c. fst c = AddRotator (certRotatorOf R) \<or> cfg = None \<and> (\<exists>sec. fst c = DeleteSecret sec)) after))"
  using assms by (rule controller_calls)

theorem installController_secret_order_witness:
  "\<exists>before. list_all (\<lambda>c. \<exists>sec. fst c = WriteSecret sec) before \<and>
     (let t = snd (installController demoClient demoReconciler (demoController [] None) (Some demoGcpConfig)
            (demoState (demoController [] None)))
      in r_calls t = before \<or> (\<exists>manifest. r_calls t = before @ [(ApplyManifest manifest, False)]) \<or>
         (\<exists>manifest after. r_calls t = before @ (ApplyManifest manifest, True) # after \<and>
            list_all (\<lambda>c. fst c = AddRotator (certRotatorOf demoReconciler)) after))"
  using installController_secret_order [OF surjective_pairing, of demoClient demoReconciler "demoController [] None"
      "Some demoGcpConfig" "demoState (demoController [] None)"]
  by (auto simp: demoState_get Let_def)

end
