(* ===== verification/Rendering.thy ===== *)
theory Rendering
  imports Installing
begin

text \<open>
  What the rendered operand manifests look like: the variables the user asked for, and the wiring of
  Workload Identity together with the Secret it refers to.
\<close>

section \<open>User-defined variables\<close>

text \<open>
  In every Deployment of the manifest the container has, for each name the user gave, the last
  variable given for it.
\<close>

definition envWins :: "'u api \<Rightarrow> envVar list \<Rightarrow> string \<Rightarrow> 'u list \<Rightarrow> bool" where
  "envWins A env n manifest \<longleftrightarrow>
     (\<forall>u \<in> set manifest. GetKind A u = ''Deployment'' \<longrightarrow>
        (\<exists>d. decode (deployments A) u = Inr d \<and>
           (\<forall>c e v. lookup_by c_name n (containers d) = Some c \<longrightarrow> lookup_by env_name e (rev env) = Some v \<longrightarrow>
              lookup_by env_name e (c_env c) = Some v)))"

lemma replaceContainerEnv_wins:
  assumes "lookup_by c_name n (containers (replaceContainerEnv env n d)) = Some c" "lookup_by env_name e (rev env) = Some v"
  shows "lookup_by env_name e (c_env c) = Some v"
  using assms by (auto simp: replaceContainerEnv_def env.lookup_container mergeEnv_lookup)

lemma rendered_from:
  assumes "mf_ok A" "mfTransform A ts us = Inr m" "u' \<in> set m"
  obtains u where "u \<in> set us" "runTransforms ts u = Inr u'"
proof -
  have "list_all2 (\<lambda>u u'. runTransforms ts u = Inr u') us m"
    using assms(1,2) by (simp add: mf_ok_def mapE_Ok)
  moreover obtain i where "i < length m" "u' = m ! i" using assms(3) by (auto simp: in_set_conv_nth)
  ultimately show ?thesis using that [of "us ! i"] by (simp add: list_all2_conv_all_nth)
qed

text \<open>Some transformers follow the user's variables; they must leave Deployments alone.\<close>

definition sparesDeployments :: "'u api \<Rightarrow> 'u transformer \<Rightarrow> bool" where
  "sparesDeployments A t \<longleftrightarrow> (\<forall>u u'. t u = Inr u' \<longrightarrow> GetKind A u' = ''Deployment'' \<longrightarrow> u' = u)"

lemma spares_ReplaceNamespace:
  assumes "codec_ok A ''RoleBinding'' rb_meta (roleBindings A)"
  shows "sparesDeployments A (ReplaceNamespace A name ns)"
  using assms by (auto simp: sparesDeployments_def ReplaceNamespace_def codec_ok_def bindE_Ok)

lemma userEnv_wins:
  assumes mf: "mf_ok A" and codec: "codec_ok A ''Deployment'' d_meta (deployments A)"
    and spare: "sparesDeployments A (runTransforms rest)" and env: "env \<noteq> []"
    and run: "mfTransform A (ts @ userEnv A env n @ rest) us = Inr m"
  shows "envWins A env n m"
  unfolding envWins_def
proof (intro ballI impI)
  fix u'
  assume "u' \<in> set m" and kind: "GetKind A u' = ''Deployment''"
  then obtain u where "runTransforms ((ts @ userEnv A env n) @ rest) u = Inr u'" using rendered_from [OF mf run] by auto
  then obtain v where v: "runTransforms (ts @ userEnv A env n) u = Inr v" "runTransforms rest v = Inr u'"
    by (auto simp only: runTransforms_append [of "ts @ userEnv A env n"] bindE_Ok)
  then have "u' = v" using spare kind unfolding sparesDeployments_def by blast
  then have "runTransforms (ts @ [onDeployment A (always (replaceContainerEnv env n))]) u = Inr u'"
    using v(1) env by (simp add: userEnv_def ReplaceContainerEnv_def)
  from last_edit_decides [OF codec this kind] obtain d where "decode (deployments A) u' = Inr (replaceContainerEnv env n d)" .
  then show "\<exists>d. decode (deployments A) u' = Inr d \<and> (\<forall>c e v. lookup_by c_name n (containers d) = Some c \<longrightarrow>
      lookup_by env_name e (rev env) = Some v \<longrightarrow> lookup_by env_name e (c_env c) = Some v)"
    using replaceContainerEnv_wins by blast
qed

section \<open>What a successful installation applied\<close>

lemma applyCall_Ok: "applyCall C m s = (Inr (), t) \<Longrightarrow> r_calls t = r_calls s @ [(ApplyManifest m, True)]"
  unfolding applyCall_def by (rule calling_Ok)

lemma controller_applied:
  assumes "installController C R k cfg s = (Inr (), t)"
  obtains openshift tls removeSeccomp u gts v manifest before after where
    "gcpWorkloadIdentityTransforms C k cfg u = (Inr gts, v)" "r_calls u = r_calls s" "r_calls v = r_calls s @ before"
    "renderController C R k openshift removeSeccomp tls gts = Inr manifest"
    "r_calls t = r_calls s @ before @ (ApplyManifest manifest, True) # after"
proof -
  obtain openshift tls removeSeccomp u gts v manifest where u: "r_calls u = r_calls s"
    and g: "gcpWorkloadIdentityTransforms C k cfg u = (Inr gts, v)"
    and render: "renderController C R k openshift removeSeccomp tls gts = Inr manifest"
    and run: "thenIO (applyCall C manifest) (afterApply C R k cfg openshift) v = (Inr (), t)"
    using installController_run [OF assms] by auto
  obtain before where before: "r_calls v = r_calls s @ before" using emitsD [OF emits_gcp_writes g] u by auto
  obtain w where w: "afterApply C R k cfg openshift w = (Inr (), t)" "r_calls w = r_calls v @ [(ApplyManifest manifest, True)]"
    using applyCall_run [OF run] by auto
  obtain after where "r_calls t = r_calls w @ after" using emitsD [OF emits_afterApply w(1)] by blast
  then show ?thesis using that [OF g u before render] before w(2) by simp
qed

lemma webhooks_applied:
  assumes "installAdmissionWebhooks C R k s = (Inr (), t)"
  obtains tls removeSeccomp openshift manifest where
    "mfTransform (kube C) (webhooksTransforms C k tls removeSeccomp openshift @
       userEnv (kube C) (gd_env (kw_generic (kc_admissionWebhooks (k_spec k)))) ''keda-admission-webhooks'')
       (op_webhooks (rc_operands R)) = Inr manifest"
    "r_calls t = r_calls s @ [(ApplyManifest manifest, True)]"
proof -
  have "(\<exists>e. Inr () = (Inl e :: error + unit) \<and> r_calls t = r_calls s) \<or> (\<exists>tls removeSeccomp openshift u.
      bindIO (transformManifest C (webhooksTransforms C k tls removeSeccomp openshift @
          userEnv (kube C) (gd_env (kw_generic (kc_admissionWebhooks (k_spec k)))) ''keda-admission-webhooks'')
         (op_webhooks (rc_operands R))) (applyCall C) u = (Inr (), t) \<and> r_calls u = r_calls s)"
    using assms unfolding installAdmissionWebhooks_def by (rule bind_quiet3 [rotated 3]) (intro quiet_intros)+
  then show ?thesis using that by (auto simp: bindIO_Ok transformManifest_def dest!: applyCall_Ok)
qed

lemma metrics_applied:
  assumes "installMetricsServer C R k s = (Inr (), t)"
  obtains tls removeSeccomp certs audit manifest before where
    "mfTransform (kube C) (metricsTransforms C k tls removeSeccomp certs audit @
       userEnv (kube C) (gd_env (km_generic (kc_metricsServer (k_spec k)))) ''keda-metrics-apiserver'' @
       [ReplaceNamespace (kube C) ''keda-auth-reader'' ''kube-system'']) (op_metrics (rc_operands R)) = Inr manifest"
    "r_calls t = r_calls s @ before @ [(ApplyManifest manifest, True)]"
proof -
  obtain tls u1 removeSeccomp u2 certs u3 audit u4 manifest where
    u1: "listIf (rc_injectTLSEnvVars R) (kedaTLSEnvVarTransforms C) s = (Inr tls, u1)"
    and u2: "needsSeccompRemoval C u1 = (Inr removeSeccomp, u2)" and u3: "metricsCertTransforms C k u2 = (Inr certs, u3)"
    and u4: "auditTransforms C k u3 = (Inr audit, u4)"
    and m: "mfTransform (kube C) (metricsTransforms C k tls removeSeccomp certs audit @
       userEnv (kube C) (gd_env (km_generic (kc_metricsServer (k_spec k)))) ''keda-metrics-apiserver'' @
       [ReplaceNamespace (kube C) ''keda-auth-reader'' ''kube-system'']) (op_metrics (rc_operands R)) = Inr manifest"
    and "applyCall C manifest u4 = (Inr (), t)"
    using assms by (auto simp: installMetricsServer_def bindIO_Ok transformManifest_def)
  moreover obtain c1 c2 where "r_calls u3 = r_calls u2 @ c1" "r_calls u4 = r_calls u3 @ c2"
    using emitsD [OF emits_audit(2) u3, of "\<lambda>_. True"] emitsD [OF emits_audit(1) u4, of "\<lambda>_. True"] by auto
  moreover have "r_calls u2 = r_calls s"
    using quietD [OF quiet_pieces(1) [OF quiet_pieces(3)] u1] quietD [OF quiet_pieces(5) u2] by simp
  ultimately show ?thesis using that [OF m] by (auto dest!: applyCall_Ok)
qed

text \<open>
  C8. The variables the user defines for an operand take precedence over everything the operator sets,
  Workload Identity, TLS and watch namespace included: a successful installation of the
  operator, the metrics server or the webhooks has applied a manifest in which the operand's
  container has the user's value, the last one given, for each of these variables.
\<close>

theorem user_env_wins:
  assumes "mf_ok (kube C)" and "codec_ok (kube C) ''Deployment'' d_meta (deployments (kube C))"
    and "codec_ok (kube C) ''RoleBinding'' rb_meta (roleBindings (kube C))"
  shows "(gd_env (ko_generic (kc_operator (k_spec k))) \<noteq> [] \<and> installController C R k cfg s = (Inr (), t) \<longrightarrow>
      (\<exists>cs manifest. r_calls t = r_calls s @ cs \<and> (ApplyManifest manifest, True) \<in> set cs \<and>
         envWins (kube C) (gd_env (ko_generic (kc_operator (k_spec k)))) ''keda-operator'' manifest))
    \<and> (gd_env (km_generic (kc_metricsServer (k_spec k))) \<noteq> [] \<and> installMetricsServer C R k s = (Inr (), t) \<longrightarrow>
      (\<exists>cs manifest. r_calls t = r_calls s @ cs \<and> (ApplyManifest manifest, True) \<in> set cs \<and>
         envWins (kube C) (gd_env (km_generic (kc_metricsServer (k_spec k)))) ''keda-metrics-apiserver'' manifest))
    \<and> (gd_env (kw_generic (kc_admissionWebhooks (k_spec k))) \<noteq> [] \<and> installAdmissionWebhooks C R k s = (Inr (), t) \<longrightarrow>
      (\<exists>cs manifest. r_calls t = r_calls s @ cs \<and> (ApplyManifest manifest, True) \<in> set cs \<and>
         envWins (kube C) (gd_env (kw_generic (kc_admissionWebhooks (k_spec k)))) ''keda-admission-webhooks'' manifest))"
proof (intro conjI impI; elim conjE)
  have none: "sparesDeployments (kube C) (runTransforms [])" by (simp add: sparesDeployments_def)
  assume env: "gd_env (ko_generic (kc_operator (k_spec k))) \<noteq> []" and run: "installController C R k cfg s = (Inr (), t)"
  from controller_applied [OF run] obtain openshift removeSeccomp tls gts manifest before after where
    m: "renderController C R k openshift removeSeccomp tls gts = Inr manifest"
      "r_calls t = r_calls s @ before @ (ApplyManifest manifest, True) # after" by metis
  have "envWins (kube C) (gd_env (ko_generic (kc_operator (k_spec k)))) ''keda-operator'' manifest"
    using userEnv_wins [OF assms(1,2) none env] m(1) by (simp add: renderController_def)
  then show "\<exists>cs manifest. r_calls t = r_calls s @ cs \<and> (ApplyManifest manifest, True) \<in> set cs \<and>
      envWins (kube C) (gd_env (ko_generic (kc_operator (k_spec k)))) ''keda-operator'' manifest"
    using m(2) by (intro exI [of _ "before @ (ApplyManifest manifest, True) # after"] exI [of _ manifest]) simp
next
  have rn: "sparesDeployments (kube C) (runTransforms [ReplaceNamespace (kube C) ''keda-auth-reader'' ''kube-system''])"
    using spares_ReplaceNamespace [OF assms(3)] by (auto simp: sparesDeployments_def bindE_Ok)
  assume env: "gd_env (km_generic (kc_metricsServer (k_spec k))) \<noteq> []" and run: "installMetricsServer C R k s = (Inr (), t)"
  from metrics_applied [OF run] show "\<exists>cs manifest. r_calls t = r_calls s @ cs \<and> (ApplyManifest manifest, True) \<in> set cs \<and>
      envWins (kube C) (gd_env (km_generic (kc_metricsServer (k_spec k)))) ''keda-metrics-apiserver'' manifest"
    using userEnv_wins [OF assms(1,2) rn env] by (metis append_is_Nil_conv in_set_conv_decomp)
next
  have none: "sparesDeployments (kube C) (runTransforms [])" by (simp add: sparesDeployments_def)
  assume env: "gd_env (kw_generic (kc_admissionWebhooks (k_spec k))) \<noteq> []"
    and run: "installAdmissionWebhooks C R k s = (Inr (), t)"
  from webhooks_applied [OF run] show "\<exists>cs manifest. r_calls t = r_calls s @ cs \<and> (ApplyManifest manifest, True) \<in> set cs \<and>
      envWins (kube C) (gd_env (kw_generic (kc_admissionWebhooks (k_spec k)))) ''keda-admission-webhooks'' manifest"
    using userEnv_wins [OF assms(1,2) none env] by (metis append_Nil2 list.set_intros(1))
qed

text \<open>A webhooks installation with one variable.\<close>

definition demoEnvController :: KedaController where
  "demoEnvController = (let k = demoController [] None in
     k\<lparr>k_spec := (k_spec k)\<lparr>kc_admissionWebhooks := (kc_admissionWebhooks (k_spec k))
       \<lparr>kw_generic := zeroGenericDeploymentSpec\<lparr>gd_env := [\<lparr>env_name = ''A'', env_value = ''1'', env_valueFrom = None\<rparr>]\<rparr>\<rparr>\<rparr>\<rparr>)"

lemma total_run: "(\<forall>t \<in> set ts. \<forall>u. \<exists>v. t u = Inr v) \<Longrightarrow> \<exists>v. runTransforms ts u = Inr v"
proof (induction ts arbitrary: u)
  case (Cons t ts)
  then obtain v where "t u = Inr v" by fastforce
  then show ?case using Cons by simp
qed simp

lemma demo_total:
  "\<exists>v. onDeployment demoApi g w = Inr v" "\<exists>v. InjectOwner demoApi m w = Inr v" "\<exists>v. ReplaceAllNamespaces demoApi ns w = Inr v"
  by (simp_all add: onDeployment_def convertEdit_def demoApi_codecs_def demoCodec_def split_def Let_def InjectOwner_def
      demoApi_def ReplaceAllNamespaces_def)

lemma demo_webhooks_render:
  "\<exists>m. mfTransform (kube demoClient) (webhooksTransforms demoClient demoEnvController [] False False @
    userEnv (kube demoClient) (gd_env (kw_generic (kc_admissionWebhooks (k_spec demoEnvController)))) ''keda-admission-webhooks'')
     (op_webhooks (rc_operands demoReconciler)) = Inr m"
proof -
  let ?ts = "webhooksTransforms demoClient demoEnvController [] False False @
    userEnv (kube demoClient) (gd_env (kw_generic (kc_admissionWebhooks (k_spec demoEnvController)))) ''keda-admission-webhooks''"
  have kube: "kube demoClient = demoApi" "getenv demoClient = (\<lambda>n. [])" by (simp_all add: demoClient_def)
  have "\<exists>v. runTransforms ?ts u = Inr v" for u
    by (rule total_run)
      (simp add: webhooksTransforms_def webhooksSpecTransforms_def placementTransforms_def volumeTransforms_def
        hasResources_def demoEnvController_def demoController_def zeroKedaController_def zeroKedaControllerSpec_def
        zeroGenericDeploymentSpec_def kube userEnv_def ReplaceWatchNamespace_def ReplaceContainerEnv_def demo_total Let_def)
  moreover have "mf_ok (kube demoClient)" using demoApi_mf_ok by (simp add: kube)
  ultimately show ?thesis by (simp add: mf_ok_def demoReconciler_def bindE_Ok)
qed

lemma demo_webhooks_installed:
  "\<exists>t. installAdmissionWebhooks demoClient demoReconciler demoEnvController (demoState demoEnvController) = (Inr (), t)"
  using demo_webhooks_render
  by (auto simp: installAdmissionWebhooks_def bindIO_def transformManifest_def applyCall_def calling_def listIf_def
      needsSeccompRemoval_def RunningOnOpenshift_def isGvkPresent_def tryIO_def reading_def demoReconciler_def
      demoClient_def succeed_def demoState_def demoRun_def)

theorem user_env_wins_witness:
  "\<exists>t cs manifest. installAdmissionWebhooks demoClient demoReconciler demoEnvController (demoState demoEnvController) = (Inr (), t)
     \<and> r_calls t = cs \<and> (ApplyManifest manifest, True) \<in> set cs
     \<and> envWins demoApi [\<lparr>env_name = ''A'', env_value = ''1'', env_valueFrom = None\<rparr>] ''keda-admission-webhooks'' manifest"
proof -
  obtain t where t: "installAdmissionWebhooks demoClient demoReconciler demoEnvController (demoState demoEnvController) = (Inr (), t)"
    using demo_webhooks_installed by blast
  have kube: "kube demoClient = demoApi" by (simp add: demoClient_def)
  have env: "gd_env (kw_generic (kc_admissionWebhooks (k_spec demoEnvController))) =
      [\<lparr>env_name = ''A'', env_value = ''1'', env_valueFrom = None\<rparr>]"
    by (simp add: demoEnvController_def Let_def)
  have ok: "mf_ok (kube demoClient)" "codec_ok (kube demoClient) ''Deployment'' d_meta (deployments (kube demoClient))"
    "codec_ok (kube demoClient) ''RoleBinding'' rb_meta (roleBindings (kube demoClient))"
    by (simp_all add: kube demoApi_mf_ok demoApi_codecs)
  have "gd_env (kw_generic (kc_admissionWebhooks (k_spec demoEnvController))) \<noteq> []" by (simp add: env)
  with user_env_wins [OF ok] t obtain cs manifest where
    "r_calls t = r_calls (demoState demoEnvController) @ cs" "(ApplyManifest manifest, True) \<in> set cs"
    "envWins (kube demoClient) (gd_env (kw_generic (kc_admissionWebhooks (k_spec demoEnvController))))
      ''keda-admission-webhooks'' manifest"
    by blast
  then show ?thesis using t by (auto simp: kube env demoState_get)
qed

section \<open>Workload Identity from end to end\<close>

lemma quiet_gcpPlatform: "quiet (gcpPlatform C)"
  unfolding gcpPlatform_def by (auto intro!: quiet_intros split: sum.split)

lemma gcp_wired:
  assumes "gcpWorkloadIdentityTransforms C k (Some cfg) u = (Inr gts, v)"
  obtains projectID universe w w' where
    "gts = DeploymentTransforms (kube C) cfg projectID (CredentialsHash (sha256Hex C) (CredentialsJSON cfg universe))"
    "ensureGCPCredentialsSecret C k (CredentialsJSON cfg universe) w = (Inr (), w')" "r_calls w = r_calls u" "r_calls v = r_calls w'"
proof -
  obtain project universe w where p: "gcpPlatform C u = (Inr (project, universe), w)"
    and e: "thenIO (ensureGCPCredentialsSecret C k (CredentialsJSON cfg universe))
        (thenIO (modifyStatus (\<lambda>st. st\<lparr>kcs_gcpWorkloadIdentity := Some
            \<lparr>gws_source = cfg_source cfg, gws_serviceAccountEmail = cfg_serviceAccountEmail cfg,
             gws_audience = cfg_audience cfg,
             gws_projectID = (if cfg_projectID cfg \<noteq> [] then cfg_projectID cfg else project)\<rparr>\<rparr>))
          (returnIO (DeploymentTransforms (kube C) cfg (if cfg_projectID cfg \<noteq> [] then cfg_projectID cfg else project)
             (CredentialsHash (sha256Hex C) (CredentialsJSON cfg universe))))) w = (Inr gts, v)"
    using assms by (auto simp: gcpWorkloadIdentityTransforms_def bindIO_Ok Let_def)
  have "r_calls w = r_calls u" using quietD [OF quiet_gcpPlatform p] by simp
  then show ?thesis using e that by (auto simp: thenIO_Ok)
qed

text \<open>What the wiring leaves on a Deployment, and that the user's variables do not disturb it.\<close>

lemma wireGcp_effect:
  "lookup_by vol_name credentialsVolumeName (volumes (wireGcp cfg p h d)) =
     Some \<lparr>vol_name = credentialsVolumeName, vol_source = SecretSource CredentialsSecretName\<rparr>"
  "lookup_by vol_name boundSATokenVolumeName (volumes (wireGcp cfg p h d)) = Some \<lparr>vol_name = boundSATokenVolumeName,
     vol_source = ProjectedSource [ServiceAccountTokenProjection (cfg_subjectTokenAudience cfg) boundSATokenFileName]\<rparr>"
  "pt_annotations (d_template (wireGcp cfg p h d)) CredentialsHashAnnotation = Some h"
  "lookup_by c_name kedaOperatorName (containers (wireGcp cfg p h d)) = Some c \<Longrightarrow>
     lookup_by vm_name credentialsVolumeName (c_volumeMounts c) = Some (mount credentialsVolumeName credentialsMountPath True)
     \<and> map_option env_value (lookup_by env_name envGoogleApplicationCredentials (c_env c)) = Some CredentialsFilePath"
proof -
  have names: "boundSATokenVolumeName \<noteq> credentialsVolumeName" "envGoogleApplicationCredentials \<noteq> envCloudSDKCoreProject"
    by (simp_all add: boundSATokenVolumeName_def credentialsVolumeName_def envGoogleApplicationCredentials_def
        envCloudSDKCoreProject_def)
  have vols: "lookup_by vol_name k (volumes (wireGcp cfg p h d)) =
      (case lookup_by vol_name k (rev (gcpVolumes cfg)) of None \<Rightarrow> lookup_by vol_name k (volumes d) | Some v \<Rightarrow> Some v)" for k
    by (simp add: wireGcp_volumes first_store.fold_put_lookup)
  show "lookup_by vol_name credentialsVolumeName (volumes (wireGcp cfg p h d)) =
     Some \<lparr>vol_name = credentialsVolumeName, vol_source = SecretSource CredentialsSecretName\<rparr>"
    and "lookup_by vol_name boundSATokenVolumeName (volumes (wireGcp cfg p h d)) = Some \<lparr>vol_name = boundSATokenVolumeName,
     vol_source = ProjectedSource [ServiceAccountTokenProjection (cfg_subjectTokenAudience cfg) boundSATokenFileName]\<rparr>"
    using names by (simp_all add: vols) (simp_all add: gcpVolumes_def)
  show "pt_annotations (d_template (wireGcp cfg p h d)) CredentialsHashAnnotation = Some h"
    by (simp add: wireGcp_def addPodAnnotations_def updateMap_def)
  assume "lookup_by c_name kedaOperatorName (containers (wireGcp cfg p h d)) = Some c"
  then show "lookup_by vm_name credentialsVolumeName (c_volumeMounts c) = Some (mount credentialsVolumeName credentialsMountPath True)
     \<and> map_option env_value (lookup_by env_name envGoogleApplicationCredentials (c_env c)) = Some CredentialsFilePath"
    using names by (auto simp: wireGcp_containers mergeMounts_lookup mergeEnv_lookup gcpMounts_def gcpEnv_def mount_def)
qed

lemma CredentialsJSON_nonempty: "CredentialsJSON cfg u \<noteq> []"
  by (simp add: CredentialsJSON_def externalAccountCredentials_def)

lemma DeploymentTransforms_other:
  assumes "GetKind A u \<noteq> ''Deployment''"
  shows "runTransforms (DeploymentTransforms A cfg p h) u = Inr u" "runTransforms (userEnv A env n) u = Inr u"
  using assms
  by (simp_all add: DeploymentTransforms_def ReplaceDeploymentVolumes_def ReplaceContainerVolumeMounts_def
      ReplaceContainerEnv_def AddPodAnnotations_def onDeployment_def convertEdit_other userEnv_def)

definition withUserEnv :: "envVar list \<Rightarrow> string \<Rightarrow> deployment \<Rightarrow> deployment" where
  "withUserEnv env n = (if env = [] then id else replaceContainerEnv env n)"

lemma userEnv_realizes:
  "codec_ok A ''Deployment'' d_meta (deployments A) \<Longrightarrow> realizes A (runTransforms (userEnv A env n)) (withUserEnv env n)"
  using realizes_run [of A "[ReplaceContainerEnv A env n]" "[replaceContainerEnv env n]"]
    realizes_always [of A "replaceContainerEnv env n"] realizes_run [of A "[]" "[]"]
  by (auto simp: userEnv_def withUserEnv_def ReplaceContainerEnv_def id_def comp_def)

lemma updContainer_frame:
  "pt_annotations (d_template (updContainer n f d)) = pt_annotations (d_template d)"
  by (simp add: updContainer_def setContainers_def updSpec_def)

lemma withUserEnv_frame:
  "volumes (withUserEnv env n d) = volumes d"
  "pt_annotations (d_template (withUserEnv env n d)) = pt_annotations (d_template d)"
  "lookup_by c_name n (containers (withUserEnv env n d)) = Some c \<Longrightarrow>
     \<exists>c0. lookup_by c_name n (containers d) = Some c0 \<and> c_volumeMounts c = c_volumeMounts c0 \<and>
       (lookup_by env_name e (rev env) = None \<longrightarrow> lookup_by env_name e (c_env c) = lookup_by env_name e (c_env c0))"
  by (auto simp: withUserEnv_def replaceContainerEnv_def updContainer_frame env.lookup_container mergeEnv_lookup split: if_splits)

lemma wired_run:
  assumes codec: "codec_ok A ''Deployment'' d_meta (deployments A)"
    and run: "runTransforms (ts @ DeploymentTransforms A cfg p h @ userEnv A env n) u = Inr u'"
    and kind: "GetKind A u' = ''Deployment''"
  obtains d where "decode (deployments A) u' = Inr (withUserEnv env n (wireGcp cfg p h d))"
proof -
  obtain v where "runTransforms (DeploymentTransforms A cfg p h @ userEnv A env n) v = Inr u'"
    using run by (auto simp only: runTransforms_append bindE_Ok)
  then obtain w where w: "runTransforms (DeploymentTransforms A cfg p h) v = Inr w" "runTransforms (userEnv A env n) w = Inr u'"
    by (auto simp only: runTransforms_append bindE_Ok)
  have wk: "GetKind A w = ''Deployment''" using DeploymentTransforms_other(2) [of A w env n] w(2) kind by auto
  then have vk: "GetKind A v = ''Deployment''" using DeploymentTransforms_other(1) [of A v cfg p h] w(1) by auto
  then obtain d where d: "decode (deployments A) v = Inr d"
    using w(1)
    by (auto simp: DeploymentTransforms_def ReplaceDeploymentVolumes_def onDeployment_def convertEdit_def bindE_Ok)
  have "decode (deployments A) w = Inr (wireGcp cfg p h d)"
    using realizesD [OF DeploymentTransforms_realizes [OF codec] vk d w(1)] ..
  from realizesD [OF userEnv_realizes [OF codec] wk this w(2)] show ?thesis using that by blast
qed

definition wired :: "('u, 'w) client \<Rightarrow> Config \<Rightarrow> string \<Rightarrow> envVar list \<Rightarrow> deployment \<Rightarrow> bool" where
  "wired C cfg credentials env d \<longleftrightarrow>
     lookup_by vol_name credentialsVolumeName (volumes d) =
       Some \<lparr>vol_name = credentialsVolumeName, vol_source = SecretSource CredentialsSecretName\<rparr>
     \<and> lookup_by vol_name boundSATokenVolumeName (volumes d) = Some \<lparr>vol_name = boundSATokenVolumeName,
         vol_source = ProjectedSource [ServiceAccountTokenProjection (cfg_subjectTokenAudience cfg) boundSATokenFileName]\<rparr>
     \<and> pt_annotations (d_template d) CredentialsHashAnnotation = Some (CredentialsHash (sha256Hex C) credentials)
     \<and> (\<forall>c. lookup_by c_name kedaOperatorName (containers d) = Some c \<longrightarrow>
          lookup_by vm_name credentialsVolumeName (c_volumeMounts c) = Some (mount credentialsVolumeName credentialsMountPath True)
          \<and> (lookup_by env_name envGoogleApplicationCredentials (rev env) = None \<longrightarrow>
               map_option env_value (lookup_by env_name envGoogleApplicationCredentials (c_env c)) = Some CredentialsFilePath))"

lemma wired_withUserEnv:
  "wired C cfg credentials env
     (withUserEnv env kedaOperatorName (wireGcp cfg p (CredentialsHash (sha256Hex C) credentials) d))"
  unfolding wired_def
  using withUserEnv_frame(3) wireGcp_effect(4)
  by (simp add: withUserEnv_frame(1,2) wireGcp_effect(1-3)) metis

lemma controllerTransforms_gts:
  "\<exists>pre. controllerTransforms C k openshift removeSeccomp tls gts = pre @ gts"
  unfolding controllerTransforms_def Let_def append_assoc [symmetric] by (rule exI, rule refl)

lemma installed_gcp_wired:
  assumes mf: "mf_ok (kube C)" and codec: "codec_ok (kube C) ''Deployment'' d_meta (deployments (kube C))"
    and own: "ownership_ok C" and run: "installController C R k (Some cfg) s = (Inr (), t)"
  shows "\<exists>universe sec before manifest after.
    r_calls t = r_calls s @ before @ (ApplyManifest manifest, True) # after
    \<and> se_data sec = [(CredentialsSecretKey, CredentialsJSON cfg universe)] \<and> isControlledBy C (se_owners sec) k
    \<and> ((\<exists>cs. before = cs @ [(WriteSecret sec, True)]) \<or>
       before = [] \<and> (\<exists>w w'. getSecret C (gcpCredentialsSecretKey k) w = (Inr sec, w')))
    \<and> (\<forall>u \<in> set manifest. GetKind (kube C) u = ''Deployment'' \<longrightarrow> (\<exists>d. decode (deployments (kube C)) u = Inr d \<and>
         wired C cfg (CredentialsJSON cfg universe) (gd_env (ko_generic (kc_operator (k_spec k)))) d))"
proof -
  let ?env = "gd_env (ko_generic (kc_operator (k_spec k)))"
  from controller_applied [OF run] obtain openshift tls removeSeccomp u gts v manifest before after where
    g: "gcpWorkloadIdentityTransforms C k (Some cfg) u = (Inr gts, v)" and u: "r_calls u = r_calls s"
    and v: "r_calls v = r_calls s @ before"
    and render: "renderController C R k openshift removeSeccomp tls gts = Inr manifest"
    and t: "r_calls t = r_calls s @ before @ (ApplyManifest manifest, True) # after" .
  from gcp_wired [OF g] obtain p universe w w' where
    gts: "gts = DeploymentTransforms (kube C) cfg p (CredentialsHash (sha256Hex C) (CredentialsJSON cfg universe))"
    and e: "ensureGCPCredentialsSecret C k (CredentialsJSON cfg universe) w = (Inr (), w')" "r_calls w = r_calls u"
      "r_calls v = r_calls w'" .
  let ?cr = "CredentialsJSON cfg universe" and ?key = "gcpCredentialsSecretKey k"
  have "(\<exists>x. getSecret C ?key (r_cluster w) = (Inr x, r_cluster w') \<and> (wantedSecret ?cr x \<and> controlled C k (se_owners x)) \<and>
        r_calls w' = r_calls w) \<or>
      (\<exists>cs x. r_calls w' = r_calls w @ cs @ [(WriteSecret x, True)] \<and> (wantedSecret ?cr x \<and> controlled C k (se_owners x)))"
    using gcpSecret.ok [OF e(1)] by simp
  then obtain sec where sec: "se_data sec = [(CredentialsSecretKey, ?cr)]" "isControlledBy C (se_owners sec) k"
    "(\<exists>cs. before = cs @ [(WriteSecret sec, True)]) \<or> before = [] \<and> (\<exists>w w'. getSecret C ?key w = (Inr sec, w'))"
    using wantedSecret_data [OF _ CredentialsJSON_nonempty] own u v e(2,3) by (elim disjE exE conjE) auto
  have "\<exists>d. decode (deployments (kube C)) u' = Inr d \<and> wired C cfg ?cr ?env d"
    if there: "u' \<in> set manifest" and kind: "GetKind (kube C) u' = ''Deployment''" for u'
  proof -
    obtain pre where pre: "controllerTransforms C k openshift removeSeccomp tls gts = pre @ gts"
      using controllerTransforms_gts by blast
    obtain u0 where "runTransforms (controllerTransforms C k openshift removeSeccomp tls gts @
        userEnv (kube C) ?env ''keda-operator'') u0 = Inr u'"
      using rendered_from [OF mf render [unfolded renderController_def] there] .
    then have "runTransforms (pre @ gts @ userEnv (kube C) ?env kedaOperatorName) u0 = Inr u'"
      by (simp add: pre kedaOperatorName_def)
    from wired_run [OF codec this [unfolded gts] kind] show ?thesis
      using wired_withUserEnv [of C cfg ?cr ?env] by metis
  qed
  then show ?thesis using t sec by blast
qed


lemma demo_gcp_transforms:
  "\<exists>gts v. gcpWorkloadIdentityTransforms demoClient (demoController [] None) (Some demoGcpConfig)
       (demoState (demoController [] None)) = (Inr gts, v)
     \<and> (\<forall>t \<in> set gts. \<forall>u. \<exists>w. t u = Inr w) \<and> dc_openshift (r_cluster v) = False"
  by (simp add: gcpWorkloadIdentityTransforms_def gcpPlatform_def RunningOnOpenshift_def isGvkPresent_def bindIO_def
      thenIO_def tryIO_def reading_def ensureGCPCredentialsSecret_def upsert_def withExisting_run calling_def Let_def
      demoClient_def demoState_def demoRun_def demoController_def DeploymentTransforms_def ReplaceDeploymentVolumes_def
      ReplaceContainerVolumeMounts_def ReplaceContainerEnv_def AddPodAnnotations_def demo_total)

lemma demo_controller_rendered:
  assumes "\<forall>t \<in> set gts. \<forall>u. \<exists>w. t u = Inr w"
  shows "\<exists>m. renderController demoClient demoReconciler (demoController [] None) False False [] gts = Inr m"
proof -
  let ?k = "demoController [] None"
  let ?ts = "controllerTransforms demoClient ?k False False [] gts @
    userEnv demoApi (gd_env (ko_generic (kc_operator (k_spec ?k)))) ''keda-operator''"
  have kube: "kube demoClient = demoApi" "getenv demoClient = (\<lambda>n. [])" by (simp_all add: demoClient_def)
  have "\<exists>v. runTransforms ?ts u = Inr v" for u
    by (rule total_run)
      (use assms in \<open>auto simp add: controllerTransforms_def kedaOperatorSpecTransforms_def placementTransforms_def
        volumeTransforms_def hasResources_def demoController_def zeroKedaController_def zeroKedaControllerSpec_def
        zeroGenericDeploymentSpec_def kube userEnv_def ReplaceWatchNamespace_def SetOperatorCertRotation_def
        replaceContainerArg_def EnsureCACertsForOperatorDeployment_def replaceContainerArgs_def
        ensureCACertVolumesAndMounts_def demo_total Let_def\<close>)
  then show ?thesis
    using demoApi_mf_ok by (simp add: renderController_def kube mf_ok_def demoReconciler_def bindE_Ok)
qed

lemma demo_controller_installed:
  "\<exists>t. installController demoClient demoReconciler (demoController [] None) (Some demoGcpConfig)
     (demoState (demoController [] None)) = (Inr (), t)"
proof -
  let ?k = "demoController [] None"
  obtain gts v where g: "gcpWorkloadIdentityTransforms demoClient ?k (Some demoGcpConfig) (demoState ?k) = (Inr gts, v)"
    "\<forall>t \<in> set gts. \<forall>u. \<exists>w. t u = Inr w"
    using demo_gcp_transforms by blast
  have off: "RunningOnOpenshift demoClient (demoState ?k) = (Inr False, demoState ?k)"
    by (simp add: RunningOnOpenshift_def isGvkPresent_def bindIO_def tryIO_def reading_def demoClient_def demoState_def
        demoRun_def)
  obtain m where m: "renderController demoClient demoReconciler ?k False False [] gts = Inr m"
    using demo_controller_rendered [OF g(2)] by blast
  have tls: "listIf (rc_injectTLSEnvVars demoReconciler) (kedaTLSEnvVarTransforms demoClient) s = (Inr [], s)" for s
    by (simp add: demoReconciler_def listIf_def)
  have applied: "applyCall demoClient m s = (Inr (), s\<lparr>r_calls := r_calls s @ [(ApplyManifest m, True)]\<rparr>)" for s
    by (simp add: applyCall_def calling_def demoClient_def succeed_def)
  have "transformManifest demoClient (controllerTransforms demoClient ?k False False [] gts @
      userEnv (kube demoClient) (gd_env (ko_generic (kc_operator (k_spec ?k)))) ''keda-operator'')
      (op_controller (rc_operands demoReconciler)) s = (Inr m, s)" for s
    using m by (simp add: transformManifest_def renderController_def)
  then show ?thesis
    by (simp add: installController_def bindIO_def thenIO_def off tls g(1) applied whenIO_def)
qed


end
