(* ===== verification/Identity.thy ===== *)
theory Identity
  imports Rendering
begin

text \<open>
  Which objects an operand consists of: the kind, name and namespace of what is installed and of what
  is deleted. \<open>renderForDelete\<close> leaves out the transformers driven by the spec; here is why that finds
  every installed object.
\<close>

section \<open>Documented behaviour of the API\<close>

definition api_ok :: "'u api \<Rightarrow> bool" where
  "api_ok A \<longleftrightarrow> accessors_ok A \<and> annotating_ok A \<and> mf_ok A \<and>
     codec_ok A ''Deployment'' d_meta (deployments A) \<and> codec_ok A ''RoleBinding'' rb_meta (roleBindings A) \<and>
     codec_ok A ''ServiceAccount'' sa_meta (serviceAccounts A) \<and>
     codec_ok A ''ValidatingWebhookConfiguration'' vwc_meta (webhookConfigurations A) \<and>
     codec_ok A ''APIService'' as_meta (apiServices A) \<and> codec_ok A ''NetworkPolicy'' np_meta (networkPolicies A) \<and>
     (\<forall>owner u u'. mfInjectOwner A owner u = Inr u' \<longrightarrow> sameIdentity A u u') \<and>
     (\<forall>a u. sameIdentity A u (SetAnnotations A a u))"

lemma api_ok_parts:
  assumes "api_ok A"
  shows "accessors_ok A" "annotating_ok A" "mf_ok A"
    "codec_ok A ''Deployment'' d_meta (deployments A)" "codec_ok A ''RoleBinding'' rb_meta (roleBindings A)"
    "codec_ok A ''ServiceAccount'' sa_meta (serviceAccounts A)"
    "codec_ok A ''ValidatingWebhookConfiguration'' vwc_meta (webhookConfigurations A)"
    "codec_ok A ''APIService'' as_meta (apiServices A)" "codec_ok A ''NetworkPolicy'' np_meta (networkPolicies A)"
  using assms by (simp_all add: api_ok_def)

section \<open>Transformers that keep the identity\<close>

named_theorems identity_intros \<open>transformers that keep kind, name and namespace\<close>

lemma keeps_Ok [identity_intros]: "keepsIdentity A Inr"
  by (rule keepsIdentity_Ok)

lemma keeps_InjectOwner [identity_intros]: "api_ok A \<Longrightarrow> keepsIdentity A (InjectOwner A owner)"
  by (auto simp: keepsIdentity_def InjectOwner_def api_ok_def)

lemma keeps_convertEdit:
  assumes "codec_ok A kind meta c" "\<And>t. om_name (meta (fst (f t))) = om_name (meta t)"
    "\<And>t. om_namespace (meta (fst (f t))) = om_namespace (meta t)"
  shows "keepsIdentity A (convertEdit A kind c f)"
  unfolding keepsIdentity_def using convertEdit_identity [OF assms] by blast

lemma keeps_onDeployment:
  assumes "api_ok A" "\<And>d. om_name (d_meta (fst (f d))) = om_name (d_meta d)"
    "\<And>d. om_namespace (d_meta (fst (f d))) = om_namespace (d_meta d)"
  shows "keepsIdentity A (onDeployment A f)"
  unfolding onDeployment_def using assms by (intro keeps_convertEdit [OF api_ok_parts(4)])

lemma meta_updContainer [simp]: "d_meta (updContainer n f d) = d_meta d"
  by (simp add: updContainer_def)

lemma meta_editContainer [simp]: "d_meta (fst (editContainer n f d)) = d_meta d"
  by (simp add: fst_editContainer)

lemma keeps_replaceContainerArg [identity_intros]:
  assumes "api_ok A"
  shows "keepsIdentity A (replaceContainerArg A v p n)" "keepsIdentity A (replaceContainerArgs A vs p n)"
proof -
  have edit: "keepsIdentity A (onDeployment A (editContainer n g))" for g
    using assms by (intro keeps_onDeployment) simp_all
  show "keepsIdentity A (replaceContainerArg A v p n)" unfolding replaceContainerArg_def by (rule edit)
  show "keepsIdentity A (replaceContainerArgs A vs p n)"
    using edit [of "replaceArgsInContainer vs p"] by (simp add: keepsIdentity_def replaceContainerArgs_def)
qed

lemma keeps_args [identity_intros]:
  assumes "api_ok A"
  shows "keepsIdentity A (ReplaceLogLevel A l n)" "keepsIdentity A (ReplaceLogEncoder A l n)"
    "keepsIdentity A (ReplaceLogTimeEncoding A l n)" "keepsIdentity A (ReplaceKedaOperatorLogLevel A l)"
    "keepsIdentity A (ReplaceKedaOperatorLogEncoder A l)" "keepsIdentity A (ReplaceKedaOperatorLogTimeEncoding A l)"
    "keepsIdentity A (ReplaceMetricsServerLogLevel A l)" "keepsIdentity A (ReplaceAdmissionWebhooksLogLevel A l)"
    "keepsIdentity A (ReplaceAdmissionWebhooksLogEncoder A l)"
    "keepsIdentity A (ReplaceAdmissionWebhooksLogTimeEncoding A l)" "keepsIdentity A (ReplaceArbitraryArg A l n)"
    "keepsIdentity A (SetOperatorCertRotation A b)" "keepsIdentity A (ReplaceAuditConfig A l n)"
  using keeps_replaceContainerArg [OF assms] keepsIdentity_Ok [of A]
  by (simp_all add: ReplaceLogLevel_def ReplaceLogEncoder_def ReplaceLogTimeEncoding_def ReplaceKedaOperatorLogLevel_def
      ReplaceKedaOperatorLogEncoder_def ReplaceKedaOperatorLogTimeEncoding_def ReplaceMetricsServerLogLevel_def
      ReplaceAdmissionWebhooksLogLevel_def ReplaceAdmissionWebhooksLogEncoder_def
      ReplaceAdmissionWebhooksLogTimeEncoding_def ReplaceArbitraryArg_def SetOperatorCertRotation_def
      ReplaceAuditConfig_def split_def Let_def split: option.split)

lemma keeps_pods [identity_intros]:
  assumes "api_ok A"
  shows "keepsIdentity A (ReplaceWatchNamespace A w n)" "keepsIdentity A (ReplaceContainerEnv A es n)"
    "keepsIdentity A (EnsureEnvVarInAllContainers A v w)" "keepsIdentity A (replaceContainerImage A i n)"
    "keepsIdentity A (replaceResources A rr n)" "keepsIdentity A (ReplaceNodeSelector A ns)"
    "keepsIdentity A (ReplaceTolerations A ts)" "keepsIdentity A (ReplaceAffinity A af)"
    "keepsIdentity A (ReplacePriorityClassName A pc)" "keepsIdentity A (ReplaceReplicas A rs)"
    "keepsIdentity A (RemoveSeccompProfile A n)"
    "keepsIdentity A (AddPodAnnotations A m)" "keepsIdentity A (AddPodLabels A m)"
    "keepsIdentity A (AddDeploymentAnnotations A m)" "keepsIdentity A (AddDeploymentLabels A m)"
  unfolding ReplaceWatchNamespace_def ReplaceContainerEnv_def EnsureEnvVarInAllContainers_def replaceContainerImage_def
    replaceResources_def ReplaceNodeSelector_def ReplaceTolerations_def ReplaceAffinity_def ReplacePriorityClassName_def
    ReplaceReplicas_def RemoveSeccompProfile_def AddPodAnnotations_def AddPodLabels_def AddDeploymentAnnotations_def
    AddDeploymentLabels_def
  by (rule keeps_onDeployment [OF assms];
      simp add: replaceContainerEnv_def ensureEnvVarInAll_def removeSeccompProfile_def split_def Let_def
        addPodAnnotations_def addPodLabels_def addDeploymentAnnotations_def addDeploymentLabels_def)+

lemma keeps_volumes [identity_intros]:
  assumes "api_ok A"
  shows "keepsIdentity A (KedaOperatorEnsureCertificatesVolume A a b)"
    "keepsIdentity A (AdmissionWebhooksEnsureCertificatesVolume A a b)"
    "keepsIdentity A (MetricsServerEnsureCertificatesVolume A a b)"
    "keepsIdentity A (EnsureAuditPolicyConfigMapMountsVolume A a)" "keepsIdentity A (EnsureAuditLogMount A a b)"
    "keepsIdentity A (EnsureCertSecretVolume A a b)" "keepsIdentity A (ReplaceDeploymentVolumes A vs)"
    "keepsIdentity A (ReplaceDeploymentVolumeMounts A ms)" "keepsIdentity A (ReplaceContainerVolumeMounts A ms n)"
    "keepsIdentity A (ensureCACertVolumesAndMounts A ordV ordM cms n)"
  unfolding KedaOperatorEnsureCertificatesVolume_def AdmissionWebhooksEnsureCertificatesVolume_def
    MetricsServerEnsureCertificatesVolume_def ensureCertificatesVolumeForDeployment_def
    EnsureAuditPolicyConfigMapMountsVolume_def EnsureAuditLogMount_def EnsureCertSecretVolume_def
    ReplaceDeploymentVolumes_def ReplaceDeploymentVolumeMounts_def ReplaceContainerVolumeMounts_def
    ensureCACertVolumesAndMounts_def
  by (rule keeps_onDeployment [OF assms];
      simp add: kedaOperatorEnsureCertificates_def admissionWebhooksEnsureCertificates_def ensureCertificates_def
        ensureAuditPolicy_def ensureAuditLog_def ensureCertSecret_def replaceDeploymentVolumes_def
        replaceDeploymentVolumeMounts_def replaceContainerVolumeMounts_def ensureCACerts_def ensureVolume_def
        ensureMount_def Let_def)+

lemma keeps_meta [identity_intros]:
  assumes "api_ok A"
  shows "keepsIdentity A (AddServiceAccountAnnotations A m)" "keepsIdentity A (AddServiceAccountLabels A m)"
    "keepsIdentity A (EnsureCABundleInjectionForValidatingWebhookConfiguration A a b)"
    "keepsIdentity A (EnsureCABundleInjectionForAPIService A a b)" "keepsIdentity A (EnsureCertInjectionForService A n a b)"
    "keepsIdentity A (RemoveNetworkPolicyPodSelector A p)" "keepsIdentity A (AddOpenShiftPodToDNSNetworkPolicy A)"
proof -
  show "keepsIdentity A (AddServiceAccountAnnotations A m)" "keepsIdentity A (AddServiceAccountLabels A m)"
    "keepsIdentity A (EnsureCABundleInjectionForValidatingWebhookConfiguration A a b)"
    "keepsIdentity A (EnsureCABundleInjectionForAPIService A a b)"
    unfolding AddServiceAccountAnnotations_def AddServiceAccountLabels_def
      EnsureCABundleInjectionForValidatingWebhookConfiguration_def EnsureCABundleInjectionForAPIService_def
    using api_ok_parts(2) [OF assms]
    by (auto intro!: keeps_convertEdit [OF api_ok_parts(6) [OF assms]] keeps_convertEdit [OF api_ok_parts(7) [OF assms]]
        keeps_convertEdit [OF api_ok_parts(8) [OF assms]] simp: annotating_ok_def)
  show "keepsIdentity A (EnsureCertInjectionForService A n a b)"
    using assms by (auto simp: keepsIdentity_def EnsureCertInjectionForService_def api_ok_def)
  show "keepsIdentity A (RemoveNetworkPolicyPodSelector A p)"
    unfolding RemoveNetworkPolicyPodSelector_def
    by (intro keeps_convertEdit [OF api_ok_parts(9) [OF assms]]) (simp_all add: removePodSelector_def split_def Let_def)
  show "keepsIdentity A (AddOpenShiftPodToDNSNetworkPolicy A)"
    unfolding keepsIdentity_def
  proof (intro allI impI)
    fix u u'
    assume run: "AddOpenShiftPodToDNSNetworkPolicy A u = Inr u'"
    show "sameIdentity A u u'"
    proof (cases "GetKind A u = ''NetworkPolicy''")
      case True
      then obtain policy where policy: "decode (networkPolicies A) u = Inr policy"
        using run by (auto simp: AddOpenShiftPodToDNSNetworkPolicy_def bindE_Ok)
      obtain policy' where "encode (networkPolicies A) policy' u = Inr u'" "np_meta policy' = np_meta policy"
        using run True policy
        by (cases "om_name (np_meta policy) = ''keda-allow-egress-to-dns''"; cases "np_egress policy"; cases "tl (np_egress policy)")
          (auto simp: AddOpenShiftPodToDNSNetworkPolicy_def)
      then show ?thesis using encode_identity [OF api_ok_parts(9) [OF assms] True policy] by simp
    qed (use run in \<open>simp add: AddOpenShiftPodToDNSNetworkPolicy_def\<close>)
  qed
qed

section \<open>What transformers do to the identity\<close>

definition ident :: "'u api \<Rightarrow> 'u \<Rightarrow> string \<times> string \<times> string" where
  "ident A u = (GetKind A u, GetName A u, GetNamespace A u)"

definition actsAs :: "'u api \<Rightarrow> 'u transformer \<Rightarrow> (string \<times> string \<times> string \<Rightarrow> string \<times> string \<times> string) \<Rightarrow> bool" where
  "actsAs A t f \<longleftrightarrow> (\<forall>u u'. t u = Inr u' \<longrightarrow> ident A u' = f (ident A u))"

definition intoNamespace :: "string \<Rightarrow> string \<times> string \<times> string \<Rightarrow> string \<times> string \<times> string" where
  "intoNamespace ns i = (case i of (kind, name, m) \<Rightarrow> (kind, name, if m = defaultNamespace then ns else m))"

definition rebind :: "string \<Rightarrow> string \<Rightarrow> string \<times> string \<times> string \<Rightarrow> string \<times> string \<times> string" where
  "rebind n ns i = (case i of (kind, name, m) \<Rightarrow> if name = n then (''RoleBinding'', n, ns) else i)"

lemma actsAs_keeps: "keepsIdentity A t \<Longrightarrow> actsAs A t id"
  by (simp add: keepsIdentity_def actsAs_def sameIdentity_def ident_def)

lemma actsAs_ReplaceAllNamespaces: "api_ok A \<Longrightarrow> actsAs A (ReplaceAllNamespaces A ns) (intoNamespace ns)"
  using ReplaceAllNamespaces_moves [of A ns] by (auto simp: actsAs_def ident_def intoNamespace_def api_ok_def)

lemma actsAs_ReplaceNamespace:
  assumes "api_ok A"
  shows "actsAs A (ReplaceNamespace A n ns) (rebind n ns)"
  unfolding actsAs_def
proof (intro allI impI)
  fix u u'
  assume run: "ReplaceNamespace A n ns u = Inr u'"
  show "ident A u' = rebind n ns (ident A u)"
  proof (cases "GetName A u = n")
    case True
    then obtain rb where rb: "decode (roleBindings A) u = Inr rb"
      "encode (roleBindings A) (rb\<lparr>rb_meta := (rb_meta rb)\<lparr>om_namespace := ns\<rparr>\<rparr>) u = Inr u'"
      using run by (auto simp: ReplaceNamespace_def bindE_Ok)
    have d: "decode (roleBindings A) u' = Inr (rb\<lparr>rb_meta := (rb_meta rb)\<lparr>om_namespace := ns\<rparr>\<rparr>)"
      and kind: "GetKind A u' = ''RoleBinding''"
      using rb(2) api_ok_parts(5) [OF assms] by (auto simp: codec_ok_def)
    have name: "om_name (rb_meta rb) = n" using rb(1) True api_ok_parts(5) [OF assms] by (auto simp: codec_ok_def)
    have "GetName A u' = om_name ((rb_meta rb)\<lparr>om_namespace := ns\<rparr>)"
      "GetNamespace A u' = om_namespace ((rb_meta rb)\<lparr>om_namespace := ns\<rparr>)"
      using d api_ok_parts(5) [OF assms] unfolding codec_ok_def by (metis roleBinding.select_convs(1) roleBinding.surjective roleBinding.update_convs(1))+
    then show ?thesis using kind name True by (simp add: ident_def rebind_def)
  qed (use run in \<open>simp add: ReplaceNamespace_def ident_def rebind_def\<close>)
qed

lemma actsAs_nil: "actsAs A (runTransforms []) id"
  by (simp add: actsAs_def)

lemma actsAs_cons: "actsAs A t f \<Longrightarrow> actsAs A (runTransforms ts) g \<Longrightarrow> actsAs A (runTransforms (t # ts)) (g \<circ> f)"
  by (auto simp: actsAs_def bindE_Ok)

lemma actsAs_append:
  "actsAs A (runTransforms ts) f \<Longrightarrow> actsAs A (runTransforms ss) g \<Longrightarrow> actsAs A (runTransforms (ts @ ss)) (g \<circ> f)"
  by (auto simp: actsAs_def runTransforms_append bindE_Ok)

lemma actsAs_keepers: "list_all (keepsIdentity A) ts \<Longrightarrow> actsAs A (runTransforms ts) id"
  by (rule actsAs_keeps, rule keepsIdentity_run) (simp add: list_all_iff)

lemma rendered_idents:
  assumes "api_ok A" "mfTransform A ts us = Inr m" "actsAs A (runTransforms ts) f"
  shows "map (ident A) m = map (\<lambda>u. f (ident A u)) us"
proof -
  have "list_all2 (\<lambda>u u'. runTransforms ts u = Inr u') us m"
    using assms(2) api_ok_parts(3) [OF assms(1)] by (simp add: mf_ok_def mapE_Ok)
  then show ?thesis using assms(3) by (induction rule: list_all2_induct) (simp_all add: actsAs_def)
qed

text \<open>Installing: owner, namespace, then only transformers that keep the identity.\<close>

lemma actsAs_install:
  assumes "api_ok A" "list_all (keepsIdentity A) ts"
  shows "actsAs A (runTransforms ([InjectOwner A owner, ReplaceAllNamespaces A ns] @ ts)) (intoNamespace ns)"
  using actsAs_cons [OF actsAs_keeps [OF keeps_InjectOwner]
      actsAs_cons [OF actsAs_ReplaceAllNamespaces actsAs_keepers]] assms by simp

section \<open>The operands keep the identity\<close>

lemma keepers_spec:
  assumes "api_ok A"
  shows "list_all (keepsIdentity A) (placementTransforms A g)" "list_all (keepsIdentity A) (volumeTransforms A g)"
    "list_all (keepsIdentity A) (kedaOperatorSpecTransforms A ko)"
    "list_all (keepsIdentity A) (metricsSpecTransforms A km)" "list_all (keepsIdentity A) (userEnv A env n)"
    "list_all (keepsIdentity A) (EnsureCACertsForOperatorDeployment A ordV ordM cms)"
    "list_all (keepsIdentity A) (DeploymentTransforms A cfg p h)"
proof -
  note keep = keeps_Ok keeps_InjectOwner [OF assms] keeps_replaceContainerArg [OF assms] keeps_args [OF assms]
    keeps_pods [OF assms] keeps_volumes [OF assms] keeps_meta [OF assms]
  show placement: "list_all (keepsIdentity A) (placementTransforms A g)" for g
    by (simp add: placementTransforms_def keep)
  show vol: "list_all (keepsIdentity A) (volumeTransforms A g)" for g
    by (simp add: volumeTransforms_def keep split: option.split)
  show "list_all (keepsIdentity A) (kedaOperatorSpecTransforms A ko)"
    using placement vol
    by (auto simp: kedaOperatorSpecTransforms_def Let_def keep ReplaceKedaOperatorResources_def list_all_iff)
  show "list_all (keepsIdentity A) (metricsSpecTransforms A km)"
    using placement vol
    by (auto simp: metricsSpecTransforms_def auditConfigTransformation_def Let_def keep
        ReplaceMetricsServerResources_def list_all_iff)
  show "list_all (keepsIdentity A) (userEnv A env n)" by (simp add: userEnv_def keep)
  show "list_all (keepsIdentity A) (EnsureCACertsForOperatorDeployment A ordV ordM cms)"
    by (simp add: EnsureCACertsForOperatorDeployment_def keep)
  show "list_all (keepsIdentity A) (DeploymentTransforms A cfg p h)"
    by (simp add: DeploymentTransforms_def keep)
qed

end
