(* ===== verification/Wellformed.thy ===== *)
theory Wellformed
  imports Identity
begin

text \<open>
  Rendering keeps Deployments well formed. Kubernetes rejects a Deployment with two volumes or two
  containers of one name, and takes the last of two variables of one name; a Deployment is \<open>wellNamed\<close>
  when the names of volumes and containers, and in every container those of variables and mounts, are
  distinct. Every transformer of the operator's and the webhooks' Deployment keeps this.
\<close>

definition wellContainer :: "container \<Rightarrow> bool" where
  "wellContainer c \<longleftrightarrow> distinct (map env_name (c_env c)) \<and> distinct (map vm_name (c_volumeMounts c))"

definition wellNamed :: "deployment \<Rightarrow> bool" where
  "wellNamed d \<longleftrightarrow> distinct (map vol_name (volumes d)) \<and> distinct (map c_name (containers d)) \<and>
     (\<forall>c \<in> set (containers d). wellContainer c)"

section \<open>Edits\<close>

definition keepsNames :: "(deployment \<Rightarrow> deployment) \<Rightarrow> bool" where
  "keepsNames f \<longleftrightarrow> (\<forall>d. wellNamed d \<longrightarrow> wellNamed (f d))"

named_theorems naming \<open>edits and transformers that keep names distinct\<close>

lemma keepsNames_comp: "keepsNames f \<Longrightarrow> keepsNames g \<Longrightarrow> keepsNames (\<lambda>d. f (g d))"
  by (simp add: keepsNames_def)

lemma keepsNames_map:
  assumes "\<And>c. c_name (f c) = c_name c" "\<And>c. wellContainer c \<Longrightarrow> wellContainer (f c)"
  shows "keepsNames (\<lambda>d. setContainers (map f (containers d)) d)"
  using assms by (simp add: keepsNames_def wellNamed_def comp_def)

lemma keepsNames_updContainer:
  assumes "\<And>c. c_name (f c) = c_name c" "\<And>c. wellContainer c \<Longrightarrow> wellContainer (f c)"
  shows "keepsNames (updContainer n f)"
  unfolding keepsNames_def
proof (intro allI impI)
  fix d assume d: "wellNamed d"
  let ?cs = "upd_first (\<lambda>c. c_name c = n) f (containers d)"
  have "map c_name ?cs = map c_name (containers d)" by (rule upd_first_map_frame) (rule assms(1))
  moreover have "\<forall>c \<in> set ?cs. wellContainer c"
    using d assms(2) set_upd_first_subset[of "\<lambda>c. c_name c = n" f "containers d"] unfolding wellNamed_def by blast
  ultimately show "wellNamed (updContainer n f d)"
    using d by (simp add: wellNamed_def updContainer_def)
qed

lemma keepsNames_editContainer:
  assumes "\<And>c. c_name (fst (f c)) = c_name c" "\<And>c. wellContainer c \<Longrightarrow> wellContainer (fst (f c))"
  shows "keepsNames (\<lambda>d. fst (editContainer n f d))"
  using keepsNames_updContainer[of "\<lambda>c. fst (f c)" n] assms by (simp add: fst_editContainer)

lemma keepsNames_volumes:
  assumes "\<And>vs. distinct (map vol_name vs) \<Longrightarrow> distinct (map vol_name (g vs))"
  shows "keepsNames (\<lambda>d. setVolumes (g (volumes d)) d)"
  using assms by (simp add: keepsNames_def wellNamed_def)

text \<open>Edits that do not look at volumes or containers.\<close>

lemma keepsNames_frame:
  assumes "\<And>d. volumes (f d) = volumes d" "\<And>d. containers (f d) = containers d"
  shows "keepsNames f"
  using assms by (simp add: keepsNames_def wellNamed_def)

lemma well_mergeEnv: "wellContainer c \<Longrightarrow> wellContainer (c\<lparr>c_env := mergeEnv es (c_env c)\<rparr>)"
  by (simp add: wellContainer_def mergeEnv_distinct)

lemma well_mergeMounts: "wellContainer c \<Longrightarrow> wellContainer (mergeMounts ms c)"
  by (simp add: wellContainer_def mergeMounts_def first_store.fold_put_distinct)

lemma well_ensureEnvVar: "wellContainer c \<Longrightarrow> wellContainer (fst (ensureEnvVar n v c))"
proof -
  have names: "map env_name (upd_first (\<lambda>e. env_name e = n) (\<lambda>e. fst (if env_value e \<noteq> v then (e\<lparr>env_value := v\<rparr>, True) else (e, False))) es)
      = map env_name es" for es
    by (rule upd_first_map_frame) simp
  show "wellContainer c \<Longrightarrow> wellContainer (fst (ensureEnvVar n v c))"
    by (auto simp: names wellContainer_def ensureEnvVar_def split_def Let_def fst_edit_first list_ex_iff)
qed

lemma c_name_ensureEnvVar: "c_name (fst (ensureEnvVar n v c)) = c_name c"
  by (simp add: ensureEnvVar_def split_def Let_def)

lemma keepsNames_ensureVolume [naming]: "keepsNames (ensureVolume v)"
  unfolding ensureVolume_def [abs_def] by (rule keepsNames_volumes) (rule upsert_all_distinct)

lemma keepsNames_ensureMount [naming]: "keepsNames (ensureMount n m)"
  unfolding ensureMount_def [abs_def] by (rule keepsNames_updContainer) (simp_all add: wellContainer_def upsert_all_distinct)

lemma keepsNames_replaceDeploymentVolumes [naming]:
  assumes "distinct (map vol_name vs)"
  shows "keepsNames (replaceDeploymentVolumes vs)"
proof -
  have "replaceDeploymentVolumes vs = (\<lambda>d. setVolumes (fold (upsert_first vol_name) vs (volumes d)) d)"
    using fold_placeVolume[OF assms] by (simp add: replaceDeploymentVolumes_def fun_eq_iff)
  then show ?thesis by (simp add: keepsNames_volumes first_store.fold_put_distinct)
qed

lemma keepsNames_mounts [naming]: "keepsNames (replaceDeploymentVolumeMounts ms)" "keepsNames (replaceContainerVolumeMounts ms n)"
  unfolding replaceDeploymentVolumeMounts_def [abs_def] replaceContainerVolumeMounts_def [abs_def]
  by (rule keepsNames_map; simp add: well_mergeMounts)+

lemma keepsNames_env [naming]: "keepsNames (replaceContainerEnv es n)" "keepsNames (\<lambda>d. fst (ensureEnvVarInAll v w d))"
  unfolding replaceContainerEnv_def [abs_def] ensureEnvVarInAll_def [abs_def] fst_conv
  by ((rule keepsNames_updContainer keepsNames_map; simp add: well_mergeEnv well_ensureEnvVar c_name_ensureEnvVar)+)

section \<open>CA bundles\<close>

text \<open>
  Entries present of distinct names, refreshed with entries of distinct reserved names: whatever key the
  Go map has, every new entry appears once, and stale ones are gone.
\<close>

lemma kept_names:
  "k \<in> name ` set (concat (map (keptEntry name new) present)) \<Longrightarrow>
     (\<exists>x \<in> set present. \<exists>y. map_of new (name x) = Some y \<and> k = name y) \<or> (k \<in> name ` set present \<and> \<not> HasPrefix k caCertVolPrefix)"
proof -
  assume "k \<in> name ` set (concat (map (keptEntry name new) present))"
  then obtain x z where "x \<in> set present" "z \<in> set (keptEntry name new x)" "k = name z" by auto
  then show ?thesis by (cases "map_of new (name x)") (auto simp: keptEntry_def split: if_splits)
qed

lemma refreshEntries_distinct:
  assumes ord: "mapOrder ord" and keys: "distinct (map fst new)" and names: "distinct (map (\<lambda>p. name (snd p)) new)"
    and reserved: "\<forall>p \<in> set new. HasPrefix (name (snd p)) caCertVolPrefix"
    and present: "distinct (map name present)"
  shows "distinct (map name (refreshEntries name ord new present))"
proof -
  have same: "i = j" if "map_of new i = Some x" "map_of new j = Some y" "name x = name y" for i j x y
  proof -
    have "(i, x) \<in> set new" "(j, y) \<in> set new" using that map_of_SomeD by metis+
    moreover have "inj_on (\<lambda>p. name (snd p)) (set new)" using names by (simp add: distinct_map)
    ultimately have "(i, x) = (j, y)" using that(3) by (intro inj_onD[of "\<lambda>p. name (snd p)"]) simp_all
    then show ?thesis by simp
  qed
  have kept: "distinct (map name (concat (map (keptEntry name new) xs)))" if "distinct (map name xs)" for xs
    using that
  proof (induction xs)
    case (Cons x xs)
    have "name z \<notin> name ` set (concat (map (keptEntry name new) xs))" if z: "z \<in> set (keptEntry name new x)" for z
    proof
      assume "name z \<in> name ` set (concat (map (keptEntry name new) xs))"
      then consider (new) w y where "w \<in> set xs" "map_of new (name w) = Some y" "name z = name y"
        | (old) "name z \<in> name ` set xs" "\<not> HasPrefix (name z) caCertVolPrefix"
        using kept_names[of "name z" name new xs] by auto
      then show False
      proof cases
        case new
        show False
        proof (cases "map_of new (name x)")
          case None
          then have "z = x" "\<not> HasPrefix (name x) caCertVolPrefix"
            using z by (auto simp: keptEntry_def split: if_splits)
          moreover have "HasPrefix (name y) caCertVolPrefix" using reserved map_of_SomeD[OF new(2)] by auto
          ultimately show False using new(3) by simp
        next
          case (Some u)
          then have "z = u" using z by (simp add: keptEntry_def)
          then have "name w = name x" using same[OF new(2) Some] new(3) by simp
          then show False using Cons.prems new(1) by (metis distinct.simps(2) image_eqI list.set_map list.simps(9))
        qed
      next
        case old
        show False
        proof (cases "map_of new (name x)")
          case None
          then have "z = x" using z by (auto simp: keptEntry_def split: if_splits)
          then show False using old(1) Cons.prems by auto
        next
          case (Some u)
          then have "z = u" "HasPrefix (name u) caCertVolPrefix" using z reserved map_of_SomeD[OF Some] by (auto simp: keptEntry_def)
          then show False using old(2) by simp
        qed
      qed
    qed
    moreover have "distinct (map name (keptEntry name new x))" by (simp add: keptEntry_def split: option.split)
    ultimately show ?case using Cons by auto
  qed simp
  let ?app = "map snd (filter (\<lambda>(k, _). k \<notin> name ` set present) (ord new))"
  have new': "distinct (map (\<lambda>p. name (snd p)) (ord new))" using names mapOrder_distinct[OF ord] by blast
  have app: "distinct (map name ?app)"
    using distinct_filter[of _ "\<lambda>(k, _). k \<notin> name ` set present"] new'
    by (simp add: comp_def distinct_map inj_on_def)
  have "name ` set (concat (map (keptEntry name new) present)) \<inter> name ` set ?app = {}"
  proof -
    have "k \<notin> name ` set ?app" if k: "k \<in> name ` set (concat (map (keptEntry name new) present))" for k
    proof
      assume "k \<in> name ` set ?app"
      then obtain i y where i: "(i, y) \<in> set new" "i \<notin> name ` set present" "k = name y"
        using mapOrder_set[OF ord, of new] by force
      then have iy: "map_of new i = Some y" using keys by (simp add: map_of_is_SomeI)
      from kept_names[OF k] show False
      proof (elim disjE bexE exE conjE)
        fix x u assume "x \<in> set present" "map_of new (name x) = Some u" "k = name u"
        then show False using same[OF iy, of "name x" u] i(2,3) by auto
      next
        assume "\<not> HasPrefix k caCertVolPrefix"
        then show False using reserved i(1,3) by fastforce
      qed
    qed
    then show ?thesis by blast
  qed
  then have "set (map name (concat (map (keptEntry name new) present))) \<inter> set (map name ?app) = {}"
    by (simp only: list.set_map)
  with kept[OF present] app show ?thesis
    unfolding refreshEntries_def map_append distinct_append by blast
qed

lemma caVolumes_named:
  assumes "distinct ns"
  shows "distinct (map fst (cabundleVolumes ns))" "distinct (map (\<lambda>p. vol_name (snd p)) (cabundleVolumes ns))"
    "\<forall>p \<in> set (cabundleVolumes ns). HasPrefix (vol_name (snd p)) caCertVolPrefix"
proof -
  have eq: "cabundleVolumes ns = map (\<lambda>p. (snd p, caVolume (fst p) (snd p))) (enumerate 0 ns)"
    by (rule cabundleVolumes_distinct[OF assms])
  show "distinct (map fst (cabundleVolumes ns))" using assms by (simp add: eq comp_def map_snd_enumerate)
  have "map (\<lambda>p. vol_name (snd p)) (cabundleVolumes ns) = map (\<lambda>i. caCertVolPrefix @ Itoa i) (map fst (enumerate 0 ns))"
    unfolding eq map_map comp_def caVolume_def by simp
  then show "distinct (map (\<lambda>p. vol_name (snd p)) (cabundleVolumes ns))"
    by (simp add: map_fst_enumerate distinct_map inj_on_def)
  show "\<forall>p \<in> set (cabundleVolumes ns). HasPrefix (vol_name (snd p)) caCertVolPrefix" by (auto simp: eq caVolume_def)
qed

lemma caMounts_named:
  "distinct (map (\<lambda>p. vm_name (snd p)) (cabundleVolumeMounts ns))"
  "\<forall>p \<in> set (cabundleVolumeMounts ns). HasPrefix (vm_name (snd p)) caCertVolPrefix"
  by (auto simp: cabundleVolumeMounts_eq caMount_def mount_def comp_def distinct_map inj_on_def)

lemma keepsNames_ensureCACerts [naming]:
  assumes "mapOrder ordV" "mapOrder ordM" "distinct ns"
  shows "keepsNames (ensureCACerts ordV ordM ns n)"
proof -
  have "keepsNames (\<lambda>d. setVolumes (refreshEntries vol_name ordV (cabundleVolumes ns) (volumes d)) d)"
    by (rule keepsNames_volumes) (intro refreshEntries_distinct assms(1) caVolumes_named[OF assms(3)])
  moreover have "keepsNames (updContainer n
      (\<lambda>c. c\<lparr>c_volumeMounts := refreshEntries vm_name ordM (cabundleVolumeMounts ns) (c_volumeMounts c)\<rparr>))"
    by (rule keepsNames_updContainer)
      (auto simp: wellContainer_def intro!: refreshEntries_distinct[OF assms(2) caMounts_distinct caMounts_named])
  ultimately show ?thesis by (simp add: keepsNames_def ensureCACerts_def)
qed

section \<open>Transformers\<close>

text \<open>An unstructured object is fine when it is no Deployment, or converts to a well-named one.\<close>

definition fineObject :: "'u api \<Rightarrow> 'u \<Rightarrow> bool" where
  "fineObject A u \<longleftrightarrow>
     (GetKind A u = ''Deployment'' \<longrightarrow> (\<exists>d. decode (deployments A) u = Inr d \<and> wellNamed d))"

definition keepsWell :: "'u api \<Rightarrow> 'u transformer \<Rightarrow> bool" where
  "keepsWell A t \<longleftrightarrow> (\<forall>u u'. fineObject A u \<longrightarrow> t u = Inr u' \<longrightarrow> fineObject A u')"

lemma keepsWell_run:
  assumes "\<forall>t \<in> set ts. keepsWell A t"
  shows "keepsWell A (runTransforms ts)"
  using assms
proof (induction ts)
  case (Cons t ts)
  then have "keepsWell A t" "keepsWell A (runTransforms ts)" by simp_all
  then show ?case unfolding keepsWell_def runTransforms.simps bindE_Ok by metis
qed (simp add: keepsWell_def)

named_theorems well_intros \<open>transformers that keep Deployments well formed\<close>

lemma keepsWell_Ok [well_intros]: "keepsWell A Inr"
  by (simp add: keepsWell_def)

lemma keepsWell_onDeployment:
  assumes "api_ok A" "keepsNames (\<lambda>d. fst (f d))"
  shows "keepsWell A (onDeployment A f)"
  using assms(2) api_ok_parts(4)[OF assms(1)]
  unfolding keepsWell_def fineObject_def onDeployment_def convertEdit_def keepsNames_def codec_ok_def
  by (auto simp: bindE_Ok split_def Let_def split: if_splits)

lemma keepsWell_otherKind:
  "codec_ok A kind meta c \<Longrightarrow> kind \<noteq> ''Deployment'' \<Longrightarrow> keepsWell A (convertEdit A kind c f)"
  unfolding keepsWell_def fineObject_def convertEdit_def codec_ok_def
  by (auto simp: bindE_Ok split_def Let_def split: if_splits)

lemma keepsNames_containerFields [naming]:
  assumes "\<And>c. c_name (fst (f c)) = c_name c" "\<And>c. c_env (fst (f c)) = c_env c" "\<And>c. c_volumeMounts (fst (f c)) = c_volumeMounts c"
  shows "keepsNames (\<lambda>d. fst (editContainer n f d))"
  using assms by (intro keepsNames_editContainer) (simp_all add: wellContainer_def)

lemma well_args [well_intros]:
  assumes "api_ok A"
  shows "keepsWell A (replaceContainerArg A v p n)" "keepsWell A (replaceContainerArgs A vs p n)"
proof -
  have edit: "keepsWell A (onDeployment A (editContainer n g))"
    if "\<And>c. c_name (fst (g c)) = c_name c \<and> c_env (fst (g c)) = c_env c \<and> c_volumeMounts (fst (g c)) = c_volumeMounts c" for g
    using that by (intro keepsWell_onDeployment[OF assms] keepsNames_containerFields) simp_all
  show "keepsWell A (replaceContainerArg A v p n)" unfolding replaceContainerArg_def
    by (rule edit) (simp add: replaceArgInContainer_def split_def Let_def)
  have "keepsWell A (onDeployment A (editContainer n (replaceArgsInContainer vs p)))"
    by (rule edit) (simp add: replaceArgsInContainer_def split_def Let_def)
  then show "keepsWell A (replaceContainerArgs A vs p n)"
    by (simp add: keepsWell_def replaceContainerArgs_def)
qed

lemma well_flags [well_intros]:
  assumes "api_ok A"
  shows "keepsWell A (ReplaceKedaOperatorLogLevel A l)"
    "keepsWell A (ReplaceKedaOperatorLogEncoder A l)" "keepsWell A (ReplaceKedaOperatorLogTimeEncoding A l)"
    "keepsWell A (ReplaceAdmissionWebhooksLogLevel A l)"
    "keepsWell A (ReplaceAdmissionWebhooksLogEncoder A l)"
    "keepsWell A (ReplaceAdmissionWebhooksLogTimeEncoding A l)" "keepsWell A (ReplaceArbitraryArg A l n)"
    "keepsWell A (SetOperatorCertRotation A b)"
  using well_args [OF assms] keepsWell_Ok [of A]
  by (simp_all add: ReplaceLogLevel_def ReplaceLogEncoder_def ReplaceLogTimeEncoding_def ReplaceKedaOperatorLogLevel_def
      ReplaceKedaOperatorLogEncoder_def ReplaceKedaOperatorLogTimeEncoding_def
      ReplaceAdmissionWebhooksLogLevel_def ReplaceAdmissionWebhooksLogEncoder_def
      ReplaceAdmissionWebhooksLogTimeEncoding_def ReplaceArbitraryArg_def SetOperatorCertRotation_def
      split_def Let_def split: option.split)

lemma well_setWatchNamespace: "wellContainer c \<Longrightarrow> wellContainer (fst (setWatchNamespace w c))"
proof -
  have names: "map env_name (upd_first p (\<lambda>e. fst (if env_value e \<noteq> w then (e\<lparr>env_value := w\<rparr>, True) else (e, False))) es)
      = map env_name es" for p es
    by (rule upd_first_map_frame) simp
  show "wellContainer c \<Longrightarrow> wellContainer (fst (setWatchNamespace w c))"
    by (simp add: names wellContainer_def setWatchNamespace_def split_def Let_def fst_edit_first)
qed

lemma well_pods [well_intros]:
  assumes "api_ok A"
  shows "keepsWell A (ReplaceWatchNamespace A w n)" "keepsWell A (ReplaceContainerEnv A es n)"
    "keepsWell A (EnsureEnvVarInAllContainers A v w)" "keepsWell A (replaceContainerImage A i n)"
    "keepsWell A (replaceResources A rr n)" "keepsWell A (ReplaceNodeSelector A ns)"
    "keepsWell A (ReplaceTolerations A ts)" "keepsWell A (ReplaceAffinity A af)"
    "keepsWell A (ReplacePriorityClassName A pc)" "keepsWell A (ReplaceReplicas A rs)"
    "keepsWell A (AddPodAnnotations A m)" "keepsWell A (AddPodLabels A m)"
    "keepsWell A (AddDeploymentAnnotations A m)" "keepsWell A (AddDeploymentLabels A m)"
proof -
  have frame: "keepsWell A (onDeployment A (always f))"
    if "\<And>d. volumes (f d) = volumes d" "\<And>d. containers (f d) = containers d" for f
    using that by (intro keepsWell_onDeployment[OF assms]) (simp add: keepsNames_frame)
  have part: "keepsWell A (onDeployment A (always (updContainer n f)))"
    if "\<And>c. c_name (f c) = c_name c" "\<And>c. wellContainer c \<Longrightarrow> wellContainer (f c)" for f
    using that by (intro keepsWell_onDeployment[OF assms]) (simp add: keepsNames_updContainer)
  show "keepsWell A (ReplaceWatchNamespace A w n)"
    unfolding ReplaceWatchNamespace_def
    by (intro keepsWell_onDeployment[OF assms] keepsNames_editContainer well_setWatchNamespace)
      (simp_all add: setWatchNamespace_def split_def Let_def)
  show "keepsWell A (ReplaceContainerEnv A es n)" "keepsWell A (EnsureEnvVarInAllContainers A v w)"
    unfolding ReplaceContainerEnv_def EnsureEnvVarInAllContainers_def
    by (intro keepsWell_onDeployment[OF assms]; simp add: naming)+
  show "keepsWell A (replaceContainerImage A i n)" "keepsWell A (replaceResources A rr n)"
    unfolding replaceContainerImage_def replaceResources_def by (rule part; simp add: wellContainer_def)+
  show "keepsWell A (ReplaceNodeSelector A ns)"
    "keepsWell A (ReplaceTolerations A ts)" "keepsWell A (ReplaceAffinity A af)"
    "keepsWell A (ReplacePriorityClassName A pc)" "keepsWell A (ReplaceReplicas A rs)"
    "keepsWell A (AddPodAnnotations A m)" "keepsWell A (AddPodLabels A m)"
    "keepsWell A (AddDeploymentAnnotations A m)" "keepsWell A (AddDeploymentLabels A m)"
    unfolding ReplaceNodeSelector_def ReplaceTolerations_def ReplaceAffinity_def
      ReplacePriorityClassName_def ReplaceReplicas_def AddPodAnnotations_def AddPodLabels_def AddDeploymentAnnotations_def
      AddDeploymentLabels_def
    by (rule frame; simp add: volumes_def containers_def updSpec_def addPodAnnotations_def addPodLabels_def
        addDeploymentAnnotations_def addDeploymentLabels_def)+
qed

lemma well_seccomp [well_intros]: "api_ok A \<Longrightarrow> keepsWell A (RemoveSeccompProfile A n)"
proof -
  have "keepsNames (dropSeccomp n)"
    unfolding keepsNames_def
  proof (intro allI impI)
    fix d assume d: "wellNamed d"
    let ?p = "\<lambda>c. c_name c = n \<and> runtimeDefault (c_securityContext c)"
    let ?f = "\<lambda>c. c\<lparr>c_securityContext := clearSeccomp (c_securityContext c)\<rparr>"
    have "map c_name (upd_first ?p ?f (containers d)) = map c_name (containers d)" by (rule upd_first_map_frame) simp
    moreover have "\<forall>c \<in> set (upd_first ?p ?f (containers d)). wellContainer c"
      using d set_upd_first_subset[of ?p ?f "containers d"] by (auto simp: wellNamed_def wellContainer_def)
    moreover have "volumes (dropSeccomp n d) = volumes d" "containers (dropSeccomp n d) = upd_first ?p ?f (containers d)"
      by (simp_all add: dropSeccomp_def volumes_def containers_def setContainers_def updSpec_def)
    ultimately show "wellNamed (dropSeccomp n d)" using d by (simp add: wellNamed_def)
  qed
  then show "api_ok A \<Longrightarrow> keepsWell A (RemoveSeccompProfile A n)"
    unfolding RemoveSeccompProfile_def by (intro keepsWell_onDeployment) (simp_all add: fst_removeSeccompProfile)
qed

lemma well_volumes [well_intros]:
  assumes "api_ok A"
  shows "keepsWell A (KedaOperatorEnsureCertificatesVolume A a b)"
    "keepsWell A (AdmissionWebhooksEnsureCertificatesVolume A a b)"
    "keepsWell A (MetricsServerEnsureCertificatesVolume A a b)"
    "keepsWell A (EnsureAuditPolicyConfigMapMountsVolume A a)" "keepsWell A (EnsureAuditLogMount A a b)"
    "distinct (map vol_name vs) \<Longrightarrow> keepsWell A (ReplaceDeploymentVolumes A vs)"
    "keepsWell A (ReplaceDeploymentVolumeMounts A ms)" "keepsWell A (ReplaceContainerVolumeMounts A ms n)"
    "mapOrder ordV \<Longrightarrow> mapOrder ordM \<Longrightarrow> distinct cms \<Longrightarrow> keepsWell A (ensureCACertVolumesAndMounts A ordV ordM cms n)"
proof -
  have edit: "keepsWell A (onDeployment A (always f))" if "keepsNames f" for f
    using that by (intro keepsWell_onDeployment[OF assms]) simp
  note both = keepsNames_comp[OF keepsNames_ensureMount keepsNames_ensureVolume]
  show "keepsWell A (KedaOperatorEnsureCertificatesVolume A a b)"
    "keepsWell A (AdmissionWebhooksEnsureCertificatesVolume A a b)"
    "keepsWell A (EnsureAuditPolicyConfigMapMountsVolume A a)" "keepsWell A (EnsureAuditLogMount A a b)"
    unfolding KedaOperatorEnsureCertificatesVolume_def AdmissionWebhooksEnsureCertificatesVolume_def
      EnsureAuditPolicyConfigMapMountsVolume_def EnsureAuditLogMount_def kedaOperatorEnsureCertificates_def [abs_def]
      admissionWebhooksEnsureCertificates_def [abs_def] ensureAuditPolicy_def [abs_def] ensureAuditLog_def [abs_def]
    by (rule edit, rule both)+
  show "keepsWell A (MetricsServerEnsureCertificatesVolume A a b)"
    unfolding MetricsServerEnsureCertificatesVolume_def ensureCertificatesVolumeForDeployment_def
    by (rule edit) (use keepsNames_ensureMount keepsNames_ensureVolume in \<open>auto simp: ensureCertificates_def keepsNames_def Let_def\<close>)
  show "distinct (map vol_name vs) \<Longrightarrow> keepsWell A (ReplaceDeploymentVolumes A vs)"
    unfolding ReplaceDeploymentVolumes_def by (intro edit naming)
  show "keepsWell A (ReplaceDeploymentVolumeMounts A ms)" "keepsWell A (ReplaceContainerVolumeMounts A ms n)"
    unfolding ReplaceDeploymentVolumeMounts_def ReplaceContainerVolumeMounts_def by (intro edit naming)+
  show "mapOrder ordV \<Longrightarrow> mapOrder ordM \<Longrightarrow> distinct cms \<Longrightarrow> keepsWell A (ensureCACertVolumesAndMounts A ordV ordM cms n)"
    unfolding ensureCACertVolumesAndMounts_def by (intro edit naming)
qed

lemma well_meta [well_intros]:
  assumes "api_ok A"
  shows "keepsWell A (EnsureCABundleInjectionForValidatingWebhookConfiguration A a b)"
    "keepsWell A (EnsureCABundleInjectionForAPIService A a b)" "keepsWell A (EnsureCertInjectionForService A n a b)"
    "keepsWell A (ReplaceNamespace A n ns)"
proof -
  show "keepsWell A (EnsureCABundleInjectionForValidatingWebhookConfiguration A a b)"
    "keepsWell A (EnsureCABundleInjectionForAPIService A a b)"
    unfolding EnsureCABundleInjectionForValidatingWebhookConfiguration_def EnsureCABundleInjectionForAPIService_def
    by (rule keepsWell_otherKind[OF api_ok_parts(7)[OF assms]] keepsWell_otherKind[OF api_ok_parts(8)[OF assms]]; simp)+
  have "\<forall>a u. sameIdentity A u (SetAnnotations A a u)" using assms by (simp add: api_ok_def)
  then show "keepsWell A (EnsureCertInjectionForService A n a b)"
    by (auto simp: keepsWell_def EnsureCertInjectionForService_def fineObject_def sameIdentity_def)
  show "keepsWell A (ReplaceNamespace A n ns)"
    using api_ok_parts(5)[OF assms] by (auto simp: keepsWell_def ReplaceNamespace_def fineObject_def codec_ok_def bindE_Ok)
qed

end
