(* ===== verification/Reconcile.thy ===== *)
theory Reconcile
  imports Installing
begin

text \<open>
  \<open>Reconcile\<close> of the KedaController with its finalizer: \<^verbatim>\<open>kedacontroller_controller.go\<close> and
  \<^verbatim>\<open>kedacontroller_finalizer.go\<close>.
\<close>

section \<open>Finalizer\<close>

definition kedaControllerFinalizer :: string where "kedaControllerFinalizer = ''finalizer.kedacontroller.keda.sh''"

definition deleteOperand ::
  "('u, 'w) client \<Rightarrow> 'u list \<Rightarrow> string \<Rightarrow> 'u transformer list \<Rightarrow> ('u, 'w, unit) io" where
  "deleteOperand C manifest ns extra = bindIO (renderForDelete C manifest ns extra) (deleteCall C)"

definition finalizeKedaController :: "('u, 'w) client \<Rightarrow> 'u reconciler \<Rightarrow> KedaController \<Rightarrow> ('u, 'w, unit) io" where
  "finalizeKedaController C R k =
     thenIO (deleteHTTPAddon C R (namespaceOf k))
    (thenIO (deleteGCPCredentialsSecret C k)
    (thenIO (deleteOperand C (op_general (rc_operands R)) (namespaceOf k) [])
    (thenIO (deleteOperand C (op_controller (rc_operands R)) (namespaceOf k) [])
            (deleteOperand C (op_metrics (rc_operands R)) (namespaceOf k)
               [ReplaceNamespace (kube C) ''keda-auth-reader'' ''kube-system'']))))"

definition addFinalizer :: "('u, 'w) client \<Rightarrow> KedaController \<Rightarrow> ('u, 'w, unit) io" where
  "addFinalizer C k =
     (let k' = addFinalizerTo C k kedaControllerFinalizer in calling (PatchController k') (patchKedaController C k'))"

section \<open>Reconcile\<close>

text \<open>
  The error block that every installation step has: mark the status, patch it, and return the
  error, together with the one of the patch if that failed too.
\<close>

definition failInstall :: "('u, 'w) client \<Rightarrow> KedaController \<Rightarrow> string \<Rightarrow> error \<Rightarrow> ('u, 'w, unit) io" where
  "failInstall C k reason err =
     thenIO (modifyStatus (MarkInstallFailed reason))
       (bindIO getStatus (\<lambda>status.
        bindIO (tryIO (UpdateKedaControllerStatus C k status)) (\<lambda>r. case r of
           Inl statusErr \<Rightarrow> failIO (GotErrorAndAnother err statusErr)
         | Inr _ \<Rightarrow> failIO err)))"

definition installStep ::
  "('u, 'w) client \<Rightarrow> KedaController \<Rightarrow> string \<Rightarrow> ('u, 'w, unit) io \<Rightarrow> ('u, 'w, unit) io \<Rightarrow> ('u, 'w, unit) io" where
  "installStep C k reason m rest =
     bindIO (tryIO m) (\<lambda>r. case r of Inl e \<Rightarrow> failInstall C k reason e | Inr _ \<Rightarrow> rest)"

definition installSucceeded :: "('u, 'w) client \<Rightarrow> 'u reconciler \<Rightarrow> KedaController \<Rightarrow> ('u, 'w, unit) io" where
  "installSucceeded C R k =
     thenIO (modifyStatus (\<lambda>st. MarkInstallSucceeded
         (''KEDA v'' @ rc_version R @ '' is installed in namespace '' @ [CHR 0x27] @ rc_namespace R @ [CHR 0x27])
         (st\<lparr>kcs_version := rc_version R\<rparr>)))
       (bindIO getStatus (UpdateKedaControllerStatus C k))"

definition installAll :: "('u, 'w) client \<Rightarrow> 'u reconciler \<Rightarrow> KedaController \<Rightarrow> ('u, 'w, unit) io" where
  "installAll C R k =
     thenIO (modifyStatus (\<lambda>_. k_status k))
       (case gcpWorkloadIdentityConfig (getenv C) k of
          Inl e \<Rightarrow> failInstall C k (''Invalid GCP Workload Identity configuration '' @ errorText C e) e
        | Inr gcpConfig \<Rightarrow>
            installStep C k ''Not able to create ServiceAccount'' (installGeneralResources C R k)
           (installStep C k ''Not able to install KEDA Controller'' (installController C R k gcpConfig)
           (installStep C k ''Not able to install KEDA Metrics Server'' (installMetricsServer C R k)
           (installStep C k ''Not able to install KEDA Admission Webhooks'' (installAdmissionWebhooks C R k)
           (installStep C k ''Not able to install monitoring resources'' (installMonitoring C R k)
           (installStep C k ''Not able to install HTTP Add-on'' (installHTTPAddon C R k)
           (installStep C k ''Not able to ensure Prometheus monitoring RBAC'' (ensurePrometheusMonitoringRBAC C k)
           (installSucceeded C R k))))))))"

definition ignoredMessage :: "string \<Rightarrow> string" where
  "ignoredMessage ns =
     ''The KedaController resource needs to be created in namespace '' @ ns @ '' with name '' @
     kedaControllerResourceName @ '', otherwise it will be ignored''"

definition Reconcile :: "('u, 'w) client \<Rightarrow> 'u reconciler \<Rightarrow> objectKey \<Rightarrow> ('u, 'w, unit) io" where
  "Reconcile C R req =
     bindIO (tryIO (reading (getKedaController C req))) (\<lambda>r. case r of
        Inl (NotFound _) \<Rightarrow> returnIO ()
      | Inl e \<Rightarrow> failIO e
      | Inr k \<Rightarrow>
          if \<not> isInteresting req (rc_namespace R) then
            UpdateKedaControllerStatus C k (MarkIgnored (ignoredMessage (rc_namespace R)) (k_status k))
          else if k_deletionTimestamp k \<noteq> None then
            whenIO (containsFinalizer C k kedaControllerFinalizer)
              (thenIO (finalizeKedaController C R k)
                (let k' = removeFinalizerFrom C k kedaControllerFinalizer
                 in calling (PatchController k') (patchKedaController C k')))
          else if \<not> containsFinalizer C k kedaControllerFinalizer then addFinalizer C k
          else installAll C R k)"

section \<open>The outcome is reported\<close>

text \<open>
  \<open>reports v m\<close>: a run of \<open>m\<close> makes installation calls and then exactly one call on the status, the last
  one. Success means that version \<open>v\<close> is reported as installed, that the report was accepted and
  that every call before it succeeded; an error means that the report says failed or was
  not accepted.
\<close>

definition reports :: "string \<Rightarrow> ('u, 'w, unit) io \<Rightarrow> bool" where
  "reports v m \<longleftrightarrow> (\<forall>s r t. m s = (r, t) \<longrightarrow>
     (\<exists>cs st accepted. r_calls t = r_calls s @ cs @ [(PatchStatus st, accepted)]
        \<and> list_all (\<lambda>c. installCall (fst c)) cs
        \<and> (case r of
             Inl _ \<Rightarrow> kcs_phase st = PhaseFailed \<or> \<not> accepted
           | Inr _ \<Rightarrow> accepted \<and> kcs_phase st = PhaseInstallSucceeded \<and> kcs_version st = v \<and> list_all harmless cs)))"

lemma reportsD:
  assumes "reports v m" "m s = (r, t)"
  obtains cs st accepted where "r_calls t = r_calls s @ cs @ [(PatchStatus st, accepted)]"
    "list_all (\<lambda>c. installCall (fst c)) cs"
    "case r of Inl _ \<Rightarrow> kcs_phase st = PhaseFailed \<or> \<not> accepted
     | Inr _ \<Rightarrow> accepted \<and> kcs_phase st = PhaseInstallSucceeded \<and> kcs_version st = v \<and> list_all harmless cs"
  using assms unfolding reports_def by blast

lemma failInstall_run:
  assumes "failInstall C k reason err s = (r, t)"
  shows "\<exists>e accepted. r = Inl e \<and> r_calls t = r_calls s @ [(PatchStatus (MarkInstallFailed reason (r_status s)), accepted)]"
  using assms
  by (auto simp: failInstall_def thenIO_def bindIO_def tryIO_def UpdateKedaControllerStatus_def calling_def
      split: prod.splits sum.splits)

lemma fails_failInstall: "fails (failInstall C k reason err)"
  unfolding fails_def using failInstall_run by (metis surj_pair)

lemma reports_failInstall: "reports v (failInstall C k reason err)"
  unfolding reports_def using failInstall_run [of C k reason err] by (fastforce simp: frame_simps)

lemma reports_installSucceeded: "reports (rc_version R) (installSucceeded C R k)"
  by (auto simp: reports_def installSucceeded_def thenIO_def bindIO_def UpdateKedaControllerStatus_def calling_def
      MarkInstallSucceeded_def split: prod.splits sum.splits)

lemma reports_installStep:
  assumes "emits installCall m" "settles m" "reports v rest"
  shows "reports v (installStep C k reason m rest)"
  unfolding reports_def
proof (intro allI impI)
  fix s r t
  assume run: "installStep C k reason m rest s = (r, t)"
  obtain x u where m: "m s = (x, u)" by (cases "m s")
  obtain cs where cs: "r_calls u = r_calls s @ cs" "list_all (\<lambda>c. installCall (fst c)) cs"
    using emitsD [OF assms(1) m] by blast
  have ok: "list_all harmless cs" if "x = Inr y" for y
    using settlesD [OF assms(2), of s y u] m cs that by auto
  have step: "(case x of Inl e \<Rightarrow> failInstall C k reason e | Inr _ \<Rightarrow> rest) u = (r, t)"
    using run m by (simp add: installStep_def bindIO_def tryIO_def)
  have "reports v (case x of Inl e \<Rightarrow> failInstall C k reason e | Inr _ \<Rightarrow> rest)"
    using assms(3) reports_failInstall by (cases x) simp_all
  from reportsD [OF this step] obtain ds st accepted where
    ds: "r_calls t = r_calls u @ ds @ [(PatchStatus st, accepted)]" "list_all (\<lambda>c. installCall (fst c)) ds"
      "case r of Inl _ \<Rightarrow> kcs_phase st = PhaseFailed \<or> \<not> accepted
       | Inr _ \<Rightarrow> accepted \<and> kcs_phase st = PhaseInstallSucceeded \<and> kcs_version st = v \<and> list_all harmless ds" .
  have "x = Inr () \<or> (\<exists>e. r = Inl e)"
    using step fails_failInstall [of C k reason] unfolding fails_def by (cases x) (simp_all, metis prod.inject)
  then have "case r of Inl _ \<Rightarrow> kcs_phase st = PhaseFailed \<or> \<not> accepted
      | Inr _ \<Rightarrow> accepted \<and> kcs_phase st = PhaseInstallSucceeded \<and> kcs_version st = v \<and> list_all harmless (cs @ ds)"
    using ds(3) ok by (auto split: sum.splits)
  then show "\<exists>cs st accepted. r_calls t = r_calls s @ cs @ [(PatchStatus st, accepted)]
        \<and> list_all (\<lambda>c. installCall (fst c)) cs
        \<and> (case r of Inl _ \<Rightarrow> kcs_phase st = PhaseFailed \<or> \<not> accepted
           | Inr _ \<Rightarrow> accepted \<and> kcs_phase st = PhaseInstallSucceeded \<and> kcs_version st = v \<and> list_all harmless cs)"
    using cs ds(1,2) by (intro exI [of _ "cs @ ds"] exI [of _ st] exI [of _ accepted]) simp
qed

lemma reports_installAll: "reports (rc_version R) (installAll C R k)"
proof -
  have first: "reports v (thenIO (modifyStatus f) m)" if "reports v m" for v f and m :: "('a, 'b, unit) io"
    using that unfolding reports_def thenIO_def bindIO_def by (force simp: frame_simps)
  show ?thesis
    unfolding installAll_def
    by (rule first, cases "gcpWorkloadIdentityConfig (getenv C) k")
      (auto intro!: reports_installStep reports_installSucceeded reports_failInstall emits_installs settles_installs
        settles_prometheus)
qed

section \<open>What a reconcile does\<close>

lemma Reconcile_get:
  "Reconcile C R req s =
     (case getKedaController C req (r_cluster s) of (g, w) \<Rightarrow>
        (case g of
           Inl e \<Rightarrow> (case e of NotFound _ \<Rightarrow> (Inr (), s\<lparr>r_cluster := w\<rparr>) | _ \<Rightarrow> (Inl e, s\<lparr>r_cluster := w\<rparr>))
         | Inr k \<Rightarrow>
             (if \<not> isInteresting req (rc_namespace R) then
                UpdateKedaControllerStatus C k (MarkIgnored (ignoredMessage (rc_namespace R)) (k_status k))
              else if k_deletionTimestamp k \<noteq> None then
                whenIO (containsFinalizer C k kedaControllerFinalizer)
                  (thenIO (finalizeKedaController C R k)
                    (let k' = removeFinalizerFrom C k kedaControllerFinalizer
                     in calling (PatchController k') (patchKedaController C k')))
              else if \<not> containsFinalizer C k kedaControllerFinalizer then addFinalizer C k
              else installAll C R k) (s\<lparr>r_cluster := w\<rparr>)))"
  by (cases "getKedaController C req (r_cluster s)")
    (auto simp: Reconcile_def bindIO_def tryIO_def reading_def split: sum.split error.split)

lemma demo_interesting: "isInteresting (''keda'', ''keda'') (rc_namespace demoReconciler)"
  by (simp add: isInteresting_def kedaControllerResourceName_def demoReconciler_def)

lemma demoController_finalizer:
  "containsFinalizer demoClient (demoController [kedaControllerFinalizer] d) kedaControllerFinalizer"
  "\<not> containsFinalizer demoClient (demoController [] d) kedaControllerFinalizer"
  "k_deletionTimestamp (demoController f d) = d"
  by (simp_all add: demoClient_def demoController_def)





section \<open>Finalizing\<close>

text \<open>
  What the finalizer removes: the manifests, each with the transformers that point it at the
  installed objects.
\<close>

definition removals :: "'u api \<Rightarrow> 'u reconciler \<Rightarrow> string \<Rightarrow> ('u transformer list \<times> 'u list) list" where
  "removals A R ns =
     [([ReplaceAllNamespaces A ns], ad_scaler (rc_addons R)), ([ReplaceAllNamespaces A ns], ad_interceptor (rc_addons R)),
      ([ReplaceAllNamespaces A ns], ad_operator (rc_addons R)), ([ReplaceAllNamespaces A ns], op_general (rc_operands R)),
      ([ReplaceAllNamespaces A ns], op_controller (rc_operands R)),
      ([ReplaceAllNamespaces A ns, ReplaceNamespace A ''keda-auth-reader'' ''kube-system''], op_metrics (rc_operands R))]"

definition isDeletion :: "'u call \<Rightarrow> bool" where
  "isDeletion c = (case c of DeleteManifest _ \<Rightarrow> True | DeleteSecret _ \<Rightarrow> True | _ \<Rightarrow> False)"

definition deletedManifests :: "('u call \<times> bool) list \<Rightarrow> 'u list list" where
  "deletedManifests cs = List.map_filter (\<lambda>c. case c of (DeleteManifest us, True) \<Rightarrow> Some us | _ \<Rightarrow> None) cs"

lemma deletedManifests_simps [simp]:
  "deletedManifests [] = []" "deletedManifests (cs @ ds) = deletedManifests cs @ deletedManifests ds"
  "deletedManifests [(DeleteManifest us, True)] = [us]"
  by (simp_all add: deletedManifests_def List.map_filter_def)

text \<open>\<open>deletes A plan m\<close>: when \<open>m\<close> succeeds it has deleted what the plan renders to, in that order.\<close>

definition deletes :: "'u api \<Rightarrow> ('u transformer list \<times> 'u list) list \<Rightarrow> ('u, 'w, unit) io \<Rightarrow> bool" where
  "deletes A plan m \<longleftrightarrow> (\<forall>s t. m s = (Inr (), t) \<longrightarrow> (\<exists>cs. r_calls t = r_calls s @ cs \<and> list_all harmless cs
     \<and> list_all2 (\<lambda>(ts, us) rendered. mfTransform A ts us = Inr rendered) plan (deletedManifests cs)))"

lemma deletes_then:
  assumes "deletes A p m" "deletes A q n"
  shows "deletes A (p @ q) (thenIO m n)"
  unfolding deletes_def
proof (intro allI impI)
  fix s t
  assume "thenIO m n s = (Inr (), t)"
  then obtain u where "m s = (Inr (), u)" "n u = (Inr (), t)" by (auto simp: thenIO_Ok)
  then obtain cs ds where "r_calls u = r_calls s @ cs" "r_calls t = r_calls u @ ds" "list_all harmless cs" "list_all harmless ds"
    "list_all2 (\<lambda>(ts, us) rendered. mfTransform A ts us = Inr rendered) p (deletedManifests cs)"
    "list_all2 (\<lambda>(ts, us) rendered. mfTransform A ts us = Inr rendered) q (deletedManifests ds)"
    using assms unfolding deletes_def by metis
  then show "\<exists>cs. r_calls t = r_calls s @ cs \<and> list_all harmless cs
     \<and> list_all2 (\<lambda>(ts, us) rendered. mfTransform A ts us = Inr rendered) (p @ q) (deletedManifests cs)"
    by (intro exI [of _ "cs @ ds"]) (auto intro: list_all2_appendI)
qed

lemma deletes_rendered:
  "deletes (kube C) [(ReplaceAllNamespaces (kube C) ns # extra, us)] (bindIO (renderForDelete C us ns extra) (deleteCall C))"
  unfolding deletes_def
proof (intro allI impI)
  fix s t
  assume "bindIO (renderForDelete C us ns extra) (deleteCall C) s = (Inr (), t)"
  then obtain m where "mfTransform (kube C) (ReplaceAllNamespaces (kube C) ns # extra) us = Inr m"
    "calling (DeleteManifest m) (deleteManifest C m) s = (Inr (), t)"
    by (auto simp: bindIO_Ok renderForDelete_def transformManifest_def deleteCall_def)
  then show "\<exists>cs. r_calls t = r_calls s @ cs \<and> list_all harmless cs
     \<and> list_all2 (\<lambda>(ts, us) rendered. mfTransform (kube C) ts us = Inr rendered)
         [(ReplaceAllNamespaces (kube C) ns # extra, us)] (deletedManifests cs)"
    by (intro exI [of _ "[(DeleteManifest m, True)]"]) (auto dest: calling_Ok)
qed

lemma deletes_secret: "deletes A [] (deleteGCPCredentialsSecret C k)"
  unfolding deletes_def
proof (intro allI impI)
  fix s t
  assume run: "deleteGCPCredentialsSecret C k s = (Inr (), t)"
  obtain cs where cs: "r_calls t = r_calls s @ cs" "list_all (\<lambda>c. case fst c of DeleteSecret _ \<Rightarrow> True | _ \<Rightarrow> False) cs"
    using emitsD [OF emits_deleteGCPCredentialsSecret run, of "\<lambda>c. case c of DeleteSecret _ \<Rightarrow> True | _ \<Rightarrow> False"] by auto
  have "deletedManifests cs = []" using cs(2)
    by (induction cs) (auto simp: deletedManifests_def List.map_filter_def split: call.splits)
  moreover have "list_all harmless cs" using settlesD [OF settles_deleteGCPCredentialsSecret run] cs(1) by simp
  ultimately show "\<exists>cs. r_calls t = r_calls s @ cs \<and> list_all harmless cs
     \<and> list_all2 (\<lambda>(ts, us) rendered. mfTransform A ts us = Inr rendered) [] (deletedManifests cs)"
    using cs(1) by simp
qed

lemma finalize_deletes:
  assumes "rc_addonsLoaded R"
  shows "deletes (kube C) (removals (kube C) R (namespaceOf k)) (finalizeKedaController C R k)"
proof -
  let ?d = "\<lambda>us. [([ReplaceAllNamespaces (kube C) (namespaceOf k)], us)]"
  have "removals (kube C) R (namespaceOf k) =
      (?d (ad_scaler (rc_addons R)) @ ?d (ad_interceptor (rc_addons R)) @ ?d (ad_operator (rc_addons R))) @ [] @
      ?d (op_general (rc_operands R)) @ ?d (op_controller (rc_operands R)) @
      [([ReplaceAllNamespaces (kube C) (namespaceOf k), ReplaceNamespace (kube C) ''keda-auth-reader'' ''kube-system''],
        op_metrics (rc_operands R))]"
    by (simp add: removals_def)
  then show ?thesis
    unfolding finalizeKedaController_def deleteHTTPAddon_def deleteHTTPAddonManifest_def deleteOperand_def
    using assms by (simp only: not_True_eq_False simp_thms if_False) (intro deletes_then deletes_rendered deletes_secret)
qed

lemma emits_finalize: "emits isDeletion (finalizeKedaController C R k)"
  unfolding finalizeKedaController_def deleteOperand_def
  by (auto intro!: emits_intros simp: isDeletion_def)



end
