(* ===== verification/Removal.thy ===== *)
theory Removal
  imports Identity Reconcile
begin

text \<open>
  What is installed is found again when the KedaController is deleted: every object that an
  installation applies has the kind, name and namespace of one that the finalizer deletes.
\<close>

section \<open>Rendered manifests\<close>

lemma yields_listIf [yields_intros]: "yields (list_all p) m \<Longrightarrow> yields (list_all p) (listIf b m)"
  by (simp add: listIf_def yields_def)

lemma yields_rendered: "yields (\<lambda>m. mfTransform (kube C) ts us = Inr m) (transformManifest C ts us)"
  unfolding transformManifest_def by (rule yields_liftE)

lemmas emits_rendered = emits_bind_yields [OF yields_rendered emits_pieces(1)]

section \<open>The transformers that an installation computes\<close>

lemma keepers_EnvVar:
  assumes "api_ok A"
  shows "list_all (keepsIdentity A) (case p of None \<Rightarrow> [] | Some (v, l) \<Rightarrow>
    [EnsureEnvVarInAllContainers A a v, EnsureEnvVarInAllContainers A b l])"
  using keeps_pods(3) [OF assms] by (simp split: option.split)

lemma yields_tls:
  assumes "api_ok (kube C)"
  shows "yields (list_all (keepsIdentity (kube C))) (kedaTLSEnvVarTransforms C)"
    "yields (list_all (keepsIdentity (kube C))) (httpAddonTLSEnvVarTransforms C)"
  unfolding kedaTLSEnvVarTransforms_def httpAddonTLSEnvVarTransforms_def
  by (intro yields_after yields_return keepers_EnvVar assms)+

lemma yields_gcp:
  assumes "api_ok (kube C)"
  shows "yields (list_all (keepsIdentity (kube C))) (gcpWorkloadIdentityTransforms C k cfg)"
  unfolding gcpWorkloadIdentityTransforms_def Let_def using keepers_spec(7) [OF assms]
  by (auto intro!: yields_intros split: option.split)

lemma yields_audit:
  assumes "api_ok (kube C)"
  shows "yields (list_all (keepsIdentity (kube C))) (auditTransforms C k)"
  unfolding auditTransforms_def Let_def
  using keeps_volumes(4,5) [OF assms] keeps_args(13) [OF assms]
  by (auto intro!: yields_intros split: option.split)

lemma yields_certs:
  assumes "api_ok (kube C)"
  shows "yields (list_all (keepsIdentity (kube C))) (metricsCertTransforms C k)"
proof -
  have paths: "yields (list_all (keepsIdentity (kube C))) (liftE (EnsurePathsToCertsInDeployment (kube C) vs ps))" for vs ps
    using keeps_replaceContainerArg(1) [OF assms]
    by (auto intro!: yields_liftE simp: EnsurePathsToCertsInDeployment_def list_all_iff split: if_splits)
  have certs: "yields (list_all (keepsIdentity (kube C))) (bindIO (liftE (EnsurePathsToCertsInDeployment (kube C) vs ps))
      (\<lambda>paths. returnIO (ts @ paths)))" if "list_all (keepsIdentity (kube C)) ts" for vs ps ts
    using that by (intro yields_bind [OF paths] yields_return) simp
  have "list_all (keepsIdentity (kube C))
      [EnsureCABundleInjectionForAPIService (kube C) injectCABundleAnnotation injectCABundleAnnotationValue,
       EnsureCertInjectionForService (kube C) ''keda-metrics-apiserver''
         ''service.beta.openshift.io/serving-cert-secret-name'' ''keda-metrics-apiserver-certs'',
       MetricsServerEnsureCertificatesVolume (kube C) caBundleConfigMapName ''keda-metrics-apiserver-certs'']"
    using keeps_meta(4,5) [OF assms] keeps_volumes(3) [OF assms] by simp
  note cert = certs [OF this]
  show ?thesis unfolding metricsCertTransforms_def Let_def
    by (rule yields_after, rule yields_if; intro yields_then yields_return) (use cert in simp_all)
qed

section \<open>Applied objects are found when deleting\<close>

text \<open>
  A call is covered by a plan of removals when each object it applies has the identity of an object
  that one entry of the plan renders to.
\<close>

definition covered :: "'u api \<Rightarrow> ('u transformer list \<times> 'u list) list \<Rightarrow> 'u call \<Rightarrow> bool" where
  "covered A plan c =
     (case c of
        ApplyManifest us \<Rightarrow> (\<exists>(ts, base) \<in> set plan. \<forall>ds. mfTransform A ts base = Inr ds \<longrightarrow> ident A ` set us \<subseteq> ident A ` set ds)
      | _ \<Rightarrow> True)"

lemma covered_simps [simp]:
  "covered A plan (DeleteManifest us)" "covered A plan (WriteSecret x)" "covered A plan (DeleteSecret x)"
  "covered A plan (WriteConfigMap y)" "covered A plan (AddRotator rot)"
  by (simp_all add: covered_def)

lemma rendered_covered:
  assumes "api_ok A" "(dts, base) \<in> set plan" "actsAs A (runTransforms dts) f" "actsAs A (runTransforms ts) f"
    "mfTransform A ts base = Inr m" "set us \<subseteq> set m"
  shows "covered A plan (ApplyManifest us)"
proof -
  have "ident A ` set us \<subseteq> ident A ` set ds" if ds: "mfTransform A dts base = Inr ds" for ds
  proof -
    have "map (ident A) m = map (ident A) ds"
      using rendered_idents [OF assms(1,5,4)] rendered_idents [OF assms(1) ds assms(3)] by simp
    then have "ident A ` set m = ident A ` set ds" by (metis list.set_map)
    then show ?thesis using assms(6) by blast
  qed
  then show ?thesis using assms(2) by (auto simp: covered_def)
qed

lemma actsAs_installing:
  assumes "api_ok A" "list_all (keepsIdentity A) ts"
  shows "actsAs A (runTransforms (InjectOwner A owner # ReplaceAllNamespaces A ns # ts)) (intoNamespace ns)"
  using actsAs_install [OF assms] by simp

lemma actsAs_deleting: "api_ok A \<Longrightarrow> actsAs A (runTransforms [ReplaceAllNamespaces A ns]) (intoNamespace ns)"
  using actsAs_cons [OF actsAs_ReplaceAllNamespaces actsAs_nil] by simp

lemma actsAs_general:
  assumes "api_ok A"
  shows "actsAs A (runTransforms (generalTransforms A k openshift)) (intoNamespace (namespaceOf k))"
  using keeps_meta [OF assms]
  by (simp only: generalTransforms_def Let_def append_Cons append_Nil)
    (rule actsAs_installing [OF assms], simp add: RemoveNetworkPolicyPodSelectorFromMetricsServer_def
      RemoveNetworkPolicyPodSelectorFromKedaOperator_def)

lemma actsAs_controller:
  assumes "api_ok (kube C)" "list_all (keepsIdentity (kube C)) tls" "list_all (keepsIdentity (kube C)) gts"
  shows "actsAs (kube C) (runTransforms (controllerTransforms C k openshift removeSeccomp tls gts @ userEnv (kube C) env n))
     (intoNamespace (namespaceOf k))"
  using keeps_meta [OF assms(1)] keeps_volumes [OF assms(1)] keeps_args [OF assms(1)] keeps_pods [OF assms(1)]
    keepers_spec [OF assms(1)] assms(2,3)
  by (simp only: controllerTransforms_def Let_def append_Cons append_Nil)
    (rule actsAs_installing [OF assms(1)], simp add: RemoveSeccompProfileFromKedaOperator_def ReplaceKedaOperatorImage_def)

lemma actsAs_metrics:
  assumes "api_ok (kube C)" "list_all (keepsIdentity (kube C)) tls" "list_all (keepsIdentity (kube C)) certs"
    "list_all (keepsIdentity (kube C)) audit"
  shows "actsAs (kube C) (runTransforms (metricsTransforms C k tls removeSeccomp certs audit @ userEnv (kube C) env n @
       [ReplaceNamespace (kube C) m ns])) (rebind m ns \<circ> intoNamespace (namespaceOf k))"
proof -
  have "actsAs (kube C) (runTransforms (metricsTransforms C k tls removeSeccomp certs audit @ userEnv (kube C) env n))
      (intoNamespace (namespaceOf k))"
    using keeps_pods [OF assms(1)] keepers_spec [OF assms(1)] assms(2-4)
    by (simp only: metricsTransforms_def Let_def append_Cons append_Nil)
      (rule actsAs_installing [OF assms(1)], simp add: RemoveSeccompProfileFromMetricsServer_def ReplaceMetricsServerImage_def)
  from actsAs_append [OF this actsAs_cons [OF actsAs_ReplaceNamespace [OF assms(1)] actsAs_nil]] show ?thesis by simp
qed

lemma actsAs_component:
  assumes "api_ok (kube C)" "list_all (keepsIdentity (kube C)) ts"
  shows "actsAs (kube C) (runTransforms (componentTransforms C k spec n img removeSeccomp @ ts))
     (intoNamespace (namespaceOf k))"
  using keeps_volumes [OF assms(1)] keeps_args [OF assms(1)] keeps_pods [OF assms(1)] keepers_spec [OF assms(1)] assms(2)
  by (simp only: componentTransforms_def httpAddonComponentTransforms_def append_Cons append_Nil append_assoc)
    (rule actsAs_installing [OF assms(1)], simp add: ReplaceContainerImage_def ReplaceContainerResources_def
      split: option.split)

text \<open>Every operand that the finalizer knows about applies only what the finalizer finds.\<close>

abbreviation coveredBy :: "('u, 'w) client \<Rightarrow> 'u reconciler \<Rightarrow> KedaController \<Rightarrow> 'u call \<Rightarrow> bool" where
  "coveredBy C R k \<equiv> covered (kube C) (removals (kube C) R (namespaceOf k))"

lemma removals_simps:
  "([ReplaceAllNamespaces A ns], ad_scaler (rc_addons R)) \<in> set (removals A R ns)"
  "([ReplaceAllNamespaces A ns], ad_interceptor (rc_addons R)) \<in> set (removals A R ns)"
  "([ReplaceAllNamespaces A ns], ad_operator (rc_addons R)) \<in> set (removals A R ns)"
  "([ReplaceAllNamespaces A ns], op_general (rc_operands R)) \<in> set (removals A R ns)"
  "([ReplaceAllNamespaces A ns], op_controller (rc_operands R)) \<in> set (removals A R ns)"
  "([ReplaceAllNamespaces A ns, ReplaceNamespace A ''keda-auth-reader'' ''kube-system''], op_metrics (rc_operands R))
     \<in> set (removals A R ns)"
  by (simp_all add: removals_def)

lemma covered_general:
  assumes "api_ok (kube C)"
  shows "emits (coveredBy C R k) (installGeneralResources C R k)"
  unfolding installGeneralResources_def Let_def
  by (intro emits_bind emits_rendered emits_reads emits_then emits_pieces(2,3) covered_simps
      rendered_covered [OF assms removals_simps(4) actsAs_deleting [OF assms] actsAs_general [OF assms]]) auto

lemma covered_controller:
  assumes "api_ok (kube C)"
  shows "emits (coveredBy C R k) (installController C R k cfg)"
  unfolding installController_def
  by (rule emits_bind [OF emits_reads(6)], rule emits_bind_yields [OF yields_listIf [OF yields_tls(1) [OF assms]]],
      intro emits_intros, rule emits_bind, simp add: emits_intros,
      rule emits_bind_yields [OF yields_gcp [OF assms]], intro emits_intros covered_simps,
      rule emits_rendered, intro emits_intros covered_simps
        rendered_covered [OF assms removals_simps(5) actsAs_deleting [OF assms] actsAs_controller [OF assms]]) auto

lemma covered_metrics:
  assumes "api_ok (kube C)"
  shows "emits (coveredBy C R k) (installMetricsServer C R k)"
proof -
  have del: "actsAs (kube C) (runTransforms [ReplaceAllNamespaces (kube C) ns, ReplaceNamespace (kube C) m n])
      (rebind m n \<circ> intoNamespace ns)" for ns m n
    using actsAs_cons [OF actsAs_ReplaceAllNamespaces actsAs_cons [OF actsAs_ReplaceNamespace actsAs_nil]] assms by simp
  show ?thesis
    unfolding installMetricsServer_def
    by (rule emits_bind_yields [OF yields_listIf [OF yields_tls(1) [OF assms]]], intro emits_intros,
        rule emits_bind [OF emits_pieces(8)], rule emits_bind_yields [OF yields_certs [OF assms]],
        intro emits_intros covered_simps, rule emits_bind_yields [OF yields_audit [OF assms]],
        intro emits_intros covered_simps, rule emits_rendered, intro emits_pieces(2)
          rendered_covered [OF assms removals_simps(6) del actsAs_metrics [OF assms]]) auto
qed

lemma covered_component:
  assumes "api_ok (kube C)" "list_all (keepsIdentity (kube C)) ts"
    "([ReplaceAllNamespaces (kube C) (namespaceOf k)], us) \<in> set (removals (kube C) R (namespaceOf k))"
  shows "emits (coveredBy C R k) (installAddonComponent C name (componentTransforms C k spec n img removeSeccomp @ ts) us)"
proof -
  have tried: "yields (\<lambda>r. r = mfTransform (kube C) xs us) (tryIO (transformManifest C xs us))" for xs
    by (simp add: yields_def tryIO_eq transformManifest_def)
  show ?thesis
    unfolding installAddonComponent_def
    by (rule emits_bind_yields [OF tried], intro emits_intros)
      (auto intro!: emits_intros emits_result rendered_covered [OF assms(1,3) actsAs_deleting [OF assms(1)]
        actsAs_component [OF assms(1,2)]] split: sum.split)
qed

lemma keepers_interceptor:
  assumes "api_ok (kube C)" "list_all (keepsIdentity (kube C)) tls"
  shows "list_all (keepsIdentity (kube C)) (interceptorOpenshiftTransforms C tls)"
  using keeps_meta(5) [OF assms(1)] keeps_volumes [OF assms(1)] keeps_pods [OF assms(1)] assms(2)
  by (simp add: interceptorOpenshiftTransforms_def EnsureCACertsForInterceptorDeployment_def Let_def)

lemma covered_addon:
  assumes "api_ok (kube C)"
  shows "emits (coveredBy C R k) (installHTTPAddon C R k)"
proof -
  note part = covered_component [OF assms, of "[]", simplified]
  have interceptor: "emits (coveredBy C R k) (installAddonComponent C name (componentTransforms C k spec n img removeSeccomp @
      onlyIf openshift (interceptorOpenshiftTransforms C tls)) (ad_interceptor (rc_addons R)))"
    if "list_all (keepsIdentity (kube C)) tls" for name spec n img removeSeccomp openshift tls
    using keepers_interceptor [OF assms that] by (intro covered_component [OF assms _ removals_simps(2)]) simp
  show ?thesis
    unfolding installHTTPAddon_def Let_def
    by (intro emits_if emits_bind_yields [OF yields_listIf [OF yields_tls(2) [OF assms]]] emits_reads emits_bind emits_then
        emits_modifyStatus emits_pieces(4,7,8) emits_addon(4) part removals_simps interceptor covered_simps)
qed

section \<open>The finalizer finds what was installed\<close>

lemma deletedManifests_in: "us \<in> set (deletedManifests cs) \<Longrightarrow> (DeleteManifest us, True) \<in> set cs"
  by (auto simp: deletedManifests_def List.map_filter_def split: call.splits bool.splits)

lemma deletes_entry:
  assumes "deletes A plan m" "m s = (Inr (), t)" "(ts, base) \<in> set plan"
  obtains ds vs where "r_calls t = r_calls s @ ds" "(DeleteManifest vs, True) \<in> set ds" "mfTransform A ts base = Inr vs"
proof -
  obtain ds where ds: "r_calls t = r_calls s @ ds"
    "list_all2 (\<lambda>(ts, us) rendered. mfTransform A ts us = Inr rendered) plan (deletedManifests ds)"
    using assms(1,2) unfolding deletes_def by blast
  obtain i where i: "i < length plan" "plan ! i = (ts, base)" using assms(3) by (auto simp: in_set_conv_nth)
  have "mfTransform A ts base = Inr (deletedManifests ds ! i)" using list_all2_nthD [OF ds(2) i(1)] i(2) by simp
  moreover have "deletedManifests ds ! i \<in> set (deletedManifests ds)"
    using i(1) list_all2_lengthD [OF ds(2)] by simp
  ultimately show ?thesis using that [OF ds(1) deletedManifests_in] by blast
qed

lemma covered_removed:
  assumes ok: "api_ok (kube C)" and loaded: "rc_addonsLoaded R" and ns: "namespaceOf k' = namespaceOf k"
    and fin: "finalizeKedaController C R k' s' = (Inr (), t')"
    and covers: "emits (coveredBy C R k) m" and run: "m s = (r, t)" "r_calls t = r_calls s @ cs"
    and u: "(ApplyManifest us, accepted) \<in> set cs" "u \<in> set us"
  shows "\<exists>ds vs v. r_calls t' = r_calls s' @ ds \<and> (DeleteManifest vs, True) \<in> set ds \<and> v \<in> set vs
     \<and> ident (kube C) v = ident (kube C) u"
proof -
  have "coveredBy C R k (ApplyManifest us)"
    using emitsD [OF covers run(1)] run(2) u(1) by (fastforce simp: list_all_iff)
  then obtain ts base where plan: "(ts, base) \<in> set (removals (kube C) R (namespaceOf k))"
    and found: "\<And>ds. mfTransform (kube C) ts base = Inr ds \<Longrightarrow> ident (kube C) ` set us \<subseteq> ident (kube C) ` set ds"
    by (auto simp: covered_def)
  from deletes_entry [OF finalize_deletes [OF loaded] fin, unfolded ns, OF plan] obtain ds vs where
    "r_calls t' = r_calls s' @ ds" "(DeleteManifest vs, True) \<in> set ds" "mfTransform (kube C) ts base = Inr vs" .
  moreover have "ident (kube C) u \<in> ident (kube C) ` set vs" using found [OF calculation(3)] u(2) by blast
  ultimately show ?thesis by (metis imageE)
qed

text \<open>
  C3. Nothing that the operator installs for the general resources, the operator, the metrics server or the
  HTTP add-on is left behind: whatever object one of these installations applied, even one that
  failed later, a finalizer that runs to its end has deleted an object of the same kind, name and
  namespace. The spec may have changed in between: only the namespace of the KedaController matters.
\<close>

theorem finalizer_finds_installed:
  assumes "api_ok (kube C)" and "rc_addonsLoaded R"
    and "m \<in> {installGeneralResources C R k, installController C R k cfg, installMetricsServer C R k, installHTTPAddon C R k}"
    and "m s = (r, t)" and "r_calls t = r_calls s @ cs" and "(ApplyManifest us, accepted) \<in> set cs" and "u \<in> set us"
    and "namespaceOf k' = namespaceOf k" and "finalizeKedaController C R k' s' = (Inr (), t')"
  shows "\<exists>ds vs v. r_calls t' = r_calls s' @ ds \<and> (DeleteManifest vs, True) \<in> set ds \<and> v \<in> set vs
     \<and> ident (kube C) v = ident (kube C) u"
proof -
  have "emits (coveredBy C R k) m"
    using assms(3) covered_general [OF assms(1)] covered_controller [OF assms(1)] covered_metrics [OF assms(1)]
      covered_addon [OF assms(1)] by blast
  from covered_removed [OF assms(1,2,8,9) this assms(4-7)] show ?thesis .
qed

lemma demoApi_ok: "api_ok demoApi"
  using demoApi_accessors demoApi_mf_ok demoApi_codecs
  by (simp add: api_ok_def annotating_ok_def sameIdentity_def) (simp add: demoApi_def)

lemma mapE_total: "(\<And>u. \<exists>v. f u = Inr v) \<Longrightarrow> \<exists>m. mapE f us = Inr m"
proof (induction us)
  case (Cons u us)
  then obtain v m where "f u = Inr v" "mapE f us = Inr m" by blast
  then show ?case by simp
qed simp

lemma demo_finalized:
  "\<exists>t. finalizeKedaController demoClient demoReconciler (demoController [] None) (demoState (demoController [] None)) = (Inr (), t)"
proof -
  have kube: "kube demoClient = demoApi" by (simp add: demoClient_def)
  have del: "deleteCall demoClient us s = (Inr (), s\<lparr>r_calls := r_calls s @ [(DeleteManifest us, True)]\<rparr>)" for us s
    by (simp add: deleteCall_def calling_def demoClient_def succeed_def)
  have "\<exists>m. mfTransform demoApi [ReplaceAllNamespaces demoApi ns] us = Inr m" for ns us
  proof -
    have "\<exists>m. mapE (runTransforms [ReplaceAllNamespaces demoApi ns]) us = Inr m"
      by (rule mapE_total, rule total_run) (simp add: demo_total)
    then show ?thesis using demoApi_mf_ok by (simp add: mf_ok_def)
  qed
  then obtain rend where rend: "\<And>ns us. mfTransform demoApi [ReplaceAllNamespaces demoApi ns] us = Inr (rend ns us)" by metis
  have empty: "mfTransform demoApi ts [] = Inr []" for ts using demoApi_mf_ok by (simp add: mf_ok_def)
  have metrics: "op_metrics (rc_operands demoReconciler) = []" by (simp add: demoReconciler_def)
  have secret: "deleteGCPCredentialsSecret demoClient k s = (Inr (), s)" if "dc_secret (r_cluster s) = None" for k s
    using that by (simp add: deleteGCPCredentialsSecret_def bindIO_def tryIO_def reading_def demoClient_def)
  show ?thesis
    by (simp add: finalizeKedaController_def deleteHTTPAddon_def deleteHTTPAddonManifest_def deleteOperand_def
        renderForDelete_def transformManifest_def thenIO_def bindIO_def rend del kube empty metrics secret
        demoState_def demoRun_def)
qed

theorem finalizer_finds_installed_witness:
  "\<exists>t t' us u ds vs v. installController demoClient demoReconciler (demoController [] None) (Some demoGcpConfig)
       (demoState (demoController [] None)) = (Inr (), t)
     \<and> (ApplyManifest us, True) \<in> set (r_calls t) \<and> u \<in> set us
     \<and> finalizeKedaController demoClient demoReconciler (demoController [] None) (demoState (demoController [] None)) = (Inr (), t')
     \<and> r_calls t' = ds \<and> (DeleteManifest vs, True) \<in> set ds \<and> v \<in> set vs \<and> ident demoApi v = ident demoApi u"
proof -
  let ?k = "demoController [] None"
  have kube: "kube demoClient = demoApi" by (simp add: demoClient_def)
  obtain t where t: "installController demoClient demoReconciler ?k (Some demoGcpConfig) (demoState ?k) = (Inr (), t)"
    using demo_controller_installed by blast
  obtain t' where t': "finalizeKedaController demoClient demoReconciler ?k (demoState ?k) = (Inr (), t')"
    using demo_finalized by blast
  from controller_applied [OF t] obtain openshift removeSeccomp tls gts us before after where
    us: "renderController demoClient demoReconciler ?k openshift removeSeccomp tls gts = Inr us"
      "r_calls t = before @ (ApplyManifest us, True) # after"
    by (metis append_Nil demoState_get(2))
  obtain u where u: "u \<in> set us"
    using us(1) demoApi_mf_ok by (auto simp: renderController_def kube mf_ok_def demoReconciler_def bindE_Ok)
  have ok: "api_ok (kube demoClient)" "rc_addonsLoaded demoReconciler" "(ApplyManifest us, True) \<in> set (r_calls t)"
    using demoApi_ok us(2) by (simp_all add: kube demoReconciler_def)
  have found: "\<exists>ds vs v. r_calls t' = r_calls (demoState ?k) @ ds \<and> (DeleteManifest vs, True) \<in> set ds \<and> v \<in> set vs
     \<and> ident (kube demoClient) v = ident (kube demoClient) u"
    by (rule finalizer_finds_installed [where C = demoClient and R = demoReconciler and k = ?k and k' = ?k
        and m = "installController demoClient demoReconciler ?k (Some demoGcpConfig)" and cfg = "Some demoGcpConfig"
        and s = "demoState ?k" and r = "Inr ()" and cs = "r_calls t" and us = us and accepted = True])
      (use ok t t' u in \<open>simp_all add: demoState_get\<close>)
  show ?thesis using found t t' u ok(3) by (simp add: kube demoState_get) blast
qed

end
