(* ===== verification/WellNamed.thy ===== *)
theory WellNamed
  imports Wellformed Removal
begin

text \<open>
  Every Deployment that an installation applies is well named. The lists of transformers keep names
  distinct, whatever the cluster answers; so the objects applied are fine when those shipped with the operator
  are, and the spec names nothing twice.
\<close>

section \<open>The lists of transformers\<close>

lemma well_placement: "api_ok A \<Longrightarrow> list_all (keepsWell A) (placementTransforms A g)"
  using well_pods [of A] by (simp add: placementTransforms_def)

definition volumesOnce :: "GenericDeploymentSpec \<Rightarrow> bool" where
  "volumesOnce g \<longleftrightarrow> (\<forall>vs. gd_volumes g = Some vs \<longrightarrow> distinct (map vol_name vs))"

lemma well_userVolumes: "api_ok A \<Longrightarrow> volumesOnce g \<Longrightarrow> list_all (keepsWell A) (volumeTransforms A g)"
  using well_volumes [of A] by (auto simp: volumeTransforms_def volumesOnce_def split: option.split)

lemma well_userEnv: "api_ok A \<Longrightarrow> list_all (keepsWell A) (userEnv A env n)"
  using well_pods [of A] by (simp add: userEnv_def)

lemma well_certSecret: "api_ok A \<Longrightarrow> keepsWell A (EnsureCertSecretVolume A n secret)"
proof -
  have "keepsNames (ensureCertSecret n secret)"
    unfolding ensureCertSecret_def [abs_def] Let_def
    by (rule keepsNames_comp [OF keepsNames_updContainer keepsNames_volumes])
      (simp_all add: wellContainer_def upsert_first_distinct)
  then show "api_ok A \<Longrightarrow> ?thesis"
    unfolding EnsureCertSecretVolume_def by (intro keepsWell_onDeployment) simp_all
qed

lemma well_caCerts:
  assumes "api_ok A" "mapOrder ordV" "mapOrder ordM" "distinct cms"
  shows "list_all (keepsWell A) (EnsureCACertsForOperatorDeployment A ordV ordM cms)"
    "list_all (keepsWell A) (EnsureCACertsForInterceptorDeployment A ordV ordM cms n)"
  using well_args [OF assms(1)] well_pods [OF assms(1)] well_volumes(9) [OF assms]
  by (simp_all add: EnsureCACertsForOperatorDeployment_def EnsureCACertsForInterceptorDeployment_def)

lemma well_gcp: "api_ok A \<Longrightarrow> list_all (keepsWell A) (DeploymentTransforms A cfg p h)"
proof -
  have "distinct (map vol_name (gcpVolumes cfg))"
    by (simp add: gcpVolumes_def boundSATokenVolumeName_def credentialsVolumeName_def)
  then show "api_ok A \<Longrightarrow> ?thesis"
    using well_volumes [of A] well_pods [of A] by (simp add: DeploymentTransforms_def)
qed

lemma well_specs:
  assumes "api_ok A"
  shows "volumesOnce (ko_generic ko) \<Longrightarrow> list_all (keepsWell A) (kedaOperatorSpecTransforms A ko)"
    "volumesOnce (km_generic km) \<Longrightarrow> list_all (keepsWell A) (metricsSpecTransforms A km)"
    "volumesOnce (kw_generic kw) \<Longrightarrow> list_all (keepsWell A) (webhooksSpecTransforms A kw)"
proof -
  note parts = well_args [OF assms] well_flags [OF assms] well_pods [OF assms] well_placement [OF assms]
    well_userVolumes [OF assms] keepsWell_Ok [of A]
  have args: "list_all (keepsWell A) (map (\<lambda>arg. ReplaceArbitraryArg A arg n) xs)" for n xs
    using parts by (simp add: list_all_iff)
  have audit: "keepsWell A (ReplaceAuditConfig A v n)" "keepsWell A (ReplaceMetricsServerLogLevel A l)" for v n l
    using parts by (simp_all add: ReplaceAuditConfig_def ReplaceMetricsServerLogLevel_def split_def Let_def split: option.split)
  show "volumesOnce (ko_generic ko) \<Longrightarrow> list_all (keepsWell A) (kedaOperatorSpecTransforms A ko)"
    using parts args by (simp add: kedaOperatorSpecTransforms_def ReplaceKedaOperatorResources_def Let_def)
  show "volumesOnce (km_generic km) \<Longrightarrow> list_all (keepsWell A) (metricsSpecTransforms A km)"
    using parts args audit
    by (simp add: metricsSpecTransforms_def auditConfigTransformation_def ReplaceMetricsServerResources_def Let_def)
  show "volumesOnce (kw_generic kw) \<Longrightarrow> list_all (keepsWell A) (webhooksSpecTransforms A kw)"
    using parts args by (simp add: webhooksSpecTransforms_def ReplaceAdmissionWebhooksResources_def Let_def)
qed

section \<open>What the operations compute\<close>

lemma yields_well_tls:
  assumes "api_ok (kube C)"
  shows "yields (list_all (keepsWell (kube C))) (kedaTLSEnvVarTransforms C)"
    "yields (list_all (keepsWell (kube C))) (httpAddonTLSEnvVarTransforms C)"
  unfolding kedaTLSEnvVarTransforms_def httpAddonTLSEnvVarTransforms_def
  using well_pods(3) [OF assms] by (auto intro!: yields_after yields_return split: option.split)

lemma yields_well_gcp:
  "api_ok (kube C) \<Longrightarrow> yields (list_all (keepsWell (kube C))) (gcpWorkloadIdentityTransforms C k cfg)"
  unfolding gcpWorkloadIdentityTransforms_def Let_def using well_gcp
  by (auto intro!: yields_intros split: option.split)

lemma yields_well_audit:
  assumes "api_ok (kube C)"
  shows "yields (list_all (keepsWell (kube C))) (auditTransforms C k)"
proof -
  have arg: "keepsWell (kube C) (ReplaceAuditConfig (kube C) v n)" for v n
    using well_args [OF assms] keepsWell_Ok [of "kube C"] by (simp add: ReplaceAuditConfig_def split: option.split)
  show ?thesis
    unfolding auditTransforms_def Let_def using well_volumes(4,5) [OF assms] arg
    by (auto intro!: yields_intros split: option.split)
qed

lemma yields_well_certs:
  assumes "api_ok (kube C)"
  shows "yields (list_all (keepsWell (kube C))) (metricsCertTransforms C k)"
proof -
  have paths: "yields (list_all (keepsWell (kube C))) (liftE (EnsurePathsToCertsInDeployment (kube C) vs ps))" for vs ps
    using well_args(1) [OF assms]
    by (auto intro!: yields_liftE simp: EnsurePathsToCertsInDeployment_def list_all_iff split: if_splits)
  show ?thesis unfolding metricsCertTransforms_def Let_def
    by (rule yields_after, rule yields_if; intro yields_then yields_bind [OF paths] yields_return)
      (use well_meta [OF assms] well_volumes(3) [OF assms] in simp_all)
qed

section \<open>Applying fine objects\<close>

definition appliesFine :: "'u api \<Rightarrow> 'u call \<Rightarrow> bool" where
  "appliesFine A c = (case c of ApplyManifest us \<Rightarrow> list_all (fineObject A) us | _ \<Rightarrow> True)"

lemma appliesFine_simps [simp]:
  "appliesFine A (DeleteManifest us)" "appliesFine A (WriteSecret x)" "appliesFine A (DeleteSecret x)"
  "appliesFine A (WriteConfigMap y)" "appliesFine A (AddRotator rot)"
  by (simp_all add: appliesFine_def)

text \<open>Shipped objects are fine once they have their owner and namespace: the transformers that start every list.\<close>

definition shipsFine :: "'u api \<Rightarrow> KedaController \<Rightarrow> 'u list \<Rightarrow> bool" where
  "shipsFine A k us \<longleftrightarrow>
     (\<forall>u \<in> set us. \<forall>v. runTransforms [InjectOwner A (k_meta k), ReplaceAllNamespaces A (namespaceOf k)] u = Inr v \<longrightarrow> fineObject A v)"

definition startsAndKeeps :: "'u api \<Rightarrow> KedaController \<Rightarrow> 'u transformer list \<Rightarrow> bool" where
  "startsAndKeeps A k ts \<longleftrightarrow> take 2 ts = [InjectOwner A (k_meta k), ReplaceAllNamespaces A (namespaceOf k)] \<and>
     list_all (keepsWell A) (drop 2 ts)"

lemma fine_rendered:
  assumes "api_ok A" "shipsFine A k us" "startsAndKeeps A k all" "mfTransform A all us = Inr m"
  shows "appliesFine A (ApplyManifest m)"
proof -
  let ?ts = "drop 2 all"
  have all: "all = [InjectOwner A (k_meta k), ReplaceAllNamespaces A (namespaceOf k)] @ ?ts" and ts: "list_all (keepsWell A) ?ts"
    using assms(3) append_take_drop_id [of 2 all] by (simp_all add: startsAndKeeps_def)
  have "fineObject A u'" if u': "u' \<in> set m" for u'
  proof -
    obtain u where u: "u \<in> set us" "runTransforms ([InjectOwner A (k_meta k), ReplaceAllNamespaces A (namespaceOf k)] @ ?ts) u = Inr u'"
      using rendered_from [OF api_ok_parts(3) [OF assms(1)] assms(4) u'] all by metis
    then obtain v where "runTransforms [InjectOwner A (k_meta k), ReplaceAllNamespaces A (namespaceOf k)] u = Inr v"
        "runTransforms ?ts v = Inr u'"
      by (auto simp only: runTransforms_append bindE_Ok)
    moreover have "keepsWell A (runTransforms ?ts)" using ts by (intro keepsWell_run) (simp add: list_all_iff)
    ultimately show ?thesis using assms(2) u(1) unfolding shipsFine_def keepsWell_def by blast
  qed
  then show ?thesis by (simp add: appliesFine_def list_all_iff)
qed

section \<open>Installations\<close>

text \<open>What the user may not do: name a volume twice in one list, or a CA ConfigMap twice.\<close>

definition namesOnce :: "KedaControllerSpec \<Rightarrow> bool" where
  "namesOnce spec \<longleftrightarrow> distinct (ko_caConfigMaps (kc_operator spec)) \<and> list_all volumesOnce
     [ko_generic (kc_operator spec), km_generic (kc_metricsServer spec), kw_generic (kc_admissionWebhooks spec),
      hc_generic (ha_operator (kc_httpAddon spec)), hc_generic (ha_interceptor (kc_httpAddon spec)),
      hc_generic (ha_scaler (kc_httpAddon spec))]"

definition canName :: "('u, 'w) client \<Rightarrow> KedaController \<Rightarrow> bool" where
  "canName C k \<longleftrightarrow> api_ok (kube C) \<and> mapOrder (volumeOrder C) \<and> mapOrder (mountOrder C) \<and> namesOnce (k_spec k)"

lemma canName_parts:
  assumes "canName C k"
  shows "api_ok (kube C)" "mapOrder (volumeOrder C)" "mapOrder (mountOrder C)" "namesOnce (k_spec k)"
  using assms by (simp_all add: canName_def)

lemmas canName_api = canName_parts(1)

lemma well_cas:
  assumes "canName C k" "distinct cms"
  shows "list_all (keepsWell (kube C)) (EnsureCACertsForOperatorDeployment (kube C) (volumeOrder C) (mountOrder C) cms)"
    "list_all (keepsWell (kube C)) (EnsureCACertsForInterceptorDeployment (kube C) (volumeOrder C) (mountOrder C) cms n)"
  using well_caCerts [OF canName_parts(1,2,3) [OF assms(1)] assms(2)] by simp_all

text \<open>What each transformer in the lists does, for a client and a KedaController as above.\<close>

lemmas well_parts = well_args [OF canName_api] well_flags [OF canName_api] well_pods [OF canName_api] well_seccomp [OF canName_api] well_volumes [OF canName_api]
  well_meta [OF canName_api] well_placement [OF canName_api] well_userVolumes [OF canName_api] well_userEnv [OF canName_api] well_specs [OF canName_api]
  well_certSecret [OF canName_api] well_cas


lemma once_volumes:
  assumes "canName C k"
  shows "volumesOnce (ko_generic (kc_operator (k_spec k)))" "volumesOnce (km_generic (kc_metricsServer (k_spec k)))"
  "volumesOnce (kw_generic (kc_admissionWebhooks (k_spec k)))"
  "spec \<in> {ha_operator (kc_httpAddon (k_spec k)), ha_interceptor (kc_httpAddon (k_spec k)), ha_scaler (kc_httpAddon (k_spec k))}
     \<Longrightarrow> volumesOnce (hc_generic spec)"
  "distinct (ko_caConfigMaps (kc_operator (k_spec k)))"
  using canName_parts(4) [OF assms] by (auto simp: namesOnce_def)

lemma controller_tail:
  assumes n: "canName C k" and a: "list_all (keepsWell (kube C)) tls" "list_all (keepsWell (kube C)) gts"
  shows "startsAndKeeps (kube C) k (controllerTransforms C k openshift removeSeccomp tls gts @ userEnv (kube C) env n)"
  using a well_parts [OF n] once_volumes [OF n]
  by (simp add: startsAndKeeps_def controllerTransforms_def RemoveSeccompProfileFromKedaOperator_def ReplaceKedaOperatorImage_def Let_def)

lemma metrics_tail:
  assumes n: "canName C k" and a: "list_all (keepsWell (kube C)) tls" "list_all (keepsWell (kube C)) certs" "list_all (keepsWell (kube C)) audit"
  shows "startsAndKeeps (kube C) k (metricsTransforms C k tls removeSeccomp certs audit @ userEnv (kube C) env n @ [ReplaceNamespace (kube C) a b])"
  using a well_parts [OF n] once_volumes [OF n]
  by (simp add: startsAndKeeps_def metricsTransforms_def RemoveSeccompProfileFromMetricsServer_def ReplaceMetricsServerImage_def Let_def)

lemma webhooks_tail:
  assumes n: "canName C k" and a: "list_all (keepsWell (kube C)) tls"
  shows "startsAndKeeps (kube C) k (webhooksTransforms C k tls removeSeccomp openshift @ userEnv (kube C) env n)"
  using a well_parts [OF n] once_volumes [OF n]
  by (simp add: startsAndKeeps_def webhooksTransforms_def RemoveSeccompProfileFromAdmissionWebhooks_def ReplaceAdmissionWebhooksImage_def Let_def)

lemma component_tail:
  assumes n: "canName C k" and a: "volumesOnce (hc_generic spec)" "list_all (keepsWell (kube C)) extra"
  shows "startsAndKeeps (kube C) k (componentTransforms C k spec n img removeSeccomp @ extra)"
proof -
  have logs: "keepsWell (kube C) (ReplaceLogLevel (kube C) l n)" "keepsWell (kube C) (ReplaceLogEncoder (kube C) l n)"
    "keepsWell (kube C) (ReplaceLogTimeEncoding (kube C) l n)" for l
    using well_parts [OF n] keepsWell_Ok [of "kube C"]
    by (simp_all add: ReplaceLogLevel_def ReplaceLogEncoder_def ReplaceLogTimeEncoding_def split_def Let_def split: option.split)
  have vols: "list_all (keepsWell (kube C)) (case gd_volumes (hc_generic spec) of None \<Rightarrow> [] | Some vs \<Rightarrow> [ReplaceDeploymentVolumes (kube C) vs])"
    "list_all (keepsWell (kube C)) (case gd_volumeMounts (hc_generic spec) of None \<Rightarrow> [] | Some ms \<Rightarrow> [ReplaceContainerVolumeMounts (kube C) ms n])"
    using a(1) well_parts [OF n] by (auto simp: volumesOnce_def split: option.split)
  show ?thesis
    using a(2) well_parts [OF n] logs vols
    by (simp add: startsAndKeeps_def componentTransforms_def httpAddonComponentTransforms_def ReplaceContainerImage_def ReplaceContainerResources_def)
qed

lemma emits_fine:
  assumes n: "canName C k" and a: "shipsFine (kube C) k us" "startsAndKeeps (kube C) k ts"
  shows "emits (appliesFine (kube C)) (bindIO (transformManifest C ts us) (applyCall C))"
  by (rule emits_rendered, rule emits_pieces(2)) (rule fine_rendered [OF canName_api [OF n] a])

lemma controller_fine:
  assumes n: "canName C k" and a: "shipsFine (kube C) k (op_controller (rc_operands R))"
  shows "emits (appliesFine (kube C)) (installController C R k cfg)"
  unfolding installController_def
  by (rule emits_bind [OF emits_reads(6)], rule emits_bind_yields [OF yields_listIf [OF yields_well_tls(1) [OF canName_api [OF n]]]],
      intro emits_intros, rule emits_bind, simp add: emits_intros,
      rule emits_bind_yields [OF yields_well_gcp [OF canName_api [OF n]]], intro emits_intros appliesFine_simps,
      rule emits_rendered, intro emits_intros appliesFine_simps fine_rendered [OF canName_api [OF n] a controller_tail [OF n]])

lemma metrics_fine:
  assumes n: "canName C k" and a: "shipsFine (kube C) k (op_metrics (rc_operands R))"
  shows "emits (appliesFine (kube C)) (installMetricsServer C R k)"
  unfolding installMetricsServer_def
  by (rule emits_bind_yields [OF yields_listIf [OF yields_well_tls(1) [OF canName_api [OF n]]]], intro emits_intros,
      rule emits_bind [OF emits_pieces(8)], rule emits_bind_yields [OF yields_well_certs [OF canName_api [OF n]]],
      intro emits_intros appliesFine_simps, rule emits_bind_yields [OF yields_well_audit [OF canName_api [OF n]]],
      intro emits_intros appliesFine_simps, rule emits_rendered,
      intro emits_pieces(2) fine_rendered [OF canName_api [OF n] a metrics_tail [OF n]])

lemma webhooks_fine:
  assumes n: "canName C k" and a: "shipsFine (kube C) k (op_webhooks (rc_operands R))"
  shows "emits (appliesFine (kube C)) (installAdmissionWebhooks C R k)"
  unfolding installAdmissionWebhooks_def
  by (rule emits_bind_yields [OF yields_listIf [OF yields_well_tls(1) [OF canName_api [OF n]]]], intro emits_intros,
      rule emits_bind [OF emits_pieces(8)], rule emits_bind [OF emits_reads(6)],
      intro emits_fine [OF n a webhooks_tail [OF n]])

lemma component_fine:
  assumes n: "canName C k" and a: "volumesOnce (hc_generic spec)" "list_all (keepsWell (kube C)) extra" "shipsFine (kube C) k us"
  shows "emits (appliesFine (kube C)) (installAddonComponent C name (componentTransforms C k spec n img removeSeccomp @ extra) us)"
proof -
  have tried: "yields (\<lambda>r. r = mfTransform (kube C) xs us) (tryIO (transformManifest C xs us))" for xs
    by (simp add: yields_def tryIO_eq transformManifest_def)
  show ?thesis
    unfolding installAddonComponent_def
    by (rule emits_bind_yields [OF tried], intro emits_intros)
      (auto intro!: emits_intros emits_result fine_rendered [OF canName_api [OF n] a(3) component_tail [OF n a(1,2)]] split: sum.split)
qed

lemma addon_fine:
  assumes n: "canName C k" and a: "shipsFine (kube C) k (ad_operator (rc_addons R))" "shipsFine (kube C) k (ad_interceptor (rc_addons R))"
    "shipsFine (kube C) k (ad_scaler (rc_addons R))"
  shows "emits (appliesFine (kube C)) (installHTTPAddon C R k)"
proof -
  let ?addon = "kc_httpAddon (k_spec k)"
  have operator: "emits (appliesFine (kube C)) (installAddonComponent C name (componentTransforms C k (ha_operator ?addon) n img b)
      (ad_operator (rc_addons R)))" for name n img b
    using component_fine [OF n, of "ha_operator ?addon" "[]"] once_volumes(4) [OF n] a(1) by simp
  have scaler: "emits (appliesFine (kube C)) (installAddonComponent C name (componentTransforms C k (ha_scaler ?addon) n img b)
      (ad_scaler (rc_addons R)))" for name n img b
    using component_fine [OF n, of "ha_scaler ?addon" "[]"] once_volumes(4) [OF n] a(3) by simp
  have interceptor: "emits (appliesFine (kube C)) (installAddonComponent C name (componentTransforms C k (ha_interceptor ?addon) n img b @
      onlyIf openshift (interceptorOpenshiftTransforms C tls)) (ad_interceptor (rc_addons R)))"
    if "list_all (keepsWell (kube C)) tls" for name n img b openshift tls
    using that well_parts [OF n] once_volumes(4) [OF n] a(2)
    by (intro component_fine [OF n]) (simp_all add: interceptorOpenshiftTransforms_def Let_def)
  show ?thesis
    unfolding installHTTPAddon_def Let_def
    by (intro emits_if emits_bind_yields [OF yields_listIf [OF yields_well_tls(2) [OF canName_api [OF n]]]] emits_reads emits_bind emits_then
        emits_modifyStatus emits_pieces(4,7,8) emits_addon(4) operator interceptor scaler appliesFine_simps)
qed

section \<open>Every installation\<close>

definition allShipFine :: "'u api \<Rightarrow> KedaController \<Rightarrow> 'u reconciler \<Rightarrow> bool" where
  "allShipFine A k R \<longleftrightarrow> list_all (shipsFine A k)
     [op_controller (rc_operands R), op_metrics (rc_operands R), op_webhooks (rc_operands R),
      ad_operator (rc_addons R), ad_interceptor (rc_addons R), ad_scaler (rc_addons R)]"

text \<open>
  C9. Installing never breaks a Deployment by naming something twice. Take a specification whose volume lists and CA
  ConfigMaps name nothing twice, and manifests whose Deployments are well named once they
  have their owner and namespace. Then every Deployment that an installation of the operator, the metrics server,
  the webhooks or the HTTP add-on applies is well named: its volumes and containers have distinct
  names, and so have the variables and mounts of each container. This holds on and off OpenShift, with TLS settings, Workload
  Identity, CA bundles, audit logs and the user's own settings, in whatever order Go ranges over the maps
  of CA volumes, and for installations that fail later.
\<close>

theorem installed_well_named:
  assumes "api_ok (kube C)" and "mapOrder (volumeOrder C)" and "mapOrder (mountOrder C)"
    and "namesOnce (k_spec k)" and "allShipFine (kube C) k R"
    and "m \<in> {installController C R k cfg, installMetricsServer C R k, installAdmissionWebhooks C R k, installHTTPAddon C R k}"
    and "m s = (r, t)" and "r_calls t = r_calls s @ cs" and "(ApplyManifest us, accepted) \<in> set cs" and "u \<in> set us"
    and "GetKind (kube C) u = ''Deployment''"
  shows "\<exists>d. decode (deployments (kube C)) u = Inr d \<and> wellNamed d"
proof -
  have n: "canName C k" using assms(1-4) by (simp add: canName_def)
  have "emits (appliesFine (kube C)) m"
    using assms(5,6) controller_fine [OF n] metrics_fine [OF n] webhooks_fine [OF n] addon_fine [OF n]
    by (auto simp: allShipFine_def)
  from emitsD [OF this assms(7)] have "list_all (fineObject (kube C)) us"
    using assms(8,9) by (fastforce simp: list_all_iff appliesFine_def)
  then show ?thesis using assms(10,11) by (auto simp: list_all_iff fineObject_def)
qed

lemma demo_ships_fine: "allShipFine demoApi (demoController [] None) demoReconciler"
proof -
  have "fineObject demoApi v"
    if "runTransforms [InjectOwner demoApi m, ReplaceAllNamespaces demoApi ns] (demoObject ''Deployment'' n ''keda'') = Inr v" for m ns n v
    using that by (auto simp: fineObject_def InjectOwner_def ReplaceAllNamespaces_def demoApi_codecs_def demoCodec_def
        demoObject_def Let_def demoDeployment_def wellNamed_def volumes_def containers_def split: if_splits)
  then show ?thesis by (simp add: allShipFine_def shipsFine_def demoReconciler_def del: runTransforms.simps)
qed

text \<open>The demonstration ships one Deployment, so only a Deployment is applied.\<close>

lemma demo_applies_deployment:
  assumes "coveredBy demoClient demoReconciler (demoController [] None) (ApplyManifest us)" "u \<in> set us"
  shows "GetKind demoApi u = ''Deployment''"
proof -
  have kube: "kube demoClient = demoApi" by (simp add: demoClient_def)
  have moved: "\<exists>v. mfTransform demoApi [ReplaceAllNamespaces demoApi ns] [demoObject ''Deployment'' n ''keda''] = Inr [v] \<and>
      GetKind demoApi v = ''Deployment''" for ns n
    using demoApi_mf_ok
    by (simp add: mf_ok_def ReplaceAllNamespaces_def demoObject_def demoContent_def Let_def)
  have empty: "mfTransform demoApi ts [] = Inr []" for ts using demoApi_mf_ok by (simp add: mf_ok_def)
  obtain ts base where base: "(ts, base) \<in> set (removals demoApi demoReconciler (namespaceOf (demoController [] None)))"
    and found: "\<And>ds. mfTransform demoApi ts base = Inr ds \<Longrightarrow> ident demoApi ` set us \<subseteq> ident demoApi ` set ds"
    using assms(1) by (auto simp: covered_def kube)
  have "base \<noteq> []" using found empty assms(2) by fastforce
  then have "base = [demoObject ''Deployment'' ''keda-operator'' ''keda''] \<and>
      ts = [ReplaceAllNamespaces demoApi (namespaceOf (demoController [] None))]"
    using base by (auto simp: removals_def demoReconciler_def)
  with moved obtain v where "mfTransform demoApi ts base = Inr [v]" "GetKind demoApi v = ''Deployment''" by metis
  with found assms(2) show ?thesis by (fastforce simp: ident_def)
qed

theorem installed_well_named_witness:
  "\<exists>t us u d. installController demoClient demoReconciler (demoController [] None) (Some demoGcpConfig)
       (demoState (demoController [] None)) = (Inr (), t)
     \<and> (ApplyManifest us, True) \<in> set (r_calls t) \<and> u \<in> set us \<and> decode (deployments demoApi) u = Inr d \<and> wellNamed d"
proof -
  let ?k = "demoController [] None"
  have kube: "kube demoClient = demoApi" by (simp add: demoClient_def)
  obtain t where t: "installController demoClient demoReconciler ?k (Some demoGcpConfig) (demoState ?k) = (Inr (), t)"
    using demo_controller_installed by blast
  from controller_applied [OF t] obtain openshift removeSeccomp tls gts us before after where
    us: "renderController demoClient demoReconciler ?k openshift removeSeccomp tls gts = Inr us"
      "r_calls t = before @ (ApplyManifest us, True) # after"
    by (metis append_Nil demoState_get(2))
  have "coveredBy demoClient demoReconciler ?k (ApplyManifest us)"
    using emitsD [OF covered_controller t] demoApi_ok us(2) by (auto simp: kube demoState_get list_all_iff)
  moreover obtain u where u0: "u \<in> set us"
    using us(1) demoApi_mf_ok by (auto simp: renderController_def kube mf_ok_def demoReconciler_def bindE_Ok)
  ultimately have u: "u \<in> set us" "GetKind demoApi u = ''Deployment''" using demo_applies_deployment by blast+
  have "\<exists>d. decode (deployments (kube demoClient)) u = Inr d \<and> wellNamed d"
    by (rule installed_well_named [where C = demoClient and R = demoReconciler and k = ?k
        and m = "installController demoClient demoReconciler ?k (Some demoGcpConfig)" and cfg = "Some demoGcpConfig"
        and s = "demoState ?k" and r = "Inr ()" and t = t and cs = "r_calls t" and us = us and accepted = True])
      (use demoApi_ok demo_ships_fine t us(2) u in \<open>simp_all add: kube demoState_get mapOrder_def demoClient_def namesOnce_def
        volumesOnce_def demoController_def zeroKedaController_def zeroKedaControllerSpec_def zeroHTTPAddonComponentSpec_def
        zeroGenericDeploymentSpec_def\<close>)
  then show ?thesis using t us(2) u by (auto simp: kube)
qed

end
