(* ===== verification/Watchers.thy ===== *)
theory Watchers
  imports Reconcile
begin

text \<open>
  What surrounds \<open>Reconcile\<close>: setting up the reconciler and creating the default KedaController
  (\<^verbatim>\<open>kedacontroller_controller.go\<close>), the queue handlers, the reconcilers of the CA bundle ConfigMap
  and the certificate Secret (\<^verbatim>\<open>configmap_controller.go\<close>, \<^verbatim>\<open>secret_controller.go\<close>) and the choice of
  the namespace (\<^verbatim>\<open>cmd/main.go\<close>).
\<close>

section \<open>The default KedaController\<close>

definition initializeDefaultController :: "'u reconciler \<Rightarrow> KedaController" where
  "initializeDefaultController R =
     (let z = zeroKedaController; spec = zeroKedaControllerSpec in
      z\<lparr>k_apiVersion := ''keda.sh/v1alpha1'', k_kind := ''KedaController'', k_meta := (k_meta z)\<lparr>om_name := kedaControllerResourceName, om_namespace := rc_namespace R\<rparr>,
        k_spec := spec
          \<lparr>kc_watchNamespace := [],
           kc_operator := (kc_operator spec)\<lparr>ko_logLevel := ''info'', ko_logEncoder := ''console''\<rparr>,
           kc_metricsServer := (kc_metricsServer spec)\<lparr>km_logLevel := ''0''\<rparr>,
           kc_admissionWebhooks := (kc_admissionWebhooks spec)\<lparr>kw_logLevel := ''info'', kw_logEncoder := ''console''\<rparr>\<rparr>\<rparr>)"

definition kedaDefaultControllerAnnotation :: string where
  "kedaDefaultControllerAnnotation = ''keda-olm-operator/create-default-controller''"

text \<open>
  \<open>ensureKedaController\<close> has no result: its errors are logged, so an error of this model is where the
  code returns early. Waiting for the cache answers whether it is in sync before the timeout.
\<close>

definition ensureKedaController :: "('u, 'w) client \<Rightarrow> 'u reconciler \<Rightarrow> ('u, 'w, unit) io" where
  "ensureKedaController C R =
     bindIO (reading (waitForCacheSync C)) (\<lambda>synced.
     if \<not> synced then failIO (LibError ''Cache sync wait timeout'')
     else
     bindIO (reading (getNamespaceObject C (rc_namespace R))) (\<lambda>ns.
       if om_annotations (ns_meta ns) kedaDefaultControllerAnnotation \<noteq> None then returnIO ()
       else
         thenIO
           (bindIO (tryIO (reading (getKedaController C (kedaControllerResourceName, rc_namespace R)))) (\<lambda>r. case r of
              Inl (NotFound _) \<Rightarrow>
                (let k = initializeDefaultController R in calling (CreateController k) (createKedaController C k))
            | Inl e \<Rightarrow> failIO e
            | Inr _ \<Rightarrow> returnIO ()))
           (let ns' = ns\<lparr>ns_meta := (ns_meta ns)
                 \<lparr>om_annotations := (om_annotations (ns_meta ns))(kedaDefaultControllerAnnotation \<mapsto> ''true'')\<rparr>\<rparr>
            in calling (PatchNamespace ns') (patchNamespaceObject C ns'))))"

section \<open>Queue handlers\<close>

definition enqueueKedaControllerReconcile :: "'u reconciler \<Rightarrow> objectKey list \<Rightarrow> objectKey list" where
  "enqueueKedaControllerReconcile R q = q @ [(kedaControllerResourceName, rc_namespace R)]"

text \<open>\<open>None\<close> is an object that is no APIServer.\<close>

definition enqueueOnTLSProfileChange ::
  "('u, 'w) client \<Rightarrow> 'u reconciler \<Rightarrow> apiServer option \<Rightarrow> apiServer option \<Rightarrow> objectKey list \<Rightarrow> objectKey list" where
  "enqueueOnTLSProfileChange C R oldObj newObj q =
     (case (oldObj, newObj) of
        (Some oldConfig, Some newConfig) \<Rightarrow>
          (case (getTLSProfileSpec C (ap_tlsSecurityProfile oldConfig), getTLSProfileSpec C (ap_tlsSecurityProfile newConfig)) of
             (Inr oldProfile, Inr newProfile) \<Rightarrow>
               if oldProfile = newProfile \<and> ap_tlsAdherence oldConfig = ap_tlsAdherence newConfig then q
               else enqueueKedaControllerReconcile R q
           | _ \<Rightarrow> enqueueKedaControllerReconcile R q)
      | _ \<Rightarrow> q)"

section \<open>The watched ConfigMap and Secret\<close>

text \<open>
  The event filters: creations and real updates of the one object. The resource versions of an
  update are those of the old and the new object.
\<close>

datatype event = CreateEvent objectKey | UpdateEvent objectKey string string | DeleteEvent objectKey | GenericEvent objectKey

definition configMapName :: string where "configMapName = ''keda-metrics-apiserver''"

definition configMapPredicate :: "string \<Rightarrow> event \<Rightarrow> bool" where
  "configMapPredicate ns e =
     (case e of
        CreateEvent key \<Rightarrow> if key = (configMapName, ns) then True else False
      | UpdateEvent key oldVersion newVersion \<Rightarrow>
          if key = (configMapName, ns) then oldVersion \<noteq> newVersion else False
      | DeleteEvent key \<Rightarrow> False
      | GenericEvent key \<Rightarrow> False)"

definition secretName :: string where "secretName = ''keda-metrics-apiserver''"

definition secretPredicate :: "string \<Rightarrow> event \<Rightarrow> bool" where
  "secretPredicate ns e =
     (case e of
        CreateEvent key \<Rightarrow> if key = (secretName, ns) then True else False
      | UpdateEvent key oldVersion newVersion \<Rightarrow>
          if key = (secretName, ns) then oldVersion \<noteq> newVersion else False
      | DeleteEvent key \<Rightarrow> False
      | GenericEvent key \<Rightarrow> False)"

definition ConfigMapReconcile :: "('u, 'w) client \<Rightarrow> string \<Rightarrow> objectKey \<Rightarrow> ('u, 'w, unit) io" where
  "ConfigMapReconcile C installNamespace req =
     withExisting (reading (getConfigMap C req)) (returnIO ()) (\<lambda>cm.
     withExisting (reading (getKedaController C (''keda'', installNamespace))) (returnIO ()) (\<lambda>k.
       let newCheckSum = CalculateConfigMapDataCheckSum (md5Hex C) (dataOrder C)
             (case cm_data cm of None \<Rightarrow> [] | Some kvs \<Rightarrow> kvs);
           status = k_status k
       in if kcs_configMapDataSum status \<noteq> [] \<and> kcs_configMapDataSum status = newCheckSum then returnIO ()
          else UpdateKedaControllerStatus C k (status\<lparr>kcs_configMapDataSum := newCheckSum\<rparr>)))"

definition SecretReconcile :: "('u, 'w) client \<Rightarrow> string \<Rightarrow> objectKey \<Rightarrow> ('u, 'w, unit) io" where
  "SecretReconcile C secretNamespace req =
     withExisting (reading (getSecret C req)) (returnIO ()) (\<lambda>sec.
     withExisting (reading (getKedaController C (''keda'', secretNamespace))) (returnIO ()) (\<lambda>k.
       let newCheckSum = CalculateSecretedDataCheckSum (md5Hex C) (dataOrder C) (se_data sec);
           status = k_status k
       in if kcs_secretDataSum status \<noteq> [] \<and> kcs_secretDataSum status = newCheckSum then returnIO ()
          else UpdateKedaControllerStatus C k (status\<lparr>kcs_secretDataSum := newCheckSum\<rparr>)))"

text \<open>
  Both controllers are registered on OpenShift only: the event filter they are registered with, if
  any. Building the controller is the parameter \<open>complete\<close>.
\<close>

definition ConfigMapSetupWithManager ::
  "('u, 'w) client \<Rightarrow> error + unit \<Rightarrow> string \<Rightarrow> ('u, 'w, (event \<Rightarrow> bool) option) io" where
  "ConfigMapSetupWithManager C complete installNamespace =
     bindIO (RunningOnOpenshift C) (\<lambda>openshift.
       if openshift then bindIO (liftE complete) (\<lambda>_. returnIO (Some (configMapPredicate installNamespace)))
       else returnIO None)"

definition SecretSetupWithManager ::
  "('u, 'w) client \<Rightarrow> error + unit \<Rightarrow> string \<Rightarrow> ('u, 'w, (event \<Rightarrow> bool) option) io" where
  "SecretSetupWithManager C complete secretNamespace =
     bindIO (RunningOnOpenshift C) (\<lambda>openshift.
       if openshift then bindIO (liftE complete) (\<lambda>_. returnIO (Some (secretPredicate secretNamespace)))
       else returnIO None)"

section \<open>Setting up the reconciler\<close>

text \<open>
  What \<open>SetupWithManager\<close> of the KedaController reconciler gets from outside: the embedded files, the
  YAML parser, \<open>mf.ManifestFrom\<close>, whether a REST configuration and a direct client are to be had, and
  the outcome of building the controller. \<open>CertDir\<close> and \<open>LeaderElection\<close> are fields that \<^verbatim>\<open>main\<close> has set.
  The result is the reconciler with its loaded manifests; its flag \<open>rc_injectTLSEnvVars\<close> also says whether the APIServer is watched.
\<close>

record 'u environment =
  en_readFile :: "string \<Rightarrow> error + string"
  en_parseYaml :: "string \<Rightarrow> error + 'u list"
  en_manifestFrom :: "'u list \<Rightarrow> error + 'u list"
  en_restConfig :: "error + unit"
  en_directClient :: "error + unit"
  en_complete :: "error + unit"
  en_version :: string

definition detectOpenshift :: "('u, 'w) client \<Rightarrow> 'u environment \<Rightarrow> ('u, 'w, bool) io" where
  "detectOpenshift C E =
     (case en_restConfig E of
        Inl _ \<Rightarrow> returnIO False
      | Inr _ \<Rightarrow> (case en_directClient E of
          Inl _ \<Rightarrow> returnIO False
        | Inr _ \<Rightarrow> RunningOnOpenshift C))"

definition SetupWithManager ::
  "('u, 'w) client \<Rightarrow> 'u environment \<Rightarrow> string \<Rightarrow> bool \<Rightarrow> string \<Rightarrow> ('u, 'w, 'u reconciler) io" where
  "SetupWithManager C E certDir leaderElection ns =
     bindIO (liftE (GetResourcesManifest (en_readFile E) (en_parseYaml E))) (\<lambda>resourcesManifest.
     bindIO (liftE (parseManifestsFromFile (kube C) (en_manifestFrom E) resourcesManifest)) (\<lambda>operands.
     bindIO (liftE (case GetHTTPAddonResourcesManifest (en_readFile E) (en_parseYaml E) of
          Inl e \<Rightarrow> Err (Wrapf ''failed to load HTTP Add-on manifest: %w'' e)
        | Inr m \<Rightarrow> Ok m)) (\<lambda>httpAddonManifest.
     bindIO (liftE (parseHTTPAddonManifests (kube C) (en_manifestFrom E) httpAddonManifest)) (\<lambda>addons.
     bindIO (detectOpenshift C E) (\<lambda>inject.
     bindIO (liftE (en_complete E)) (\<lambda>_.
       returnIO \<lparr>rc_operands = operands, rc_addons = addons, rc_addonsLoaded = True, rc_namespace = ns,
         rc_injectTLSEnvVars = inject, rc_version = en_version E,
         rc_certDir = certDir, rc_leaderElection = leaderElection\<rparr>))))))"

section \<open>Which namespace\<close>

text \<open>\<open>getWatchNamespace\<close> of \<^verbatim>\<open>cmd/main.go\<close>: environment, then the service account file, then \<open>keda\<close>.\<close>

definition getWatchNamespace :: "string option \<Rightarrow> error + string \<Rightarrow> string" where
  "getWatchNamespace envVar nsFile =
     (case envVar of
        Some ns \<Rightarrow> if ns \<noteq> [] then ns
          else (case nsFile of Inr bytes \<Rightarrow> TrimSpace bytes | Inl _ \<Rightarrow> ''keda'')
      | None \<Rightarrow> (case nsFile of Inr bytes \<Rightarrow> TrimSpace bytes | Inl _ \<Rightarrow> ''keda''))"

end
