(* ===== verification/Confinement.thy ===== *)
theory Confinement
  imports Reconcile
begin

text \<open>
  What the operator may touch through the typed client: a handful of objects, told apart by kind and
  name, in the namespace of the KedaController.
\<close>

section \<open>The objects a call is about\<close>

definition target :: "'u call \<Rightarrow> (string \<times> string \<times> string) option" where
  "target c = (case c of
       WriteSecret x \<Rightarrow> Some (''Secret'', om_name (se_meta x), om_namespace (se_meta x))
     | DeleteSecret x \<Rightarrow> Some (''Secret'', om_name (se_meta x), om_namespace (se_meta x))
     | WriteConfigMap x \<Rightarrow> Some (''ConfigMap'', om_name (cm_meta x), om_namespace (cm_meta x))
     | WriteRole x \<Rightarrow> Some (''Role'', om_name (ro_meta x), om_namespace (ro_meta x))
     | WriteRoleBinding x \<Rightarrow>
         Some (''RoleBinding'', om_name (rb_meta (rbo_binding x)), om_namespace (rb_meta (rbo_binding x)))
     | DeleteRoleBinding x \<Rightarrow>
         Some (''RoleBinding'', om_name (rb_meta (rbo_binding x)), om_namespace (rb_meta (rbo_binding x)))
     | CreateController k \<Rightarrow> Some (''KedaController'', om_name (k_meta k), om_namespace (k_meta k))
     | PatchNamespace n \<Rightarrow> Some (''Namespace'', om_name (ns_meta n), [])
     | _ \<Rightarrow> None)"

text \<open>The objects the operator looks after besides the manifests.\<close>

definition ownObjects :: "string \<Rightarrow> (string \<times> string \<times> string) set" where
  "ownObjects ns =
     {(''Secret'', CredentialsSecretName, ns), (''ConfigMap'', caBundleConfigMapName, ns),
      (''ConfigMap'', auditlogPolicyConfigMap, ns), (''Role'', prometheusRBACName ns, ns),
      (''RoleBinding'', prometheusRBACName ns, ns), (''KedaController'', kedaControllerResourceName, ns),
      (''Namespace'', ns, [])}"

definition confined :: "string \<Rightarrow> 'u call \<Rightarrow> bool" where
  "confined ns c \<longleftrightarrow> (case target c of None \<Rightarrow> True | Some x \<Rightarrow> x \<in> ownObjects ns)"

text \<open>Documented behaviour of the client: what is read under a key is the object of that key.\<close>

definition lookup_ok :: "('u, 'w) client \<Rightarrow> bool" where
  "lookup_ok C \<longleftrightarrow>
     (\<forall>key w k w'. getKedaController C key w = (Inr k, w') \<longrightarrow> (om_name (k_meta k), om_namespace (k_meta k)) = key) \<and>
     (\<forall>n w x w'. getNamespaceObject C n w = (Inr x, w') \<longrightarrow> om_name (ns_meta x) = n) \<and>
     (\<forall>key w x w'. getSecret C key w = (Inr x, w') \<longrightarrow> (om_name (se_meta x), om_namespace (se_meta x)) = key) \<and>
     (\<forall>key w x w'. getConfigMap C key w = (Inr x, w') \<longrightarrow> (om_name (cm_meta x), om_namespace (cm_meta x)) = key) \<and>
     (\<forall>key w x w'. getRole C key w = (Inr x, w') \<longrightarrow> (om_name (ro_meta x), om_namespace (ro_meta x)) = key) \<and>
     (\<forall>key w x w'. getRoleBinding C key w = (Inr x, w') \<longrightarrow>
        (om_name (rb_meta (rbo_binding x)), om_namespace (rb_meta (rbo_binding x))) = key)"

lemma lookup_okD:
  assumes "lookup_ok C"
  shows "getSecret C (n, ns) w = (Inr x, w') \<Longrightarrow> om_name (se_meta x) = n \<and> om_namespace (se_meta x) = ns"
    "getConfigMap C (n, ns) w = (Inr y, w') \<Longrightarrow> om_name (cm_meta y) = n \<and> om_namespace (cm_meta y) = ns"
    "getRole C (n, ns) w = (Inr ro, w') \<Longrightarrow> om_name (ro_meta ro) = n \<and> om_namespace (ro_meta ro) = ns"
    "getRoleBinding C (n, ns) w = (Inr rb, w') \<Longrightarrow>
     om_name (rb_meta (rbo_binding rb)) = n \<and> om_namespace (rb_meta (rbo_binding rb)) = ns"
    "getKedaController C (n, ns) w = (Inr k, w') \<Longrightarrow> om_name (k_meta k) = n \<and> namespaceOf k = ns"
    "getNamespaceObject C n w = (Inr o', w') \<Longrightarrow> om_name (ns_meta o') = n"
  using assms unfolding lookup_ok_def namespaceOf_def by (meson prod.inject)+

lemma confined_simps [simp]:
  "confined ns (ApplyManifest us)" "confined ns (DeleteManifest us)" "confined ns (AddRotator rot)"
  "confined ns (PatchStatus st)" "confined ns (PatchController k)"
  "confined ns (WriteSecret x) \<longleftrightarrow> (om_name (se_meta x), om_namespace (se_meta x)) = (CredentialsSecretName, ns)"
  "confined ns (DeleteSecret x) \<longleftrightarrow> (om_name (se_meta x), om_namespace (se_meta x)) = (CredentialsSecretName, ns)"
  "confined ns (WriteConfigMap y) \<longleftrightarrow>
     (om_name (cm_meta y), om_namespace (cm_meta y)) \<in> {(caBundleConfigMapName, ns), (auditlogPolicyConfigMap, ns)}"
  "confined ns (WriteRole ro) \<longleftrightarrow> (om_name (ro_meta ro), om_namespace (ro_meta ro)) = (prometheusRBACName ns, ns)"
  "confined ns (WriteRoleBinding rb) \<longleftrightarrow>
     (om_name (rb_meta (rbo_binding rb)), om_namespace (rb_meta (rbo_binding rb))) = (prometheusRBACName ns, ns)"
  "confined ns (DeleteRoleBinding rb) \<longleftrightarrow>
     (om_name (rb_meta (rbo_binding rb)), om_namespace (rb_meta (rbo_binding rb))) = (prometheusRBACName ns, ns)"
  "confined ns (CreateController k) \<longleftrightarrow> (om_name (k_meta k), om_namespace (k_meta k)) = (kedaControllerResourceName, ns)"
  "confined ns (PatchNamespace n) \<longleftrightarrow> om_name (ns_meta n) = ns"
  by (simp_all add: confined_def target_def ownObjects_def)

section \<open>Upserts stay with their object\<close>

lemma emits_withExisting_read:
  fixes get :: "('w, 'c) request"
  assumes "emits P cr" "\<And>x w w'. get w = (Inr x, w') \<Longrightarrow> emits P (k x)"
  shows "emits P (withExisting (reading get) cr k)"
proof -
  have tried: "yields (\<lambda>r. \<forall>x. r = Inr x \<longrightarrow> (\<exists>w w'. get w = (Inr x, w'))) (tryIO (reading get))"
    by (rule yields_try, rule yields_reading) blast
  show ?thesis
    unfolding withExisting_def
  proof (rule emits_bind_yields [OF tried emits_try [OF emits_reads(5)]])
    fix r :: "error + 'c"
    assume "\<forall>x. r = Inr x \<longrightarrow> (\<exists>w w'. get w = (Inr x, w'))"
    then show "emits P (case r of Inl (NotFound n) \<Rightarrow> cr | Inl e \<Rightarrow> failIO e | Inr x \<Rightarrow> k x)"
      using assms by (cases r) (auto intro!: emits_reads split: error.split)
  qed
qed

lemma emits_upsert_read:
  assumes "\<And>x. fresh = Inr x \<Longrightarrow> P (wrote x)"
    and "\<And>x y b w w'. get w = (Inr x, w') \<Longrightarrow> revise x = Inr (y, b) \<Longrightarrow> P (wrote y)"
  shows "emits P (upsert get fresh wrote create revise update)"
  unfolding upsert_def
proof (rule emits_withExisting_read)
  show "emits P (bindIO (liftE fresh) (\<lambda>x. calling (wrote x) (create x)))"
    using assms(1) by (intro emits_bind_yields [where Q = "\<lambda>x. fresh = Inr x"] yields_liftE emits_intros)
  show "emits P (bindIO (liftE (revise x)) (\<lambda>(y, changed). whenIO changed (calling (wrote y) (update y))))"
    if "get w = (Inr x, w')" for x w w'
    using assms(2) [OF that]
    by (intro emits_bind_yields [where Q = "\<lambda>z. revise x = Inr z"] yields_liftE emits_reads)
      (auto intro!: emits_when emits_calling)
qed

lemma reviseSecret_key:
  "reviseSecret C k cr x = Inr (y, b) \<Longrightarrow>
   om_name (se_meta y) = om_name (se_meta x) \<and> om_namespace (se_meta y) = om_namespace (se_meta x)"
proof -
  assume "reviseSecret C k cr x = Inr (y, b)"
  then obtain z c where z: "adoptSecret C k x = Inr (z, c)" and y: "fillSecret cr z c = (y, b)"
    by (auto simp: reviseSecret_def bindE_Ok)
  have "se_meta z = se_meta x" using adoptSecret_cases [OF z] by auto
  moreover have "y = fst (fillSecret cr z c)" using y by simp
  ultimately show ?thesis by (simp add: fillSecret_def Let_def split_def)
qed

lemma reviseCABundle_key:
  "annotating_ok (kube C) \<Longrightarrow> reviseCABundle C k x = Inr (y, b) \<Longrightarrow>
   om_name (cm_meta y) = om_name (cm_meta x) \<and> om_namespace (cm_meta y) = om_namespace (cm_meta x)"
  by (auto simp: reviseCABundle_def bindE_Ok Let_def annotating_ok_def split: option.splits if_splits)

lemma reviseAuditPolicy_key: "reviseAuditPolicy C k d x = Inr (y, b) \<Longrightarrow> cm_meta y = cm_meta x"
  by (auto simp: reviseAuditPolicy_def bindE_Ok Let_def split: option.splits if_splits)

lemma reviseRole_key: "reviseRole C k x = Inr (y, b) \<Longrightarrow> ro_meta y = ro_meta x"
  by (auto simp: reviseRole_def bindE_Ok Let_def split: option.splits if_splits)

lemma reviseRoleBinding_key: "reviseRoleBinding C k n x = Inr (y, b) \<Longrightarrow> rb_meta (rbo_binding y) = rb_meta (rbo_binding x)"
  by (auto simp: reviseRoleBinding_def bindE_Ok Let_def split: option.splits if_splits)

section \<open>Every operation is confined\<close>

named_theorems confined_intros \<open>operations that stay with the objects of the operator\<close>

lemma confined_secret [confined_intros]:
  assumes "lookup_ok C"
  shows "emits (confined (namespaceOf k)) (ensureGCPCredentialsSecret C k cr)"
    "emits (confined (namespaceOf k)) (deleteGCPCredentialsSecret C k)"
proof -
  have key: "om_name (se_meta x) = CredentialsSecretName \<and> om_namespace (se_meta x) = namespaceOf k"
    if "getSecret C (gcpCredentialsSecretKey k) w = (Inr x, w')" for x w w'
    using lookup_okD(1) [OF assms] that by (auto simp: gcpCredentialsSecretKey_def)
  show "emits (confined (namespaceOf k)) (ensureGCPCredentialsSecret C k cr)"
    unfolding ensureGCPCredentialsSecret_def Let_def
    by (rule emits_upsert_read) (auto simp: bindE_Ok newMeta_def gcpCredentialsSecretKey_def dest!: lookup_okD(1) [OF assms] reviseSecret_key)
  have tried: "yields (\<lambda>r. \<forall>x. r = Inr x \<longrightarrow> om_name (se_meta x) = CredentialsSecretName \<and> om_namespace (se_meta x) = namespaceOf k)
      (tryIO (reading (getSecret C (gcpCredentialsSecretKey k))))"
    by (rule yields_try, rule yields_reading) (rule key)
  show "emits (confined (namespaceOf k)) (deleteGCPCredentialsSecret C k)"
    unfolding deleteGCPCredentialsSecret_def
    by (rule emits_bind_yields [OF tried emits_try [OF emits_reads(5)]])
      (auto intro!: emits_if emits_reads emits_bind emits_try emits_calling split: sum.split error.split)
qed

lemma confined_configMaps [confined_intros]:
  assumes "lookup_ok C" "annotating_ok (kube C)"
  shows "emits (confined (namespaceOf k)) (ensureOpenshiftCABundleConfigMap C k)"
    "emits (confined (namespaceOf k)) (ensureMetricsServerAuditLogPolicyConfigMap C k)"
proof -
  have key: "om_name (cm_meta x) = n \<and> om_namespace (cm_meta x) = ns" if "getConfigMap C (n, ns) w = (Inr x, w')" for x w w' n ns
    using lookup_okD(2) [OF assms(1) that] .
  show "emits (confined (namespaceOf k)) (ensureOpenshiftCABundleConfigMap C k)"
    unfolding ensureOpenshiftCABundleConfigMap_def Let_def
    by (rule emits_upsert_read)
      (use assms(2) in \<open>auto simp: bindE_Ok newMeta_def annotating_ok_def [of "kube C"] dest!: key reviseCABundle_key [OF assms(2)]\<close>)
  show "emits (confined (namespaceOf k)) (ensureMetricsServerAuditLogPolicyConfigMap C k)"
    unfolding ensureMetricsServerAuditLogPolicyConfigMap_def Let_def
    by (intro emits_bind emits_reads emits_upsert_read) (auto simp: bindE_Ok newMeta_def dest!: key reviseAuditPolicy_key)
qed

lemma confined_prometheus [confined_intros]:
  assumes "lookup_ok C"
  shows "emits (confined (namespaceOf k)) (ensurePrometheusMonitoringRBAC C k)"
proof -
  let ?n = "prometheusRBACName (namespaceOf k)"
  have role: "emits (confined (namespaceOf k)) (ensurePrometheusRole C k ?n)"
    unfolding ensurePrometheusRole_def Let_def
    by (rule emits_upsert_read) (auto simp: bindE_Ok newMeta_def dest!: lookup_okD(3) [OF assms] reviseRole_key)
  have create: "emits (confined (namespaceOf k)) (createDesiredRoleBinding C k ?n)"
    unfolding createDesiredRoleBinding_def Let_def
    by (intro emits_intros) (simp add: desiredRoleBinding_def newMeta_def)
  have "emits (confined (namespaceOf k)) (ensurePrometheusRoleBinding C k ?n)"
    unfolding ensurePrometheusRoleBinding_def
  proof (rule emits_withExisting_read [OF create])
    fix x w w'
    assume "getRoleBinding C (?n, namespaceOf k) w = (Inr x, w')"
    then have x: "confined (namespaceOf k) (WriteRoleBinding x)" "confined (namespaceOf k) (DeleteRoleBinding x)"
      by (auto dest: lookup_okD(4) [OF assms])
    have "emits (confined (namespaceOf k)) (bindIO (liftE (reviseRoleBinding C k ?n x)) (\<lambda>(rb, update).
        whenIO update (calling (WriteRoleBinding rb) (updateRoleBinding C rb))))"
      by (intro emits_bind_yields [where Q = "\<lambda>z. reviseRoleBinding C k ?n x = Inr z"] yields_liftE emits_reads)
        (use x(1) in \<open>auto intro!: emits_when emits_calling dest!: reviseRoleBinding_key\<close>)
    then show "emits (confined (namespaceOf k)) (if rb_roleRef (rbo_binding x) \<noteq> rb_roleRef (desiredRoleBinding k ?n)
        then thenIO (calling (DeleteRoleBinding x) (deleteRoleBinding C x)) (createDesiredRoleBinding C k ?n)
        else bindIO (liftE (reviseRoleBinding C k ?n x)) (\<lambda>(rb, update).
          whenIO update (calling (WriteRoleBinding rb) (updateRoleBinding C rb))))"
      using x(2) create by (intro emits_if emits_then emits_calling)
  qed
  then show ?thesis
    unfolding ensurePrometheusMonitoringRBAC_def Let_def
    by (auto intro!: emits_intros role split: sum.split error.split)
qed

lemma confined_parts [confined_intros]:
  assumes "lookup_ok C" "annotating_ok (kube C)"
  shows "emits (confined (namespaceOf k)) (gcpWorkloadIdentityTransforms C k cfg)"
    "emits (confined (namespaceOf k)) (auditTransforms C k)" "emits (confined (namespaceOf k)) (metricsCertTransforms C k)"
  unfolding gcpWorkloadIdentityTransforms_def auditTransforms_def metricsCertTransforms_def Let_def
  using confined_secret [OF assms(1)] confined_configMaps [OF assms]
  by (auto intro!: emits_bind emits_then emits_if emits_reads emits_modifyStatus emits_gcpPlatform
      emits_checkAuditLogVolumeExists split: option.split prod.split)

lemma confined_installs [confined_intros]:
  assumes "lookup_ok C" "annotating_ok (kube C)"
  shows "emits (confined (namespaceOf k)) (installGeneralResources C R k)"
    "emits (confined (namespaceOf k)) (installController C R k cfg)"
    "emits (confined (namespaceOf k)) (installMetricsServer C R k)"
    "emits (confined (namespaceOf k)) (installAdmissionWebhooks C R k)"
    "emits (confined (namespaceOf k)) (installMonitoring C R k)" "emits (confined (namespaceOf k)) (installHTTPAddon C R k)"
  unfolding installGeneralResources_def installController_def installMetricsServer_def installAdmissionWebhooks_def
    installMonitoring_def installHTTPAddon_def Let_def
  by (intro emits_bind emits_then emits_if emits_when emits_reads emits_modifyStatus emits_pieces emits_startRotator
      emits_addon confined_simps confined_secret [OF assms(1)] confined_parts [OF assms])+

lemma confined_report: "emits (confined ns) (UpdateKedaControllerStatus C k st)" "emits (confined ns) (failInstall C k reason e)"
proof -
  show update: "emits (confined ns) (UpdateKedaControllerStatus C k st)" for st
    unfolding UpdateKedaControllerStatus_def by (intro emits_calling confined_simps)
  show "emits (confined ns) (failInstall C k reason e)"
    unfolding failInstall_def
    by (intro emits_then emits_modifyStatus emits_bind emits_reads emits_try update emits_result)
qed

lemma confined_step: "emits (confined ns) m \<Longrightarrow> emits (confined ns) rest \<Longrightarrow> emits (confined ns) (installStep C k reason m rest)"
  unfolding installStep_def by (intro emits_bind emits_try emits_result confined_report)

lemma confined_installAll:
  assumes "lookup_ok C" "annotating_ok (kube C)"
  shows "emits (confined (namespaceOf k)) (installAll C R k)"
  unfolding installAll_def installSucceeded_def
  by (intro emits_then emits_modifyStatus emits_result confined_step confined_installs [OF assms]
      confined_prometheus [OF assms(1)] confined_report emits_bind emits_reads)

lemma confined_finalize:
  assumes "lookup_ok C"
  shows "emits (confined (namespaceOf k)) (finalizeKedaController C R k)"
  unfolding finalizeKedaController_def deleteOperand_def
  by (intro emits_then emits_addon emits_bind emits_pieces confined_simps confined_secret [OF assms])

section \<open>A reconcile is confined\<close>

lemma confined_Reconcile [confined_intros]:
  assumes "lookup_ok C" "annotating_ok (kube C)"
  shows "emits (confined (rc_namespace R)) (Reconcile C R req)"
proof -
  have tried: "yields (\<lambda>r. \<forall>k. r = Inr k \<longrightarrow> isInteresting req (rc_namespace R) \<longrightarrow> namespaceOf k = rc_namespace R)
      (tryIO (reading (getKedaController C req)))"
    by (rule yields_try, rule yields_reading, cases req) (auto dest: lookup_okD(5) [OF assms(1)] simp: isInteresting_def)
  have body: "emits (confined (rc_namespace R))
      (if \<not> isInteresting req (rc_namespace R) then
         UpdateKedaControllerStatus C k (MarkIgnored (ignoredMessage (rc_namespace R)) (k_status k))
       else if k_deletionTimestamp k \<noteq> None then
         whenIO (containsFinalizer C k kedaControllerFinalizer)
           (thenIO (finalizeKedaController C R k)
             (let k' = removeFinalizerFrom C k kedaControllerFinalizer
              in calling (PatchController k') (patchKedaController C k')))
       else if \<not> containsFinalizer C k kedaControllerFinalizer then addFinalizer C k
       else installAll C R k)" if "isInteresting req (rc_namespace R) \<longrightarrow> namespaceOf k = rc_namespace R" for k
    using confined_finalize [OF assms(1), of k R] confined_installAll [OF assms, of k R] that
    unfolding Let_def addFinalizer_def
    by (intro emits_if emits_when emits_then emits_calling confined_simps confined_report) simp_all
  have "emits (confined (rc_namespace R)) (case r of Inl (NotFound n) \<Rightarrow> returnIO () | Inl e \<Rightarrow> failIO e | Inr k \<Rightarrow>
       (if \<not> isInteresting req (rc_namespace R) then
         UpdateKedaControllerStatus C k (MarkIgnored (ignoredMessage (rc_namespace R)) (k_status k))
       else if k_deletionTimestamp k \<noteq> None then
         whenIO (containsFinalizer C k kedaControllerFinalizer)
           (thenIO (finalizeKedaController C R k)
             (let k' = removeFinalizerFrom C k kedaControllerFinalizer
              in calling (PatchController k') (patchKedaController C k')))
       else if \<not> containsFinalizer C k kedaControllerFinalizer then addFinalizer C k
       else installAll C R k))"
    if r: "\<forall>k. r = Inr k \<longrightarrow> isInteresting req (rc_namespace R) \<longrightarrow> namespaceOf k = rc_namespace R" for r
  proof (cases r)
    case (Inl e)
    then show ?thesis by (cases e) (simp_all add: emits_reads)
  next
    case (Inr k)
    then have "isInteresting req (rc_namespace R) \<longrightarrow> namespaceOf k = rc_namespace R" using r by blast
    from body [OF this] show ?thesis unfolding Inr sum.case .
  qed
  then show ?thesis
    unfolding Reconcile_def by (rule emits_bind_yields [OF tried emits_try [OF emits_reads(5)]])
qed

text \<open>A client that looks objects up by their key.\<close>

definition keyedClient :: "(demoObj, demoCluster) client" where
  "keyedClient = demoClient
     \<lparr>getSecret := (\<lambda>key w. (case dc_secret w of
        None \<Rightarrow> Err (NotFound [])
      | Some x \<Rightarrow> if (om_name (se_meta x), om_namespace (se_meta x)) = key then Ok x else Err (NotFound []), w)),
      getKedaController := (\<lambda>key w. (case dc_controller w of
        None \<Rightarrow> Err (NotFound [])
      | Some k \<Rightarrow> if (om_name (k_meta k), om_namespace (k_meta k)) = key then Ok k else Err (NotFound []), w))\<rparr>"

lemma keyedClient_ok: "lookup_ok keyedClient" "annotating_ok (kube keyedClient)"
proof -
  show "lookup_ok keyedClient"
    by (auto simp: lookup_ok_def keyedClient_def demoClient_def absent_def split: option.splits if_splits)
  show "annotating_ok (kube keyedClient)"
    by (simp add: keyedClient_def demoClient_def annotating_ok_def demoApi_def)
qed

end
