(* ===== verification/Process.thy ===== *)
theory Process
  imports Watchers Confinement
begin

text \<open>
  The running operator as a state machine: reconciles of the three controllers, the start-up routine
  and whatever else happens in the cluster, in any order, and what holds in every reachable state.
\<close>

section \<open>Steps of the process\<close>

text \<open>
  A state is the cluster, the calls made since the process started and the flag \<open>rotatorStarted\<close>. The
  local variable \<open>status\<close> of \<open>Reconcile\<close> has no value between two runs, so that a run may
  find any. \<open>Elsewhere\<close>: users, other controllers and the API server change the cluster.
\<close>

inductive operatorStep :: "('u, 'w) client \<Rightarrow> 'u reconciler \<Rightarrow> ('u, 'w) run \<Rightarrow> ('u, 'w) run \<Rightarrow> bool" for C R where
  KedaController: "Reconcile C R req (s\<lparr>r_status := st\<rparr>) = (r, t) \<Longrightarrow> operatorStep C R s t"
| ConfigMap: "ConfigMapReconcile C (rc_namespace R) req s = (r, t) \<Longrightarrow> operatorStep C R s t"
| Secret: "SecretReconcile C (rc_namespace R) req s = (r, t) \<Longrightarrow> operatorStep C R s t"
| StartUp: "ensureKedaController C R s = (r, t) \<Longrightarrow> operatorStep C R s t"
| Elsewhere: "operatorStep C R s (s\<lparr>r_cluster := w\<rparr>)"

inductive reachable :: "('u, 'w) client \<Rightarrow> 'u reconciler \<Rightarrow> ('u, 'w) run \<Rightarrow> bool" for C R where
  Start: "r_calls s = [] \<Longrightarrow> \<not> r_rotatorStarted s \<Longrightarrow> reachable C R s"
| Step: "reachable C R s \<Longrightarrow> operatorStep C R s t \<Longrightarrow> reachable C R t"

text \<open>An invariant that the start satisfies and every handler keeps holds in every reachable state.\<close>

definition preserves :: "(('u, 'w) run \<Rightarrow> bool) \<Rightarrow> ('u, 'w, 'a) io \<Rightarrow> bool" where
  "preserves I m \<longleftrightarrow> (\<forall>s r t. m s = (r, t) \<longrightarrow> I s \<longrightarrow> I t)"

lemma preservesD: "preserves I m \<Longrightarrow> m s = (r, t) \<Longrightarrow> I s \<Longrightarrow> I t"
  unfolding preserves_def by blast

lemma reachable_invariant:
  assumes "reachable C R s"
    and "\<And>s. r_calls s = [] \<Longrightarrow> \<not> r_rotatorStarted s \<Longrightarrow> I s"
    and local: "\<And>s f w. I (s\<lparr>r_status := f\<rparr>) = I s" "\<And>s w. I (s\<lparr>r_cluster := w\<rparr>) = I s"
    and "\<And>req. preserves I (Reconcile C R req)" "\<And>req. preserves I (ConfigMapReconcile C (rc_namespace R) req)"
      "\<And>req. preserves I (SecretReconcile C (rc_namespace R) req)" "preserves I (ensureKedaController C R)"
  shows "I s"
  using assms(1)
proof induction
  case (Step s t)
  from Step(2) show ?case
  proof (cases rule: operatorStep.cases)
    case (KedaController req st r)
    then show ?thesis using preservesD [OF assms(5)] Step(3) local(1) by blast
  qed (use Step(3) preservesD [OF assms(6)] preservesD [OF assms(7)] preservesD [OF assms(8)] local(2) in blast)+
qed (rule assms(2))

section \<open>Rules for preservation\<close>

named_theorems preserves_intros \<open>operations that keep an invariant of the process\<close>

text \<open>The invariants speak about the calls and the rotator flag only.\<close>

definition traceOnly :: "(('u, 'w) run \<Rightarrow> bool) \<Rightarrow> bool" where
  "traceOnly I \<longleftrightarrow> (\<forall>s t. r_calls s = r_calls t \<longrightarrow> r_rotatorStarted s = r_rotatorStarted t \<longrightarrow> I s = I t)"

lemma preserves_quiet: "traceOnly I \<Longrightarrow> quiet m \<Longrightarrow> preserves I m"
  unfolding preserves_def traceOnly_def using quietD by metis

lemma preserves_bind [preserves_intros]:
  assumes "preserves I m" "\<And>x. preserves I (k x)"
  shows "preserves I (bindIO m k)"
  unfolding preserves_def
proof (intro allI impI)
  fix s r t
  assume run: "bindIO m k s = (r, t)" and s: "I s"
  obtain x u where m: "m s = (x, u)" by (cases "m s")
  have u: "I u" using preservesD [OF assms(1) m s] .
  show "I t" using run m u preservesD [OF assms(2)] by (cases x) (auto simp: bindIO_def)
qed

lemma preserves_then [preserves_intros]: "preserves I m \<Longrightarrow> preserves I k \<Longrightarrow> preserves I (thenIO m k)"
  unfolding thenIO_def by (rule preserves_bind)

lemma preserves_try [preserves_intros]: "preserves I m \<Longrightarrow> preserves I (tryIO m)"
  unfolding preserves_def tryIO_eq by blast

lemma preserves_if [preserves_intros]:
  "(b \<Longrightarrow> preserves I m) \<Longrightarrow> (\<not> b \<Longrightarrow> preserves I n) \<Longrightarrow> preserves I (if b then m else n)"
  by simp

section \<open>The rotator\<close>

definition rotations :: "('u call \<times> bool) list \<Rightarrow> nat" where
  "rotations cs = length (filter (\<lambda>(c, ok). (case c of AddRotator rot \<Rightarrow> ok | _ \<Rightarrow> False)) cs)"

text \<open>The flag says whether the rotator has been added, and it has been added at most once.\<close>

definition rotatorOnce :: "('u, 'w) run \<Rightarrow> bool" where
  "rotatorOnce s \<longleftrightarrow> rotations (r_calls s) = (if r_rotatorStarted s then 1 else 0)"

lemma rotations_simps [simp]:
  "rotations [] = 0" "rotations (cs @ ds) = rotations cs + rotations ds" "rotations [(AddRotator rot, True)] = 1"
  "rotations [(AddRotator rot, False)] = 0" "(\<And>rot. c \<noteq> AddRotator rot) \<Longrightarrow> rotations [(c, b)] = 0"
  by (simp_all add: rotations_def split: call.split)

lemma rotatorOnce_local: "traceOnly rotatorOnce"
  by (simp add: traceOnly_def rotatorOnce_def)

lemma once_quiet: "quiet m \<Longrightarrow> preserves rotatorOnce m"
  by (rule preserves_quiet [OF rotatorOnce_local])

lemma once_reads [preserves_intros]:
  "preserves rotatorOnce (returnIO x)" "preserves rotatorOnce (failIO e)" "preserves rotatorOnce (liftE r)"
  "preserves rotatorOnce getStatus" "preserves rotatorOnce (reading f)" "preserves rotatorOnce (RunningOnOpenshift C)"
  "preserves rotatorOnce (HasServiceMonitorCRD C)" "preserves rotatorOnce (HasPodMonitorCRD C)"
  "preserves rotatorOnce (withoutSeccompProfileDefault C)"
  by (rule once_quiet, rule quiet_intros)+

lemma once_modifyStatus [preserves_intros]: "preserves rotatorOnce (modifyStatus f)"
  by (simp add: preserves_def rotatorOnce_def)

lemma once_calling [preserves_intros]: "(\<And>rot. c \<noteq> AddRotator rot) \<Longrightarrow> preserves rotatorOnce (calling c f)"
  by (auto simp: preserves_def rotatorOnce_def calling_def split: prod.splits)

lemma once_startRotator [preserves_intros]: "preserves rotatorOnce (startRotator C R)"
  by (auto simp: preserves_def rotatorOnce_def startRotator_eq bindIO_def calling_def
      split: prod.splits sum.splits if_splits)

lemma once_when [preserves_intros]: "preserves rotatorOnce m \<Longrightarrow> preserves rotatorOnce (whenIO b m)"
  unfolding whenIO_def by (intro preserves_if once_reads)

lemma once_withExisting:
  assumes "preserves rotatorOnce cr" "\<And>x. preserves rotatorOnce (k x)"
  shows "preserves rotatorOnce (withExisting (reading get) cr k)"
  unfolding withExisting_def using assms
  by (auto intro!: preserves_bind preserves_try once_reads split: sum.split error.split)

lemma once_upsert:
  "(\<And>x rot. wrote x \<noteq> AddRotator rot) \<Longrightarrow> preserves rotatorOnce (upsert get fresh wrote create revise update)"
  unfolding upsert_def split_def
  by (intro once_withExisting preserves_bind once_calling once_when once_reads)

lemma once_ensures [preserves_intros]:
  "preserves rotatorOnce (ensureGCPCredentialsSecret C k cr)" "preserves rotatorOnce (ensureOpenshiftCABundleConfigMap C k)"
  "preserves rotatorOnce (ensureMetricsServerAuditLogPolicyConfigMap C k)" "preserves rotatorOnce (ensurePrometheusRole C k n)"
  unfolding ensureGCPCredentialsSecret_def ensureOpenshiftCABundleConfigMap_def ensureMetricsServerAuditLogPolicyConfigMap_def
    ensurePrometheusRole_def Let_def
  by (intro once_upsert preserves_bind once_reads; simp)+

lemma once_gcp [preserves_intros]:
  "preserves rotatorOnce (deleteGCPCredentialsSecret C k)" "preserves rotatorOnce (gcpWorkloadIdentityTransforms C k cfg)"
proof -
  show "preserves rotatorOnce (deleteGCPCredentialsSecret C k)"
    unfolding deleteGCPCredentialsSecret_def
    by (auto intro!: preserves_intros split: sum.split error.split)
  have "quiet (gcpPlatform C)" unfolding gcpPlatform_def by (auto intro!: quiet_intros split: sum.split)
  then show "preserves rotatorOnce (gcpWorkloadIdentityTransforms C k cfg)"
    unfolding gcpWorkloadIdentityTransforms_def Let_def
    by (auto intro!: preserves_intros once_quiet [of "gcpPlatform C"] split: option.split prod.split)
qed

lemma once_pieces [preserves_intros]:
  "preserves rotatorOnce (transformManifest C ts us)" "preserves rotatorOnce (applyCall C us)"
  "preserves rotatorOnce (deleteCall C us)" "preserves rotatorOnce (kedaTLSEnvVarTransforms C)"
  "preserves rotatorOnce (httpAddonTLSEnvVarTransforms C)" "preserves rotatorOnce (needsSeccompRemoval C)"
  "preserves rotatorOnce (renderForDelete C us ns extra)"
  "preserves rotatorOnce m \<Longrightarrow> preserves rotatorOnce (listIf b m)"
  unfolding transformManifest_def applyCall_def deleteCall_def renderForDelete_def listIf_def
  by (auto intro!: preserves_intros once_quiet [OF quiet_pieces(3)] once_quiet [OF quiet_pieces(4)] once_quiet [OF quiet_pieces(5)])

lemma once_parts [preserves_intros]:
  "preserves rotatorOnce (auditTransforms C k)" "preserves rotatorOnce (metricsCertTransforms C k)"
  "preserves rotatorOnce (failAddon reason e)" "preserves rotatorOnce (installAddonComponent C component ts us)"
  "preserves rotatorOnce (deleteHTTPAddonManifest C b us ns)" "preserves rotatorOnce (deleteHTTPAddon C R ns)"
  unfolding auditTransforms_def metricsCertTransforms_def checkAuditLogVolumeExists_def failAddon_def
    installAddonComponent_def deleteHTTPAddon_def deleteHTTPAddonManifest_def Let_def
  by (auto intro!: preserves_intros split: option.split sum.split error.split)

lemma once_installs [preserves_intros]:
  "preserves rotatorOnce (installGeneralResources C R k)" "preserves rotatorOnce (installController C R k cfg)"
  "preserves rotatorOnce (installMetricsServer C R k)" "preserves rotatorOnce (installAdmissionWebhooks C R k)"
  "preserves rotatorOnce (installMonitoring C R k)" "preserves rotatorOnce (installHTTPAddon C R k)"
  unfolding installGeneralResources_def installController_def installMetricsServer_def installAdmissionWebhooks_def
    installMonitoring_def installHTTPAddon_def Let_def
  by (intro preserves_intros)+

lemma once_prometheus [preserves_intros]: "preserves rotatorOnce (ensurePrometheusMonitoringRBAC C k)"
proof -
  have "preserves rotatorOnce (ensurePrometheusRoleBinding C k n)" for n
    unfolding ensurePrometheusRoleBinding_def createDesiredRoleBinding_def Let_def split_def
    by (intro once_withExisting preserves_intros; simp)
  then show ?thesis
    unfolding ensurePrometheusMonitoringRBAC_def Let_def
    by (auto intro!: preserves_intros split: sum.split error.split)
qed

lemma once_report [preserves_intros]:
  "preserves rotatorOnce (UpdateKedaControllerStatus C k st)" "preserves rotatorOnce (failInstall C k reason e)"
  unfolding failInstall_def UpdateKedaControllerStatus_def
  by (auto intro!: preserves_intros split: sum.split)

lemma once_installAll [preserves_intros]: "preserves rotatorOnce (installAll C R k)"
  unfolding installAll_def installSucceeded_def installStep_def
  by (auto intro!: preserves_intros split: sum.split)

lemma once_Reconcile [preserves_intros]: "preserves rotatorOnce (Reconcile C R req)"
  unfolding Reconcile_def finalizeKedaController_def deleteOperand_def addFinalizer_def Let_def
  by (auto intro!: preserves_intros split: sum.split error.split)

lemma once_watchers [preserves_intros]:
  "preserves rotatorOnce (ConfigMapReconcile C ns req)" "preserves rotatorOnce (SecretReconcile C ns req)"
  "preserves rotatorOnce (ensureKedaController C R)"
  unfolding ConfigMapReconcile_def SecretReconcile_def ensureKedaController_def Let_def
  by (auto intro!: once_withExisting preserves_intros split: sum.split error.split)

lemma reachable_once: "reachable C R s \<Longrightarrow> rotatorOnce s"
  by (erule reachable_invariant [where I = rotatorOnce]) (rule preserves_intros | simp add: rotatorOnce_def)+

text \<open>
  C16. In every state the operator can get into, whatever the order of reconciles, failures and outside
  changes, the certificate rotator has been added successfully at most once, and the flag \<open>rotatorStarted\<close>
  says exactly whether it has.
\<close>

theorem rotator_added_once:
  assumes "reachable C R s"
  shows "rotations (r_calls s) = (if r_rotatorStarted s then 1 else 0)"
  using reachable_once [OF assms] by (simp add: rotatorOnce_def)

section \<open>Confinement of the process\<close>

lemma emits_preserves:
  assumes "emits P m"
  shows "preserves (\<lambda>s. list_all (\<lambda>c. P (fst c)) (r_calls s)) m"
  unfolding preserves_def using emitsD [OF assms] by fastforce

lemma confined_handlers:
  assumes "lookup_ok C"
  shows "emits (confined ns) (ConfigMapReconcile C ns' req)" "emits (confined ns) (SecretReconcile C ns' req)"
    "emits (confined (rc_namespace R)) (ensureKedaController C R)"
proof -
  show "emits (confined ns) (ConfigMapReconcile C ns' req)" "emits (confined ns) (SecretReconcile C ns' req)"
    unfolding ConfigMapReconcile_def SecretReconcile_def Let_def
    by (intro emits_withExisting emits_if emits_reads confined_report)+
  have got: "yields (\<lambda>x. om_name (ns_meta x) = rc_namespace R) (reading (getNamespaceObject C (rc_namespace R)))"
    by (rule yields_reading) (rule lookup_okD(6) [OF assms])
  have new: "confined (rc_namespace R) (CreateController (initializeDefaultController R))"
    by (simp add: initializeDefaultController_def Let_def)
  show "emits (confined (rc_namespace R)) (ensureKedaController C R)"
    unfolding ensureKedaController_def Let_def using new
    by (auto intro!: emits_bind emits_bind_yields [OF got] emits_if emits_then emits_try emits_calling emits_reads
        split: sum.split error.split simp del: confined_simps(12))
qed

lemma reachable_confined:
  assumes "lookup_ok C" "annotating_ok (kube C)" "reachable C R s"
  shows "list_all (\<lambda>c. confined (rc_namespace R) (fst c)) (r_calls s)"
  using assms(3)
  by (rule reachable_invariant)
    (simp_all add: emits_preserves confined_Reconcile [OF assms(1,2)] confined_handlers [OF assms(1)])


section \<open>A run of the process\<close>

lemma demo_reachable:
  "reachable keyedClient demoReconciler (demoState k)"
  "reachable keyedClient demoReconciler (snd (ensureKedaController keyedClient demoReconciler (demoState k)))"
proof -
  show start: "reachable keyedClient demoReconciler (demoState k)" for k
    by (rule reachable.Start) (simp_all add: demoState_def demoRun_def)
  show "reachable keyedClient demoReconciler (snd (ensureKedaController keyedClient demoReconciler (demoState k)))"
    by (rule reachable.Step [OF start operatorStep.StartUp]) (rule surjective_pairing)
qed

lemma demo_reconciled:
  "reachable keyedClient demoReconciler (snd (Reconcile keyedClient demoReconciler req (demoState k)))"
proof (rule reachable.Step [OF demo_reachable(1)], rule operatorStep.KedaController)
  show "Reconcile keyedClient demoReconciler req ((demoState k)\<lparr>r_status := r_status (demoState k)\<rparr>) =
      (fst (Reconcile keyedClient demoReconciler req (demoState k)), snd (Reconcile keyedClient demoReconciler req (demoState k)))"
    by simp
qed

theorem rotator_added_once_witness:
  "let t = snd (Reconcile keyedClient demoReconciler (''keda'', ''keda'') (demoState (demoController [kedaControllerFinalizer] None)))
   in rotations (r_calls t) = (if r_rotatorStarted t then 1 else 0)"
  using rotator_added_once [OF demo_reconciled] by (simp add: Let_def)


end
