(* ===== verification/Watching.thy ===== *)
theory Watching
  imports Watchers
begin

text \<open>
  What the reconcilers of the certificate ConfigMap and Secret, the start-up routine and the set-up
  guarantee.
\<close>

section \<open>The checksums\<close>

text \<open>The common shape of the two reconcilers.\<close>

definition recordsSum ::
  "('u, 'w) client \<Rightarrow> ('w, 'o) request \<Rightarrow> ('o \<Rightarrow> string) \<Rightarrow> (KedaControllerStatus \<Rightarrow> string) \<Rightarrow>
   (string \<Rightarrow> KedaControllerStatus \<Rightarrow> KedaControllerStatus) \<Rightarrow> objectKey \<Rightarrow> ('u, 'w, unit) io" where
  "recordsSum C get sumOf stored store key =
     withExisting (reading get) (returnIO ()) (\<lambda>x.
     withExisting (reading (getKedaController C key)) (returnIO ()) (\<lambda>k.
       if stored (k_status k) \<noteq> [] \<and> stored (k_status k) = sumOf x then returnIO ()
       else UpdateKedaControllerStatus C k (store (sumOf x) (k_status k))))"

definition configMapSum :: "('u, 'w) client \<Rightarrow> configMap \<Rightarrow> string" where
  "configMapSum C cm = CalculateConfigMapDataCheckSum (md5Hex C) (dataOrder C) (case cm_data cm of None \<Rightarrow> [] | Some kvs \<Rightarrow> kvs)"

definition secretSum :: "('u, 'w) client \<Rightarrow> secret \<Rightarrow> string" where
  "secretSum C sec = CalculateSecretedDataCheckSum (md5Hex C) (dataOrder C) (se_data sec)"

lemma recordsSum_instances:
  "ConfigMapReconcile C ns req =
     recordsSum C (getConfigMap C req) (configMapSum C) kcs_configMapDataSum (\<lambda>x st. st\<lparr>kcs_configMapDataSum := x\<rparr>) (''keda'', ns)"
  "SecretReconcile C ns req =
     recordsSum C (getSecret C req) (secretSum C) kcs_secretDataSum (\<lambda>x st. st\<lparr>kcs_secretDataSum := x\<rparr>) (''keda'', ns)"
  unfolding ConfigMapReconcile_def SecretReconcile_def recordsSum_def configMapSum_def secretSum_def Let_def by (rule refl)+

lemma recordsSum_run:
  assumes "get (r_cluster s) = (Inr x, w)" "getKedaController C key w = (Inr k, w')"
  shows "recordsSum C get sumOf stored store key s =
     (if stored (k_status k) \<noteq> [] \<and> stored (k_status k) = sumOf x then (Inr (), s\<lparr>r_cluster := w'\<rparr>)
      else UpdateKedaControllerStatus C k (store (sumOf x) (k_status k)) (s\<lparr>r_cluster := w'\<rparr>))"
  using assms by (simp add: recordsSum_def withExisting_run)

text \<open>Recording is idempotent as long as the checksum stays the same.\<close>

lemma recordsSum_once:
  assumes first: "get (r_cluster s) = (Inr x, w)" "getKedaController C key w = (Inr k, w')" "sumOf x \<noteq> []"
    and law: "\<And>z st. stored (store z st) = z" "\<And>st. store (stored st) st = st"
    and run: "recordsSum C get sumOf stored store key s = (Inr (), t)"
  shows "\<exists>st. st = store (sumOf x) (k_status k)
    \<and> r_calls t = r_calls s @ (if st = k_status k then [] else [(PatchStatus st, True)])
    \<and> (\<forall>u y v k' v'. get (r_cluster u) = (Inr y, v) \<and> sumOf y = sumOf x \<and> getKedaController C key v = (Inr k', v') \<and>
          k_status k' = st \<longrightarrow> recordsSum C get sumOf stored store key u = (Inr (), u\<lparr>r_cluster := v'\<rparr>))"
proof -
  let ?st = "store (sumOf x) (k_status k)"
  have "stored (k_status k) = sumOf x \<longleftrightarrow> ?st = k_status k" using law by metis
  then have "r_calls t = r_calls s @ (if ?st = k_status k then [] else [(PatchStatus ?st, True)])"
    using run first(3) calling_Ok [of "PatchStatus ?st" _ "s\<lparr>r_cluster := w'\<rparr>"]
    by (simp add: recordsSum_run [where get = get, OF first(1,2)] UpdateKedaControllerStatus_def split: if_splits) auto
  moreover have "recordsSum C get sumOf stored store key u = (Inr (), u\<lparr>r_cluster := v'\<rparr>)"
    if "get (r_cluster u) = (Inr y, v)" "sumOf y = sumOf x" "getKedaController C key v = (Inr k', v')" "k_status k' = ?st"
    for u y v k' v'
    using that(2,4) first(3) law(1) by (simp add: recordsSum_run [where get = get, OF that(1,3)])
  ultimately show ?thesis by blast
qed

text \<open>
  C23. A change of the certificate ConfigMap is recorded once: a successful reconcile leaves the checksum
  of its data in the status, with one status patch when it was not there and none when it was, and
  touches nothing else of the status; a later reconcile that finds this status and data of the
  same checksum makes no call.
\<close>

theorem ConfigMapReconcile_records_once:
  assumes "getConfigMap C req (r_cluster s) = (Inr cm, w)" and "getKedaController C (''keda'', ns) w = (Inr k, w')"
    and "configMapSum C cm \<noteq> []" and "ConfigMapReconcile C ns req s = (Inr (), t)"
  shows "\<exists>st. st = (k_status k)\<lparr>kcs_configMapDataSum := configMapSum C cm\<rparr>
    \<and> r_calls t = r_calls s @ (if st = k_status k then [] else [(PatchStatus st, True)])
    \<and> (\<forall>u y v k' v'. getConfigMap C req (r_cluster u) = (Inr y, v) \<and> configMapSum C y = configMapSum C cm \<and>
          getKedaController C (''keda'', ns) v = (Inr k', v') \<and> k_status k' = st \<longrightarrow>
          ConfigMapReconcile C ns req u = (Inr (), u\<lparr>r_cluster := v'\<rparr>))"
  using assms unfolding recordsSum_instances by (intro recordsSum_once) simp_all

text \<open>A cluster with one ConfigMap.\<close>

definition configMapClient :: "(demoObj, demoCluster) client" where
  "configMapClient = demoClient\<lparr>getConfigMap := (\<lambda>key w. (Ok \<lparr>cm_meta = newMeta (fst key) (snd key), cm_owners = [],
     cm_data = Some [(''ca.crt'', ''x'')]\<rparr>, w))\<rparr>"

theorem ConfigMapReconcile_records_once_witness:
  "\<exists>st. kcs_configMapDataSum st = ''ca.crtx'' \<and>
     r_calls (snd (ConfigMapReconcile configMapClient ''keda'' (configMapName, ''keda'') (demoState (demoController [] None)))) =
       [(PatchStatus st, True)]"
proof -
  let ?k = "demoController [] None" and ?req = "(configMapName, ''keda'')"
  let ?cm = "\<lparr>cm_meta = newMeta (fst ?req) (snd ?req), cm_owners = [], cm_data = Some [(''ca.crt'', ''x'')]\<rparr>"
  have get: "getConfigMap configMapClient ?req (r_cluster (demoState ?k)) = (Inr ?cm, r_cluster (demoState ?k))"
    "getKedaController configMapClient (''keda'', ''keda'') (r_cluster (demoState ?k)) = (Inr ?k, r_cluster (demoState ?k))"
    using demoState_get(1) by (simp_all add: configMapClient_def)
  have sum: "configMapSum configMapClient ?cm = ''ca.crtx''"
    by (simp add: configMapSum_def CalculateConfigMapDataCheckSum_def configMapClient_def demoClient_def)
  have new: "kcs_configMapDataSum (k_status ?k) = []"
    by (simp add: demoController_def zeroKedaController_def zeroKedaControllerStatus_def)
  obtain t where t: "ConfigMapReconcile configMapClient ''keda'' ?req (demoState ?k) = (Inr (), t)"
    unfolding recordsSum_instances recordsSum_run [where get = "getConfigMap configMapClient ?req", OF get]
    by (simp add: UpdateKedaControllerStatus_def calling_def new configMapClient_def demoClient_def)
  moreover have "configMapSum configMapClient ?cm \<noteq> []" unfolding sum by simp
  ultimately obtain st where st: "st = (k_status ?k)\<lparr>kcs_configMapDataSum := ''ca.crtx''\<rparr>"
    "r_calls t = (if st = k_status ?k then [] else [(PatchStatus st, True)])"
    using ConfigMapReconcile_records_once [OF get] unfolding sum by (auto simp: demoState_get)
  have "kcs_configMapDataSum st = ''ca.crtx''" using st(1) by simp
  moreover have "st \<noteq> k_status ?k" using calculation new by auto
  ultimately show ?thesis using st(2) t by auto
qed

section \<open>The default KedaController\<close>

definition annotatedNamespace :: "namespace' \<Rightarrow> bool" where
  "annotatedNamespace ns \<longleftrightarrow> om_annotations (ns_meta ns) kedaDefaultControllerAnnotation \<noteq> None"

lemma calling_outcome:
  fixes f :: "('w, unit) request"
  shows "calling c f s = (r, t) \<Longrightarrow> \<exists>ok. r_calls t = r_calls s @ [(c, ok)] \<and> (r = Inr () \<longleftrightarrow> ok)"
  by (auto simp: calling_def split: prod.splits sum.splits)

text \<open>Creating when there is no KedaController, then annotating.\<close>

lemma creating_and_noting:
  fixes f h :: "('w, unit) request"
  assumes "(case g of Inl (NotFound m) \<Rightarrow> thenIO (calling (CreateController k) f) (calling (PatchNamespace n) h) s
      | Inl e \<Rightarrow> (Inl e, s) | Inr x \<Rightarrow> calling (PatchNamespace n) h s) = (r, t)"
  shows "\<exists>created noted. r_calls t = r_calls s @ created @ noted
    \<and> (created = [] \<or> (\<exists>ok. created = [(CreateController k, ok)] \<and> (\<not> ok \<longrightarrow> noted = [])))
    \<and> (noted = [] \<or> (\<exists>ok. noted = [(PatchNamespace n, ok)] \<and> (r = Inr () \<longleftrightarrow> ok)))
    \<and> (r = Inr () \<longrightarrow> noted \<noteq> []) \<and> (\<forall>x. g = Inr x \<longrightarrow> created = [])"
proof -
  consider (missing) m where "g = Inl (NotFound m)" | (failed) e where "g = Inl e" "\<And>m. e \<noteq> NotFound m" | (found) x where "g = Inr x"
    by (cases g; cases "projl g") auto
  then show ?thesis
  proof cases
    case missing
    then obtain c u where c: "calling (CreateController k) f s = (c, u)"
      and rest: "(case c of Inl e \<Rightarrow> (Inl e, u) | Inr _ \<Rightarrow> calling (PatchNamespace n) h u) = (r, t)"
      using assms by (auto simp: thenIO_def bindIO_def split: prod.splits)
    obtain ok where ok: "r_calls u = r_calls s @ [(CreateController k, ok)]" "c = Inr () \<longleftrightarrow> ok"
      using calling_outcome [OF c] by auto
    show ?thesis
    proof (cases c)
      case (Inl e)
      then show ?thesis using ok rest missing by (intro exI [of _ "[(CreateController k, ok)]"] exI [of _ "[]"]) auto
    next
      case (Inr z)
      then obtain ok' where "r_calls t = r_calls u @ [(PatchNamespace n, ok')]" "r = Inr () \<longleftrightarrow> ok'"
        using rest calling_outcome by fastforce
      then show ?thesis using ok Inr missing
        by (intro exI [of _ "[(CreateController k, ok)]"] exI [of _ "[(PatchNamespace n, ok')]"]) auto
    qed
  next
    case failed
    then have "r = Inl e \<and> t = s" using assms by (auto split: error.splits)
    then show ?thesis using failed by (intro exI [of _ "[]"]) auto
  next
    case found
    then obtain ok where "r_calls t = r_calls s @ [(PatchNamespace n, ok)]" "r = Inr () \<longleftrightarrow> ok"
      using assms calling_outcome by fastforce
    then show ?thesis using found by (intro exI [of _ "[]"] exI [of _ "[(PatchNamespace n, ok)]"]) auto
  qed
qed


text \<open>A cluster with the namespace and no KedaController.\<close>

definition namespaceClient :: "(demoObj, demoCluster) client" where
  "namespaceClient = demoClient\<lparr>getNamespaceObject := (\<lambda>n w. (Ok \<lparr>ns_meta = newMeta n []\<rparr>, w))\<rparr>"


section \<open>Set-up\<close>

lemma quiet_detectOpenshift: "quiet (detectOpenshift C E)"
  unfolding detectOpenshift_def by (auto intro!: quiet_intros split: sum.split)

lemma quiet_SetupWithManager: "quiet (SetupWithManager C E cd le ns)"
  unfolding SetupWithManager_def by (intro quiet_bind quiet_liftE quiet_detectOpenshift quiet_return)

lemma detectOpenshift_total: "\<exists>b t. detectOpenshift C E s = (Inr b, t)"
  by (auto simp: detectOpenshift_def RunningOnOpenshift_def isGvkPresent_def bindIO_def tryIO_def reading_def
      split: sum.split prod.split)

lemma SetupWithManager_Ok:
  "SetupWithManager C E cd le ns s = (Inr R, t) \<longleftrightarrow>
     (\<exists>rs operands hs addons inject.
        GetResourcesManifest (en_readFile E) (en_parseYaml E) = Inr rs \<and>
        parseManifestsFromFile (kube C) (en_manifestFrom E) rs = Inr operands \<and>
        GetHTTPAddonResourcesManifest (en_readFile E) (en_parseYaml E) = Inr hs \<and>
        parseHTTPAddonManifests (kube C) (en_manifestFrom E) hs = Inr addons \<and>
        detectOpenshift C E s = (Inr inject, t) \<and> en_complete E = Inr () \<and>
        R = \<lparr>rc_operands = operands, rc_addons = addons, rc_addonsLoaded = True, rc_namespace = ns,
          rc_injectTLSEnvVars = inject, rc_version = en_version E, rc_certDir = cd, rc_leaderElection = le\<rparr>)"
  by (auto simp: SetupWithManager_def bindIO_Ok split: sum.splits)

lemma addons_mset:
  assumes "manifestFrom_ok manifestFrom" "parseHTTPAddonManifests A manifestFrom rs = Inr s"
  shows "mset rs = mset (ad_operator s) + mset (ad_interceptor s) + mset (ad_scaler s)"
  unfolding parseHTTPAddonManifests_partition [OF assms]
  by (induction rs) (auto simp: isScaler_def)


definition demoEnvironment :: "demoObj environment" where
  "demoEnvironment =
     \<lparr>en_readFile = (\<lambda>n. Ok n), en_parseYaml = (\<lambda>n. Ok (if n = ''keda.yaml'' then [demoObject ''Deployment'' ''keda-operator'' ''keda''] else [])),
      en_manifestFrom = Inr, en_restConfig = Err (LibError []), en_directClient = Err (LibError []), en_complete = Ok (),
      en_version = ''2.17''\<rparr>"


end
