(* ===== verification/Outcomes.thy ===== *)
theory Outcomes
  imports Rendering Reconcile
begin

text \<open>
  What an installation leaves behind: the egress policy of the general resources, the status of the
  HTTP add-on, the access for Prometheus, and that reconciling gets somewhere.
\<close>

section \<open>The egress policy\<close>

lemma dropPod_policy:
  assumes "codec_ok A ''NetworkPolicy'' np_meta (networkPolicies A)" "GetKind A u = ''NetworkPolicy''"
    "decode (networkPolicies A) u = Inr p" "RemoveNetworkPolicyPodSelector A pod u = Inr u'"
  shows "GetKind A u' = ''NetworkPolicy'' \<and> decode (networkPolicies A) u' = Inr (dropPodFromPolicy pod p)"
  using assms by (auto simp: RemoveNetworkPolicyPodSelector_edit writeIfChanged_def codec_ok_def split: if_splits)

lemma egress_flags:
  fixes A :: "'u api"
  assumes codec: "codec_ok A ''NetworkPolicy'' np_meta (networkPolicies A)" and kind: "GetKind A u = ''NetworkPolicy''"
    and p: "decode (networkPolicies A) u = Inr p" "om_name (np_meta p) = ''keda-allow-egress-to-all''"
    and run: "runTransforms (onlyIf metrics [RemoveNetworkPolicyPodSelectorFromMetricsServer A] @
       onlyIf operator [RemoveNetworkPolicyPodSelectorFromKedaOperator A] @
       onlyIf openshift [AddOpenShiftPodToDNSNetworkPolicy A]) u = Inr u'"
  shows "GetKind A u' = ''NetworkPolicy'' \<and> decode (networkPolicies A) u' =
     Inr ((if operator then dropPodFromPolicy ''keda-operator'' else id)
       ((if metrics then dropPodFromPolicy ''keda-metrics-apiserver'' else id) p))"
proof -
  have dns: "GetKind A v' = ''NetworkPolicy'' \<and> decode (networkPolicies A) v' = Inr q"
    if "AddOpenShiftPodToDNSNetworkPolicy A v = Inr v'" "GetKind A v = ''NetworkPolicy''"
      "decode (networkPolicies A) v = Inr q" "om_name (np_meta q) = ''keda-allow-egress-to-all''" for v v' q
    using that codec by (simp add: AddOpenShiftPodToDNSNetworkPolicy_def codec_ok_def)
  have name: "om_name (np_meta (dropPodFromPolicy pod q)) = om_name (np_meta q)" for pod q
    by (simp add: dropPodFromPolicy_def)
  note simps = RemoveNetworkPolicyPodSelectorFromMetricsServer_def RemoveNetworkPolicyPodSelectorFromKedaOperator_def bindE_Ok
  show ?thesis
  proof -
    obtain u1 u2 where u1: "runTransforms (onlyIf metrics [RemoveNetworkPolicyPodSelectorFromMetricsServer A]) u = Inr u1"
      and u2: "runTransforms (onlyIf operator [RemoveNetworkPolicyPodSelectorFromKedaOperator A]) u1 = Inr u2"
      and u3: "runTransforms (onlyIf openshift [AddOpenShiftPodToDNSNetworkPolicy A]) u2 = Inr u'"
      using run by (auto simp only: runTransforms_append bindE_Ok)
    let ?p1 = "(if metrics then dropPodFromPolicy ''keda-metrics-apiserver'' else id) p"
    let ?p2 = "(if operator then dropPodFromPolicy ''keda-operator'' else id) ?p1"
    have 1: "GetKind A u1 = ''NetworkPolicy'' \<and> decode (networkPolicies A) u1 = Inr ?p1"
      using u1 kind p(1) dropPod_policy [OF codec kind p(1)] by (cases metrics) (auto simp: simps)
    then have 2: "GetKind A u2 = ''NetworkPolicy'' \<and> decode (networkPolicies A) u2 = Inr ?p2"
      using u2 dropPod_policy [OF codec, of u1 ?p1] by (cases operator) (auto simp: simps)
    have "om_name (np_meta ?p2) = ''keda-allow-egress-to-all''" using p(2) by (simp add: name)
    then show ?thesis using u3 2 dns [of u2 u' ?p2] by (cases openshift) (auto simp: simps)
  qed
qed

text \<open>The pods that keep access when the flags are as given.\<close>

definition allowedPods :: "KedaControllerSpec \<Rightarrow> string list" where
  "allowedPods spec =
     onlyIf (ko_networkEgressAllowAll (kc_operator spec) \<noteq> ''false'') [''keda-operator''] @
     onlyIf (km_networkEgressAllowAll (kc_metricsServer spec) \<noteq> ''false'') [''keda-metrics-apiserver'']"

definition bothPods :: "labelSelectorRequirement list" where
  "bothPods = [\<lparr>lr_key = ''app'', lr_operator = ''In'', lr_values = [''keda-operator'', ''keda-metrics-apiserver'']\<rparr>]"

lemma serviceAccounts_other:
  assumes "GetKind A v \<noteq> ''ServiceAccount''"
  shows "AddServiceAccountAnnotations A m v = Inr v" "AddServiceAccountLabels A m v = Inr v"
  using assms by (simp_all add: AddServiceAccountAnnotations_def AddServiceAccountLabels_def convertEdit_other)

lemma runTransforms_middle:
  "runTransforms (xs @ ys @ zs) u = Inr u' \<Longrightarrow> runTransforms xs u = Inr v \<Longrightarrow> runTransforms ys v = Inr v \<Longrightarrow>
   runTransforms zs v = Inr u'"
  by (simp add: runTransforms_append)

lemma general_policy:
  assumes codec: "codec_ok A ''NetworkPolicy'' np_meta (networkPolicies A)"
    and v: "runTransforms [InjectOwner A (k_meta k), ReplaceAllNamespaces A (namespaceOf k)] u = Inr v"
      "GetKind A v = ''NetworkPolicy''" "decode (networkPolicies A) v = Inr p" "om_name (np_meta p) = ''keda-allow-egress-to-all''"
      "ls_matchExpressions (np_podSelector p) = bothPods"
    and run: "runTransforms (generalTransforms A k openshift) u = Inr u'"
  shows "getIsEmptyKedaAllowEgressToAllNetworkPolicyPredicate A u' \<longleftrightarrow> allowedPods (k_spec k) = []"
    and "allowedPods (k_spec k) \<noteq> [] \<Longrightarrow> \<exists>p'. decode (networkPolicies A) u' = Inr p' \<and>
      map lr_values (ls_matchExpressions (np_podSelector p')) = [allowedPods (k_spec k)]"
proof -
  let ?metrics = "km_networkEgressAllowAll (kc_metricsServer (k_spec k)) = ''false''"
  let ?operator = "ko_networkEgressAllowAll (kc_operator (k_spec k)) = ''false''"
  let ?p' = "(if ?operator then dropPodFromPolicy ''keda-operator'' else id)
    ((if ?metrics then dropPodFromPolicy ''keda-metrics-apiserver'' else id) p)"
  let ?pre = "[InjectOwner A (k_meta k), ReplaceAllNamespaces A (namespaceOf k)]"
  let ?sa = "kc_serviceAccount (k_spec k)"
  let ?accounts = "onlyIf (ks_annotations ?sa \<noteq> Map.empty) [AddServiceAccountAnnotations A (ks_annotations ?sa)] @
      onlyIf (ks_labels ?sa \<noteq> Map.empty) [AddServiceAccountLabels A (ks_labels ?sa)]"
  let ?flags = "onlyIf ?metrics [RemoveNetworkPolicyPodSelectorFromMetricsServer A] @
      onlyIf ?operator [RemoveNetworkPolicyPodSelectorFromKedaOperator A] @ onlyIf openshift [AddOpenShiftPodToDNSNetworkPolicy A]"
  have gen: "generalTransforms A k openshift = ?pre @ ?accounts @ ?flags" by (simp add: generalTransforms_def Let_def)
  have "runTransforms ?accounts v = Inr v" using v(2) by (simp add: serviceAccounts_other)
  note runTransforms_middle [OF run [unfolded gen] v(1) this]
  from egress_flags [OF codec v(2-4) this] have
    u': "GetKind A u' = ''NetworkPolicy''" "decode (networkPolicies A) u' = Inr ?p'" by simp_all
  show "getIsEmptyKedaAllowEgressToAllNetworkPolicyPredicate A u' \<longleftrightarrow> allowedPods (k_spec k) = []"
    using u' v(4,5)
    by (auto simp: getIsEmptyKedaAllowEgressToAllNetworkPolicyPredicate_def isEmptyAllowEgress_def allowedPods_def bothPods_def
        dropPodFromPolicy_def dropPod_def hasPod_def Let_def)
  show "\<exists>p'. decode (networkPolicies A) u' = Inr p' \<and>
      map lr_values (ls_matchExpressions (np_podSelector p')) = [allowedPods (k_spec k)]" if "allowedPods (k_spec k) \<noteq> []"
    using u' v(4,5) that
    by (auto simp: allowedPods_def bothPods_def dropPodFromPolicy_def dropPod_def hasPod_def Let_def split: if_splits)
qed

lemma general_applied:
  assumes "mf_ok (kube C)" "installGeneralResources C R k s = (Inr (), t)"
  obtains openshift manifest where "list_all2 (\<lambda>u u'. runTransforms (generalTransforms (kube C) k openshift) u = Inr u')
      (op_general (rc_operands R)) manifest"
    "r_calls t = r_calls s @
      [(DeleteManifest (filter (getIsEmptyKedaAllowEgressToAllNetworkPolicyPredicate (kube C)) manifest), True),
       (ApplyManifest (filter (\<lambda>u. \<not> getIsEmptyKedaAllowEgressToAllNetworkPolicyPredicate (kube C) u) manifest), True)]"
proof -
  obtain openshift u manifest where u: "RunningOnOpenshift C s = (Inr openshift, u)"
    and m: "mfTransform (kube C) (generalTransforms (kube C) k openshift) (op_general (rc_operands R)) = Inr manifest"
    and run: "thenIO (deleteCall C (filter (getIsEmptyKedaAllowEgressToAllNetworkPolicyPredicate (kube C)) manifest))
      (applyCall C (filter (\<lambda>u. \<not> getIsEmptyKedaAllowEgressToAllNetworkPolicyPredicate (kube C) u) manifest)) u = (Inr (), t)"
    using assms(2) by (auto simp: installGeneralResources_def bindIO_Ok transformManifest_def Let_def)
  have "r_calls u = r_calls s" using quietD [OF quiet_queries(1) u] by simp
  then have "r_calls t = r_calls s @
      [(DeleteManifest (filter (getIsEmptyKedaAllowEgressToAllNetworkPolicyPredicate (kube C)) manifest), True),
       (ApplyManifest (filter (\<lambda>u. \<not> getIsEmptyKedaAllowEgressToAllNetworkPolicyPredicate (kube C) u) manifest), True)]"
    using run by (auto simp: thenIO_Ok deleteCall_def dest!: calling_Ok applyCall_Ok)
  moreover have "list_all2 (\<lambda>u u'. runTransforms (generalTransforms (kube C) k openshift) u = Inr u')
      (op_general (rc_operands R)) manifest"
    using assms(1) m by (simp add: mf_ok_def mapE_Ok)
  ultimately show ?thesis using that by blast
qed

text \<open>
  C20. Installing the general resources makes two calls, a deletion and then an application. The policy that
  lets the operator and the metrics server reach everything ends up as the spec asks: with both
  flags \<open>networkEgressAllowAll\<close> set to \<open>false\<close> it is deleted and not applied, otherwise it is applied and
  selects exactly the pods whose flag is not \<open>false\<close>, whatever else the transformers did to it.
\<close>

theorem egress_policy_installed:
  assumes "mf_ok (kube C)" and "codec_ok (kube C) ''NetworkPolicy'' np_meta (networkPolicies (kube C))"
    and "installGeneralResources C R k s = (Inr (), t)" and "u \<in> set (op_general (rc_operands R))"
    and "runTransforms [InjectOwner (kube C) (k_meta k), ReplaceAllNamespaces (kube C) (namespaceOf k)] u = Inr v"
    and "GetKind (kube C) v = ''NetworkPolicy''" and "decode (networkPolicies (kube C)) v = Inr p"
    and "om_name (np_meta p) = ''keda-allow-egress-to-all''" and "ls_matchExpressions (np_podSelector p) = bothPods"
  shows "\<exists>deleted applied u'. r_calls t = r_calls s @ [(DeleteManifest deleted, True), (ApplyManifest applied, True)]
    \<and> (if allowedPods (k_spec k) = [] then u' \<in> set deleted \<and> u' \<notin> set applied
       else u' \<in> set applied \<and> u' \<notin> set deleted \<and> (\<exists>p'. decode (networkPolicies (kube C)) u' = Inr p' \<and>
         map lr_values (ls_matchExpressions (np_podSelector p')) = [allowedPods (k_spec k)]))"
proof -
  obtain openshift manifest where m: "list_all2 (\<lambda>u u'. runTransforms (generalTransforms (kube C) k openshift) u = Inr u')
      (op_general (rc_operands R)) manifest"
    and t: "r_calls t = r_calls s @
      [(DeleteManifest (filter (getIsEmptyKedaAllowEgressToAllNetworkPolicyPredicate (kube C)) manifest), True),
       (ApplyManifest (filter (\<lambda>u. \<not> getIsEmptyKedaAllowEgressToAllNetworkPolicyPredicate (kube C) u) manifest), True)]"
    using general_applied [OF assms(1,3)] .
  obtain i where "i < length (op_general (rc_operands R))" "op_general (rc_operands R) ! i = u"
    using assms(4) by (auto simp: in_set_conv_nth)
  then have u': "manifest ! i \<in> set manifest" "runTransforms (generalTransforms (kube C) k openshift) u = Inr (manifest ! i)"
    using m by (auto simp: list_all2_conv_all_nth)
  note policy = general_policy [OF assms(2,5-9) u'(2)]
  show ?thesis
  proof (intro exI conjI, rule t)
    show "if allowedPods (k_spec k) = []
      then manifest ! i \<in> set (filter (getIsEmptyKedaAllowEgressToAllNetworkPolicyPredicate (kube C)) manifest) \<and>
        manifest ! i \<notin> set (filter (\<lambda>u. \<not> getIsEmptyKedaAllowEgressToAllNetworkPolicyPredicate (kube C) u) manifest)
      else manifest ! i \<in> set (filter (\<lambda>u. \<not> getIsEmptyKedaAllowEgressToAllNetworkPolicyPredicate (kube C) u) manifest) \<and>
        manifest ! i \<notin> set (filter (getIsEmptyKedaAllowEgressToAllNetworkPolicyPredicate (kube C)) manifest) \<and>
        (\<exists>p'. decode (networkPolicies (kube C)) (manifest ! i) = Inr p' \<and>
           map lr_values (ls_matchExpressions (np_podSelector p')) = [allowedPods (k_spec k)])"
      using u'(1) policy by simp
  qed
qed

definition demoPolicy :: demoObj where
  "demoPolicy = (demoObject ''NetworkPolicy'' ''keda-allow-egress-to-all'' ''keda'')
     \<lparr>do_networkPolicy := demoNetworkPolicy (demoMeta ''keda-allow-egress-to-all'' ''keda'') bothPods []\<rparr>"

definition demoGeneralReconciler :: "demoObj reconciler" where
  "demoGeneralReconciler = demoReconciler\<lparr>rc_operands := (rc_operands demoReconciler)\<lparr>op_general := [demoPolicy]\<rparr>\<rparr>"

lemma demo_general_installed:
  "\<exists>t. installGeneralResources demoClient demoGeneralReconciler (demoController [] None) (demoState (demoController [] None)) = (Inr (), t)"
proof -
  let ?k = "demoController [] None"
  have kube: "kube demoClient = demoApi" by (simp add: demoClient_def)
  have "\<exists>v. runTransforms (generalTransforms demoApi ?k False) u = Inr v" for u
    by (rule total_run) (simp add: generalTransforms_def demoController_def zeroKedaController_def zeroKedaControllerSpec_def
        demo_total Let_def)
  then obtain v where "runTransforms (generalTransforms demoApi ?k False) demoPolicy = Inr v" by blast
  then have "mfTransform demoApi (generalTransforms demoApi ?k False) [demoPolicy] = Inr [v]"
    using demoApi_mf_ok by (simp add: mf_ok_def)
  then show ?thesis
    by (simp add: installGeneralResources_def bindIO_def thenIO_def transformManifest_def kube demoGeneralReconciler_def
        deleteCall_def applyCall_def calling_def RunningOnOpenshift_def isGvkPresent_def tryIO_def reading_def Let_def)
      (simp add: demoClient_def succeed_def demoState_def demoRun_def bindIO_def calling_def)
qed

theorem egress_policy_installed_witness:
  "\<exists>t deleted applied u' p'.
     installGeneralResources demoClient demoGeneralReconciler (demoController [] None) (demoState (demoController [] None)) = (Inr (), t)
     \<and> r_calls t = [(DeleteManifest deleted, True), (ApplyManifest applied, True)] \<and> u' \<in> set applied
     \<and> decode (networkPolicies demoApi) u' = Inr p'
     \<and> map lr_values (ls_matchExpressions (np_podSelector p')) = [[''keda-operator'', ''keda-metrics-apiserver'']]"
proof -
  let ?k = "demoController [] None"
  have kube: "kube demoClient = demoApi" by (simp add: demoClient_def)
  have allowed: "allowedPods (k_spec ?k) = [''keda-operator'', ''keda-metrics-apiserver'']"
    by (simp add: allowedPods_def demoController_def zeroKedaController_def zeroKedaControllerSpec_def)
  obtain t where t: "installGeneralResources demoClient demoGeneralReconciler ?k (demoState ?k) = (Inr (), t)"
    using demo_general_installed by blast
  obtain v where v: "runTransforms [InjectOwner demoApi (k_meta ?k), ReplaceAllNamespaces demoApi (namespaceOf ?k)] demoPolicy = Inr v"
    "GetKind demoApi v = ''NetworkPolicy''" "decode (networkPolicies demoApi) v = Inr (do_networkPolicy demoPolicy)"
    by (simp add: InjectOwner_def ReplaceAllNamespaces_def demoPolicy_def demoObject_def demoContent_def demoMeta_def
        demoApi_codecs_def demoCodec_def withIdentity_def demoNetworkPolicy_def namespaceOf_def demoController_def newMeta_def
        defaultNamespace_def Let_def)
  have p: "om_name (np_meta (do_networkPolicy demoPolicy)) = ''keda-allow-egress-to-all''"
    "ls_matchExpressions (np_podSelector (do_networkPolicy demoPolicy)) = bothPods"
    "demoPolicy \<in> set (op_general (rc_operands demoGeneralReconciler))"
    by (simp_all add: demoPolicy_def demoNetworkPolicy_def demoMeta_def demoGeneralReconciler_def)
  have ok: "mf_ok (kube demoClient)" "codec_ok (kube demoClient) ''NetworkPolicy'' np_meta (networkPolicies (kube demoClient))"
    using demoApi_mf_ok demoApi_codecs(6) by (simp_all add: kube)
  have nonempty: "allowedPods (k_spec ?k) \<noteq> []" by (simp add: allowed)
  obtain deleted applied u' p' where calls:
      "r_calls t = r_calls (demoState ?k) @ [(DeleteManifest deleted, True), (ApplyManifest applied, True)]"
    and "u' \<in> set applied" "decode (networkPolicies (kube demoClient)) u' = Inr p'"
      "map lr_values (ls_matchExpressions (np_podSelector p')) = [allowedPods (k_spec ?k)]"
    using egress_policy_installed [OF ok t p(3) v [folded kube] p(1,2)] unfolding if_not_P [OF nonempty]
    by (elim exE conjE) (rule that)
  then show ?thesis using t calls unfolding kube allowed demoState_get append_Nil by (intro exI conjI)
qed

section \<open>The status of the HTTP add-on\<close>

definition addonFailed :: "KedaControllerStatus \<Rightarrow> bool" where
  "addonFailed st \<longleftrightarrow> (\<exists>a. kcs_httpAddon st = Some a \<and> has_phase a = PhaseFailed)"

lemma component_run:
  assumes "installAddonComponent C name ts us s = (r, t)"
  shows "case r of
      Inr _ \<Rightarrow> r_status t = r_status s \<and> (\<exists>m. mfTransform (kube C) ts us = Inr m \<and> r_calls t = r_calls s @ [(ApplyManifest m, True)])
    | Inl _ \<Rightarrow> addonFailed (r_status t)"
proof (cases "mfTransform (kube C) ts us")
  case (Inl e)
  then show ?thesis using assms
    by (auto simp: installAddonComponent_def bindIO_def tryIO_def transformManifest_def failAddon_def thenIO_def addonFailed_def
        MarkAddonInstallFailed_def)
next
  case (Inr m)
  obtain a w where a: "applyManifest C m (r_cluster s) = (a, w)" by (cases "applyManifest C m (r_cluster s)")
  then show ?thesis using assms Inr
    by (cases a) (auto simp: installAddonComponent_def bindIO_def tryIO_def transformManifest_def applyCall_def failAddon_def
        thenIO_def calling_def addonFailed_def MarkAddonInstallFailed_def)
qed

lemma deleteCall_status: "deleteCall C us s = (r, t) \<Longrightarrow> r_status t = r_status s"
  unfolding deleteCall_def by (auto dest: calling_frame)

lemma deleteManifest_status: "deleteHTTPAddonManifest C b us ns s = (r, t) \<Longrightarrow> r_status t = r_status s"
  by (auto simp: deleteHTTPAddonManifest_def renderForDelete_def transformManifest_def bindIO_def split: if_splits sum.splits
      dest: deleteCall_status)

lemma deleteHTTPAddon_status: "deleteHTTPAddon C R ns s = (r, t) \<Longrightarrow> r_status t = r_status s"
  by (auto simp: deleteHTTPAddon_def thenIO_def bindIO_def split: prod.splits sum.splits dest!: deleteManifest_status)

text \<open>Queries answer, whatever the cluster says.\<close>

lemma queries_total:
  "\<exists>b t. RunningOnOpenshift C s = (Inr b, t)" "\<exists>b t. withoutSeccompProfileDefault C s = (Inr b, t)"
  "\<exists>ts t. httpAddonTLSEnvVarTransforms C s = (Inr ts, t)"
  by (auto simp: RunningOnOpenshift_def isGvkPresent_def withoutSeccompProfileDefault_def httpAddonTLSEnvVarTransforms_def
      clusterTLSProfile_def bindIO_def tryIO_def reading_def split: prod.split option.split sum.split)

lemma bind_query:
  assumes "quiet m" "\<And>s. \<exists>x t. m s = (Inr x, t)" "bindIO m k s = (r, t)"
  obtains x u where "k x u = (r, t)" "r_calls u = r_calls s" "r_status u = r_status s"
proof -
  obtain x u where m: "m s = (Inr x, u)" using assms(2) by blast
  show ?thesis using that [of x u] assms(3) quietD [OF assms(1) m] by (simp add: bindIO_def m)
qed

text \<open>Three components in a row: all applied, or the status tells of the failure.\<close>

definition addonOutcome ::
  "nat \<Rightarrow> (KedaControllerStatus \<Rightarrow> KedaControllerStatus) \<Rightarrow> ('u, 'w) run \<Rightarrow> error + unit \<Rightarrow> ('u, 'w) run \<Rightarrow> bool" where
  "addonOutcome n f s r t \<longleftrightarrow> (case r of
      Inr _ \<Rightarrow> r_status t = f (r_status s) \<and> (\<exists>ms. length ms = n \<and> r_calls t = r_calls s @ map (\<lambda>m. (ApplyManifest m, True)) ms)
    | Inl _ \<Rightarrow> addonFailed (r_status t))"

definition appliesOrFails :: "nat \<Rightarrow> (KedaControllerStatus \<Rightarrow> KedaControllerStatus) \<Rightarrow> ('u, 'w, unit) io \<Rightarrow> bool" where
  "appliesOrFails n f m \<longleftrightarrow> (\<forall>s r t. m s = (r, t) \<longrightarrow> addonOutcome n f s r t)"

lemma appliesOrFails_status: "appliesOrFails 0 f (modifyStatus f)"
  by (simp add: appliesOrFails_def addonOutcome_def)

lemma appliesOrFails_query:
  assumes "quiet m" "\<And>s. \<exists>x t. m s = (Inr x, t)" "\<And>x. appliesOrFails n f (k x)"
  shows "appliesOrFails n f (bindIO m k)"
  unfolding appliesOrFails_def
proof (intro allI impI)
  fix s r t
  assume "bindIO m k s = (r, t)"
  from bind_query [OF assms(1,2) this] obtain x u where u: "k x u = (r, t)" "r_calls u = r_calls s" "r_status u = r_status s" .
  then have "addonOutcome n f u r t" using assms(3) unfolding appliesOrFails_def by blast
  then show "addonOutcome n f s r t" by (cases r) (simp_all add: addonOutcome_def u(2,3))
qed

lemma appliesOrFails_component:
  assumes "appliesOrFails n f rest"
  shows "appliesOrFails (Suc n) f (thenIO (installAddonComponent C name ts us) rest)"
  unfolding appliesOrFails_def
proof (intro allI impI)
  fix s r t
  assume run: "thenIO (installAddonComponent C name ts us) rest s = (r, t)"
  obtain c u where c: "installAddonComponent C name ts us s = (c, u)" by (cases "installAddonComponent C name ts us s")
  show "addonOutcome (Suc n) f s r t"
  proof (cases c)
    case (Inl e)
    then show ?thesis using run c component_run [OF c] by (auto simp: thenIO_def bindIO_def addonOutcome_def)
  next
    case (Inr y)
    then obtain m where m: "r_status u = r_status s" "r_calls u = r_calls s @ [(ApplyManifest m, True)]"
      using component_run [OF c] by auto
    have "rest u = (r, t)" using run c Inr by (simp add: thenIO_def bindIO_def)
    then have rest: "addonOutcome n f u r t" using assms unfolding appliesOrFails_def by blast
    show ?thesis
    proof (cases r)
      case (Inr x)
      then obtain ms where "length ms = n" "r_calls t = r_calls u @ map (\<lambda>m. (ApplyManifest m, True)) ms" "r_status t = f (r_status u)"
        using rest by (auto simp: addonOutcome_def)
      then show ?thesis using m Inr by (auto simp: addonOutcome_def intro!: exI [of _ "m # ms"])
    qed (use rest in \<open>simp add: addonOutcome_def\<close>)
  qed
qed

lemma addon_enabled:
  assumes "ha_enabled (kc_httpAddon (k_spec k))" "ad_operator (rc_addons R) \<noteq> []"
  shows "appliesOrFails 3 (\<lambda>st. st\<lparr>kcs_httpAddon := Some (MarkAddonInstallSucceeded
      (''HTTP Add-on v'' @ ha_version (kc_httpAddon (k_spec k)) @ '' is installed in namespace '' @ [CHR 0x27] @ rc_namespace R @ [CHR 0x27])
      \<lparr>has_phase = PhaseNone, has_reason = [], has_version = ha_version (kc_httpAddon (k_spec k))\<rparr>)\<rparr>) (installHTTPAddon C R k)"
proof -
  have tls: "quiet (listIf b (httpAddonTLSEnvVarTransforms C))" "\<exists>ts t. listIf b (httpAddonTLSEnvVarTransforms C) s = (Inr ts, t)" for b s
    using queries_total(3) by (auto simp: listIf_def intro: quiet_intros)
  have seccomp: "\<exists>x t. (if b then withoutSeccompProfileDefault C else returnIO False) s = (Inr x, t)" for b s
    using queries_total(2) by auto
  show ?thesis
    unfolding installHTTPAddon_def Let_def numeral_3_eq_3 using assms
    by (simp only: simp_thms if_True if_False)
      (intro appliesOrFails_query quiet_queries(1) quiet_pieces(6) queries_total(1) seccomp tls appliesOrFails_component
        appliesOrFails_status)
qed


section \<open>Access for Prometheus\<close>


text \<open>An OpenShift cluster whose namespace is monitored.\<close>

definition monitoredClient :: "(demoObj, demoCluster) client" where
  "monitoredClient = demoClient\<lparr>getNamespaceObject := (\<lambda>n w.
     (Ok \<lparr>ns_meta = (newMeta n [])\<lparr>om_labels := [clusterMonitoringLabel \<mapsto> ''true'']\<rparr>\<rparr>, w))\<rparr>"


end
