(* ===== verification/Progress.thy ===== *)
theory Progress
  imports Rendering Reconcile
begin

text \<open>
  Reconciling gets somewhere: as long as the cluster serves the requests, two reconciles take a new
  KedaController to a reported installation.
\<close>

section \<open>Operations that succeed\<close>

text \<open>On a cluster in good health, described by \<open>H\<close>, the operation succeeds and leaves the cluster so.\<close>

definition served :: "('w \<Rightarrow> bool) \<Rightarrow> ('u, 'w, unit) io \<Rightarrow> bool" where
  "served H m \<longleftrightarrow> (\<forall>s. H (r_cluster s) \<longrightarrow> (\<exists>t. m s = (Inr (), t) \<and> H (r_cluster t)))"

lemma servedD:
  assumes "served H m" "H (r_cluster s)"
  obtains t where "m s = (Inr (), t)" "H (r_cluster t)"
  using assms unfolding served_def by blast

lemma served_then: "served H m \<Longrightarrow> served H n \<Longrightarrow> served H (thenIO m n)"
  unfolding served_def thenIO_Ok by (metis (full_types) old.unit.exhaust)

lemma served_modifyStatus: "served H (modifyStatus f)"
  by (simp add: served_def)

lemma served_installStep:
  assumes "served H m" "served H rest"
  shows "served H (installStep C k reason m rest)"
  unfolding served_def
proof (intro allI impI)
  fix s :: "('b, 'a) run"
  assume "H (r_cluster s)"
  then obtain t where t: "m s = (Inr (), t)" "H (r_cluster t)" using assms(1) unfolding served_def by blast
  then have "installStep C k reason m rest s = rest t" by (simp add: installStep_def bindIO_def tryIO_def)
  then show "\<exists>t. installStep C k reason m rest s = (Inr (), t) \<and> H (r_cluster t)"
    using assms(2) t(2) unfolding served_def by simp
qed

lemma served_report:
  assumes "\<And>st w. H w \<Longrightarrow> \<exists>w'. patchKedaControllerStatus C k st w = (Inr (), w') \<and> H w'"
  shows "served H (installSucceeded C R k)"
  unfolding served_def
proof (intro allI impI)
  fix s :: "('b, 'a) run"
  assume "H (r_cluster s)"
  then show "\<exists>t. installSucceeded C R k s = (Inr (), t) \<and> H (r_cluster t)"
    using assms by (auto simp: installSucceeded_def thenIO_def bindIO_def UpdateKedaControllerStatus_def calling_def
        split: prod.split sum.split) (metis Pair_inject Inl_Inr_False)+
qed

text \<open>Every part of the installation is served.\<close>

definition installsServed :: "('w \<Rightarrow> bool) \<Rightarrow> ('u, 'w) client \<Rightarrow> 'u reconciler \<Rightarrow> KedaController \<Rightarrow> bool" where
  "installsServed H C R k \<longleftrightarrow>
     (\<exists>cfg. gcpWorkloadIdentityConfig (getenv C) k = Inr cfg \<and> served H (installController C R k cfg)) \<and>
     served H (installGeneralResources C R k) \<and> served H (installMetricsServer C R k) \<and>
     served H (installAdmissionWebhooks C R k) \<and> served H (installMonitoring C R k) \<and>
     served H (installHTTPAddon C R k) \<and> served H (ensurePrometheusMonitoringRBAC C k) \<and>
     (\<forall>st w. H w \<longrightarrow> (\<exists>w'. patchKedaControllerStatus C k st w = (Inr (), w') \<and> H w'))"

lemma served_installAll:
  assumes "installsServed H C R k"
  shows "served H (installAll C R k)"
proof -
  obtain cfg where cfg: "gcpWorkloadIdentityConfig (getenv C) k = Inr cfg" "served H (installController C R k cfg)"
    using assms unfolding installsServed_def by blast
  have "served H (installSucceeded C R k)"
    using assms unfolding installsServed_def by (intro served_report) blast
  then show ?thesis
    using assms cfg unfolding installAll_def installsServed_def
    by (simp only: sum.case) (intro served_then served_modifyStatus served_installStep; blast)
qed

section \<open>Two reconciles\<close>


section \<open>A cluster in good health\<close>

definition demoHealthy :: "demoCluster \<Rightarrow> bool" where
  "demoHealthy w \<longleftrightarrow> \<not> dc_openshift w \<and> dc_secret w = None"

text \<open>The concrete client, with any way of reading the KedaController.\<close>

abbreviation reader :: "(objectKey \<Rightarrow> (demoCluster, KedaController) request) \<Rightarrow> (demoObj, demoCluster) client" where
  "reader g \<equiv> demoClient\<lparr>getKedaController := g\<rparr>"

lemma reader_demo: "reader (getKedaController demoClient) = demoClient"
  by simp

lemma demo_calls:
  "applyCall (reader g) us s = (Inr (), s\<lparr>r_calls := r_calls s @ [(ApplyManifest us, True)]\<rparr>)"
  "deleteCall (reader g) us s = (Inr (), s\<lparr>r_calls := r_calls s @ [(DeleteManifest us, True)]\<rparr>)"
  "kube (reader g) = demoApi" "getenv (reader g) = (\<lambda>n. [])"
  "withoutSeccompProfileDefault (reader g) = returnIO (RunningOnClusterWithoutSeccompProfileDefault (wideDigit (reader g)) None)"
  by (simp_all add: applyCall_def deleteCall_def calling_def withoutSeccompProfileDefault_def)
    (simp_all add: demoClient_def succeed_def)

lemma demo_queries:
  assumes "demoHealthy (r_cluster s)"
  shows "RunningOnOpenshift (reader g) s = (Inr False, s)" "HasServiceMonitorCRD (reader g) s = (Inr False, s)"
    "deleteGCPCredentialsSecret (reader g) k s = (Inr (), s)"
  using assms
  by (simp_all add: RunningOnOpenshift_def HasServiceMonitorCRD_def isGvkPresent_def deleteGCPCredentialsSecret_def bindIO_def
      tryIO_def reading_def demoClient_def demoHealthy_def)

lemma demo_empty: "mfTransform demoApi ts [] = Inr []"
  using demoApi_mf_ok by (simp add: mf_ok_def)

lemma demo_one:
  assumes "\<forall>t \<in> set ts. \<forall>u. \<exists>w. t u = Inr w"
  shows "\<exists>m. mfTransform demoApi ts [u] = Inr m"
proof -
  obtain v where "runTransforms ts u = Inr v" using total_run [OF assms] by blast
  then show ?thesis using demoApi_mf_ok by (simp add: mf_ok_def)
qed

lemma demo_parts:
  "op_general (rc_operands demoReconciler) = []" "op_metrics (rc_operands demoReconciler) = []"
  "op_webhooks (rc_operands demoReconciler) = [demoObject ''Deployment'' ''keda-admission-webhooks'' ''keda'']"
  "rc_injectTLSEnvVars demoReconciler = False" "rc_addons demoReconciler = \<lparr>ad_operator = [], ad_interceptor = [], ad_scaler = []\<rparr>"
  "rc_addonsLoaded demoReconciler"
  by (simp_all add: demoReconciler_def)

abbreviation demoFinal :: KedaController where
  "demoFinal \<equiv> demoController [kedaControllerFinalizer] None"

lemmas demo_spec = demoController_def zeroKedaController_def zeroKedaControllerSpec_def zeroGenericDeploymentSpec_def

lemma demo_serves_controller:
  assumes H: "\<And>w. H w \<Longrightarrow> demoHealthy w"
  shows "served H (installController (reader g) demoReconciler demoFinal None)"
  unfolding served_def
proof (intro allI impI)
  fix s :: "(demoObj, demoCluster) run"
  assume w: "H (r_cluster s)"
  note h = H[OF w]
  have "\<exists>m. mfTransform demoApi (controllerTransforms (reader g) demoFinal False False [] [] @
      userEnv demoApi (gd_env (ko_generic (kc_operator (k_spec demoFinal)))) ''keda-operator'')
      [demoObject ''Deployment'' ''keda-operator'' ''keda''] = Inr m"
    by (rule demo_one)
      (auto simp: controllerTransforms_def kedaOperatorSpecTransforms_def placementTransforms_def volumeTransforms_def
        hasResources_def demo_spec demo_calls userEnv_def ReplaceWatchNamespace_def SetOperatorCertRotation_def
        replaceContainerArg_def EnsureCACertsForOperatorDeployment_def replaceContainerArgs_def
        ensureCACertVolumesAndMounts_def demo_total Let_def)
  then obtain m where m: "mfTransform demoApi (controllerTransforms (reader g) demoFinal False False [] [] @
      userEnv demoApi (gd_env (ko_generic (kc_operator (k_spec demoFinal)))) ''keda-operator'')
      [demoObject ''Deployment'' ''keda-operator'' ''keda''] = Inr m" by blast
  have op: "op_controller (rc_operands demoReconciler) = [demoObject ''Deployment'' ''keda-operator'' ''keda'']"
    by (simp add: demoReconciler_def)
  show "\<exists>t. installController (reader g) demoReconciler demoFinal None s = (Inr (), t) \<and> H (r_cluster t)"
    using h w m by (simp add: installController_def bindIO_def thenIO_def demo_queries listIf_def demo_parts
        gcpWorkloadIdentityTransforms_def transformManifest_def demo_calls op whenIO_def)
qed

lemma demo_serves_webhooks:
  assumes H: "\<And>w. H w \<Longrightarrow> demoHealthy w"
  shows "served H (installAdmissionWebhooks (reader g) demoReconciler demoFinal)"
  unfolding served_def
proof (intro allI impI)
  fix s :: "(demoObj, demoCluster) run"
  assume w: "H (r_cluster s)"
  note h = H[OF w]
  have "\<exists>m. mfTransform demoApi (webhooksTransforms (reader g) demoFinal [] False False @
      userEnv demoApi (gd_env (kw_generic (kc_admissionWebhooks (k_spec demoFinal)))) ''keda-admission-webhooks'')
      [demoObject ''Deployment'' ''keda-admission-webhooks'' ''keda''] = Inr m"
    by (rule demo_one)
      (auto simp: webhooksTransforms_def webhooksSpecTransforms_def placementTransforms_def volumeTransforms_def
        hasResources_def demo_spec demo_calls userEnv_def ReplaceWatchNamespace_def demo_total Let_def)
  then show "\<exists>t. installAdmissionWebhooks (reader g) demoReconciler demoFinal s = (Inr (), t) \<and> H (r_cluster t)"
    using h w by (auto simp: installAdmissionWebhooks_def bindIO_def needsSeccompRemoval_def demo_queries listIf_def demo_parts
        transformManifest_def demo_calls)
qed

lemma demo_serves_others:
  assumes H: "\<And>w. H w \<Longrightarrow> demoHealthy w"
  shows "served H (installGeneralResources (reader g) demoReconciler demoFinal)"
  "served H (installMetricsServer (reader g) demoReconciler demoFinal)"
  "served H (installMonitoring (reader g) demoReconciler demoFinal)"
  "served H (installHTTPAddon (reader g) demoReconciler demoFinal)"
  "served H (ensurePrometheusMonitoringRBAC (reader g) demoFinal)"
proof -
  have spec: "ac_policy (km_auditConfig (kc_metricsServer (k_spec demoFinal))) = zeroAuditPolicy"
    "\<not> ha_enabled (kc_httpAddon (k_spec demoFinal))"
    by (simp_all add: demo_spec zeroAuditConfig_def)
  note run = bindIO_def thenIO_def transformManifest_def demo_queries demo_empty demo_parts demo_calls listIf_def Let_def
  show "served H (installGeneralResources (reader g) demoReconciler demoFinal)"
    by (simp add: served_def H installGeneralResources_def run)
  show "served H (installMetricsServer (reader g) demoReconciler demoFinal)"
    by (simp add: served_def H installMetricsServer_def metricsCertTransforms_def auditTransforms_def needsSeccompRemoval_def spec run)
  show "served H (installMonitoring (reader g) demoReconciler demoFinal)"
    by (simp add: served_def H installMonitoring_def run)
  show "served H (installHTTPAddon (reader g) demoReconciler demoFinal)"
    by (simp add: served_def H installHTTPAddon_def deleteHTTPAddon_def deleteHTTPAddonManifest_def renderForDelete_def spec run)
  show "served H (ensurePrometheusMonitoringRBAC (reader g) demoFinal)"
    by (simp add: served_def H ensurePrometheusMonitoringRBAC_def run)
qed

lemma demo_gcp: "gcpWorkloadIdentityConfig (getenv (reader g)) demoFinal = Inr None"
proof -
  have "TrimSpace [] = []" by (simp add: TrimSpace_def strip.simps)
  then show ?thesis
    by (simp add: gcpWorkloadIdentityConfig_def ConfigFromEnv_def ParseConfig_def parseConfig_def demo_calls demo_spec)
qed

lemma demo_serves: "installsServed demoHealthy (reader g) demoReconciler demoFinal"
proof -
  have "\<exists>w'. patchKedaControllerStatus (reader g) k st w = (Inr (), w') \<and> demoHealthy w'" if "demoHealthy w" for k st w
    using that by (simp add: demoClient_def demoHealthy_def)
  then show ?thesis
    using demo_gcp demo_serves_controller demo_serves_webhooks demo_serves_others by (simp add: installsServed_def)
qed


end
