(* ===== verification/Memory.thy ===== *)
theory Memory
  imports Prelude "HOL-Library.State_Monad" "HOL-Library.Sublist"
begin

text \<open>
  The memory of a Go program, as far as the generated deep copies can see it. A heap is the list of
  the objects allocated so far, the address of an object is its position, and a pointer, slice or
  map is a reference: nil, or an address. Code that allocates is in the state monad; the garbage
  collector is not visible to a program and never runs.

  The judgement \<open>allocates\<close> says what a piece of such code returns and that it only allocates;
  a \<open>region\<close> is a set of addresses, and a representation predicate \<open>P S h x v\<close> reads: in the heap
  \<open>h\<close>, the value \<open>x\<close> together with the objects of the region \<open>S\<close> it refers to stands for \<open>v\<close>.
\<close>

section \<open>Heaps\<close>

type_synonym ref = "nat option"
type_synonym region = "nat set"

definition load :: "nat \<Rightarrow> ('c list, 'c option) state" where
  "load a = do { h \<leftarrow> State_Monad.get; State_Monad.return (if a < length h then Some (h ! a) else None) }"

definition alloc :: "'c \<Rightarrow> ('c list, nat) state" where
  "alloc c = do { h \<leftarrow> State_Monad.get; _ \<leftarrow> State_Monad.set (h @ [c]); State_Monad.return (length h) }"

lemma run_load [simp]: "run_state (load a) h = (if a < length h then Some (h ! a) else None, h)"
  by (simp add: load_def)

lemma run_alloc [simp]: "run_state (alloc c) h = (length h, h @ [c])"
  by (simp add: alloc_def)

text \<open>The object at an address of a region, when there is one.\<close>

definition cellAt :: "region \<Rightarrow> 'c list \<Rightarrow> nat \<Rightarrow> 'c option" where
  "cellAt S h a = (if a \<in> S \<and> a < length h then Some (h ! a) else None)"

text \<open>Two heaps hold the same objects in a region.\<close>

definition agree :: "region \<Rightarrow> 'c list \<Rightarrow> 'c list \<Rightarrow> bool" where
  "agree S h h' \<longleftrightarrow> (\<forall>a \<in> S. a < length h \<longrightarrow> a < length h' \<and> h' ! a = h ! a)"

named_theorems frames \<open>what keeps its meaning when the heap changes elsewhere\<close>

lemma agree_prefix [frames]: "prefix h h' \<Longrightarrow> agree S h h'"
  by (auto simp: agree_def prefix_def nth_append)

lemma cellAt_agree: "cellAt S h a = Some c \<Longrightarrow> agree S h h' \<Longrightarrow> cellAt S h' a = Some c"
  by (auto simp: cellAt_def agree_def split: if_splits)

lemma cellAt_mono: "cellAt S h a = Some c \<Longrightarrow> S \<subseteq> T \<Longrightarrow> cellAt T h a = Some c"
  by (auto simp: cellAt_def split: if_splits)

lemma cellAt_UNIV: "cellAt S h a = Some c \<Longrightarrow> a < length h \<and> h ! a = c"
  by (auto simp: cellAt_def split: if_splits)

text \<open>The addresses a heap has not handed out yet.\<close>

definition fresh :: "'c list \<Rightarrow> region" where "fresh h = {length h..}"

text \<open>
  Assignments through the pointers of a region: each step replaces one object there; objects may be
  allocated as well.
\<close>

inductive mutates :: "region \<Rightarrow> 'c list \<Rightarrow> 'c list \<Rightarrow> bool" for S where
  nothing: "mutates S h h"
| assign: "mutates S h h' \<Longrightarrow> a \<in> S \<Longrightarrow> mutates S h (h'[a := c])"
| allocate: "mutates S h h' \<Longrightarrow> mutates S h (h' @ [c])"

lemma mutates_agree: "mutates S h h' \<Longrightarrow> T \<inter> S = {} \<Longrightarrow> agree T h h'"
proof (induction rule: mutates.induct)
  case (assign h h' a c)
  then have "a \<notin> T" by blast
  with assign show ?case unfolding agree_def by (metis length_list_update nth_list_update_neq)
qed (auto simp: agree_def nth_append)

section \<open>Code that allocates\<close>

definition allocates :: "'c list \<Rightarrow> ('c list, 'a) state \<Rightarrow> ('a \<Rightarrow> 'c list \<Rightarrow> bool) \<Rightarrow> bool" where
  "allocates h0 m Q \<longleftrightarrow> (\<forall>h x h'. prefix h0 h \<longrightarrow> run_state m h = (x, h') \<longrightarrow>
     prefix h h' \<and> (\<forall>h''. prefix h' h'' \<longrightarrow> Q x h''))"

lemma allocates_run:
  assumes "allocates h m Q" "run_state m h = (x, h')"
  shows "prefix h h' \<and> Q x h'"
  using assms unfolding allocates_def by blast

lemma allocates_mono: "allocates h0 m Q \<Longrightarrow> (\<And>x h. prefix h0 h \<Longrightarrow> Q x h \<Longrightarrow> R x h) \<Longrightarrow> allocates h0 m R"
  unfolding allocates_def by (meson prefix_order.trans)

lemma allocates_return: "(\<And>h. prefix h0 h \<Longrightarrow> Q x h) \<Longrightarrow> allocates h0 (State_Monad.return x) Q"
  by (auto simp: allocates_def intro: prefix_order.trans)

text \<open>Every heap that extends the one after \<open>m\<close> satisfies what \<open>m\<close> promised.\<close>

lemma allocates_bind:
  assumes "allocates h0 m Q" "\<And>x h. Q x h \<Longrightarrow> allocates h0 (k x) (\<lambda>y h. Q x h \<longrightarrow> R y h)"
  shows "allocates h0 (State_Monad.bind m k) R"
  unfolding allocates_def
proof (intro allI impI)
  fix h y h2 assume h: "prefix h0 h" and run: "run_state (State_Monad.bind m k) h = (y, h2)"
  obtain x h1 where m: "run_state m h = (x, h1)" by fastforce
  with run have k: "run_state (k x) h1 = (y, h2)" by simp
  have 1: "prefix h h1" "\<forall>h''. prefix h1 h'' \<longrightarrow> Q x h''"
    using assms(1) h m unfolding allocates_def by blast+
  then have "prefix h0 h1" using h by (meson prefix_order.trans)
  then have 2: "prefix h1 h2" "\<forall>h''. prefix h2 h'' \<longrightarrow> Q x h'' \<longrightarrow> R y h''"
    using assms(2)[of x h1] k 1(2) unfolding allocates_def by blast+
  show "prefix h h2 \<and> (\<forall>h''. prefix h2 h'' \<longrightarrow> R y h'')"
    using 1 2 by (meson prefix_order.trans)
qed

lemma allocates_alloc: "allocates h0 (alloc c) (\<lambda>a h. cellAt (fresh h0) h a = Some c)"
  by (auto simp: allocates_def cellAt_def fresh_def prefix_def)

text \<open>\<open>for i := range xs { f(xs[i], &ys[i]) }\<close>\<close>

primrec copyEach :: "('a \<Rightarrow> ('s, 'b) state) \<Rightarrow> 'a list \<Rightarrow> ('s, 'b list) state" where
  "copyEach f [] = State_Monad.return []"
| "copyEach f (x # xs) = do { y \<leftarrow> f x; ys \<leftarrow> copyEach f xs; State_Monad.return (y # ys) }"

lemma allocates_copyEach:
  assumes "list_all2 P xs vs" "\<And>x v. P x v \<Longrightarrow> allocates h0 (f x) (\<lambda>y h. R h y v)"
  shows "allocates h0 (copyEach f xs) (\<lambda>ys h. list_all2 (R h) ys vs)"
  using assms(1)
proof (induction rule: list_all2_induct)
  case Nil
  show ?case by (auto intro: allocates_return)
next
  case (Cons x xs v vs)
  show ?case unfolding copyEach.simps
    by (rule allocates_bind[OF assms(2)[OF Cons.hyps(1)]], rule allocates_bind[OF Cons.IH], rule allocates_return) simp
qed

section \<open>References\<close>

text \<open>
  \<open>if in != nil { *out = new(...) or make(...); copy the object }\<close>, for a reference that \<open>*out = *in\<close>
  has already copied. The copier is defined on the objects the static type of the field admits; Go
  has no other reference there.
\<close>

definition copyRef :: "('c \<Rightarrow> ('c list, 'c) state option) \<Rightarrow> ref \<Rightarrow> ('c list, ref) state" where
  "copyRef f p = (case p of
     None \<Rightarrow> State_Monad.return None
   | Some a \<Rightarrow> do {
       c \<leftarrow> load a;
       (case Option.bind c f of
         None \<Rightarrow> State_Monad.return p
       | Some m \<Rightarrow> do { d \<leftarrow> m; b \<leftarrow> alloc d; State_Monad.return (Some b) })
     })"

text \<open>An object of the heap that holds a value of type \<open>'a\<close>: \<open>mk\<close> wraps it, \<open>un\<close> reads it.\<close>

definition boxed :: "('a \<Rightarrow> 'c) \<Rightarrow> ('c \<Rightarrow> 'a option) \<Rightarrow> ('a \<Rightarrow> ('c list, 'a) state) \<Rightarrow> 'c \<Rightarrow> ('c list, 'c) state option" where
  "boxed mk un f c = (case un c of
     None \<Rightarrow> None
   | Some a \<Rightarrow> Some (do { b \<leftarrow> f a; State_Monad.return (mk b) }))"

text \<open>
  A reference stands for the value \<open>z\<close> when it is nil, and else for what its object stands for; the
  object belongs to the region.
\<close>

definition refersTo ::
  "('c \<Rightarrow> 'a option) \<Rightarrow> (region \<Rightarrow> 'c list \<Rightarrow> 'a \<Rightarrow> 'v \<Rightarrow> bool) \<Rightarrow> 'v \<Rightarrow> region \<Rightarrow> 'c list \<Rightarrow> ref \<Rightarrow> 'v \<Rightarrow> bool" where
  "refersTo un P z S h p v = (case p of
     None \<Rightarrow> v = z
   | Some a \<Rightarrow> (case Option.bind (cellAt S h a) un of None \<Rightarrow> False | Some x \<Rightarrow> P S h x v))"

lemma refersTo_nil [simp]: "refersTo un P z S h None v \<longleftrightarrow> v = z"
  by (simp add: refersTo_def)

lemma refersTo_at: "refersTo un P z S h (Some a) v \<longleftrightarrow> (\<exists>c x. cellAt S h a = Some c \<and> un c = Some x \<and> P S h x v)"
  by (auto simp: refersTo_def bind_eq_Some_conv split: option.splits)

section \<open>The contract of a deep copy\<close>

text \<open>The values a pointer to a value, and a slice of values, stand for.\<close>

definition someIs :: "('l \<Rightarrow> region \<Rightarrow> 'c list \<Rightarrow> 'a \<Rightarrow> 'v \<Rightarrow> bool) \<Rightarrow> 'l \<Rightarrow> region \<Rightarrow> 'c list \<Rightarrow> 'a \<Rightarrow> 'v option \<Rightarrow> bool" where
  "someIs P l S h x v \<longleftrightarrow> (case v of None \<Rightarrow> False | Some w \<Rightarrow> P l S h x w)"

definition eachIs :: "('l \<Rightarrow> region \<Rightarrow> 'c list \<Rightarrow> 'a \<Rightarrow> 'v \<Rightarrow> bool) \<Rightarrow> 'l \<Rightarrow> region \<Rightarrow> 'c list \<Rightarrow> 'a list \<Rightarrow> 'v list \<Rightarrow> bool" where
  "eachIs P l S h xs vs \<longleftrightarrow> list_all2 (P l S h) xs vs"

lemma someIs_iff: "someIs P l S h x v \<longleftrightarrow> (\<exists>w. v = Some w \<and> P l S h x w)"
  by (simp add: someIs_def split: option.split)

text \<open>
  \<open>copyInto\<close> is the deep copy of a type, under a library \<open>l\<close> that keeps its promises. What a value
  stood for, the copy stands for in a region of objects that did not exist before; and what a value
  stands for depends on the objects of its region only, which may lie in a larger one.
\<close>

locale deepCopiable =
  fixes lawful :: "'l \<Rightarrow> bool"
    and copyInto :: "'l \<Rightarrow> 'a \<Rightarrow> ('c list, 'a) state"
    and stands :: "'l \<Rightarrow> region \<Rightarrow> 'c list \<Rightarrow> 'a \<Rightarrow> 'v \<Rightarrow> bool"
  assumes copies: "lawful l \<Longrightarrow> stands l S h x v \<Longrightarrow> allocates h (copyInto l x) (\<lambda>y h'. stands l (fresh h) h' y v)"
    and stable: "lawful l \<Longrightarrow> stands l S h x v \<Longrightarrow> agree S h h' \<Longrightarrow> S \<subseteq> T \<Longrightarrow> stands l T h' x v"
begin

lemma some_law: "deepCopiable lawful copyInto (someIs stands)"
  by unfold_locales (auto simp: someIs_iff elim!: allocates_mono[rotated] intro: copies stable)

lemma each_law: "deepCopiable lawful (\<lambda>l. copyEach (copyInto l)) (eachIs stands)"
proof
  fix l S h xs vs assume l: "lawful l" and *: "eachIs stands l S h xs vs"
  show "allocates h (copyEach (copyInto l) xs) (\<lambda>ys h'. eachIs stands l (fresh h) h' ys vs)"
    unfolding eachIs_def
    by (rule allocates_copyEach[where P = "stands l S h"]) (use * l in \<open>auto simp: eachIs_def intro: copies\<close>)
  show "eachIs stands l T h' xs vs" if "agree S h h'" "S \<subseteq> T" for h' T
    using * unfolding eachIs_def by (rule list_all2_mono) (rule stable[OF l _ that])
qed

end

text \<open>Values of the type are also allocated as objects of their own.\<close>

locale deepCopiableObject = deepCopiable lawful copyInto stands
  for lawful :: "'l \<Rightarrow> bool"
    and copyInto :: "'l \<Rightarrow> 'a \<Rightarrow> ('c list, 'a) state"
    and stands :: "'l \<Rightarrow> region \<Rightarrow> 'c list \<Rightarrow> 'a \<Rightarrow> 'v \<Rightarrow> bool" +
  fixes mk :: "'a \<Rightarrow> 'c"
    and un :: "'c \<Rightarrow> 'a option"
  assumes un_mk: "un (mk x) = Some x"
begin

lemma ref_stable:
  assumes "lawful l" "refersTo un (stands l) z S h p v" "agree S h h'" "S \<subseteq> T"
  shows "refersTo un (stands l) z T h' p v"
proof (cases p)
  case (Some a)
  with assms(2) show ?thesis
    using cellAt_mono[OF cellAt_agree[OF _ assms(3)] assms(4)] stable[OF assms(1) _ assms(3,4)]
    by (fastforce simp: refersTo_at)
qed (use assms(2) in simp)

lemma ref_copies:
  assumes l: "lawful l" and p: "refersTo un (stands l) z S h p v"
  shows "allocates h (copyRef (boxed mk un (copyInto l)) p) (\<lambda>q h'. refersTo un (stands l) z (fresh h) h' q v)"
proof (cases p)
  case None
  then show ?thesis using p by (auto simp: copyRef_def intro: allocates_return)
next
  case (Some a)
  then obtain c x where c: "cellAt S h a = Some c" "un c = Some x" "stands l S h x v"
    using p by (auto simp: refersTo_at)
  let ?m = "do { b \<leftarrow> copyInto l x; State_Monad.return (mk b) }"
  have m: "allocates h ?m (\<lambda>d h'. \<exists>y. un d = Some y \<and> stands l (fresh h) h' y v)"
    by (rule allocates_bind[OF copies[OF l c(3)]], rule allocates_return) (simp add: un_mk)
  have load: "allocates h (load a) (\<lambda>x h'. x = Some c)"
    using c(1) by (auto simp: allocates_def cellAt_def prefix_def nth_append split: if_splits)
  let ?k = "do { d \<leftarrow> ?m; b \<leftarrow> alloc d; State_Monad.return (Some b) }"
  have "allocates h ?k (\<lambda>q h'. refersTo un (stands l) z (fresh h) h' q v)"
    by (rule allocates_bind[OF m], rule allocates_bind[OF allocates_alloc], rule allocates_return)
      (auto simp: refersTo_at)
  then have k: "allocates h ?k (\<lambda>q h'. x = Some c \<longrightarrow> refersTo un (stands l) z (fresh h) h' q v)" for x
    by (rule allocates_mono) simp
  have "allocates h (copyRef (boxed mk un (copyInto l)) (Some a)) (\<lambda>q h'. refersTo un (stands l) z (fresh h) h' q v)"
    unfolding copyRef_def option.case
  proof (rule allocates_bind[OF load])
    fix x' :: "'c option" and h' assume "x' = Some c"
    then have "Option.bind x' (boxed mk un (copyInto l)) = Some ?m" using c(2) by (simp add: boxed_def)
    then show "allocates h (case Option.bind x' (boxed mk un (copyInto l)) of None \<Rightarrow> State_Monad.return (Some a)
        | Some m \<Rightarrow> do { d \<leftarrow> m; b \<leftarrow> alloc d; State_Monad.return (Some b) })
      (\<lambda>q h'. x' = Some c \<longrightarrow> refersTo un (stands l) z (fresh h) h' q v)"
      by (simp only: option.case k)
  qed
  then show ?thesis using Some by simp
qed

text \<open>
  The copy of an object and the object share no memory: whatever is assigned through pointers that
  existed before the copy leaves the copy alone, and the other way round.
\<close>

lemma isolated:
  assumes l: "lawful l" and p: "refersTo un (stands l) z S h p v" and S: "S \<subseteq> {..<length h}"
    and run: "run_state (copyRef (boxed mk un (copyInto l)) p) h = (q, h')"
  shows "refersTo un (stands l) z (fresh h) h' q v"
    and "mutates {..<length h} h' h2 \<Longrightarrow> refersTo un (stands l) z (fresh h) h2 q v"
    and "mutates (fresh h) h' h2 \<Longrightarrow> refersTo un (stands l) z S h2 p v"
proof -
  have *: "prefix h h'" and q: "refersTo un (stands l) z (fresh h) h' q v"
    using allocates_run[OF ref_copies[OF l p] run] by blast+
  show "refersTo un (stands l) z (fresh h) h' q v" by fact
  show "mutates {..<length h} h' h2 \<Longrightarrow> refersTo un (stands l) z (fresh h) h2 q v"
    by (rule ref_stable[OF l q], erule mutates_agree) (auto simp: fresh_def)
  have p': "refersTo un (stands l) z S h' p v" by (rule ref_stable[OF l p agree_prefix[OF *] subset_refl])
  show "mutates (fresh h) h' h2 \<Longrightarrow> refersTo un (stands l) z S h2 p v"
    by (rule ref_stable[OF l p'], erule mutates_agree) (use S in \<open>auto simp: fresh_def\<close>)
qed

end

end
