(* ===== verification/ApiMemory.thy ===== *)
theory ApiMemory
  imports ApiTypes Memory
begin

text \<open>
  The custom resource of \<^verbatim>\<open>api/keda/v1alpha1/kedacontroller_types.go\<close> as it lies in memory. The records
  \<open>Mem...\<close> are the Go structs: a pointer, a slice and a map is a reference into the heap of theory
  \<open>Memory\<close>; structs without references are the records of \<open>ApiTypes\<close>. A struct of \<^verbatim>\<open>k8s.io\<close> (a volume,
  a toleration, the metadata, ...) is of a type \<open>'x\<close> that the development does not fix.
\<close>

section \<open>The library types\<close>

datatype libType = TToleration | TAffinity | TResourceRequirements | TVolume | TVolumeMount | TEnvVar
  | TPolicyRule | TObjectMeta | TListMeta

datatype libValue = VToleration json | VAffinity json | VResourceRequirements resourceSpec | VVolume volume
  | VVolumeMount volumeMount | VEnvVar envVar | VPolicyRule json
  | VObjectMeta objectMeta string "string list" "string option" | VListMeta json

fun typeOf :: "libValue \<Rightarrow> libType" where
  "typeOf (VToleration _) = TToleration"
| "typeOf (VAffinity _) = TAffinity"
| "typeOf (VResourceRequirements _) = TResourceRequirements"
| "typeOf (VVolume _) = TVolume"
| "typeOf (VVolumeMount _) = TVolumeMount"
| "typeOf (VEnvVar _) = TEnvVar"
| "typeOf (VPolicyRule _) = TPolicyRule"
| "typeOf (VObjectMeta _ _ _ _) = TObjectMeta"
| "typeOf (VListMeta _) = TListMeta"

section \<open>The structs in memory\<close>

record 'x MemGenericDeploymentSpec =
  mg_replicas :: ref
  mg_deploymentAnnotations :: ref
  mg_deploymentLabels :: ref
  mg_podAnnotations :: ref
  mg_podLabels :: ref
  mg_nodeSelector :: ref
  mg_tolerations :: ref
  mg_affinity :: ref
  mg_priorityClassName :: string
  mg_resources :: 'x
  mg_volumes :: ref
  mg_volumeMounts :: ref
  mg_env :: ref

record MemAuditPolicy =
  mp_rules :: ref
  mp_omitStages :: ref
  mp_omitManagedFields :: bool

record MemAuditConfig =
  ma_logOutputVolumeClaim :: string
  ma_policy :: MemAuditPolicy
  ma_logFormat :: string
  ma_lifetime :: AuditLifetime

record 'x MemKedaOperatorSpec =
  mo_logLevel :: string
  mo_logEncoder :: string
  mo_logTimeEncoding :: string
  mo_generic :: "'x MemGenericDeploymentSpec"
  mo_args :: ref
  mo_networkEgressAllowAll :: string
  mo_caConfigMaps :: ref
  mo_gcpWorkloadIdentity :: ref

record 'x MemKedaMetricsServerSpec =
  mm_logLevel :: string
  mm_generic :: "'x MemGenericDeploymentSpec"
  mm_auditConfig :: MemAuditConfig
  mm_args :: ref
  mm_networkEgressAllowAll :: string

record 'x MemKedaAdmissionWebhooksSpec =
  mw_logLevel :: string
  mw_logEncoder :: string
  mw_logTimeEncoding :: string
  mw_generic :: "'x MemGenericDeploymentSpec"
  mw_args :: ref

record MemKedaServiceAccountSpec =
  ms_annotations :: ref
  ms_labels :: ref

record 'x MemHTTPAddonComponentSpec =
  mc_logLevel :: string
  mc_logEncoder :: string
  mc_logTimeEncoding :: string
  mc_image :: HTTPAddonImageSpec
  mc_generic :: "'x MemGenericDeploymentSpec"

record 'x MemHTTPAddonSpec =
  mh_enabled :: bool
  mh_version :: string
  mh_operator :: "'x MemHTTPAddonComponentSpec"
  mh_interceptor :: "'x MemHTTPAddonComponentSpec"
  mh_scaler :: "'x MemHTTPAddonComponentSpec"

record 'x MemKedaControllerSpec =
  mk_watchNamespace :: string
  mk_operator :: "'x MemKedaOperatorSpec"
  mk_metricsServer :: "'x MemKedaMetricsServerSpec"
  mk_admissionWebhooks :: "'x MemKedaAdmissionWebhooksSpec"
  mk_serviceAccount :: MemKedaServiceAccountSpec
  mk_httpAddon :: "'x MemHTTPAddonSpec"

record MemKedaControllerStatus =
  mt_phase :: KedaControllerPhase
  mt_reason :: string
  mt_version :: string
  mt_configMapDataSum :: string
  mt_secretDataSum :: string
  mt_httpAddon :: ref
  mt_gcpWorkloadIdentity :: ref

record 'x MemKedaController =
  mkc_apiVersion :: string
  mkc_kind :: string
  mkc_meta :: 'x
  mkc_spec :: "'x MemKedaControllerSpec"
  mkc_status :: MemKedaControllerStatus

record 'x MemKedaControllerList =
  ml_apiVersion :: string
  ml_kind :: string
  ml_listMeta :: 'x
  ml_items :: ref

text \<open>The list of KedaControllers an API server returns, as a value.\<close>

record KedaControllerList =
  kl_apiVersion :: string
  kl_kind :: string
  kl_meta :: json
  kl_items :: "KedaController list"

text \<open>
  The objects of the heap. A map is the list of its entries in the order in which the next \<open>range\<close>
  visits them.
\<close>

datatype 'x cell =
    CInt32 int32
  | CStringMap "(string \<times> string) list"
  | CStrings "string list"
  | CLib 'x
  | CLibs "'x list"
  | CAuditConfig MemAuditConfig
  | CAuditLifetime AuditLifetime
  | CAuditPolicy MemAuditPolicy
  | CGCPWorkloadIdentitySpec GCPWorkloadIdentitySpec
  | CGCPWorkloadIdentityStatus GCPWorkloadIdentityStatus
  | CGenericDeploymentSpec "'x MemGenericDeploymentSpec"
  | CHTTPAddonImageSpec HTTPAddonImageSpec
  | CHTTPAddonInterceptorSpec "'x MemHTTPAddonComponentSpec"
  | CHTTPAddonOperatorSpec "'x MemHTTPAddonComponentSpec"
  | CHTTPAddonScalerSpec "'x MemHTTPAddonComponentSpec"
  | CHTTPAddonSpec "'x MemHTTPAddonSpec"
  | CHTTPAddonStatus HTTPAddonStatus
  | CKedaAdmissionWebhooksSpec "'x MemKedaAdmissionWebhooksSpec"
  | CKedaController "'x MemKedaController"
  | CKedaControllers "'x MemKedaController list"
  | CKedaControllerList "'x MemKedaControllerList"
  | CKedaControllerSpec "'x MemKedaControllerSpec"
  | CKedaControllerStatus MemKedaControllerStatus
  | CKedaMetricsServerSpec "'x MemKedaMetricsServerSpec"
  | CKedaOperatorSpec "'x MemKedaOperatorSpec"
  | CKedaServiceAccountSpec MemKedaServiceAccountSpec

text \<open>Reading an object at the type of the pointer.\<close>

definition asInt32 :: "'x cell \<Rightarrow> int32 option" where
  "asInt32 c = (case c of CInt32 x \<Rightarrow> Some x | _ \<Rightarrow> None)"

definition asStringMap :: "'x cell \<Rightarrow> ((string \<times> string) list) option" where
  "asStringMap c = (case c of CStringMap x \<Rightarrow> Some x | _ \<Rightarrow> None)"

definition asStrings :: "'x cell \<Rightarrow> (string list) option" where
  "asStrings c = (case c of CStrings x \<Rightarrow> Some x | _ \<Rightarrow> None)"

definition asLib :: "'x cell \<Rightarrow> 'x option" where
  "asLib c = (case c of CLib x \<Rightarrow> Some x | _ \<Rightarrow> None)"

definition asLibs :: "'x cell \<Rightarrow> ('x list) option" where
  "asLibs c = (case c of CLibs x \<Rightarrow> Some x | _ \<Rightarrow> None)"

definition asAuditConfig :: "'x cell \<Rightarrow> MemAuditConfig option" where
  "asAuditConfig c = (case c of CAuditConfig x \<Rightarrow> Some x | _ \<Rightarrow> None)"

definition asAuditLifetime :: "'x cell \<Rightarrow> AuditLifetime option" where
  "asAuditLifetime c = (case c of CAuditLifetime x \<Rightarrow> Some x | _ \<Rightarrow> None)"

definition asAuditPolicy :: "'x cell \<Rightarrow> MemAuditPolicy option" where
  "asAuditPolicy c = (case c of CAuditPolicy x \<Rightarrow> Some x | _ \<Rightarrow> None)"

definition asGCPWorkloadIdentitySpec :: "'x cell \<Rightarrow> GCPWorkloadIdentitySpec option" where
  "asGCPWorkloadIdentitySpec c = (case c of CGCPWorkloadIdentitySpec x \<Rightarrow> Some x | _ \<Rightarrow> None)"

definition asGCPWorkloadIdentityStatus :: "'x cell \<Rightarrow> GCPWorkloadIdentityStatus option" where
  "asGCPWorkloadIdentityStatus c = (case c of CGCPWorkloadIdentityStatus x \<Rightarrow> Some x | _ \<Rightarrow> None)"

definition asGenericDeploymentSpec :: "'x cell \<Rightarrow> 'x MemGenericDeploymentSpec option" where
  "asGenericDeploymentSpec c = (case c of CGenericDeploymentSpec x \<Rightarrow> Some x | _ \<Rightarrow> None)"

definition asHTTPAddonImageSpec :: "'x cell \<Rightarrow> HTTPAddonImageSpec option" where
  "asHTTPAddonImageSpec c = (case c of CHTTPAddonImageSpec x \<Rightarrow> Some x | _ \<Rightarrow> None)"

definition asHTTPAddonInterceptorSpec :: "'x cell \<Rightarrow> 'x MemHTTPAddonComponentSpec option" where
  "asHTTPAddonInterceptorSpec c = (case c of CHTTPAddonInterceptorSpec x \<Rightarrow> Some x | _ \<Rightarrow> None)"

definition asHTTPAddonOperatorSpec :: "'x cell \<Rightarrow> 'x MemHTTPAddonComponentSpec option" where
  "asHTTPAddonOperatorSpec c = (case c of CHTTPAddonOperatorSpec x \<Rightarrow> Some x | _ \<Rightarrow> None)"

definition asHTTPAddonScalerSpec :: "'x cell \<Rightarrow> 'x MemHTTPAddonComponentSpec option" where
  "asHTTPAddonScalerSpec c = (case c of CHTTPAddonScalerSpec x \<Rightarrow> Some x | _ \<Rightarrow> None)"

definition asHTTPAddonSpec :: "'x cell \<Rightarrow> 'x MemHTTPAddonSpec option" where
  "asHTTPAddonSpec c = (case c of CHTTPAddonSpec x \<Rightarrow> Some x | _ \<Rightarrow> None)"

definition asHTTPAddonStatus :: "'x cell \<Rightarrow> HTTPAddonStatus option" where
  "asHTTPAddonStatus c = (case c of CHTTPAddonStatus x \<Rightarrow> Some x | _ \<Rightarrow> None)"

definition asKedaAdmissionWebhooksSpec :: "'x cell \<Rightarrow> 'x MemKedaAdmissionWebhooksSpec option" where
  "asKedaAdmissionWebhooksSpec c = (case c of CKedaAdmissionWebhooksSpec x \<Rightarrow> Some x | _ \<Rightarrow> None)"

definition asKedaController :: "'x cell \<Rightarrow> 'x MemKedaController option" where
  "asKedaController c = (case c of CKedaController x \<Rightarrow> Some x | _ \<Rightarrow> None)"

definition asKedaControllers :: "'x cell \<Rightarrow> ('x MemKedaController list) option" where
  "asKedaControllers c = (case c of CKedaControllers x \<Rightarrow> Some x | _ \<Rightarrow> None)"

definition asKedaControllerList :: "'x cell \<Rightarrow> 'x MemKedaControllerList option" where
  "asKedaControllerList c = (case c of CKedaControllerList x \<Rightarrow> Some x | _ \<Rightarrow> None)"

definition asKedaControllerSpec :: "'x cell \<Rightarrow> 'x MemKedaControllerSpec option" where
  "asKedaControllerSpec c = (case c of CKedaControllerSpec x \<Rightarrow> Some x | _ \<Rightarrow> None)"

definition asKedaControllerStatus :: "'x cell \<Rightarrow> MemKedaControllerStatus option" where
  "asKedaControllerStatus c = (case c of CKedaControllerStatus x \<Rightarrow> Some x | _ \<Rightarrow> None)"

definition asKedaMetricsServerSpec :: "'x cell \<Rightarrow> 'x MemKedaMetricsServerSpec option" where
  "asKedaMetricsServerSpec c = (case c of CKedaMetricsServerSpec x \<Rightarrow> Some x | _ \<Rightarrow> None)"

definition asKedaOperatorSpec :: "'x cell \<Rightarrow> 'x MemKedaOperatorSpec option" where
  "asKedaOperatorSpec c = (case c of CKedaOperatorSpec x \<Rightarrow> Some x | _ \<Rightarrow> None)"

definition asKedaServiceAccountSpec :: "'x cell \<Rightarrow> MemKedaServiceAccountSpec option" where
  "asKedaServiceAccountSpec c = (case c of CKedaServiceAccountSpec x \<Rightarrow> Some x | _ \<Rightarrow> None)"

lemmas as_defs = asInt32_def asStringMap_def asStrings_def asLib_def asLibs_def asAuditConfig_def asAuditLifetime_def asAuditPolicy_def asGCPWorkloadIdentitySpec_def asGCPWorkloadIdentityStatus_def asGenericDeploymentSpec_def asHTTPAddonImageSpec_def asHTTPAddonInterceptorSpec_def asHTTPAddonOperatorSpec_def asHTTPAddonScalerSpec_def asHTTPAddonSpec_def asHTTPAddonStatus_def asKedaAdmissionWebhooksSpec_def asKedaController_def asKedaControllers_def asKedaControllerList_def asKedaControllerSpec_def asKedaControllerStatus_def asKedaMetricsServerSpec_def asKedaOperatorSpec_def asKedaServiceAccountSpec_def

lemma as_C [simp]:
  "asInt32 (CInt32 x0) = Some x0"
  "asStringMap (CStringMap x1) = Some x1"
  "asStrings (CStrings x2) = Some x2"
  "asLib (CLib x3) = Some x3"
  "asLibs (CLibs x4) = Some x4"
  "asAuditConfig (CAuditConfig x5) = Some x5"
  "asAuditLifetime (CAuditLifetime x6) = Some x6"
  "asAuditPolicy (CAuditPolicy x7) = Some x7"
  "asGCPWorkloadIdentitySpec (CGCPWorkloadIdentitySpec x8) = Some x8"
  "asGCPWorkloadIdentityStatus (CGCPWorkloadIdentityStatus x9) = Some x9"
  "asGenericDeploymentSpec (CGenericDeploymentSpec x10) = Some x10"
  "asHTTPAddonImageSpec (CHTTPAddonImageSpec x11) = Some x11"
  "asHTTPAddonInterceptorSpec (CHTTPAddonInterceptorSpec x12) = Some x12"
  "asHTTPAddonOperatorSpec (CHTTPAddonOperatorSpec x13) = Some x13"
  "asHTTPAddonScalerSpec (CHTTPAddonScalerSpec x14) = Some x14"
  "asHTTPAddonSpec (CHTTPAddonSpec x15) = Some x15"
  "asHTTPAddonStatus (CHTTPAddonStatus x16) = Some x16"
  "asKedaAdmissionWebhooksSpec (CKedaAdmissionWebhooksSpec x17) = Some x17"
  "asKedaController (CKedaController x18) = Some x18"
  "asKedaControllers (CKedaControllers x19) = Some x19"
  "asKedaControllerList (CKedaControllerList x20) = Some x20"
  "asKedaControllerSpec (CKedaControllerSpec x21) = Some x21"
  "asKedaControllerStatus (CKedaControllerStatus x22) = Some x22"
  "asKedaMetricsServerSpec (CKedaMetricsServerSpec x23) = Some x23"
  "asKedaOperatorSpec (CKedaOperatorSpec x24) = Some x24"
  "asKedaServiceAccountSpec (CKedaServiceAccountSpec x25) = Some x25"
  by (simp_all add: as_defs)
end
