(* ===== verification/DeepCopy.thy ===== *)
theory DeepCopy
  imports ApiMemory "HOL-Library.AList"
begin

text \<open>
  The generated deep copies of the custom resource, \<^verbatim>\<open>api/keda/v1alpha1/zz_generated.deepcopy.go\<close>.
  \<open>DeepCopyInto\<close> starts from \<open>*out = *in\<close> and replaces the references field by field; it returns
  what it stores in \<open>*out\<close>, which its callers have just allocated and to which nothing else points.
  The address a \<open>new\<close> or a \<open>make\<close> returns cannot be observed by the program, so an object is
  allocated once its content is known. The predicates \<open>stands...\<close> say which value of \<open>ApiTypes\<close> a
  struct in memory is; every type is shown to keep the contract \<open>deepCopiable\<close>, from the leaves up.
\<close>

section \<open>The library\<close>

text \<open>
  The generated deep copies of the \<^verbatim>\<open>k8s.io\<close> structs and the values these structs stand for are a
  parameter. What the package documents of every generated deep copy is \<open>keepsDeepCopies\<close>: the copy
  has the value of the original and shares no memory with anything, and the value of a struct lies in
  the objects it refers to.
\<close>

record 'x apimachinery =
  lib_DeepCopyInto :: "libType \<Rightarrow> 'x \<Rightarrow> ('x cell list, 'x) state"
  lib_stands :: "region \<Rightarrow> 'x cell list \<Rightarrow> 'x \<Rightarrow> libValue \<Rightarrow> bool"

definition keepsDeepCopies :: "'x apimachinery \<Rightarrow> bool" where
  "keepsDeepCopies lib \<longleftrightarrow>
     (\<forall>S h x v. lib_stands lib S h x v \<longrightarrow>
        allocates h (lib_DeepCopyInto lib (typeOf v) x) (\<lambda>y h'. lib_stands lib (fresh h) h' y v)) \<and>
     (\<forall>S T h h' x v. lib_stands lib S h x v \<longrightarrow> agree S h h' \<longrightarrow> S \<subseteq> T \<longrightarrow> lib_stands lib T h' x v)"

section \<open>The copies\<close>

text \<open>\<open>for key, val := range *in { (*out)[key] = val }\<close>\<close>

definition copyEntries :: "(string \<times> string) list \<Rightarrow> ('c list, (string \<times> string) list) state" where
  "copyEntries kvs = State_Monad.return (foldl (\<lambda>out (k, v). AList.update k v out) [] kvs)"

text \<open>The shapes of a field that is a pointer, a map or a slice.\<close>

definition copyInt32 :: "ref \<Rightarrow> ('x cell list, ref) state" where
  "copyInt32 = copyRef (boxed CInt32 asInt32 State_Monad.return)"

definition copyStringMap :: "ref \<Rightarrow> ('x cell list, ref) state" where
  "copyStringMap = copyRef (boxed CStringMap asStringMap copyEntries)"

definition copyStrings :: "ref \<Rightarrow> ('x cell list, ref) state" where
  "copyStrings = copyRef (boxed CStrings asStrings State_Monad.return)"

definition copyPointer :: "'x apimachinery \<Rightarrow> libType \<Rightarrow> ref \<Rightarrow> ('x cell list, ref) state" where
  "copyPointer lib t = copyRef (boxed CLib asLib (lib_DeepCopyInto lib t))"

definition copySlice :: "'x apimachinery \<Rightarrow> libType \<Rightarrow> ref \<Rightarrow> ('x cell list, ref) state" where
  "copySlice lib t = copyRef (boxed CLibs asLibs (copyEach (lib_DeepCopyInto lib t)))"

definition AuditLifetime_DeepCopyInto :: "'x apimachinery \<Rightarrow> AuditLifetime \<Rightarrow> ('x cell list, AuditLifetime) state" where
  "AuditLifetime_DeepCopyInto lib inp = State_Monad.return inp"

definition AuditPolicy_DeepCopyInto :: "'x apimachinery \<Rightarrow> MemAuditPolicy \<Rightarrow> ('x cell list, MemAuditPolicy) state" where
  "AuditPolicy_DeepCopyInto lib inp = do {
     rules \<leftarrow> copySlice lib TPolicyRule (mp_rules inp);
     omitStages \<leftarrow> copyStrings (mp_omitStages inp);
     State_Monad.return (inp\<lparr>mp_rules := rules, mp_omitStages := omitStages\<rparr>)
   }"

definition AuditConfig_DeepCopyInto :: "'x apimachinery \<Rightarrow> MemAuditConfig \<Rightarrow> ('x cell list, MemAuditConfig) state" where
  "AuditConfig_DeepCopyInto lib inp = do {
     policy \<leftarrow> AuditPolicy_DeepCopyInto lib (ma_policy inp);
     State_Monad.return (inp\<lparr>ma_policy := policy\<rparr>)
   }"

definition GCPWorkloadIdentitySpec_DeepCopyInto :: "'x apimachinery \<Rightarrow> GCPWorkloadIdentitySpec \<Rightarrow> ('x cell list, GCPWorkloadIdentitySpec) state" where
  "GCPWorkloadIdentitySpec_DeepCopyInto lib inp = State_Monad.return inp"

definition GCPWorkloadIdentityStatus_DeepCopyInto :: "'x apimachinery \<Rightarrow> GCPWorkloadIdentityStatus \<Rightarrow> ('x cell list, GCPWorkloadIdentityStatus) state" where
  "GCPWorkloadIdentityStatus_DeepCopyInto lib inp = State_Monad.return inp"

definition GenericDeploymentSpec_DeepCopyInto :: "'x apimachinery \<Rightarrow> 'x MemGenericDeploymentSpec \<Rightarrow> ('x cell list, 'x MemGenericDeploymentSpec) state" where
  "GenericDeploymentSpec_DeepCopyInto lib inp = do {
     replicas \<leftarrow> copyInt32 (mg_replicas inp);
     deploymentAnnotations \<leftarrow> copyStringMap (mg_deploymentAnnotations inp);
     deploymentLabels \<leftarrow> copyStringMap (mg_deploymentLabels inp);
     podAnnotations \<leftarrow> copyStringMap (mg_podAnnotations inp);
     podLabels \<leftarrow> copyStringMap (mg_podLabels inp);
     nodeSelector \<leftarrow> copyStringMap (mg_nodeSelector inp);
     tolerations \<leftarrow> copySlice lib TToleration (mg_tolerations inp);
     affinity \<leftarrow> copyPointer lib TAffinity (mg_affinity inp);
     resources \<leftarrow> lib_DeepCopyInto lib TResourceRequirements (mg_resources inp);
     volumes \<leftarrow> copySlice lib TVolume (mg_volumes inp);
     volumeMounts \<leftarrow> copySlice lib TVolumeMount (mg_volumeMounts inp);
     env \<leftarrow> copySlice lib TEnvVar (mg_env inp);
     State_Monad.return (inp\<lparr>mg_replicas := replicas, mg_deploymentAnnotations := deploymentAnnotations, mg_deploymentLabels := deploymentLabels,
       mg_podAnnotations := podAnnotations, mg_podLabels := podLabels, mg_nodeSelector := nodeSelector,
       mg_tolerations := tolerations, mg_affinity := affinity, mg_resources := resources,
       mg_volumes := volumes, mg_volumeMounts := volumeMounts, mg_env := env\<rparr>)
   }"

definition HTTPAddonImageSpec_DeepCopyInto :: "'x apimachinery \<Rightarrow> HTTPAddonImageSpec \<Rightarrow> ('x cell list, HTTPAddonImageSpec) state" where
  "HTTPAddonImageSpec_DeepCopyInto lib inp = State_Monad.return inp"

definition HTTPAddonInterceptorSpec_DeepCopyInto :: "'x apimachinery \<Rightarrow> 'x MemHTTPAddonComponentSpec \<Rightarrow> ('x cell list, 'x MemHTTPAddonComponentSpec) state" where
  "HTTPAddonInterceptorSpec_DeepCopyInto lib inp = do {
     generic \<leftarrow> GenericDeploymentSpec_DeepCopyInto lib (mc_generic inp);
     State_Monad.return (inp\<lparr>mc_generic := generic\<rparr>)
   }"

definition HTTPAddonOperatorSpec_DeepCopyInto :: "'x apimachinery \<Rightarrow> 'x MemHTTPAddonComponentSpec \<Rightarrow> ('x cell list, 'x MemHTTPAddonComponentSpec) state" where
  "HTTPAddonOperatorSpec_DeepCopyInto lib inp = do {
     generic \<leftarrow> GenericDeploymentSpec_DeepCopyInto lib (mc_generic inp);
     State_Monad.return (inp\<lparr>mc_generic := generic\<rparr>)
   }"

definition HTTPAddonScalerSpec_DeepCopyInto :: "'x apimachinery \<Rightarrow> 'x MemHTTPAddonComponentSpec \<Rightarrow> ('x cell list, 'x MemHTTPAddonComponentSpec) state" where
  "HTTPAddonScalerSpec_DeepCopyInto lib inp = do {
     generic \<leftarrow> GenericDeploymentSpec_DeepCopyInto lib (mc_generic inp);
     State_Monad.return (inp\<lparr>mc_generic := generic\<rparr>)
   }"

definition HTTPAddonSpec_DeepCopyInto :: "'x apimachinery \<Rightarrow> 'x MemHTTPAddonSpec \<Rightarrow> ('x cell list, 'x MemHTTPAddonSpec) state" where
  "HTTPAddonSpec_DeepCopyInto lib inp = do {
     operator \<leftarrow> HTTPAddonOperatorSpec_DeepCopyInto lib (mh_operator inp);
     interceptor \<leftarrow> HTTPAddonInterceptorSpec_DeepCopyInto lib (mh_interceptor inp);
     scaler \<leftarrow> HTTPAddonScalerSpec_DeepCopyInto lib (mh_scaler inp);
     State_Monad.return (inp\<lparr>mh_operator := operator, mh_interceptor := interceptor, mh_scaler := scaler\<rparr>)
   }"

definition HTTPAddonStatus_DeepCopyInto :: "'x apimachinery \<Rightarrow> HTTPAddonStatus \<Rightarrow> ('x cell list, HTTPAddonStatus) state" where
  "HTTPAddonStatus_DeepCopyInto lib inp = State_Monad.return inp"

definition KedaAdmissionWebhooksSpec_DeepCopyInto :: "'x apimachinery \<Rightarrow> 'x MemKedaAdmissionWebhooksSpec \<Rightarrow> ('x cell list, 'x MemKedaAdmissionWebhooksSpec) state" where
  "KedaAdmissionWebhooksSpec_DeepCopyInto lib inp = do {
     generic \<leftarrow> GenericDeploymentSpec_DeepCopyInto lib (mw_generic inp);
     args \<leftarrow> copyStrings (mw_args inp);
     State_Monad.return (inp\<lparr>mw_generic := generic, mw_args := args\<rparr>)
   }"

definition KedaMetricsServerSpec_DeepCopyInto :: "'x apimachinery \<Rightarrow> 'x MemKedaMetricsServerSpec \<Rightarrow> ('x cell list, 'x MemKedaMetricsServerSpec) state" where
  "KedaMetricsServerSpec_DeepCopyInto lib inp = do {
     generic \<leftarrow> GenericDeploymentSpec_DeepCopyInto lib (mm_generic inp);
     auditConfig \<leftarrow> AuditConfig_DeepCopyInto lib (mm_auditConfig inp);
     args \<leftarrow> copyStrings (mm_args inp);
     State_Monad.return (inp\<lparr>mm_generic := generic, mm_auditConfig := auditConfig, mm_args := args\<rparr>)
   }"

definition KedaOperatorSpec_DeepCopyInto :: "'x apimachinery \<Rightarrow> 'x MemKedaOperatorSpec \<Rightarrow> ('x cell list, 'x MemKedaOperatorSpec) state" where
  "KedaOperatorSpec_DeepCopyInto lib inp = do {
     generic \<leftarrow> GenericDeploymentSpec_DeepCopyInto lib (mo_generic inp);
     args \<leftarrow> copyStrings (mo_args inp);
     caConfigMaps \<leftarrow> copyStrings (mo_caConfigMaps inp);
     gcpWorkloadIdentity \<leftarrow> copyRef (boxed CGCPWorkloadIdentitySpec asGCPWorkloadIdentitySpec State_Monad.return) (mo_gcpWorkloadIdentity inp);
     State_Monad.return (inp\<lparr>mo_generic := generic, mo_args := args, mo_caConfigMaps := caConfigMaps,
       mo_gcpWorkloadIdentity := gcpWorkloadIdentity\<rparr>)
   }"

definition KedaServiceAccountSpec_DeepCopyInto :: "'x apimachinery \<Rightarrow> MemKedaServiceAccountSpec \<Rightarrow> ('x cell list, MemKedaServiceAccountSpec) state" where
  "KedaServiceAccountSpec_DeepCopyInto lib inp = do {
     annotations \<leftarrow> copyStringMap (ms_annotations inp);
     labels \<leftarrow> copyStringMap (ms_labels inp);
     State_Monad.return (inp\<lparr>ms_annotations := annotations, ms_labels := labels\<rparr>)
   }"

definition KedaControllerSpec_DeepCopyInto :: "'x apimachinery \<Rightarrow> 'x MemKedaControllerSpec \<Rightarrow> ('x cell list, 'x MemKedaControllerSpec) state" where
  "KedaControllerSpec_DeepCopyInto lib inp = do {
     operator \<leftarrow> KedaOperatorSpec_DeepCopyInto lib (mk_operator inp);
     metricsServer \<leftarrow> KedaMetricsServerSpec_DeepCopyInto lib (mk_metricsServer inp);
     admissionWebhooks \<leftarrow> KedaAdmissionWebhooksSpec_DeepCopyInto lib (mk_admissionWebhooks inp);
     serviceAccount \<leftarrow> KedaServiceAccountSpec_DeepCopyInto lib (mk_serviceAccount inp);
     httpAddon \<leftarrow> HTTPAddonSpec_DeepCopyInto lib (mk_httpAddon inp);
     State_Monad.return (inp\<lparr>mk_operator := operator, mk_metricsServer := metricsServer, mk_admissionWebhooks := admissionWebhooks,
       mk_serviceAccount := serviceAccount, mk_httpAddon := httpAddon\<rparr>)
   }"

definition KedaControllerStatus_DeepCopyInto :: "'x apimachinery \<Rightarrow> MemKedaControllerStatus \<Rightarrow> ('x cell list, MemKedaControllerStatus) state" where
  "KedaControllerStatus_DeepCopyInto lib inp = do {
     httpAddon \<leftarrow> copyRef (boxed CHTTPAddonStatus asHTTPAddonStatus State_Monad.return) (mt_httpAddon inp);
     gcpWorkloadIdentity \<leftarrow> copyRef (boxed CGCPWorkloadIdentityStatus asGCPWorkloadIdentityStatus State_Monad.return) (mt_gcpWorkloadIdentity inp);
     State_Monad.return (inp\<lparr>mt_httpAddon := httpAddon, mt_gcpWorkloadIdentity := gcpWorkloadIdentity\<rparr>)
   }"

definition KedaController_DeepCopyInto :: "'x apimachinery \<Rightarrow> 'x MemKedaController \<Rightarrow> ('x cell list, 'x MemKedaController) state" where
  "KedaController_DeepCopyInto lib inp = do {
     meta \<leftarrow> lib_DeepCopyInto lib TObjectMeta (mkc_meta inp);
     spec \<leftarrow> KedaControllerSpec_DeepCopyInto lib (mkc_spec inp);
     status \<leftarrow> KedaControllerStatus_DeepCopyInto lib (mkc_status inp);
     State_Monad.return (inp\<lparr>mkc_meta := meta, mkc_spec := spec, mkc_status := status\<rparr>)
   }"

definition KedaControllerList_DeepCopyInto :: "'x apimachinery \<Rightarrow> 'x MemKedaControllerList \<Rightarrow> ('x cell list, 'x MemKedaControllerList) state" where
  "KedaControllerList_DeepCopyInto lib inp = do {
     listMeta \<leftarrow> lib_DeepCopyInto lib TListMeta (ml_listMeta inp);
     items \<leftarrow> copyRef (boxed CKedaControllers asKedaControllers (copyEach (KedaController_DeepCopyInto lib))) (ml_items inp);
     State_Monad.return (inp\<lparr>ml_listMeta := listMeta, ml_items := items\<rparr>)
   }"

text \<open>\<open>DeepCopy\<close>: nil for nil, else a new object filled by \<open>DeepCopyInto\<close>.\<close>

definition AuditLifetime_DeepCopy :: "'x apimachinery \<Rightarrow> ref \<Rightarrow> ('x cell list, ref) state" where
  "AuditLifetime_DeepCopy lib = copyRef (boxed CAuditLifetime asAuditLifetime (AuditLifetime_DeepCopyInto lib))"

definition AuditPolicy_DeepCopy :: "'x apimachinery \<Rightarrow> ref \<Rightarrow> ('x cell list, ref) state" where
  "AuditPolicy_DeepCopy lib = copyRef (boxed CAuditPolicy asAuditPolicy (AuditPolicy_DeepCopyInto lib))"

definition AuditConfig_DeepCopy :: "'x apimachinery \<Rightarrow> ref \<Rightarrow> ('x cell list, ref) state" where
  "AuditConfig_DeepCopy lib = copyRef (boxed CAuditConfig asAuditConfig (AuditConfig_DeepCopyInto lib))"

definition GCPWorkloadIdentitySpec_DeepCopy :: "'x apimachinery \<Rightarrow> ref \<Rightarrow> ('x cell list, ref) state" where
  "GCPWorkloadIdentitySpec_DeepCopy lib = copyRef (boxed CGCPWorkloadIdentitySpec asGCPWorkloadIdentitySpec (GCPWorkloadIdentitySpec_DeepCopyInto lib))"

definition GCPWorkloadIdentityStatus_DeepCopy :: "'x apimachinery \<Rightarrow> ref \<Rightarrow> ('x cell list, ref) state" where
  "GCPWorkloadIdentityStatus_DeepCopy lib = copyRef (boxed CGCPWorkloadIdentityStatus asGCPWorkloadIdentityStatus (GCPWorkloadIdentityStatus_DeepCopyInto lib))"

definition GenericDeploymentSpec_DeepCopy :: "'x apimachinery \<Rightarrow> ref \<Rightarrow> ('x cell list, ref) state" where
  "GenericDeploymentSpec_DeepCopy lib = copyRef (boxed CGenericDeploymentSpec asGenericDeploymentSpec (GenericDeploymentSpec_DeepCopyInto lib))"

definition HTTPAddonImageSpec_DeepCopy :: "'x apimachinery \<Rightarrow> ref \<Rightarrow> ('x cell list, ref) state" where
  "HTTPAddonImageSpec_DeepCopy lib = copyRef (boxed CHTTPAddonImageSpec asHTTPAddonImageSpec (HTTPAddonImageSpec_DeepCopyInto lib))"

definition HTTPAddonInterceptorSpec_DeepCopy :: "'x apimachinery \<Rightarrow> ref \<Rightarrow> ('x cell list, ref) state" where
  "HTTPAddonInterceptorSpec_DeepCopy lib = copyRef (boxed CHTTPAddonInterceptorSpec asHTTPAddonInterceptorSpec (HTTPAddonInterceptorSpec_DeepCopyInto lib))"

definition HTTPAddonOperatorSpec_DeepCopy :: "'x apimachinery \<Rightarrow> ref \<Rightarrow> ('x cell list, ref) state" where
  "HTTPAddonOperatorSpec_DeepCopy lib = copyRef (boxed CHTTPAddonOperatorSpec asHTTPAddonOperatorSpec (HTTPAddonOperatorSpec_DeepCopyInto lib))"

definition HTTPAddonScalerSpec_DeepCopy :: "'x apimachinery \<Rightarrow> ref \<Rightarrow> ('x cell list, ref) state" where
  "HTTPAddonScalerSpec_DeepCopy lib = copyRef (boxed CHTTPAddonScalerSpec asHTTPAddonScalerSpec (HTTPAddonScalerSpec_DeepCopyInto lib))"

definition HTTPAddonSpec_DeepCopy :: "'x apimachinery \<Rightarrow> ref \<Rightarrow> ('x cell list, ref) state" where
  "HTTPAddonSpec_DeepCopy lib = copyRef (boxed CHTTPAddonSpec asHTTPAddonSpec (HTTPAddonSpec_DeepCopyInto lib))"

definition HTTPAddonStatus_DeepCopy :: "'x apimachinery \<Rightarrow> ref \<Rightarrow> ('x cell list, ref) state" where
  "HTTPAddonStatus_DeepCopy lib = copyRef (boxed CHTTPAddonStatus asHTTPAddonStatus (HTTPAddonStatus_DeepCopyInto lib))"

definition KedaAdmissionWebhooksSpec_DeepCopy :: "'x apimachinery \<Rightarrow> ref \<Rightarrow> ('x cell list, ref) state" where
  "KedaAdmissionWebhooksSpec_DeepCopy lib = copyRef (boxed CKedaAdmissionWebhooksSpec asKedaAdmissionWebhooksSpec (KedaAdmissionWebhooksSpec_DeepCopyInto lib))"

definition KedaMetricsServerSpec_DeepCopy :: "'x apimachinery \<Rightarrow> ref \<Rightarrow> ('x cell list, ref) state" where
  "KedaMetricsServerSpec_DeepCopy lib = copyRef (boxed CKedaMetricsServerSpec asKedaMetricsServerSpec (KedaMetricsServerSpec_DeepCopyInto lib))"

definition KedaOperatorSpec_DeepCopy :: "'x apimachinery \<Rightarrow> ref \<Rightarrow> ('x cell list, ref) state" where
  "KedaOperatorSpec_DeepCopy lib = copyRef (boxed CKedaOperatorSpec asKedaOperatorSpec (KedaOperatorSpec_DeepCopyInto lib))"

definition KedaServiceAccountSpec_DeepCopy :: "'x apimachinery \<Rightarrow> ref \<Rightarrow> ('x cell list, ref) state" where
  "KedaServiceAccountSpec_DeepCopy lib = copyRef (boxed CKedaServiceAccountSpec asKedaServiceAccountSpec (KedaServiceAccountSpec_DeepCopyInto lib))"

definition KedaControllerSpec_DeepCopy :: "'x apimachinery \<Rightarrow> ref \<Rightarrow> ('x cell list, ref) state" where
  "KedaControllerSpec_DeepCopy lib = copyRef (boxed CKedaControllerSpec asKedaControllerSpec (KedaControllerSpec_DeepCopyInto lib))"

definition KedaControllerStatus_DeepCopy :: "'x apimachinery \<Rightarrow> ref \<Rightarrow> ('x cell list, ref) state" where
  "KedaControllerStatus_DeepCopy lib = copyRef (boxed CKedaControllerStatus asKedaControllerStatus (KedaControllerStatus_DeepCopyInto lib))"

definition KedaController_DeepCopy :: "'x apimachinery \<Rightarrow> ref \<Rightarrow> ('x cell list, ref) state" where
  "KedaController_DeepCopy lib = copyRef (boxed CKedaController asKedaController (KedaController_DeepCopyInto lib))"

definition KedaControllerList_DeepCopy :: "'x apimachinery \<Rightarrow> ref \<Rightarrow> ('x cell list, ref) state" where
  "KedaControllerList_DeepCopy lib = copyRef (boxed CKedaControllerList asKedaControllerList (KedaControllerList_DeepCopyInto lib))"

text \<open>\<open>DeepCopyObject\<close>: a \<open>runtime.Object\<close> that holds the typed pointer, or the nil interface.\<close>

datatype runtimeObject = ObjKedaController nat | ObjKedaControllerList nat

definition KedaController_DeepCopyObject :: "'x apimachinery \<Rightarrow> ref \<Rightarrow> ('x cell list, runtimeObject option) state" where
  "KedaController_DeepCopyObject lib p = do {
     c \<leftarrow> KedaController_DeepCopy lib p;
     State_Monad.return (case c of Some a \<Rightarrow> Some (ObjKedaController a) | None \<Rightarrow> None)
   }"

definition KedaControllerList_DeepCopyObject :: "'x apimachinery \<Rightarrow> ref \<Rightarrow> ('x cell list, runtimeObject option) state" where
  "KedaControllerList_DeepCopyObject lib p = do {
     c \<leftarrow> KedaControllerList_DeepCopy lib p;
     State_Monad.return (case c of Some a \<Rightarrow> Some (ObjKedaControllerList a) | None \<Rightarrow> None)
   }"

section \<open>What a struct in memory stands for\<close>

definition plain :: "'x apimachinery \<Rightarrow> region \<Rightarrow> 'x cell list \<Rightarrow> 'a \<Rightarrow> 'a \<Rightarrow> bool" where
  "plain lib S h x v \<longleftrightarrow> v = x"

definition plainSome :: "'x apimachinery \<Rightarrow> region \<Rightarrow> 'x cell list \<Rightarrow> 'a \<Rightarrow> 'a option \<Rightarrow> bool" where
  "plainSome = someIs plain"

definition standsEntries :: "'x apimachinery \<Rightarrow> region \<Rightarrow> 'x cell list \<Rightarrow> (string \<times> string) list \<Rightarrow> smap \<Rightarrow> bool" where
  "standsEntries lib S h kvs m \<longleftrightarrow> distinct (map fst kvs) \<and> m = map_of kvs"

definition libIs :: "('v \<Rightarrow> libValue) \<Rightarrow> 'x apimachinery \<Rightarrow> region \<Rightarrow> 'x cell list \<Rightarrow> 'x \<Rightarrow> 'v \<Rightarrow> bool" where
  "libIs con lib S h x v \<longleftrightarrow> lib_stands lib S h x (con v)"

definition objectMetaValue :: "objectMeta \<times> string \<times> string list \<times> string option \<Rightarrow> libValue" where
  "objectMetaValue = (\<lambda>(m, uid, finalizers, deletionTimestamp). VObjectMeta m uid finalizers deletionTimestamp)"

definition standsAuditPolicy :: "'x apimachinery \<Rightarrow> region \<Rightarrow> 'x cell list \<Rightarrow> MemAuditPolicy \<Rightarrow> AuditPolicy \<Rightarrow> bool" where
  "standsAuditPolicy lib S h s v \<longleftrightarrow>
     refersTo asLibs (someIs (eachIs (libIs VPolicyRule)) lib) None S h (mp_rules s) (ap_rules v) \<and>
     refersTo asStrings (plainSome lib) None S h (mp_omitStages s) (ap_omitStages v) \<and>
     ap_omitManagedFields v = mp_omitManagedFields s"

definition standsAuditConfig :: "'x apimachinery \<Rightarrow> region \<Rightarrow> 'x cell list \<Rightarrow> MemAuditConfig \<Rightarrow> AuditConfig \<Rightarrow> bool" where
  "standsAuditConfig lib S h s v \<longleftrightarrow>
     ac_logOutputVolumeClaim v = ma_logOutputVolumeClaim s \<and>
     standsAuditPolicy lib S h (ma_policy s) (ac_policy v) \<and>
     ac_logFormat v = ma_logFormat s \<and>
     ac_lifetime v = ma_lifetime s"

definition standsGenericDeploymentSpec :: "'x apimachinery \<Rightarrow> region \<Rightarrow> 'x cell list \<Rightarrow> 'x MemGenericDeploymentSpec \<Rightarrow> GenericDeploymentSpec \<Rightarrow> bool" where
  "standsGenericDeploymentSpec lib S h s v \<longleftrightarrow>
     refersTo asInt32 (plainSome lib) None S h (mg_replicas s) (gd_replicas v) \<and>
     refersTo asStringMap (standsEntries lib) Map.empty S h (mg_deploymentAnnotations s) (gd_deploymentAnnotations v) \<and>
     refersTo asStringMap (standsEntries lib) Map.empty S h (mg_deploymentLabels s) (gd_deploymentLabels v) \<and>
     refersTo asStringMap (standsEntries lib) Map.empty S h (mg_podAnnotations s) (gd_podAnnotations v) \<and>
     refersTo asStringMap (standsEntries lib) Map.empty S h (mg_podLabels s) (gd_podLabels v) \<and>
     refersTo asStringMap (standsEntries lib) Map.empty S h (mg_nodeSelector s) (gd_nodeSelector v) \<and>
     refersTo asLibs (eachIs (libIs VToleration) lib) [] S h (mg_tolerations s) (gd_tolerations v) \<and>
     refersTo asLib (someIs (libIs VAffinity) lib) None S h (mg_affinity s) (gd_affinity v) \<and>
     gd_priorityClassName v = mg_priorityClassName s \<and>
     libIs VResourceRequirements lib S h (mg_resources s) (gd_resources v) \<and>
     refersTo asLibs (someIs (eachIs (libIs VVolume)) lib) None S h (mg_volumes s) (gd_volumes v) \<and>
     refersTo asLibs (someIs (eachIs (libIs VVolumeMount)) lib) None S h (mg_volumeMounts s) (gd_volumeMounts v) \<and>
     refersTo asLibs (eachIs (libIs VEnvVar) lib) [] S h (mg_env s) (gd_env v)"

definition standsHTTPAddonInterceptorSpec :: "'x apimachinery \<Rightarrow> region \<Rightarrow> 'x cell list \<Rightarrow> 'x MemHTTPAddonComponentSpec \<Rightarrow> HTTPAddonComponentSpec \<Rightarrow> bool" where
  "standsHTTPAddonInterceptorSpec lib S h s v \<longleftrightarrow>
     hc_logLevel v = mc_logLevel s \<and>
     hc_logEncoder v = mc_logEncoder s \<and>
     hc_logTimeEncoding v = mc_logTimeEncoding s \<and>
     hc_image v = mc_image s \<and>
     standsGenericDeploymentSpec lib S h (mc_generic s) (hc_generic v)"

definition standsHTTPAddonOperatorSpec :: "'x apimachinery \<Rightarrow> region \<Rightarrow> 'x cell list \<Rightarrow> 'x MemHTTPAddonComponentSpec \<Rightarrow> HTTPAddonComponentSpec \<Rightarrow> bool" where
  "standsHTTPAddonOperatorSpec lib S h s v \<longleftrightarrow>
     hc_logLevel v = mc_logLevel s \<and>
     hc_logEncoder v = mc_logEncoder s \<and>
     hc_logTimeEncoding v = mc_logTimeEncoding s \<and>
     hc_image v = mc_image s \<and>
     standsGenericDeploymentSpec lib S h (mc_generic s) (hc_generic v)"

definition standsHTTPAddonScalerSpec :: "'x apimachinery \<Rightarrow> region \<Rightarrow> 'x cell list \<Rightarrow> 'x MemHTTPAddonComponentSpec \<Rightarrow> HTTPAddonComponentSpec \<Rightarrow> bool" where
  "standsHTTPAddonScalerSpec lib S h s v \<longleftrightarrow>
     hc_logLevel v = mc_logLevel s \<and>
     hc_logEncoder v = mc_logEncoder s \<and>
     hc_logTimeEncoding v = mc_logTimeEncoding s \<and>
     hc_image v = mc_image s \<and>
     standsGenericDeploymentSpec lib S h (mc_generic s) (hc_generic v)"

definition standsHTTPAddonSpec :: "'x apimachinery \<Rightarrow> region \<Rightarrow> 'x cell list \<Rightarrow> 'x MemHTTPAddonSpec \<Rightarrow> HTTPAddonSpec \<Rightarrow> bool" where
  "standsHTTPAddonSpec lib S h s v \<longleftrightarrow>
     ha_enabled v = mh_enabled s \<and>
     ha_version v = mh_version s \<and>
     standsHTTPAddonOperatorSpec lib S h (mh_operator s) (ha_operator v) \<and>
     standsHTTPAddonInterceptorSpec lib S h (mh_interceptor s) (ha_interceptor v) \<and>
     standsHTTPAddonScalerSpec lib S h (mh_scaler s) (ha_scaler v)"

definition standsKedaAdmissionWebhooksSpec :: "'x apimachinery \<Rightarrow> region \<Rightarrow> 'x cell list \<Rightarrow> 'x MemKedaAdmissionWebhooksSpec \<Rightarrow> KedaAdmissionWebhooksSpec \<Rightarrow> bool" where
  "standsKedaAdmissionWebhooksSpec lib S h s v \<longleftrightarrow>
     kw_logLevel v = mw_logLevel s \<and>
     kw_logEncoder v = mw_logEncoder s \<and>
     kw_logTimeEncoding v = mw_logTimeEncoding s \<and>
     standsGenericDeploymentSpec lib S h (mw_generic s) (kw_generic v) \<and>
     refersTo asStrings (plain lib) [] S h (mw_args s) (kw_args v)"

definition standsKedaMetricsServerSpec :: "'x apimachinery \<Rightarrow> region \<Rightarrow> 'x cell list \<Rightarrow> 'x MemKedaMetricsServerSpec \<Rightarrow> KedaMetricsServerSpec \<Rightarrow> bool" where
  "standsKedaMetricsServerSpec lib S h s v \<longleftrightarrow>
     km_logLevel v = mm_logLevel s \<and>
     standsGenericDeploymentSpec lib S h (mm_generic s) (km_generic v) \<and>
     standsAuditConfig lib S h (mm_auditConfig s) (km_auditConfig v) \<and>
     refersTo asStrings (plain lib) [] S h (mm_args s) (km_args v) \<and>
     km_networkEgressAllowAll v = mm_networkEgressAllowAll s"

definition standsKedaOperatorSpec :: "'x apimachinery \<Rightarrow> region \<Rightarrow> 'x cell list \<Rightarrow> 'x MemKedaOperatorSpec \<Rightarrow> KedaOperatorSpec \<Rightarrow> bool" where
  "standsKedaOperatorSpec lib S h s v \<longleftrightarrow>
     ko_logLevel v = mo_logLevel s \<and>
     ko_logEncoder v = mo_logEncoder s \<and>
     ko_logTimeEncoding v = mo_logTimeEncoding s \<and>
     standsGenericDeploymentSpec lib S h (mo_generic s) (ko_generic v) \<and>
     refersTo asStrings (plain lib) [] S h (mo_args s) (ko_args v) \<and>
     ko_networkEgressAllowAll v = mo_networkEgressAllowAll s \<and>
     refersTo asStrings (plain lib) [] S h (mo_caConfigMaps s) (ko_caConfigMaps v) \<and>
     refersTo asGCPWorkloadIdentitySpec (plainSome lib) None S h (mo_gcpWorkloadIdentity s) (ko_gcpWorkloadIdentity v)"

definition standsKedaServiceAccountSpec :: "'x apimachinery \<Rightarrow> region \<Rightarrow> 'x cell list \<Rightarrow> MemKedaServiceAccountSpec \<Rightarrow> KedaServiceAccountSpec \<Rightarrow> bool" where
  "standsKedaServiceAccountSpec lib S h s v \<longleftrightarrow>
     refersTo asStringMap (standsEntries lib) Map.empty S h (ms_annotations s) (ks_annotations v) \<and>
     refersTo asStringMap (standsEntries lib) Map.empty S h (ms_labels s) (ks_labels v)"

definition standsKedaControllerSpec :: "'x apimachinery \<Rightarrow> region \<Rightarrow> 'x cell list \<Rightarrow> 'x MemKedaControllerSpec \<Rightarrow> KedaControllerSpec \<Rightarrow> bool" where
  "standsKedaControllerSpec lib S h s v \<longleftrightarrow>
     kc_watchNamespace v = mk_watchNamespace s \<and>
     standsKedaOperatorSpec lib S h (mk_operator s) (kc_operator v) \<and>
     standsKedaMetricsServerSpec lib S h (mk_metricsServer s) (kc_metricsServer v) \<and>
     standsKedaAdmissionWebhooksSpec lib S h (mk_admissionWebhooks s) (kc_admissionWebhooks v) \<and>
     standsKedaServiceAccountSpec lib S h (mk_serviceAccount s) (kc_serviceAccount v) \<and>
     standsHTTPAddonSpec lib S h (mk_httpAddon s) (kc_httpAddon v)"

definition standsKedaControllerStatus :: "'x apimachinery \<Rightarrow> region \<Rightarrow> 'x cell list \<Rightarrow> MemKedaControllerStatus \<Rightarrow> KedaControllerStatus \<Rightarrow> bool" where
  "standsKedaControllerStatus lib S h s v \<longleftrightarrow>
     kcs_phase v = mt_phase s \<and>
     kcs_reason v = mt_reason s \<and>
     kcs_version v = mt_version s \<and>
     kcs_configMapDataSum v = mt_configMapDataSum s \<and>
     kcs_secretDataSum v = mt_secretDataSum s \<and>
     refersTo asHTTPAddonStatus (plainSome lib) None S h (mt_httpAddon s) (kcs_httpAddon v) \<and>
     refersTo asGCPWorkloadIdentityStatus (plainSome lib) None S h (mt_gcpWorkloadIdentity s) (kcs_gcpWorkloadIdentity v)"

definition standsKedaController :: "'x apimachinery \<Rightarrow> region \<Rightarrow> 'x cell list \<Rightarrow> 'x MemKedaController \<Rightarrow> KedaController \<Rightarrow> bool" where
  "standsKedaController lib S h s v \<longleftrightarrow>
     k_apiVersion v = mkc_apiVersion s \<and>
     k_kind v = mkc_kind s \<and>
     libIs objectMetaValue lib S h (mkc_meta s) ((k_meta v, k_uid v, k_finalizers v, k_deletionTimestamp v)) \<and>
     standsKedaControllerSpec lib S h (mkc_spec s) (k_spec v) \<and>
     standsKedaControllerStatus lib S h (mkc_status s) (k_status v)"

definition standsKedaControllerList :: "'x apimachinery \<Rightarrow> region \<Rightarrow> 'x cell list \<Rightarrow> 'x MemKedaControllerList \<Rightarrow> KedaControllerList \<Rightarrow> bool" where
  "standsKedaControllerList lib S h s v \<longleftrightarrow>
     kl_apiVersion v = ml_apiVersion s \<and>
     kl_kind v = ml_kind s \<and>
     libIs VListMeta lib S h (ml_listMeta s) (kl_meta v) \<and>
     refersTo asKedaControllers (eachIs standsKedaController lib) [] S h (ml_items s) (kl_items v)"

section \<open>The leaves keep the contract\<close>

named_theorems copying \<open>fields that are copied, with the rest of the struct\<close>
named_theorems keeping \<open>fields whose value survives changes of the heap elsewhere\<close>

interpretation flat: deepCopiable keepsDeepCopies "\<lambda>_. State_Monad.return" plain
  by unfold_locales (auto simp: plain_def intro: allocates_return)

lemma flat_some: "deepCopiable keepsDeepCopies (\<lambda>_. State_Monad.return) plainSome"
  unfolding plainSome_def by (rule flat.some_law)

lemma map_of_copyEntries:
  "map_of (foldl (\<lambda>out (k, v). AList.update k v out) acc kvs) = map_of acc ++ map_of (rev kvs)"
  by (induction kvs arbitrary: acc) (auto simp: update_conv' fun_eq_iff map_add_def split: option.split)

lemma distinct_copyEntries:
  "distinct (map fst acc) \<Longrightarrow> distinct (map fst (foldl (\<lambda>out (k, v). AList.update k v out) acc kvs))"
  by (induction kvs arbitrary: acc) (auto simp: distinct_update)

lemma map_of_rev_distinct: "distinct (map fst kvs) \<Longrightarrow> map_of (rev kvs) = map_of kvs"
  using map_of_eq_Some_iff[of kvs] map_of_eq_Some_iff[of "rev kvs"]
  by (intro ext option.expand) (auto simp: rev_map[symmetric] option.expand map_of_eq_None_iff)

text \<open>Copying the entries of a map one by one gives the same map.\<close>

interpretation stringMap: deepCopiableObject keepsDeepCopies "\<lambda>_. copyEntries" standsEntries CStringMap asStringMap
  by unfold_locales
    (auto simp: standsEntries_def copyEntries_def map_of_copyEntries distinct_copyEntries map_of_rev_distinct intro: allocates_return)

interpretation int32: deepCopiableObject keepsDeepCopies "\<lambda>_. State_Monad.return" plainSome CInt32 asInt32
  by (intro deepCopiableObject.intro flat_some deepCopiableObject_axioms.intro as_C)

interpretation strings: deepCopiableObject keepsDeepCopies "\<lambda>_. State_Monad.return" plain CStrings asStrings
  by unfold_locales simp

interpretation stages: deepCopiableObject keepsDeepCopies "\<lambda>_. State_Monad.return" plainSome CStrings asStrings
  by (intro deepCopiableObject.intro flat_some deepCopiableObject_axioms.intro as_C)

lemma libIs_law: "(\<And>v. typeOf (con v) = t) \<Longrightarrow> deepCopiable keepsDeepCopies (\<lambda>l. lib_DeepCopyInto l t) (libIs con)"
  unfolding deepCopiable_def keepsDeepCopies_def libIs_def by metis

interpretation toleration: deepCopiable keepsDeepCopies "\<lambda>l. lib_DeepCopyInto l TToleration" "libIs VToleration"
  by (rule libIs_law) simp

interpretation affinityValue: deepCopiable keepsDeepCopies "\<lambda>l. lib_DeepCopyInto l TAffinity" "libIs VAffinity"
  by (rule libIs_law) simp

interpretation resources: deepCopiable keepsDeepCopies "\<lambda>l. lib_DeepCopyInto l TResourceRequirements" "libIs VResourceRequirements"
  by (rule libIs_law) simp

interpretation volume: deepCopiable keepsDeepCopies "\<lambda>l. lib_DeepCopyInto l TVolume" "libIs VVolume"
  by (rule libIs_law) simp

interpretation volumeMount: deepCopiable keepsDeepCopies "\<lambda>l. lib_DeepCopyInto l TVolumeMount" "libIs VVolumeMount"
  by (rule libIs_law) simp

interpretation envVar: deepCopiable keepsDeepCopies "\<lambda>l. lib_DeepCopyInto l TEnvVar" "libIs VEnvVar"
  by (rule libIs_law) simp

interpretation policyRule: deepCopiable keepsDeepCopies "\<lambda>l. lib_DeepCopyInto l TPolicyRule" "libIs VPolicyRule"
  by (rule libIs_law) simp

interpretation listMeta: deepCopiable keepsDeepCopies "\<lambda>l. lib_DeepCopyInto l TListMeta" "libIs VListMeta"
  by (rule libIs_law) simp

interpretation objectMeta: deepCopiable keepsDeepCopies "\<lambda>l. lib_DeepCopyInto l TObjectMeta" "libIs objectMetaValue"
  by (rule libIs_law) (simp add: objectMetaValue_def split: prod.split)

interpretation affinity: deepCopiableObject keepsDeepCopies "\<lambda>l. lib_DeepCopyInto l TAffinity" "someIs (libIs VAffinity)" CLib asLib
  by (intro deepCopiableObject.intro affinityValue.some_law deepCopiableObject_axioms.intro as_C)

interpretation tolerations: deepCopiableObject keepsDeepCopies "\<lambda>l. copyEach (lib_DeepCopyInto l TToleration)" "eachIs (libIs VToleration)" CLibs asLibs
  by (intro deepCopiableObject.intro toleration.each_law deepCopiableObject_axioms.intro as_C)

interpretation env: deepCopiableObject keepsDeepCopies "\<lambda>l. copyEach (lib_DeepCopyInto l TEnvVar)" "eachIs (libIs VEnvVar)" CLibs asLibs
  by (intro deepCopiableObject.intro envVar.each_law deepCopiableObject_axioms.intro as_C)

interpretation volumes: deepCopiableObject keepsDeepCopies "\<lambda>l. copyEach (lib_DeepCopyInto l TVolume)" "someIs (eachIs (libIs VVolume))" CLibs asLibs
  by (intro deepCopiableObject.intro deepCopiable.some_law[OF volume.each_law] deepCopiableObject_axioms.intro as_C)

interpretation volumeMounts: deepCopiableObject keepsDeepCopies "\<lambda>l. copyEach (lib_DeepCopyInto l TVolumeMount)" "someIs (eachIs (libIs VVolumeMount))" CLibs asLibs
  by (intro deepCopiableObject.intro deepCopiable.some_law[OF volumeMount.each_law] deepCopiableObject_axioms.intro as_C)

interpretation rules: deepCopiableObject keepsDeepCopies "\<lambda>l. copyEach (lib_DeepCopyInto l TPolicyRule)" "someIs (eachIs (libIs VPolicyRule))" CLibs asLibs
  by (intro deepCopiableObject.intro deepCopiable.some_law[OF policyRule.each_law] deepCopiableObject_axioms.intro as_C)

interpretation httpAddonStatusPtr: deepCopiableObject keepsDeepCopies "\<lambda>_. State_Monad.return" "plainSome" CHTTPAddonStatus asHTTPAddonStatus
  by (intro deepCopiableObject.intro flat_some deepCopiableObject_axioms.intro as_C)

interpretation gcpStatusPtr: deepCopiableObject keepsDeepCopies "\<lambda>_. State_Monad.return" "plainSome" CGCPWorkloadIdentityStatus asGCPWorkloadIdentityStatus
  by (intro deepCopiableObject.intro flat_some deepCopiableObject_axioms.intro as_C)

interpretation gcpSpecPtr: deepCopiableObject keepsDeepCopies "\<lambda>_. State_Monad.return" "plainSome" CGCPWorkloadIdentitySpec asGCPWorkloadIdentitySpec
  by (intro deepCopiableObject.intro flat_some deepCopiableObject_axioms.intro as_C)

text \<open>A field that is a reference is copied by one of these, a field that is a struct by its own copy.\<close>

lemmas copy_defs = copyInt32_def copyStringMap_def copyStrings_def copyPointer_def copySlice_def

lemmas [copying] = int32.ref_copies stringMap.ref_copies strings.ref_copies stages.ref_copies affinity.ref_copies tolerations.ref_copies env.ref_copies volumes.ref_copies volumeMounts.ref_copies rules.ref_copies httpAddonStatusPtr.ref_copies gcpStatusPtr.ref_copies gcpSpecPtr.ref_copies
  resources.copies objectMeta.copies listMeta.copies

lemmas [keeping] = int32.ref_stable stringMap.ref_stable strings.ref_stable stages.ref_stable affinity.ref_stable tolerations.ref_stable env.ref_stable volumes.ref_stable volumeMounts.ref_stable rules.ref_stable httpAddonStatusPtr.ref_stable gcpStatusPtr.ref_stable gcpSpecPtr.ref_stable
  resources.stable objectMeta.stable listMeta.stable

section \<open>The structs keep the contract\<close>

interpretation auditLifetime: deepCopiableObject keepsDeepCopies AuditLifetime_DeepCopyInto plain CAuditLifetime asAuditLifetime
  by unfold_locales (simp_all add: plain_def AuditLifetime_DeepCopyInto_def allocates_return)

interpretation gcpWorkloadIdentitySpec: deepCopiableObject keepsDeepCopies GCPWorkloadIdentitySpec_DeepCopyInto plain CGCPWorkloadIdentitySpec asGCPWorkloadIdentitySpec
  by unfold_locales (simp_all add: plain_def GCPWorkloadIdentitySpec_DeepCopyInto_def allocates_return)

interpretation gcpWorkloadIdentityStatus: deepCopiableObject keepsDeepCopies GCPWorkloadIdentityStatus_DeepCopyInto plain CGCPWorkloadIdentityStatus asGCPWorkloadIdentityStatus
  by unfold_locales (simp_all add: plain_def GCPWorkloadIdentityStatus_DeepCopyInto_def allocates_return)

interpretation addonImageSpec: deepCopiableObject keepsDeepCopies HTTPAddonImageSpec_DeepCopyInto plain CHTTPAddonImageSpec asHTTPAddonImageSpec
  by unfold_locales (simp_all add: plain_def HTTPAddonImageSpec_DeepCopyInto_def allocates_return)

interpretation addonStatus: deepCopiableObject keepsDeepCopies HTTPAddonStatus_DeepCopyInto plain CHTTPAddonStatus asHTTPAddonStatus
  by unfold_locales (simp_all add: plain_def HTTPAddonStatus_DeepCopyInto_def allocates_return)

interpretation auditPolicy: deepCopiableObject keepsDeepCopies AuditPolicy_DeepCopyInto standsAuditPolicy CAuditPolicy asAuditPolicy
proof
  show "allocates h (AuditPolicy_DeepCopyInto l x) (\<lambda>y h'. standsAuditPolicy l (fresh h) h' y v)"
    if "keepsDeepCopies l" "standsAuditPolicy l S h x v" for l S h x v
    using that unfolding standsAuditPolicy_def AuditPolicy_DeepCopyInto_def copy_defs
    by (elim conjE, intro allocates_bind allocates_return) ((rule copying, assumption, assumption)+, simp)
  show "standsAuditPolicy l T h' x v" if "keepsDeepCopies l" "standsAuditPolicy l S h x v" "agree S h h'" "S \<subseteq> T" for l S h h' x v T
    using that unfolding standsAuditPolicy_def by (elim conjE, intro conjI) (assumption | (rule keeping, assumption, assumption, assumption, assumption))+
qed simp

lemmas [copying] = auditPolicy.copies
lemmas [keeping] = auditPolicy.stable

interpretation auditConfig: deepCopiableObject keepsDeepCopies AuditConfig_DeepCopyInto standsAuditConfig CAuditConfig asAuditConfig
proof
  show "allocates h (AuditConfig_DeepCopyInto l x) (\<lambda>y h'. standsAuditConfig l (fresh h) h' y v)"
    if "keepsDeepCopies l" "standsAuditConfig l S h x v" for l S h x v
    using that unfolding standsAuditConfig_def AuditConfig_DeepCopyInto_def copy_defs
    by (elim conjE, intro allocates_bind allocates_return) ((rule copying, assumption, assumption)+, simp)
  show "standsAuditConfig l T h' x v" if "keepsDeepCopies l" "standsAuditConfig l S h x v" "agree S h h'" "S \<subseteq> T" for l S h h' x v T
    using that unfolding standsAuditConfig_def by (elim conjE, intro conjI) (assumption | (rule keeping, assumption, assumption, assumption, assumption))+
qed simp

lemmas [copying] = auditConfig.copies
lemmas [keeping] = auditConfig.stable

interpretation genericDeploymentSpec: deepCopiableObject keepsDeepCopies GenericDeploymentSpec_DeepCopyInto standsGenericDeploymentSpec CGenericDeploymentSpec asGenericDeploymentSpec
proof
  show "allocates h (GenericDeploymentSpec_DeepCopyInto l x) (\<lambda>y h'. standsGenericDeploymentSpec l (fresh h) h' y v)"
    if "keepsDeepCopies l" "standsGenericDeploymentSpec l S h x v" for l S h x v
    using that unfolding standsGenericDeploymentSpec_def GenericDeploymentSpec_DeepCopyInto_def copy_defs
    by (elim conjE, intro allocates_bind allocates_return) ((rule copying, assumption, assumption)+, simp)
  show "standsGenericDeploymentSpec l T h' x v" if "keepsDeepCopies l" "standsGenericDeploymentSpec l S h x v" "agree S h h'" "S \<subseteq> T" for l S h h' x v T
    using that unfolding standsGenericDeploymentSpec_def by (elim conjE, intro conjI) (assumption | (rule keeping, assumption, assumption, assumption, assumption))+
qed simp

lemmas [copying] = genericDeploymentSpec.copies
lemmas [keeping] = genericDeploymentSpec.stable

interpretation addonInterceptorSpec: deepCopiableObject keepsDeepCopies HTTPAddonInterceptorSpec_DeepCopyInto standsHTTPAddonInterceptorSpec CHTTPAddonInterceptorSpec asHTTPAddonInterceptorSpec
proof
  show "allocates h (HTTPAddonInterceptorSpec_DeepCopyInto l x) (\<lambda>y h'. standsHTTPAddonInterceptorSpec l (fresh h) h' y v)"
    if "keepsDeepCopies l" "standsHTTPAddonInterceptorSpec l S h x v" for l S h x v
    using that unfolding standsHTTPAddonInterceptorSpec_def HTTPAddonInterceptorSpec_DeepCopyInto_def copy_defs
    by (elim conjE, intro allocates_bind allocates_return) ((rule copying, assumption, assumption)+, simp)
  show "standsHTTPAddonInterceptorSpec l T h' x v" if "keepsDeepCopies l" "standsHTTPAddonInterceptorSpec l S h x v" "agree S h h'" "S \<subseteq> T" for l S h h' x v T
    using that unfolding standsHTTPAddonInterceptorSpec_def by (elim conjE, intro conjI) (assumption | (rule keeping, assumption, assumption, assumption, assumption))+
qed simp

lemmas [copying] = addonInterceptorSpec.copies
lemmas [keeping] = addonInterceptorSpec.stable

interpretation addonOperatorSpec: deepCopiableObject keepsDeepCopies HTTPAddonOperatorSpec_DeepCopyInto standsHTTPAddonOperatorSpec CHTTPAddonOperatorSpec asHTTPAddonOperatorSpec
proof
  show "allocates h (HTTPAddonOperatorSpec_DeepCopyInto l x) (\<lambda>y h'. standsHTTPAddonOperatorSpec l (fresh h) h' y v)"
    if "keepsDeepCopies l" "standsHTTPAddonOperatorSpec l S h x v" for l S h x v
    using that unfolding standsHTTPAddonOperatorSpec_def HTTPAddonOperatorSpec_DeepCopyInto_def copy_defs
    by (elim conjE, intro allocates_bind allocates_return) ((rule copying, assumption, assumption)+, simp)
  show "standsHTTPAddonOperatorSpec l T h' x v" if "keepsDeepCopies l" "standsHTTPAddonOperatorSpec l S h x v" "agree S h h'" "S \<subseteq> T" for l S h h' x v T
    using that unfolding standsHTTPAddonOperatorSpec_def by (elim conjE, intro conjI) (assumption | (rule keeping, assumption, assumption, assumption, assumption))+
qed simp

lemmas [copying] = addonOperatorSpec.copies
lemmas [keeping] = addonOperatorSpec.stable

interpretation addonScalerSpec: deepCopiableObject keepsDeepCopies HTTPAddonScalerSpec_DeepCopyInto standsHTTPAddonScalerSpec CHTTPAddonScalerSpec asHTTPAddonScalerSpec
proof
  show "allocates h (HTTPAddonScalerSpec_DeepCopyInto l x) (\<lambda>y h'. standsHTTPAddonScalerSpec l (fresh h) h' y v)"
    if "keepsDeepCopies l" "standsHTTPAddonScalerSpec l S h x v" for l S h x v
    using that unfolding standsHTTPAddonScalerSpec_def HTTPAddonScalerSpec_DeepCopyInto_def copy_defs
    by (elim conjE, intro allocates_bind allocates_return) ((rule copying, assumption, assumption)+, simp)
  show "standsHTTPAddonScalerSpec l T h' x v" if "keepsDeepCopies l" "standsHTTPAddonScalerSpec l S h x v" "agree S h h'" "S \<subseteq> T" for l S h h' x v T
    using that unfolding standsHTTPAddonScalerSpec_def by (elim conjE, intro conjI) (assumption | (rule keeping, assumption, assumption, assumption, assumption))+
qed simp

lemmas [copying] = addonScalerSpec.copies
lemmas [keeping] = addonScalerSpec.stable

interpretation addonSpec: deepCopiableObject keepsDeepCopies HTTPAddonSpec_DeepCopyInto standsHTTPAddonSpec CHTTPAddonSpec asHTTPAddonSpec
proof
  show "allocates h (HTTPAddonSpec_DeepCopyInto l x) (\<lambda>y h'. standsHTTPAddonSpec l (fresh h) h' y v)"
    if "keepsDeepCopies l" "standsHTTPAddonSpec l S h x v" for l S h x v
    using that unfolding standsHTTPAddonSpec_def HTTPAddonSpec_DeepCopyInto_def copy_defs
    by (elim conjE, intro allocates_bind allocates_return) ((rule copying, assumption, assumption)+, simp)
  show "standsHTTPAddonSpec l T h' x v" if "keepsDeepCopies l" "standsHTTPAddonSpec l S h x v" "agree S h h'" "S \<subseteq> T" for l S h h' x v T
    using that unfolding standsHTTPAddonSpec_def by (elim conjE, intro conjI) (assumption | (rule keeping, assumption, assumption, assumption, assumption))+
qed simp

lemmas [copying] = addonSpec.copies
lemmas [keeping] = addonSpec.stable

interpretation kedaAdmissionWebhooksSpec: deepCopiableObject keepsDeepCopies KedaAdmissionWebhooksSpec_DeepCopyInto standsKedaAdmissionWebhooksSpec CKedaAdmissionWebhooksSpec asKedaAdmissionWebhooksSpec
proof
  show "allocates h (KedaAdmissionWebhooksSpec_DeepCopyInto l x) (\<lambda>y h'. standsKedaAdmissionWebhooksSpec l (fresh h) h' y v)"
    if "keepsDeepCopies l" "standsKedaAdmissionWebhooksSpec l S h x v" for l S h x v
    using that unfolding standsKedaAdmissionWebhooksSpec_def KedaAdmissionWebhooksSpec_DeepCopyInto_def copy_defs
    by (elim conjE, intro allocates_bind allocates_return) ((rule copying, assumption, assumption)+, simp)
  show "standsKedaAdmissionWebhooksSpec l T h' x v" if "keepsDeepCopies l" "standsKedaAdmissionWebhooksSpec l S h x v" "agree S h h'" "S \<subseteq> T" for l S h h' x v T
    using that unfolding standsKedaAdmissionWebhooksSpec_def by (elim conjE, intro conjI) (assumption | (rule keeping, assumption, assumption, assumption, assumption))+
qed simp

lemmas [copying] = kedaAdmissionWebhooksSpec.copies
lemmas [keeping] = kedaAdmissionWebhooksSpec.stable

interpretation kedaMetricsServerSpec: deepCopiableObject keepsDeepCopies KedaMetricsServerSpec_DeepCopyInto standsKedaMetricsServerSpec CKedaMetricsServerSpec asKedaMetricsServerSpec
proof
  show "allocates h (KedaMetricsServerSpec_DeepCopyInto l x) (\<lambda>y h'. standsKedaMetricsServerSpec l (fresh h) h' y v)"
    if "keepsDeepCopies l" "standsKedaMetricsServerSpec l S h x v" for l S h x v
    using that unfolding standsKedaMetricsServerSpec_def KedaMetricsServerSpec_DeepCopyInto_def copy_defs
    by (elim conjE, intro allocates_bind allocates_return) ((rule copying, assumption, assumption)+, simp)
  show "standsKedaMetricsServerSpec l T h' x v" if "keepsDeepCopies l" "standsKedaMetricsServerSpec l S h x v" "agree S h h'" "S \<subseteq> T" for l S h h' x v T
    using that unfolding standsKedaMetricsServerSpec_def by (elim conjE, intro conjI) (assumption | (rule keeping, assumption, assumption, assumption, assumption))+
qed simp

lemmas [copying] = kedaMetricsServerSpec.copies
lemmas [keeping] = kedaMetricsServerSpec.stable

interpretation kedaOperatorSpec: deepCopiableObject keepsDeepCopies KedaOperatorSpec_DeepCopyInto standsKedaOperatorSpec CKedaOperatorSpec asKedaOperatorSpec
proof
  show "allocates h (KedaOperatorSpec_DeepCopyInto l x) (\<lambda>y h'. standsKedaOperatorSpec l (fresh h) h' y v)"
    if "keepsDeepCopies l" "standsKedaOperatorSpec l S h x v" for l S h x v
    using that unfolding standsKedaOperatorSpec_def KedaOperatorSpec_DeepCopyInto_def copy_defs
    by (elim conjE, intro allocates_bind allocates_return) ((rule copying, assumption, assumption)+, simp)
  show "standsKedaOperatorSpec l T h' x v" if "keepsDeepCopies l" "standsKedaOperatorSpec l S h x v" "agree S h h'" "S \<subseteq> T" for l S h h' x v T
    using that unfolding standsKedaOperatorSpec_def by (elim conjE, intro conjI) (assumption | (rule keeping, assumption, assumption, assumption, assumption))+
qed simp

lemmas [copying] = kedaOperatorSpec.copies
lemmas [keeping] = kedaOperatorSpec.stable

interpretation kedaServiceAccountSpec: deepCopiableObject keepsDeepCopies KedaServiceAccountSpec_DeepCopyInto standsKedaServiceAccountSpec CKedaServiceAccountSpec asKedaServiceAccountSpec
proof
  show "allocates h (KedaServiceAccountSpec_DeepCopyInto l x) (\<lambda>y h'. standsKedaServiceAccountSpec l (fresh h) h' y v)"
    if "keepsDeepCopies l" "standsKedaServiceAccountSpec l S h x v" for l S h x v
    using that unfolding standsKedaServiceAccountSpec_def KedaServiceAccountSpec_DeepCopyInto_def copy_defs
    by (elim conjE, intro allocates_bind allocates_return) ((rule copying, assumption, assumption)+, simp)
  show "standsKedaServiceAccountSpec l T h' x v" if "keepsDeepCopies l" "standsKedaServiceAccountSpec l S h x v" "agree S h h'" "S \<subseteq> T" for l S h h' x v T
    using that unfolding standsKedaServiceAccountSpec_def by (elim conjE, intro conjI) (assumption | (rule keeping, assumption, assumption, assumption, assumption))+
qed simp

lemmas [copying] = kedaServiceAccountSpec.copies
lemmas [keeping] = kedaServiceAccountSpec.stable

interpretation kedaControllerSpec: deepCopiableObject keepsDeepCopies KedaControllerSpec_DeepCopyInto standsKedaControllerSpec CKedaControllerSpec asKedaControllerSpec
proof
  show "allocates h (KedaControllerSpec_DeepCopyInto l x) (\<lambda>y h'. standsKedaControllerSpec l (fresh h) h' y v)"
    if "keepsDeepCopies l" "standsKedaControllerSpec l S h x v" for l S h x v
    using that unfolding standsKedaControllerSpec_def KedaControllerSpec_DeepCopyInto_def copy_defs
    by (elim conjE, intro allocates_bind allocates_return) ((rule copying, assumption, assumption)+, simp)
  show "standsKedaControllerSpec l T h' x v" if "keepsDeepCopies l" "standsKedaControllerSpec l S h x v" "agree S h h'" "S \<subseteq> T" for l S h h' x v T
    using that unfolding standsKedaControllerSpec_def by (elim conjE, intro conjI) (assumption | (rule keeping, assumption, assumption, assumption, assumption))+
qed simp

lemmas [copying] = kedaControllerSpec.copies
lemmas [keeping] = kedaControllerSpec.stable

interpretation kedaControllerStatus: deepCopiableObject keepsDeepCopies KedaControllerStatus_DeepCopyInto standsKedaControllerStatus CKedaControllerStatus asKedaControllerStatus
proof
  show "allocates h (KedaControllerStatus_DeepCopyInto l x) (\<lambda>y h'. standsKedaControllerStatus l (fresh h) h' y v)"
    if "keepsDeepCopies l" "standsKedaControllerStatus l S h x v" for l S h x v
    using that unfolding standsKedaControllerStatus_def KedaControllerStatus_DeepCopyInto_def copy_defs
    by (elim conjE, intro allocates_bind allocates_return) ((rule copying, assumption, assumption)+, simp)
  show "standsKedaControllerStatus l T h' x v" if "keepsDeepCopies l" "standsKedaControllerStatus l S h x v" "agree S h h'" "S \<subseteq> T" for l S h h' x v T
    using that unfolding standsKedaControllerStatus_def by (elim conjE, intro conjI) (assumption | (rule keeping, assumption, assumption, assumption, assumption))+
qed simp

lemmas [copying] = kedaControllerStatus.copies
lemmas [keeping] = kedaControllerStatus.stable

interpretation kedaController: deepCopiableObject keepsDeepCopies KedaController_DeepCopyInto standsKedaController CKedaController asKedaController
proof
  show "allocates h (KedaController_DeepCopyInto l x) (\<lambda>y h'. standsKedaController l (fresh h) h' y v)"
    if "keepsDeepCopies l" "standsKedaController l S h x v" for l S h x v
    using that unfolding standsKedaController_def KedaController_DeepCopyInto_def copy_defs
    by (elim conjE, intro allocates_bind allocates_return) ((rule copying, assumption, assumption)+, simp)
  show "standsKedaController l T h' x v" if "keepsDeepCopies l" "standsKedaController l S h x v" "agree S h h'" "S \<subseteq> T" for l S h h' x v T
    using that unfolding standsKedaController_def by (elim conjE, intro conjI) (assumption | (rule keeping, assumption, assumption, assumption, assumption))+
qed simp

lemmas [copying] = kedaController.copies
lemmas [keeping] = kedaController.stable

interpretation items: deepCopiableObject keepsDeepCopies "\<lambda>l. copyEach (KedaController_DeepCopyInto l)" "eachIs standsKedaController" CKedaControllers asKedaControllers
  by (intro deepCopiableObject.intro kedaController.each_law deepCopiableObject_axioms.intro as_C)

lemmas [copying] = items.ref_copies
lemmas [keeping] = items.ref_stable

interpretation kedaControllerList: deepCopiableObject keepsDeepCopies KedaControllerList_DeepCopyInto standsKedaControllerList CKedaControllerList asKedaControllerList
proof
  show "allocates h (KedaControllerList_DeepCopyInto l x) (\<lambda>y h'. standsKedaControllerList l (fresh h) h' y v)"
    if "keepsDeepCopies l" "standsKedaControllerList l S h x v" for l S h x v
    using that unfolding standsKedaControllerList_def KedaControllerList_DeepCopyInto_def copy_defs
    by (elim conjE, intro allocates_bind allocates_return) ((rule copying, assumption, assumption)+, simp)
  show "standsKedaControllerList l T h' x v" if "keepsDeepCopies l" "standsKedaControllerList l S h x v" "agree S h h'" "S \<subseteq> T" for l S h h' x v T
    using that unfolding standsKedaControllerList_def by (elim conjE, intro conjI) (assumption | (rule keeping, assumption, assumption, assumption, assumption))+
qed simp

lemmas [copying] = kedaControllerList.copies
lemmas [keeping] = kedaControllerList.stable
end
