(* ===== verification/Copying.thy ===== *)
theory Copying
  imports DeepCopy
begin

text \<open>
  What the operator relies on when it copies before it writes: a deep copy has the value of the
  original and shares no memory with it, so the base of a patch still shows the object as it was
  read after the object has been changed (\<^verbatim>\<open>UpdateKedaControllerStatus\<close> of
  \<^verbatim>\<open>internal/controller/keda/util/util.go\<close> and \<^verbatim>\<open>instance.Status.DeepCopy()\<close> in \<^verbatim>\<open>Reconcile\<close>). This is
  what allows the other theories to pass the custom resource around as a value.
\<close>

section \<open>Pointers to a KedaController\<close>

interpretation kedaControllerPtr:
  deepCopiableObject keepsDeepCopies KedaController_DeepCopyInto "someIs standsKedaController" CKedaController asKedaController
  by (intro deepCopiableObject.intro kedaController.some_law deepCopiableObject_axioms.intro as_C)

interpretation kedaControllerListPtr:
  deepCopiableObject keepsDeepCopies KedaControllerList_DeepCopyInto "someIs standsKedaControllerList" CKedaControllerList asKedaControllerList
  by (intro deepCopiableObject.intro kedaControllerList.some_law deepCopiableObject_axioms.intro as_C)

text \<open>The pointer \<open>p\<close> is nil (\<open>None\<close>) or points to a KedaController with the value \<open>v\<close>.\<close>

abbreviation isController :: "'x apimachinery \<Rightarrow> region \<Rightarrow> 'x cell list \<Rightarrow> ref \<Rightarrow> KedaController option \<Rightarrow> bool" where
  "isController lib \<equiv> refersTo asKedaController (someIs standsKedaController lib) None"

abbreviation isControllerList :: "'x apimachinery \<Rightarrow> region \<Rightarrow> 'x cell list \<Rightarrow> ref \<Rightarrow> KedaControllerList option \<Rightarrow> bool" where
  "isControllerList lib \<equiv> refersTo asKedaControllerList (someIs standsKedaControllerList lib) None"

lemma someRef_nil: "refersTo un (someIs P l) None S h p v \<Longrightarrow> p = None \<longleftrightarrow> v = None"
  by (cases p) (auto simp: refersTo_at someIs_iff)

section \<open>Changing an object through its pointer\<close>

definition store :: "nat \<Rightarrow> 'c \<Rightarrow> ('c list, unit) state" where
  "store a c = State_Monad.update (\<lambda>h. h[a := c])"

lemma run_store [simp]: "run_state (store a c) h = ((), h[a := c])"
  by (simp add: store_def State_Monad.update_def)

text \<open>\<open>status := instance.Status.DeepCopy()\<close>\<close>

definition copyStatusOf :: "'x apimachinery \<Rightarrow> nat \<Rightarrow> ('x cell list, ref) state" where
  "copyStatusOf lib instance = do {
     c \<leftarrow> load instance;
     (case Option.bind c asKedaController of
       None \<Rightarrow> State_Monad.return None
     | Some k \<Rightarrow> do {
         s \<leftarrow> KedaControllerStatus_DeepCopyInto lib (mkc_status k);
         a \<leftarrow> alloc (CKedaControllerStatus s);
         State_Monad.return (Some a) })
   }"

text \<open>
  The assignments of \<open>UpdateKedaControllerStatus\<close> before the request: the result is the object the
  patch is computed against.
\<close>

definition assignStatus :: "'x apimachinery \<Rightarrow> nat \<Rightarrow> nat \<Rightarrow> ('x cell list, ref) state" where
  "assignStatus lib kedaController status = do {
     base \<leftarrow> KedaController_DeepCopy lib (Some kedaController);
     k \<leftarrow> load kedaController;
     s \<leftarrow> load status;
     _ \<leftarrow> (case (Option.bind k asKedaController, Option.bind s asKedaControllerStatus) of
            (Some kc, Some st) \<Rightarrow> store kedaController (CKedaController (kc\<lparr>mkc_status := st\<rparr>))
          | _ \<Rightarrow> State_Monad.return ());
     State_Monad.return base
   }"

text \<open>
  The branch of \<open>Reconcile\<close> for a resource that is ignored, up to the request: copy the status, mark
  the copy (\<open>MarkIgnored\<close> through the pointer), update the resource.
\<close>

definition markIgnoredAt :: "string \<Rightarrow> nat \<Rightarrow> ('x cell list, unit) state" where
  "markIgnoredAt r status = do {
     c \<leftarrow> load status;
     (case Option.bind c asKedaControllerStatus of
       None \<Rightarrow> State_Monad.return ()
     | Some s \<Rightarrow> store status (CKedaControllerStatus (s\<lparr>mt_phase := PhaseIgnored, mt_reason := r\<rparr>)))
   }"

definition ignoreController :: "'x apimachinery \<Rightarrow> nat \<Rightarrow> string \<Rightarrow> ('x cell list, ref) state" where
  "ignoreController lib instance msg = do {
     status \<leftarrow> copyStatusOf lib instance;
     (case status of
       None \<Rightarrow> State_Monad.return None
     | Some st \<Rightarrow> do { _ \<leftarrow> markIgnoredAt msg st; assignStatus lib instance st })
   }"

section \<open>Lemmas\<close>

lemma standsKedaController_status:
  assumes "standsKedaController lib S h k v" "standsKedaControllerStatus lib S h st w"
  shows "standsKedaController lib S h (k\<lparr>mkc_status := st\<rparr>) (v\<lparr>k_status := w\<rparr>)"
  using assms by (simp add: standsKedaController_def)

lemma standsKedaControllerStatus_ignored:
  assumes "standsKedaControllerStatus lib S h s v"
  shows "standsKedaControllerStatus lib S h (s\<lparr>mt_phase := PhaseIgnored, mt_reason := r\<rparr>) (MarkIgnored r v)"
  using assms by (simp add: standsKedaControllerStatus_def MarkIgnored_def)

lemma agree_assign: "a \<notin> S \<Longrightarrow> agree S h (h[a := c])"
  unfolding agree_def by (metis length_list_update nth_list_update_neq)

lemma agree_trans: "agree S h h' \<Longrightarrow> agree S h' h'' \<Longrightarrow> agree S h h''"
  by (simp add: agree_def)

lemma isController_at:
  "a \<in> S \<Longrightarrow> a < length h \<Longrightarrow> h ! a = CKedaController x \<Longrightarrow> standsKedaController lib S h x v \<Longrightarrow>
   isController lib S h (Some a) (Some v)"
  by (auto simp: refersTo_at cellAt_def someIs_iff)

lemma run_assignStatus:
  assumes lib: "keepsDeepCopies lib"
    and k: "k < length h" "h ! k = CKedaController x" "standsKedaController lib S h x v" "k \<notin> S"
    and st: "st < length h" "h ! st = CKedaControllerStatus y" "standsKedaControllerStatus lib S h y w"
    and run: "run_state (assignStatus lib k st) h = (base, h')"
  shows "isController lib (fresh h) h' base (Some v) \<and>
    isController lib (insert k S) h' (Some k) (Some (v\<lparr>k_status := w\<rparr>))"
proof -
  obtain q h1 where c: "run_state (KedaController_DeepCopy lib (Some k)) h = (q, h1)" by fastforce
  have "isController lib (insert k S) h (Some k) (Some v)"
    by (rule isController_at) (use k kedaController.stable[OF lib k(3) agree_prefix[OF prefix_order.refl]] in auto)
  then have *: "prefix h h1" "isController lib (fresh h) h1 q (Some v)"
    using allocates_run[OF kedaControllerPtr.ref_copies[OF lib] c[unfolded KedaController_DeepCopy_def]] by blast+
  from *(1) k st have **: "k < length h1" "h1 ! k = CKedaController x" "st < length h1" "h1 ! st = CKedaControllerStatus y"
    by (auto simp: prefix_def nth_append)
  let ?h = "h1[k := CKedaController (x\<lparr>mkc_status := y\<rparr>)]"
  have h': "h' = ?h" and base: "base = q"
    using run c ** by (simp_all add: assignStatus_def)
  have agree: "agree S h ?h" using agree_prefix[OF *(1)] k(4) by (rule agree_trans[OF _ agree_assign])
  have "standsKedaController lib (insert k S) ?h (x\<lparr>mkc_status := y\<rparr>) (v\<lparr>k_status := w\<rparr>)"
    by (intro standsKedaController_status kedaController.stable[OF lib k(3) agree]
        kedaControllerStatus.stable[OF lib st(3) agree]) blast+
  moreover have "isController lib (fresh h) ?h q (Some v)"
    by (rule kedaControllerPtr.ref_stable[OF lib *(2)]) (use k in \<open>auto simp: fresh_def intro: agree_assign\<close>)
  ultimately show ?thesis unfolding h' base using ** by (auto intro: isController_at)
qed

section \<open>A small instance of the library\<close>

text \<open>
  A toleration with its \<open>tolerationSeconds\<close> pointer; the structs of the other types have no
  pointers here.
\<close>

fun demoValue :: "libValue \<Rightarrow> int32 option \<Rightarrow> libValue" where
  "demoValue (VToleration j) (Some i) = VToleration (JArr [j, JBool (i = 0)])"
| "demoValue v _ = v"

definition demoLibrary :: "(libValue \<times> ref) apimachinery" where
  "demoLibrary = \<lparr>
     lib_DeepCopyInto = (\<lambda>t (v, p). do { q \<leftarrow> copyInt32 p; State_Monad.return (v, q) }),
     lib_stands = (\<lambda>S h (v, p) w. \<exists>s. refersTo asInt32 (\<lambda>_ _ i s. s = Some i) None S h p s \<and> w = demoValue v s)\<rparr>"

lemma int32_object: "deepCopiableObject (\<lambda>_::unit. True) (\<lambda>_. State_Monad.return) (\<lambda>_ _ _ i s. s = Some i) CInt32 asInt32"
  by unfold_locales (auto intro: allocates_return)

lemma demoLibrary_keepsDeepCopies: "keepsDeepCopies demoLibrary"
proof -
  note copies = deepCopiableObject.ref_copies[OF int32_object TrueI]
  note stable = deepCopiableObject.ref_stable[OF int32_object TrueI]
  have 1: "allocates h (do { q \<leftarrow> copyInt32 p; State_Monad.return (v, q) })
      (\<lambda>(u, q) h'. \<exists>s. refersTo asInt32 (\<lambda>_ _ i s. s = Some i) None (fresh h) h' q s \<and> demoValue v s' = demoValue u s)"
    if "refersTo asInt32 (\<lambda>_ _ i s. s = Some i) None S h p s'" for S h p s' and v
    unfolding copyInt32_def by (rule allocates_bind[OF copies[OF that]], rule allocates_return) auto
  show ?thesis
    unfolding keepsDeepCopies_def demoLibrary_def
    by (auto simp: split_beta intro: stable elim!: allocates_mono[OF 1])
qed

text \<open>
  A heap with a KedaController that uses every kind of reference: the operator has one toleration
  (with a pointer in it) and pod labels, and the status has a report on the add-on. The controller is
  at address 4 and in the list at address 6.
\<close>

definition memGeneric :: "ref \<Rightarrow> ref \<Rightarrow> (libValue \<times> ref) MemGenericDeploymentSpec" where
  "memGeneric labels tolerations =
     \<lparr>mg_replicas = None, mg_deploymentAnnotations = None, mg_deploymentLabels = None, mg_podAnnotations = None,
      mg_podLabels = labels, mg_nodeSelector = None, mg_tolerations = tolerations, mg_affinity = None,
      mg_priorityClassName = [], mg_resources = (VResourceRequirements (gd_resources zeroGenericDeploymentSpec), None),
      mg_volumes = None, mg_volumeMounts = None, mg_env = None\<rparr>"

definition memAddon :: "(libValue \<times> ref) MemHTTPAddonComponentSpec" where
  "memAddon = \<lparr>mc_logLevel = [], mc_logEncoder = [], mc_logTimeEncoding = [], mc_image = \<lparr>hi_name = [], hi_tag = []\<rparr>,
     mc_generic = memGeneric None None\<rparr>"

definition memController :: "(libValue \<times> ref) MemKedaController" where
  "memController =
     \<lparr>mkc_apiVersion = [], mkc_kind = [],
      mkc_meta = (VObjectMeta (k_meta zeroKedaController) [] [] None, None),
      mkc_spec =
        \<lparr>mk_watchNamespace = [],
         mk_operator = \<lparr>mo_logLevel = [], mo_logEncoder = [], mo_logTimeEncoding = [],
           mo_generic = memGeneric (Some 2) (Some 1), mo_args = None, mo_networkEgressAllowAll = [],
           mo_caConfigMaps = None, mo_gcpWorkloadIdentity = None\<rparr>,
         mk_metricsServer = \<lparr>mm_logLevel = [], mm_generic = memGeneric None None,
           mm_auditConfig = \<lparr>ma_logOutputVolumeClaim = [],
             ma_policy = \<lparr>mp_rules = None, mp_omitStages = None, mp_omitManagedFields = False\<rparr>, ma_logFormat = [],
             ma_lifetime = \<lparr>al_maxAge = [], al_maxBackup = [], al_maxSize = []\<rparr>\<rparr>,
           mm_args = None, mm_networkEgressAllowAll = []\<rparr>,
         mk_admissionWebhooks = \<lparr>mw_logLevel = [], mw_logEncoder = [], mw_logTimeEncoding = [],
           mw_generic = memGeneric None None, mw_args = None\<rparr>,
         mk_serviceAccount = \<lparr>ms_annotations = None, ms_labels = None\<rparr>,
         mk_httpAddon = \<lparr>mh_enabled = False, mh_version = [], mh_operator = memAddon, mh_interceptor = memAddon,
           mh_scaler = memAddon\<rparr>\<rparr>,
      mkc_status = \<lparr>mt_phase = PhaseNone, mt_reason = [], mt_version = [], mt_configMapDataSum = [],
        mt_secretDataSum = [], mt_httpAddon = Some 3, mt_gcpWorkloadIdentity = None\<rparr>\<rparr>"

definition memHeap :: "(libValue \<times> ref) cell list" where
  "memHeap =
     [CInt32 0, CLibs [(VToleration JNull, Some 0)], CStringMap [(''app'', ''keda'')],
      CHTTPAddonStatus \<lparr>has_phase = PhaseFailed, has_reason = [], has_version = []\<rparr>,
      CKedaController memController, CKedaControllers [memController],
      CKedaControllerList \<lparr>ml_apiVersion = [], ml_kind = [], ml_listMeta = (VListMeta JNull, None), ml_items = Some 5\<rparr>]"

definition valueInHeap :: KedaController where
  "valueInHeap = zeroKedaController\<lparr>
     k_spec := zeroKedaControllerSpec\<lparr>kc_operator := (kc_operator zeroKedaControllerSpec)\<lparr>ko_generic :=
       zeroGenericDeploymentSpec\<lparr>gd_podLabels := [''app'' \<mapsto> ''keda''], gd_tolerations := [JArr [JNull, JBool True]]\<rparr>\<rparr>\<rparr>,
     k_status := zeroKedaControllerStatus\<lparr>kcs_httpAddon := Some \<lparr>has_phase = PhaseFailed, has_reason = [], has_version = []\<rparr>\<rparr>\<rparr>"

lemmas stands_defs = standsKedaController_def standsKedaControllerSpec_def standsKedaControllerStatus_def
  standsKedaOperatorSpec_def standsKedaMetricsServerSpec_def standsKedaAdmissionWebhooksSpec_def
  standsKedaServiceAccountSpec_def standsHTTPAddonSpec_def standsHTTPAddonOperatorSpec_def
  standsHTTPAddonInterceptorSpec_def standsHTTPAddonScalerSpec_def standsGenericDeploymentSpec_def
  standsAuditConfig_def standsAuditPolicy_def standsKedaControllerList_def

lemmas zero_defs = zeroKedaController_def zeroKedaControllerSpec_def zeroKedaControllerStatus_def
  zeroHTTPAddonComponentSpec_def zeroGenericDeploymentSpec_def zeroAuditConfig_def zeroAuditPolicy_def

lemma memController_stands: "S = {..<4} \<Longrightarrow> standsKedaController demoLibrary S memHeap memController valueInHeap"
  by (simp add: stands_defs memController_def memAddon_def memGeneric_def valueInHeap_def zero_defs
    refersTo_def cellAt_def memHeap_def libIs_def objectMetaValue_def demoLibrary_def someIs_def eachIs_def
    plainSome_def plain_def standsEntries_def asStrings_def)

lemma memHeap_at: "length memHeap = 7" "memHeap ! 4 = CKedaController memController"
  by (simp_all add: memHeap_def)

lemma memHeap_controller: "S = {..<5} \<Longrightarrow> isController demoLibrary S memHeap (Some 4) (Some valueInHeap)"
proof -
  assume S: "S = {..<5}"
  then have "standsKedaController demoLibrary S memHeap memController valueInHeap"
    by (intro kedaController.stable[OF demoLibrary_keepsDeepCopies memController_stands[OF refl] agree_prefix]) auto
  with S show ?thesis by (intro isController_at) (auto simp: memHeap_at)
qed

lemma memHeap_list: "isControllerList demoLibrary {..<7} memHeap (Some 6)
    (Some \<lparr>kl_apiVersion = [], kl_kind = [], kl_meta = JNull, kl_items = [valueInHeap]\<rparr>)"
proof -
  have "standsKedaController demoLibrary {..<7} memHeap memController valueInHeap"
    by (rule kedaController.stable[OF demoLibrary_keepsDeepCopies memController_stands[OF refl]]) (auto intro: agree_prefix)
  then show ?thesis
    by (auto simp: refersTo_at cellAt_def memHeap_def someIs_iff standsKedaControllerList_def eachIs_def libIs_def demoLibrary_def)
qed

section \<open>Properties\<close>

text \<open>
  C10. A deep copy of a KedaController is a copy and is deep. Suppose the library copies its structs
  deeply. Then copying the KedaController at a pointer only allocates; the copy has the same value and
  lies in objects that did not exist before (nil gives nil); whatever is later assigned through
  pointers that existed before the copy does not change the copy, and whatever is assigned through
  the copy does not change the original.
\<close>

theorem KedaController_DeepCopy_isolated:
  assumes "keepsDeepCopies lib" "isController lib S h p v" "S \<subseteq> {..<length h}"
    and "run_state (KedaController_DeepCopy lib p) h = (q, h')"
  shows "prefix h h' \<and> isController lib (fresh h) h' q v \<and> (q = None \<longleftrightarrow> p = None) \<and>
    (\<forall>h2. mutates {..<length h} h' h2 \<longrightarrow> isController lib (fresh h) h2 q v) \<and>
    (\<forall>h2. mutates (fresh h) h' h2 \<longrightarrow> isController lib S h2 p v)"
proof -
  note run = assms(4)[unfolded KedaController_DeepCopy_def]
  note isolated = kedaControllerPtr.isolated[OF assms(1-3) run]
  show ?thesis
    using allocates_run[OF kedaControllerPtr.ref_copies[OF assms(1,2)] run] isolated someRef_nil[OF assms(2)]
      someRef_nil[OF isolated(1)] by blast
qed

lemma KedaController_DeepCopy_isolated_witness:
  "\<exists>q h'. run_state (KedaController_DeepCopy demoLibrary (Some 4)) memHeap = (q, h') \<and>
     isController demoLibrary (fresh memHeap) h' q (Some valueInHeap)"
proof -
  obtain q h' where run: "run_state (KedaController_DeepCopy demoLibrary (Some 4)) memHeap = (q, h')" by fastforce
  show ?thesis
    using KedaController_DeepCopy_isolated[OF demoLibrary_keepsDeepCopies memHeap_controller[OF refl] _ run] run
    by (auto simp: memHeap_at)
qed

text \<open>
  \<open>DeepCopyObject\<close> of a list, which the cache of the client uses: the result is the nil interface
  exactly for the nil list, and otherwise holds a pointer to a list of the same metadata and the same
  KedaControllers in the same order, all in objects that did not exist before.
\<close>

theorem KedaControllerList_DeepCopyObject_copies:
  assumes "keepsDeepCopies lib" "isControllerList lib S h p v"
    and "run_state (KedaControllerList_DeepCopyObject lib p) h = (ob, h')"
  shows "prefix h h' \<and> (case v of
      None \<Rightarrow> ob = None \<and> p = None
    | Some l \<Rightarrow> \<exists>a. ob = Some (ObjKedaControllerList a) \<and> isControllerList lib (fresh h) h' (Some a) (Some l))"
proof -
  obtain q where run: "run_state (KedaControllerList_DeepCopy lib p) h = (q, h')"
      and ob: "ob = (case q of Some a \<Rightarrow> Some (ObjKedaControllerList a) | None \<Rightarrow> None)"
    using assms(3) by (auto simp: KedaControllerList_DeepCopyObject_def split: prod.splits)
  have "prefix h h'" "isControllerList lib (fresh h) h' q v"
    using allocates_run[OF kedaControllerListPtr.ref_copies[OF assms(1,2)] run[unfolded KedaControllerList_DeepCopy_def]]
    by blast+
  with someRef_nil[OF this(2)] someRef_nil[OF assms(2)] ob show ?thesis
    by (cases q; cases v) auto
qed

lemma KedaControllerList_DeepCopyObject_copies_witness:
  "\<exists>a h'. run_state (KedaControllerList_DeepCopyObject demoLibrary (Some 6)) memHeap = (Some (ObjKedaControllerList a), h') \<and>
     isControllerList demoLibrary (fresh memHeap) h' (Some a)
       (Some \<lparr>kl_apiVersion = [], kl_kind = [], kl_meta = JNull, kl_items = [valueInHeap]\<rparr>)"
proof -
  obtain ob h' where run: "run_state (KedaControllerList_DeepCopyObject demoLibrary (Some 6)) memHeap = (ob, h')" by fastforce
  show ?thesis
    using KedaControllerList_DeepCopyObject_copies[OF demoLibrary_keepsDeepCopies memHeap_list run] run by auto
qed

text \<open>
  C13. Reporting a status through pointers is reporting it by value. When \<open>Reconcile\<close> ignores a resource
  it copies the status, marks the copy and assigns it to the resource it has read: then the base of
  the patch still has the value that was read, and the resource has that value with the status marked
  \<open>Ignored\<close>, so the patch is the change from the one to the other, as the model of the client takes it.
\<close>

theorem ignoreController_reports:
  assumes lib: "keepsDeepCopies lib" and k: "k < length h" "h ! k = CKedaController x" "standsKedaController lib S h x v"
    and S: "S \<subseteq> {..<length h}" "k \<notin> S"
    and run: "run_state (ignoreController lib k msg) h = (base, h')"
  shows "isController lib (fresh h) h' base (Some v) \<and>
    isController lib (S \<union> fresh h \<union> {k}) h' (Some k) (Some (v\<lparr>k_status := MarkIgnored msg (k_status v)\<rparr>))"
proof -
  have st: "standsKedaControllerStatus lib S h (mkc_status x) (k_status v)"
    using k(3) by (simp add: standsKedaController_def)
  obtain s h0 where s: "run_state (KedaControllerStatus_DeepCopyInto lib (mkc_status x)) h = (s, h0)" by fastforce
  have h0: "prefix h h0" "standsKedaControllerStatus lib (fresh h) h0 s (k_status v)"
    using allocates_run[OF kedaControllerStatus.copies[OF lib st] s] by blast+
  let ?a = "length h0" and ?y = "s\<lparr>mt_phase := PhaseIgnored, mt_reason := msg\<rparr>"
  let ?h1 = "h0 @ [CKedaControllerStatus ?y]"
  have pre: "prefix h ?h1" "prefix h0 ?h1" using h0(1) by auto
  have at: "k < length ?h1" "?h1 ! k = CKedaController x" "?h1 ! ?a = CKedaControllerStatus ?y"
    using k h0(1) by (auto simp: prefix_def nth_append)
  have go: "run_state (assignStatus lib k ?a) ?h1 = (base, h')"
    using run k(1,2) s by (simp add: ignoreController_def copyStatusOf_def markIgnoredAt_def list_update_append)
  have "standsKedaController lib (S \<union> fresh h) ?h1 x v"
    by (rule kedaController.stable[OF lib k(3) agree_prefix[OF pre(1)]]) simp
  moreover have "standsKedaControllerStatus lib (S \<union> fresh h) ?h1 ?y (MarkIgnored msg (k_status v))"
    by (rule standsKedaControllerStatus_ignored, rule kedaControllerStatus.stable[OF lib h0(2) agree_prefix[OF pre(2)]]) simp
  moreover have "k \<notin> S \<union> fresh h" using S(2) k(1) by (simp add: fresh_def)
  ultimately have "isController lib (fresh ?h1) h' base (Some v) \<and>
      isController lib (insert k (S \<union> fresh h)) h' (Some k) (Some (v\<lparr>k_status := MarkIgnored msg (k_status v)\<rparr>))"
    using at by (intro run_assignStatus[OF lib _ _ _ _ _ _ _ go]) auto
  moreover have "fresh ?h1 \<subseteq> fresh h" using h0(1) by (auto simp: fresh_def dest: prefix_length_le)
  ultimately show ?thesis
    using kedaControllerPtr.ref_stable[OF lib _ agree_prefix[OF prefix_order.refl]] by (auto simp: Un_insert_right)
qed

lemma ignoreController_reports_witness:
  "\<exists>base h'. run_state (ignoreController demoLibrary 4 ''elsewhere'') memHeap = (base, h') \<and>
     isController demoLibrary (fresh memHeap) h' base (Some valueInHeap)"
proof -
  obtain base h' where run: "run_state (ignoreController demoLibrary 4 ''elsewhere'') memHeap = (base, h')" by fastforce
  show ?thesis
    using ignoreController_reports[OF demoLibrary_keepsDeepCopies _ memHeap_at(2) memController_stands[OF refl] _ _ run] run
    by (auto simp: memHeap_at)
qed

end
