(* ===== verification/Entry.thy ===== *)
theory Entry
  imports Process Watching "HOL-Library.Sublist"
begin

text \<open>
  The entry point of the program, \<^verbatim>\<open>cmd/main.go\<close>: the flags, the manager, the three controllers and the
  checks, each with its own \<^verbatim>\<open>os.Exit(1)\<close>. The manager of \<^verbatim>\<open>controller-runtime\<close> is a parameter: what it
  answers to each call of \<^verbatim>\<open>main\<close>. The events record what has been set up in which order; log
  messages are left out.
\<close>

section \<open>Flags and options\<close>

record flagValues =
  fl_metricsAddr :: string
  fl_probeAddr :: string
  fl_certDir :: string
  fl_leaderElect :: bool

definition defaultFlags :: flagValues where
  "defaultFlags = \<lparr>fl_metricsAddr = '':8080'', fl_probeAddr = '':8081'', fl_certDir = ''/certs'', fl_leaderElect = False\<rparr>"

record managerOptions =
  opt_metricsBindAddress :: string
  opt_webhookPort :: nat
  opt_healthProbeBindAddress :: string
  opt_leaderElection :: bool
  opt_leaderElectionID :: string
  opt_defaultNamespaces :: "string list"

definition managerOptionsOf :: "flagValues \<Rightarrow> string \<Rightarrow> managerOptions" where
  "managerOptionsOf fl watchNamespace =
     \<lparr>opt_metricsBindAddress = fl_metricsAddr fl, opt_webhookPort = 9443,
      opt_healthProbeBindAddress = fl_probeAddr fl, opt_leaderElection = fl_leaderElect fl,
      opt_leaderElectionID = ''olm-operator.keda.sh'', opt_defaultNamespaces = [watchNamespace]\<rparr>"

section \<open>What is set up\<close>

text \<open>The controllers of a started program: the second and the third only on OpenShift, with their filter.\<close>

record 'u program =
  pg_reconciler :: "'u reconciler"
  pg_configMap :: "(event \<Rightarrow> bool) option"
  pg_secret :: "(event \<Rightarrow> bool) option"

datatype 'u entryEvent =
    ManagerCreated managerOptions
  | ControllerSetUp string string
  | HealthzCheckAdded
  | ReadyzCheckAdded
  | ManagerStarted "'u program"

record ('u, 'w) controllerRuntime =
  rt_config :: "error + unit"
  rt_newManager :: "managerOptions \<Rightarrow> error + ('u, 'w) client"
  rt_completeConfigMap :: "error + unit"
  rt_completeSecret :: "error + unit"
  rt_addHealthzCheck :: "error + unit"
  rt_addReadyzCheck :: "error + unit"
  rt_start :: "error + unit"

text \<open>A part of \<^verbatim>\<open>main\<close> ends the program with an exit code, or goes on.\<close>

type_synonym ('u, 'w, 'a) entry =
  "('u, 'w) run \<Rightarrow> 'u entryEvent list \<Rightarrow> (nat + 'a) \<times> ('u, 'w) run \<times> 'u entryEvent list"

definition orExit :: "('u, 'w, 'a) io \<Rightarrow> 'u entryEvent list \<Rightarrow> ('a \<Rightarrow> ('u, 'w, 'b) entry) \<Rightarrow> ('u, 'w, 'b) entry" where
  "orExit m events k s evs = (case m s of (r, t) \<Rightarrow>
     (case r of Inl e \<Rightarrow> (Inl 1, t, evs) | Inr x \<Rightarrow> k x t (evs @ events)))"

definition main ::
  "('u, 'w) controllerRuntime \<Rightarrow> 'u environment \<Rightarrow> flagValues \<Rightarrow> string option \<Rightarrow> error + string \<Rightarrow> error + string \<Rightarrow>
   ('u, 'w, unit) entry" where
  "main rt E fl envVar nsFile nsFileAgain =
     (let installNamespace = getWatchNamespace envVar nsFile;
          options = managerOptionsOf fl (getWatchNamespace envVar nsFileAgain)
      in orExit (liftE (rt_config rt)) [] (\<lambda>_.
         orExit (liftE (rt_newManager rt options)) [ManagerCreated options] (\<lambda>mgr.
         orExit (SetupWithManager mgr E (fl_certDir fl) (fl_leaderElect fl) installNamespace)
           [ControllerSetUp ''KedaController'' installNamespace] (\<lambda>reconciler.
         orExit (ConfigMapSetupWithManager mgr (rt_completeConfigMap rt) installNamespace)
           [ControllerSetUp ''ConfigMap'' installNamespace] (\<lambda>configMap.
         orExit (SecretSetupWithManager mgr (rt_completeSecret rt) installNamespace)
           [ControllerSetUp ''Secret'' installNamespace] (\<lambda>secret.
         orExit (liftE (rt_addHealthzCheck rt)) [HealthzCheckAdded] (\<lambda>_.
         orExit (liftE (rt_addReadyzCheck rt)) [ReadyzCheckAdded] (\<lambda>_.
         orExit (returnIO ()) [ManagerStarted \<lparr>pg_reconciler = reconciler, pg_configMap = configMap, pg_secret = secret\<rparr>] (\<lambda>_.
         orExit (liftE (rt_start rt)) [] (\<lambda>_ s evs. (Inr (), s, evs)))))))))))"

section \<open>Lemmas\<close>

text \<open>The events before the manager is started, when all goes well.\<close>

definition setUpEvents :: "managerOptions \<Rightarrow> string \<Rightarrow> 'u entryEvent list" where
  "setUpEvents options ns =
     [ManagerCreated options, ControllerSetUp ''KedaController'' ns, ControllerSetUp ''ConfigMap'' ns,
      ControllerSetUp ''Secret'' ns, HealthzCheckAdded, ReadyzCheckAdded]"

lemma orExit_cases:
  assumes "orExit m events k s evs = (r, t, evs')"
  obtains (Exit) e where "m s = (Inl e, t)" "r = Inl 1" "evs' = evs"
  | (GoOn) x u where "m s = (Inr x, u)" "k x u (evs @ events) = (r, t, evs')"
  using assms by (cases "m s") (auto simp: orExit_def split: sum.splits)

lemma quiet_smallSetups:
  "quiet (ConfigMapSetupWithManager C c ns)" "quiet (SecretSetupWithManager C c ns)"
  unfolding ConfigMapSetupWithManager_def SecretSetupWithManager_def
  by (auto intro!: quiet_intros split: if_split)

lemma smallSetups_Ok:
  "ConfigMapSetupWithManager C c ns s = (Inr p, t) \<Longrightarrow> p \<in> {None, Some (configMapPredicate ns)}"
  "SecretSetupWithManager C c ns s = (Inr p, t) \<Longrightarrow> p \<in> {None, Some (secretPredicate ns)}"
  by (auto simp: ConfigMapSetupWithManager_def SecretSetupWithManager_def bindIO_Ok returnIO_def split: if_splits)

lemma main_cases:
  assumes "main rt E fl envVar nsFile nsFileAgain s [] = (r, t, evs)"
  defines "ns \<equiv> getWatchNamespace envVar nsFile" and "options \<equiv> managerOptionsOf fl (getWatchNamespace envVar nsFileAgain)"
  obtains (Exit) "r = Inl 1" "prefix evs (setUpEvents options ns)" "r_calls t = r_calls s"
  | (Start) mgr u R cm sec where "rt_newManager rt options = Inr mgr"
      "SetupWithManager mgr E (fl_certDir fl) (fl_leaderElect fl) ns s = (Inr R, u)"
      "cm \<in> {None, Some (configMapPredicate ns)}" "sec \<in> {None, Some (secretPredicate ns)}"
      "evs = setUpEvents options ns @ [ManagerStarted \<lparr>pg_reconciler = R, pg_configMap = cm, pg_secret = sec\<rparr>]"
      "r = (case rt_start rt of Inl e \<Rightarrow> Inl 1 | Inr x \<Rightarrow> Inr ())" "r_calls t = r_calls s"
proof -
  note calls = quietD[OF quiet_SetupWithManager, THEN conjunct1] quietD[OF quiet_smallSetups(1), THEN conjunct1]
    quietD[OF quiet_smallSetups(2), THEN conjunct1]
  show thesis
    using assms(1)[unfolded main_def Let_def, folded ns_def, folded options_def]
  proof (elim orExit_cases, goal_cases)
    case 1 then show ?case by (intro Exit) (simp_all add: setUpEvents_def)
  next
    case 2 then show ?case by (intro Exit) (simp_all add: setUpEvents_def)
  next
    case 3 then show ?case by (intro Exit) (auto simp: setUpEvents_def dest: calls)
  next
    case 4 then show ?case by (intro Exit) (auto simp: setUpEvents_def dest!: calls)
  next
    case 5 then show ?case by (intro Exit) (auto simp: setUpEvents_def dest!: calls)
  next
    case 6 then show ?case by (intro Exit) (auto simp: setUpEvents_def dest!: calls)
  next
    case 7 then show ?case by (intro Exit) (auto simp: setUpEvents_def dest!: calls)
  next
    case 8 then show ?case by simp
  next
    case (9 x u mgr ua R ub cm uc sec)
    then have "rt_newManager rt options = Inr mgr" "SetupWithManager mgr E (fl_certDir fl) (fl_leaderElect fl) ns s = (Inr R, ub)"
      by simp_all
    then show ?case
      by (rule Start[OF _ _ smallSetups_Ok(1)[OF 9(4)] smallSetups_Ok(2)[OF 9(5)]])
        (use 9 calls(1)[OF 9(3)] calls(2)[OF 9(4)] calls(3)[OF 9(5)] in \<open>simp_all add: setUpEvents_def\<close>)
  next
    case (10 x u mgr ua R ub cm uc sec)
    then have "rt_newManager rt options = Inr mgr" "SetupWithManager mgr E (fl_certDir fl) (fl_leaderElect fl) ns s = (Inr R, ub)"
      by simp_all
    then show ?case
      by (rule Start[OF _ _ smallSetups_Ok(1)[OF 10(4)] smallSetups_Ok(2)[OF 10(5)]])
        (use 10 calls(1)[OF 10(3)] calls(2)[OF 10(4)] calls(3)[OF 10(5)] in \<open>simp_all add: setUpEvents_def\<close>)
  qed
qed

lemma SetupWithManager_fields:
  assumes "SetupWithManager C E cd le ns s = (Inr R, t)"
  shows "rc_namespace R = ns" "rc_certDir R = cd" "rc_leaderElection R = le" "rc_version R = en_version E"
  using assms by (auto simp: SetupWithManager_Ok)

section \<open>Properties\<close>

text \<open>
  C12. The program starts its manager only when everything has been set up, and otherwise exits with code 1
  at the first failure. Set-up changes nothing in the cluster; its steps come in a fixed order and
  stop with the first that fails; a manager that is started has the reconciler that \<open>SetupWithManager\<close>
  returned, with the namespace, the certificate directory and the leader election flag of the
  program, and the other two controllers filter the events of the same namespace.
\<close>

theorem main_starts:
  assumes "main rt E fl envVar nsFile nsFileAgain s [] = (r, t, evs)"
  shows "let ns = getWatchNamespace envVar nsFile; options = managerOptionsOf fl (getWatchNamespace envVar nsFileAgain)
    in r_calls t = r_calls s \<and>
      (r = Inl 1 \<and> prefix evs (setUpEvents options ns) \<or>
       (\<exists>mgr R u cm sec. rt_newManager rt options = Inr mgr \<and>
          SetupWithManager mgr E (fl_certDir fl) (fl_leaderElect fl) ns s = (Inr R, u) \<and>
          rc_namespace R = ns \<and> rc_certDir R = fl_certDir fl \<and> rc_leaderElection R = fl_leaderElect fl \<and>
          cm \<in> {None, Some (configMapPredicate ns)} \<and> sec \<in> {None, Some (secretPredicate ns)} \<and>
          evs = setUpEvents options ns @ [ManagerStarted \<lparr>pg_reconciler = R, pg_configMap = cm, pg_secret = sec\<rparr>] \<and>
          r = (case rt_start rt of Inl e \<Rightarrow> Inl 1 | Inr x \<Rightarrow> Inr ())))"
  unfolding Let_def using assms
proof (rule main_cases, goal_cases)
  case 1
  then show ?case by simp
next
  case (2 mgr u R cm sec)
  from SetupWithManager_fields[OF 2(2)] 2 show ?case by (intro conjI disjI2 exI) assumption+
qed


section \<open>A start of the program\<close>

definition demoRuntime :: "(demoObj, demoCluster) controllerRuntime" where
  "demoRuntime = \<lparr>rt_config = Ok (), rt_newManager = (\<lambda>_. Ok keyedClient), rt_completeConfigMap = Ok (),
     rt_completeSecret = Ok (), rt_addHealthzCheck = Ok (), rt_addReadyzCheck = Ok (), rt_start = Ok ()\<rparr>"

lemma demo_main:
  "\<exists>t R cm sec. main demoRuntime demoEnvironment defaultFlags (Some ''keda'') (Inr []) (Inr []) (demoState k) [] =
     (Inr (), t, setUpEvents (managerOptionsOf defaultFlags ''keda'') ''keda'' @
        [ManagerStarted \<lparr>pg_reconciler = R, pg_configMap = cm, pg_secret = sec\<rparr>])"
  by (simp add: main_def orExit_def demoRuntime_def demoEnvironment_def SetupWithManager_def bindIO_def Let_def
      getWatchNamespace_def GetResourcesManifest_def manifestFromEmbed_def GetHTTPAddonResourcesManifest_def
      parseManifestsFromFile_def parseHTTPAddonManifests_def detectOpenshift_def setUpEvents_def
      ConfigMapSetupWithManager_def SecretSetupWithManager_def RunningOnOpenshift_def isGvkPresent_def tryIO_def reading_def
      keyedClient_def demoClient_def demoState_get split: prod.split sum.split)

theorem main_starts_witness:
  "\<exists>t evs. main demoRuntime demoEnvironment defaultFlags (Some ''keda'') (Inr []) (Inr []) (demoState (demoController [] None)) [] =
     (Inr (), t, evs) \<and> r_calls t = []"
proof -
  obtain t R cm sec where run: "main demoRuntime demoEnvironment defaultFlags (Some ''keda'') (Inr []) (Inr [])
      (demoState (demoController [] None)) [] = (Inr (), t, setUpEvents (managerOptionsOf defaultFlags ''keda'') ''keda'' @
        [ManagerStarted \<lparr>pg_reconciler = R, pg_configMap = cm, pg_secret = sec\<rparr>])"
    using demo_main by blast
  then show ?thesis using main_starts[OF run] by (auto simp: Let_def demoState_get)
qed


end
