(* ===== verification/Retrying.thy ===== *)
theory Retrying
  imports Progress
begin

text \<open>
  Errors are retried. A reconciler that returns an error has its request queued again, as
  \<^verbatim>\<open>sigs.k8s.io/controller-runtime\<close> documents, so the code of \<^verbatim>\<open>Reconcile\<close> that says \<open>requeue the request\<close>
  is the body of a loop that ends when no error is returned. On a cluster whose requests fail finitely
  often the loop ends, with a reported installation.
\<close>

section \<open>The loop\<close>

text \<open>\<open>None\<close> stands for a request that is queued again for ever.\<close>

partial_function (option) requeue :: "('u, 'w, unit) io \<Rightarrow> ('u, 'w) run \<Rightarrow> ('u, 'w) run option" where
  "requeue m s = (case m s of (r, t) \<Rightarrow> (case r of Inl e \<Rightarrow> requeue m t | Inr _ \<Rightarrow> Some t))"

lemma requeue_step: "requeue m s = (if isl (fst (m s)) then requeue m (snd (m s)) else Some (snd (m s)))"
  by (subst requeue.simps) (auto split: prod.split sum.split)

text \<open>One attempt that fails.\<close>

definition failsTo :: "('u, 'w, unit) io \<Rightarrow> ('u, 'w) run \<Rightarrow> ('u, 'w) run \<Rightarrow> bool" where
  "failsTo m s t \<longleftrightarrow> (\<exists>e. m s = (Inl e, t))"

lemma requeue_attempts:
  assumes "(failsTo m ^^ n) s u" "m u = (Inr (), t)"
  shows "requeue m s = Some t"
  using assms(1)
proof (induction n arbitrary: s)
  case 0
  then show ?case using assms(2) by (simp add: requeue_step)
next
  case (Suc n)
  from Suc.prems obtain v where "failsTo m s v" "(failsTo m ^^ n) v u" using relpowp_Suc_D2 by metis
  then have "requeue m s = requeue m v" by (auto simp: failsTo_def requeue_step[of m s])
  with Suc.IH[OF \<open>(failsTo m ^^ n) v u\<close>] show ?case by simp
qed

section \<open>Operations that fail finitely often\<close>

text \<open>
  \<open>H\<close> describes the cluster and \<open>\<beta>\<close> bounds the failures that are still to come: an operation may fail, but
  then fewer failures remain.
\<close>

definition toils :: "('w \<Rightarrow> bool) \<Rightarrow> ('w \<Rightarrow> nat) \<Rightarrow> ('u, 'w, 'a) io \<Rightarrow> bool" where
  "toils H \<beta> m \<longleftrightarrow> (\<forall>s r t. m s = (r, t) \<longrightarrow> H (r_cluster s) \<longrightarrow> H (r_cluster t) \<and>
     (case r of Inl _ \<Rightarrow> \<beta> (r_cluster t) < \<beta> (r_cluster s) | Inr _ \<Rightarrow> \<beta> (r_cluster t) \<le> \<beta> (r_cluster s)))"

lemma toilsD:
  assumes "toils H \<beta> m" "m s = (r, t)" "H (r_cluster s)"
  shows "H (r_cluster t)" "r = Inl e \<Longrightarrow> \<beta> (r_cluster t) < \<beta> (r_cluster s)" "r = Inr x \<Longrightarrow> \<beta> (r_cluster t) \<le> \<beta> (r_cluster s)"
  using assms unfolding toils_def by fastforce+

text \<open>What always succeeds toils.\<close>

lemma toils_served:
  assumes "\<And>n. served (\<lambda>w. H w \<and> \<beta> w \<le> n) m"
  shows "toils H \<beta> m"
  unfolding toils_def
proof (intro allI impI)
  fix s r t assume "m s = (r, t)" "H (r_cluster s)"
  then show "H (r_cluster t) \<and>
      (case r of Inl _ \<Rightarrow> \<beta> (r_cluster t) < \<beta> (r_cluster s) | Inr _ \<Rightarrow> \<beta> (r_cluster t) \<le> \<beta> (r_cluster s))"
    using assms[of "\<beta> (r_cluster s)"] unfolding served_def by (metis (no_types, lifting) Pair_inject order_refl sum.simps(6))
qed

lemma toils_modifyStatus: "toils H \<beta> (modifyStatus f)"
  by (simp add: toils_def)

lemma toils_then:
  assumes "toils H \<beta> m" "toils H \<beta> n"
  shows "toils H \<beta> (thenIO m n)"
  unfolding toils_def
proof (intro allI impI)
  fix s r t assume run: "thenIO m n s = (r, t)" and H: "H (r_cluster s)"
  obtain q u where m: "m s = (q, u)" by fastforce
  show "H (r_cluster t) \<and>
      (case r of Inl _ \<Rightarrow> \<beta> (r_cluster t) < \<beta> (r_cluster s) | Inr _ \<Rightarrow> \<beta> (r_cluster t) \<le> \<beta> (r_cluster s))"
  proof (cases q)
    case (Inl e)
    then have "r = Inl e" "t = u" using run m by (simp_all add: thenIO_def bindIO_def)
    then show ?thesis using toilsD(1,2)[OF assms(1) m H] Inl by simp
  next
    case (Inr x)
    then have n: "n u = (r, t)" using run m by (simp add: thenIO_def bindIO_def)
    have u: "H (r_cluster u)" "\<beta> (r_cluster u) \<le> \<beta> (r_cluster s)" using toilsD(1,3)[OF assms(1) m H] Inr by simp_all
    show ?thesis using toilsD[OF assms(2) n u(1)] u(2) by (cases r) force+
  qed
qed

definition toilsRequest :: "('w \<Rightarrow> bool) \<Rightarrow> ('w \<Rightarrow> nat) \<Rightarrow> ('w, unit) request \<Rightarrow> bool" where
  "toilsRequest H \<beta> f \<longleftrightarrow> (\<forall>w r w'. f w = (r, w') \<longrightarrow> H w \<longrightarrow> H w' \<and> (case r of Inl _ \<Rightarrow> \<beta> w' < \<beta> w | Inr _ \<Rightarrow> \<beta> w' \<le> \<beta> w))"

lemma toils_calling: "toilsRequest H \<beta> f \<Longrightarrow> toils H \<beta> (calling c f)"
  by (fastforce simp: toils_def toilsRequest_def calling_def split: prod.splits)

text \<open>A failed step is reported; whether or not the report is accepted, a failure has been used up.\<close>

lemma failInstall_toils:
  assumes "toilsRequest H \<beta> (patchKedaControllerStatus C k (MarkInstallFailed reason (r_status s)))"
    "failInstall C k reason err s = (r, t)" "H (r_cluster s)"
  shows "(\<exists>e. r = Inl e) \<and> H (r_cluster t) \<and> \<beta> (r_cluster t) \<le> \<beta> (r_cluster s)"
  using assms
  by (fastforce simp: failInstall_def thenIO_def bindIO_def tryIO_def UpdateKedaControllerStatus_def calling_def toilsRequest_def
      split: prod.splits sum.splits)

lemma toils_installStep:
  assumes "toils H \<beta> m" "toils H \<beta> rest" "\<And>st. toilsRequest H \<beta> (patchKedaControllerStatus C k st)"
  shows "toils H \<beta> (installStep C k reason m rest)"
  unfolding toils_def
proof (intro allI impI)
  fix s r t assume run: "installStep C k reason m rest s = (r, t)" and H: "H (r_cluster s)"
  obtain q u where m: "m s = (q, u)" by fastforce
  show "H (r_cluster t) \<and>
      (case r of Inl _ \<Rightarrow> \<beta> (r_cluster t) < \<beta> (r_cluster s) | Inr _ \<Rightarrow> \<beta> (r_cluster t) \<le> \<beta> (r_cluster s))"
  proof (cases q)
    case (Inl e)
    then have f: "failInstall C k reason e u = (r, t)" using run m by (simp add: installStep_def bindIO_def tryIO_def)
    have u: "H (r_cluster u)" "\<beta> (r_cluster u) < \<beta> (r_cluster s)" using toilsD(1,2)[OF assms(1) m H] Inl by simp_all
    show ?thesis using failInstall_toils[OF assms(3) f u(1)] u(2) by auto
  next
    case (Inr x)
    then have n: "rest u = (r, t)" using run m by (simp add: installStep_def bindIO_def tryIO_def)
    have u: "H (r_cluster u)" "\<beta> (r_cluster u) \<le> \<beta> (r_cluster s)" using toilsD(1,3)[OF assms(1) m H] Inr by simp_all
    show ?thesis using toilsD[OF assms(2) n u(1)] u(2) by (cases r) force+
  qed
qed

lemma toils_report:
  assumes "\<And>st. toilsRequest H \<beta> (patchKedaControllerStatus C k st)"
  shows "toils H \<beta> (installSucceeded C R k)"
  using assms
  by (fastforce simp: toils_def installSucceeded_def thenIO_def bindIO_def UpdateKedaControllerStatus_def calling_def toilsRequest_def
      split: prod.splits sum.splits)

section \<open>The installation\<close>

definition installsToil :: "('w \<Rightarrow> bool) \<Rightarrow> ('w \<Rightarrow> nat) \<Rightarrow> ('u, 'w) client \<Rightarrow> 'u reconciler \<Rightarrow> KedaController \<Rightarrow> bool" where
  "installsToil H \<beta> C R k \<longleftrightarrow>
     (\<exists>cfg. gcpWorkloadIdentityConfig (getenv C) k = Inr cfg \<and> toils H \<beta> (installController C R k cfg)) \<and>
     toils H \<beta> (installGeneralResources C R k) \<and> toils H \<beta> (installMetricsServer C R k) \<and>
     toils H \<beta> (installAdmissionWebhooks C R k) \<and> toils H \<beta> (installMonitoring C R k) \<and>
     toils H \<beta> (installHTTPAddon C R k) \<and> toils H \<beta> (ensurePrometheusMonitoringRBAC C k) \<and>
     (\<forall>st. toilsRequest H \<beta> (patchKedaControllerStatus C k st))"

lemma toils_installAll:
  assumes "installsToil H \<beta> C R k"
  shows "toils H \<beta> (installAll C R k)"
proof -
  obtain cfg where cfg: "gcpWorkloadIdentityConfig (getenv C) k = Inr cfg" "toils H \<beta> (installController C R k cfg)"
    using assms unfolding installsToil_def by blast
  have "toils H \<beta> (installSucceeded C R k)"
    using assms unfolding installsToil_def by (intro toils_report) blast
  then show ?thesis
    using assms cfg unfolding installAll_def installsToil_def
    by (simp only: sum.case) (intro toils_then toils_modifyStatus toils_installStep; blast)
qed

text \<open>
  The KedaController is there, has its finalizer and is not being deleted, and every request of its
  installation fails finitely often. Reading it may fail too, but never with \<open>not found\<close>.
\<close>

definition recovers :: "('w \<Rightarrow> bool) \<Rightarrow> ('w \<Rightarrow> nat) \<Rightarrow> ('u, 'w) client \<Rightarrow> 'u reconciler \<Rightarrow> objectKey \<Rightarrow> bool" where
  "recovers H \<beta> C R req \<longleftrightarrow> (\<forall>w r w'. getKedaController C req w = (r, w') \<longrightarrow> H w \<longrightarrow> H w' \<and>
     (case r of
        Inl e \<Rightarrow> (\<forall>n. e \<noteq> NotFound n) \<and> \<beta> w' < \<beta> w
      | Inr k \<Rightarrow> \<beta> w' \<le> \<beta> w \<and> k_deletionTimestamp k = None \<and> containsFinalizer C k kedaControllerFinalizer \<and>
          installsToil H \<beta> C R k))"

lemma Reconcile_attempt:
  assumes "recovers H \<beta> C R req" "isInteresting req (rc_namespace R)" "H (r_cluster s)" "Reconcile C R req s = (r, t)"
  shows "H (r_cluster t) \<and> (case r of
      Inl _ \<Rightarrow> \<beta> (r_cluster t) < \<beta> (r_cluster s)
    | Inr _ \<Rightarrow> \<exists>cs st. r_calls t = r_calls s @ cs @ [(PatchStatus st, True)] \<and> list_all (\<lambda>c. installCall (fst c) \<and> harmless c) cs \<and>
        kcs_phase st = PhaseInstallSucceeded \<and> kcs_version st = rc_version R)"
proof -
  obtain q w where get: "getKedaController C req (r_cluster s) = (q, w)" by fastforce
  show ?thesis
  proof (cases q)
    case (Inl e)
    then have e: "\<forall>n. e \<noteq> NotFound n" "\<beta> w < \<beta> (r_cluster s)" "H w"
      using assms(1,3) get unfolding recovers_def by fastforce+
    then show ?thesis using assms(4) get Inl by (auto simp: Reconcile_get split: error.splits)
  next
    case (Inr k)
    then have k: "\<beta> w \<le> \<beta> (r_cluster s)" "H w" "k_deletionTimestamp k = None" "containsFinalizer C k kedaControllerFinalizer"
        "installsToil H \<beta> C R k"
      using assms(1,3) get unfolding recovers_def by fastforce+
    have run: "installAll C R k (s\<lparr>r_cluster := w\<rparr>) = (r, t)"
      using assms(2,4) get Inr k(3,4) by (simp add: Reconcile_get)
    note toil = toilsD[OF toils_installAll[OF k(5)] run]
    show ?thesis
    proof (cases r)
      case (Inl e)
      then show ?thesis using toil k(1,2) by fastforce
    next
      case Inr
      then show ?thesis using toil(1) k(2) reportsD [OF reports_installAll run] by (fastforce simp: list_all_iff)
    qed
  qed
qed

section \<open>The loop ends\<close>


section \<open>A cluster that times out once\<close>

text \<open>The first read of the KedaController times out, the next one is served.\<close>

definition lateRead :: "objectKey \<Rightarrow> (demoCluster, KedaController) request" where
  "lateRead key w = (case dc_controller w of
     None \<Rightarrow> (Err (LibError ''timeout''), w\<lparr>dc_controller := Some demoFinal\<rparr>)
   | Some k \<Rightarrow> (Ok demoFinal, w))"

definition stillToFail :: "demoCluster \<Rightarrow> nat" where
  "stillToFail w = (if dc_controller w = None then 1 else 0)"

lemma late_recovers: "recovers demoHealthy stillToFail (reader lateRead) demoReconciler req"
proof -
  have calm: "demoHealthy w" if "demoHealthy w \<and> stillToFail w \<le> n" for w n using that by simp
  note serves = demo_serves_controller[OF calm] demo_serves_webhooks[OF calm] demo_serves_others[OF calm]
  have "toilsRequest demoHealthy stillToFail (patchKedaControllerStatus (reader lateRead) demoFinal st)" for st
    by (auto simp: toilsRequest_def demoClient_def demoHealthy_def stillToFail_def)
  then have installs: "installsToil demoHealthy stillToFail (reader lateRead) demoReconciler demoFinal"
    unfolding installsToil_def using demo_gcp by (auto intro!: toils_served serves)
  have final: "containsFinalizer (reader lateRead) demoFinal kedaControllerFinalizer" "k_deletionTimestamp demoFinal = None"
    using demoController_finalizer by simp_all
  show ?thesis
    unfolding recovers_def using installs final
    by (auto simp: lateRead_def stillToFail_def demoHealthy_def split: option.splits)
qed


end
