(* ===== verification/GcpReading.thy ===== *)
theory GcpReading
  imports GcpCredentials
begin

text \<open>
  The credential document is read by the Google client libraries in the operator's pod. This theory has a reader of
  JSON documents made of strings and objects, and shows that it gets back from the bytes of
  \<open>CredentialsJSON\<close> exactly the document that the code built.
\<close>

section \<open>A reader\<close>

definition skipSpace :: "string \<Rightarrow> string" where
  "skipSpace = dropWhile (\<lambda>c. c \<in> {CHR 0x09, CHR 0x0A, CHR 0x0D, CHR '' ''})"

text \<open>
  A value, and the fields of an object after its opening brace; each call needs one unit of
  fuel, and \<open>readJson\<close> gives as many as there are bytes.
\<close>

fun readDoc :: "nat \<Rightarrow> string \<Rightarrow> (doc \<times> string) option"
and readFields :: "nat \<Rightarrow> string \<Rightarrow> ((string \<times> doc) list \<times> string) option" where
  "readDoc 0 s = None"
| "readDoc (Suc n) s = (case skipSpace s of
     [] \<Rightarrow> None
   | c # t \<Rightarrow>
       if c = dquote then map_option (\<lambda>(x, r). (Text x, r)) (scanBody t)
       else if c = CHR ''{'' then
         (if take 1 (skipSpace t) = ''}'' then Some (Object [], drop 1 (skipSpace t))
          else map_option (\<lambda>(kvs, r). (Object kvs, r)) (readFields n t))
       else None)"
| "readFields 0 s = None"
| "readFields (Suc n) s = (case skipSpace s of
     [] \<Rightarrow> None
   | c # t \<Rightarrow>
       if c \<noteq> dquote then None
       else (case scanBody t of
          None \<Rightarrow> None
        | Some (k, r) \<Rightarrow>
            if take 1 (skipSpace r) \<noteq> '':'' then None
            else (case readDoc n (drop 1 (skipSpace r)) of
               None \<Rightarrow> None
             | Some (v, q) \<Rightarrow>
                 if take 1 (skipSpace q) = ''}'' then Some ([(k, v)], drop 1 (skipSpace q))
                 else if take 1 (skipSpace q) = '','' then
                   map_option (\<lambda>(kvs, z). ((k, v) # kvs, z)) (readFields n (drop 1 (skipSpace q)))
                 else None)))"

definition readJson :: "string \<Rightarrow> doc option" where
  "readJson s = (case readDoc (length s) s of
     Some (d, rest) \<Rightarrow> if skipSpace rest = [] then Some d else None
   | None \<Rightarrow> None)"

section \<open>Reading what was written\<close>

function validDoc :: "doc \<Rightarrow> bool" where
  "validDoc (Text s) = validUtf8 s"
| "validDoc (Object kvs) = (\<forall>kv \<in> set kvs. validUtf8 (fst kv) \<and> validDoc (snd kv))"
  by pat_completeness auto
termination by (relation "measure size") (use size_doc_entry in fastforce)+

text \<open>The fuel that a document needs.\<close>

function weight :: "doc \<Rightarrow> nat" where
  "weight (Text s) = 1"
| "weight (Object kvs) = 1 + sum_list (map (\<lambda>kv. 1 + weight (snd kv)) kvs)"
  by pat_completeness auto
termination by (relation "measure size") (use size_doc_entry in fastforce)+

abbreviation marshalField :: "nat \<Rightarrow> string \<times> doc \<Rightarrow> string" where
  "marshalField depth kv \<equiv> newline (Suc depth) @ quoteString (fst kv) @ '': '' @ marshalIndent (Suc depth) (snd kv)"

lemma skipSpace_simps [simp]:
  "skipSpace (newline d @ s) = skipSpace s" "skipSpace (CHR '' '' # s) = skipSpace s"
  "skipSpace (dquote # s) = dquote # s" "skipSpace (CHR ''{'' # s) = CHR ''{'' # s" "skipSpace (CHR ''}'' # s) = CHR ''}'' # s"
  "skipSpace (CHR '':'' # s) = CHR '':'' # s" "skipSpace (CHR '','' # s) = CHR '','' # s" "skipSpace [] = []"
proof -
  have "skipSpace (concat (replicate d ''  '') @ s) = skipSpace s" by (induction d) (simp_all add: skipSpace_def)
  then show "skipSpace (newline d @ s) = skipSpace s" by (simp add: newline_def skipSpace_def)
qed (simp_all add: skipSpace_def)

lemma newline_nonempty: "newline d \<noteq> []"
  by (simp add: newline_def)

lemma readDoc_marshal:
  "validDoc d \<Longrightarrow> weight d \<le> n \<Longrightarrow> readDoc n (marshalIndent depth d @ r) = Some (d, r)"
proof (induction depth d arbitrary: n r rule: marshalIndent.induct)
  case (1 depth s)
  then show ?case by (cases n) (simp_all add: quoteString_def scan_quoteBody)
next
  case (2 depth kvs)
  show ?case
  proof (cases "kvs = []")
    case True
    then show ?thesis using 2(3) by (cases n) simp_all
  next
    case False
    have fields: "readFields m (Join (map (marshalField depth) xs) '','' @ newline depth @ ''}'' @ r) = Some (xs, r)"
      if "xs \<noteq> []" "set xs \<subseteq> set kvs" "sum_list (map (\<lambda>kv. 1 + weight (snd kv)) xs) \<le> m" for m xs
      using that
    proof (induction xs arbitrary: m)
      case (Cons kv xs)
      from Cons.prems(3) obtain j where m: "m = Suc j" "weight (snd kv) \<le> j"
          "sum_list (map (\<lambda>kv. 1 + weight (snd kv)) xs) \<le> j" by (cases m) auto
      have kv: "validUtf8 (fst kv)" "validDoc (snd kv)" "kv \<in> set kvs" using 2(2) Cons.prems(2) by auto
      have sub: "readDoc j (CHR '' '' # marshalIndent (Suc depth) (snd kv) @ q) = Some (snd kv, q)" for q
      proof -
        have "readDoc j (marshalIndent (Suc depth) (snd kv) @ q) = Some (snd kv, q)"
          by (rule 2(1)[OF False kv(3) kv(2) m(2)])
        then show ?thesis by (cases j) simp_all
      qed
      show ?case
      proof (cases "xs = []")
        case True
        then show ?thesis using m(1) sub kv(1) by (simp add: quoteString_def scan_quoteBody)
      next
        case xs: False
        then have "readFields j (Join (map (marshalField depth) xs) '','' @ newline depth @ ''}'' @ r) = Some (xs, r)"
          using Cons.IH m(3) Cons.prems(2) by simp
        moreover have "Join (map (marshalField depth) (kv # xs)) '','' =
            marshalField depth kv @ '','' @ Join (map (marshalField depth) xs) '',''"
          using xs by (cases xs) simp_all
        ultimately show ?thesis using m(1) sub kv(1) by (simp add: quoteString_def scan_quoteBody del: Join.simps)
      qed
    qed simp
    obtain kv xs where kvs: "kvs = kv # xs" using False by (cases kvs) auto
    obtain j where n: "n = Suc j" "sum_list (map (\<lambda>kv. 1 + weight (snd kv)) kvs) \<le> j" using 2(3) by (cases n) auto
    have first: "take 1 (skipSpace (Join (map (marshalField depth) kvs) '','' @ newline depth @ ''}'' @ r)) = [dquote]"
      unfolding kvs by (cases xs) (simp_all add: quoteString_def)
    show ?thesis
      using False n(1) first fields[OF False subset_refl n(2)] by simp
  qed
qed

text \<open>Each unit of fuel is a byte of the document.\<close>

lemma length_Join: "sum_list (map length xs) \<le> length (Join xs sep)"
  by (induction xs sep rule: Join.induct) auto

lemma weight_le: "weight d \<le> length (marshalIndent depth d)"
proof (induction depth d rule: marshalIndent.induct)
  case (1 depth s)
  then show ?case by (simp add: quoteString_def)
next
  case (2 depth kvs)
  show ?case
  proof (cases "kvs = []")
    case False
    have "1 + weight (snd kv) \<le> length (marshalField depth kv)" if "kv \<in> set kvs" for kv
      using 2[OF False that] by (simp add: quoteString_def)
    then have "sum_list (map (\<lambda>kv. 1 + weight (snd kv)) kvs) \<le> sum_list (map (\<lambda>kv. length (marshalField depth kv)) kvs)"
      by (rule sum_list_mono)
    also have "\<dots> \<le> length (Join (map (marshalField depth) kvs) '','')"
      using length_Join[of "map (marshalField depth) kvs" "'',''"] by (simp add: comp_def)
    finally show ?thesis using False by simp
  qed simp
qed

lemma readJson_marshal: "validDoc d \<Longrightarrow> readJson (marshalIndent depth d) = Some d"
  using readDoc_marshal[OF _ weight_le[of d depth], where r = "[]"] by (simp add: readJson_def)

lemma credentials_valid:
  assumes "validUtf8 (cfg_audience c)" "validUtf8 (cfg_serviceAccountEmail c)" "validUtf8 u"
  shows "validDoc (externalAccountCredentials c u)"
proof -
  have "validUtf8 (''https://sts.'' @ u @ ''/v1/token'')"
    by (intro validUtf8_append assms) simp_all
  moreover have "validUtf8 (''https://iamcredentials.'' @ u @ ''/v1/projects/-/serviceAccounts/'' @
      cfg_serviceAccountEmail c @ '':generateAccessToken'')"
    by (intro validUtf8_append assms) simp_all
  ultimately show ?thesis
    using assms by (simp add: externalAccountCredentials_def SubjectTokenFilePath_def boundSATokenMountPath_def
        boundSATokenFileName_def pathJoin_def pathClean_def)
qed

text \<open>
  C24. The credential document can be read back. For well-formed UTF-8 text, reading the bytes of
  \<open>CredentialsJSON\<close> as JSON gives the document the code built, with every field in its place: the audience,
  the service account and the universe domain come back as they were configured, whatever
  characters they hold, and an empty universe domain comes back as the default one.
\<close>

theorem CredentialsJSON_roundtrip:
  assumes "validUtf8 (cfg_audience c)" and "validUtf8 (cfg_serviceAccountEmail c)" and "validUtf8 universeDomain"
  shows "readJson (CredentialsJSON c universeDomain) =
    Some (externalAccountCredentials c (if universeDomain = [] then DefaultUniverseDomain else universeDomain))"
proof -
  have "validUtf8 DefaultUniverseDomain" by (simp add: DefaultUniverseDomain_def)
  then show ?thesis
    unfolding CredentialsJSON_def using assms by (intro readJson_marshal credentials_valid) simp_all
qed

theorem CredentialsJSON_roundtrip_witness:
  "readJson (CredentialsJSON (demoGcpConfig\<lparr>cfg_audience := ''a\"b<'' @ [CHR 0x0A, CHR 0x5C]\<rparr>) []) =
     Some (externalAccountCredentials (demoGcpConfig\<lparr>cfg_audience := ''a\"b<'' @ [CHR 0x0A, CHR 0x5C]\<rparr>) ''googleapis.com'')"
proof -
  let ?c = "demoGcpConfig\<lparr>cfg_audience := ''a\"b<'' @ [CHR 0x0A, CHR 0x5C]\<rparr>"
  have "validUtf8 (cfg_audience ?c)" "validUtf8 (cfg_serviceAccountEmail ?c)" by (simp_all add: demoGcpConfig_def)
  from CredentialsJSON_roundtrip[OF this, of "[]"] show ?thesis by (simp add: DefaultUniverseDomain_def)
qed

end
