(* ===== verification/Spec2Isabelle.thy ===== *)
theory Spec2Isabelle
  imports WellNamed Process Watching Outcomes Progress Copying Entry Retrying GcpReading
begin

text \<open>
  The KEDA OLM operator, \<^verbatim>\<open>github.com/kedacore/keda-olm-operator\<close>.

  \<^bold>\<open>The program.\<close> The operator installs KEDA on a cluster and keeps it installed. It watches one custom
  resource, the KedaController \<^verbatim>\<open>keda\<close> in its own namespace. \<^verbatim>\<open>main\<close> builds a manager and sets up three
  controllers. \<^verbatim>\<open>Reconcile\<close> of the first reads the KedaController, adds or serves the finalizer, and
  installs: it takes the manifests that are embedded in the binary, runs lists of transformers over them that the
  specification asks for, applies the result, brings some objects (a Secret, ConfigMaps, Prometheus RBAC) in line itself, and
  reports the outcome in the status. The other two controllers record checksums of a ConfigMap and of a Secret in the
  same status. A start-up routine creates a default KedaController once.

  \<^bold>\<open>Theories and sources.\<close> A definition has the name of the Go function it translates; paths are below
  \<^verbatim>\<open>internal/controller/keda\<close> unless they start with \<^verbatim>\<open>cmd\<close>, \<^verbatim>\<open>api\<close> or \<^verbatim>\<open>resources\<close>.

  \<^item> \<^verbatim>\<open>Prelude\<close>: the loop shapes of the code (edit the first match and break, replace or append by
    name), the lookup they are specified against, and the contracts \<open>named_store\<close> and \<open>tracked_edit\<close>.
  \<^item> \<^verbatim>\<open>GoStd\<close>, \<^verbatim>\<open>GoJson\<close>: what the code uses of \<^verbatim>\<open>strings\<close>, \<^verbatim>\<open>strconv\<close>, \<^verbatim>\<open>path\<close>, \<^verbatim>\<open>regexp\<close>,
    \<^verbatim>\<open>sort\<close> and \<^verbatim>\<open>encoding/json\<close>.
  \<^item> \<^verbatim>\<open>KubeTypes\<close>, \<^verbatim>\<open>KubeDemo\<close>: the Kubernetes objects with the fields the code reads or writes, everything else
    kept as an opaque rest; a concrete instance of the library parameters, on which witnesses evaluate.
  \<^item> \<^verbatim>\<open>TransformArgs\<close>, \<^verbatim>\<open>TransformMeta\<close>, \<^verbatim>\<open>TransformPods\<close>, \<^verbatim>\<open>TransformVolumes\<close>:
    every transformer of \<^verbatim>\<open>transform/transform.go\<close>. \<^verbatim>\<open>Pipeline\<close>: lists of transformers.
  \<^item> \<^verbatim>\<open>ApiTypes\<close>: the custom resource and its status methods by value, \<^verbatim>\<open>api/keda/v1alpha1/kedacontroller_types.go\<close>.
  \<^item> \<^verbatim>\<open>Memory\<close>, \<^verbatim>\<open>ApiMemory\<close>, \<^verbatim>\<open>DeepCopy\<close>, \<^verbatim>\<open>Copying\<close>: the same resource in memory, with its pointers, slices and maps; the generated
    \<^verbatim>\<open>api/keda/v1alpha1/zz_generated.deepcopy.go\<close>; and how \<^verbatim>\<open>Reconcile\<close> and \<^verbatim>\<open>UpdateKedaControllerStatus\<close> copy and assign.
  \<^item> \<^verbatim>\<open>GcpConfig\<close>, \<^verbatim>\<open>GcpCredentials\<close>, \<^verbatim>\<open>GcpReading\<close>: \<^verbatim>\<open>gcp/config.go\<close>, \<^verbatim>\<open>gcp/credentials.go\<close>, and a
    reader of the document that the latter writes.
  \<^item> \<^verbatim>\<open>Util\<close>: \<^verbatim>\<open>util/util.go\<close>, \<^verbatim>\<open>util/tls.go\<close> and the small pure functions of the reconciler.
  \<^item> \<^verbatim>\<open>Manifests\<close>: \<^verbatim>\<open>resources/resources_handler.go\<close> and how \<^verbatim>\<open>kedacontroller_controller.go\<close> splits and sorts what it loads.
  \<^item> \<^verbatim>\<open>Client\<close>: effects. An operation maps a state to an error or a result and a new state; the state (\<open>run\<close>) is the cluster,
    the calls made so far, the status being built and the flag \<^verbatim>\<open>rotatorStarted\<close>.
  \<^item> \<^verbatim>\<open>Upserts\<close>: \<^verbatim>\<open>gcp_workload_identity.go\<close>, \<^verbatim>\<open>prometheus_rbac.go\<close> and the ConfigMaps of the metrics server.
  \<^item> \<^verbatim>\<open>Operands\<close>: every \<open>install...\<close> and \<open>delete...\<close> function of \<^verbatim>\<open>kedacontroller_controller.go\<close>.
  \<^item> \<^verbatim>\<open>Reconcile\<close>: \<^verbatim>\<open>Reconcile\<close> with all its branches and \<^verbatim>\<open>kedacontroller_finalizer.go\<close>.
  \<^item> \<^verbatim>\<open>Watchers\<close>: set-up, the start-up routine, the queue handlers, \<^verbatim>\<open>configmap_controller.go\<close>,
    \<^verbatim>\<open>secret_controller.go\<close>. \<^verbatim>\<open>Entry\<close>: \<^verbatim>\<open>cmd/main.go\<close>.
  \<^item> \<^verbatim>\<open>Installing\<close>, \<^verbatim>\<open>Rendering\<close>, \<^verbatim>\<open>Identity\<close>, \<^verbatim>\<open>Removal\<close>, \<^verbatim>\<open>Confinement\<close>, \<^verbatim>\<open>Outcomes\<close>, \<^verbatim>\<open>Wellformed\<close>, \<^verbatim>\<open>WellNamed\<close>, \<^verbatim>\<open>Process\<close>,
    \<^verbatim>\<open>Watching\<close>, \<^verbatim>\<open>Progress\<close> and \<^verbatim>\<open>Retrying\<close> hold no further code, but what spans components.

  \<^bold>\<open>What is a parameter.\<close> Code outside the repository is an argument of the definitions that use it, and what the
  code relies on is a named hypothesis, satisfied by the instance in \<^verbatim>\<open>KubeDemo\<close> and \<^verbatim>\<open>Client\<close>.

  \<^item> \<open>api\<close>: unstructured objects, scheme conversion and \<^verbatim>\<open>manifestival\<close>. \<open>accessors_ok\<close>, \<open>annotating_ok\<close>, \<open>codec_ok\<close>
    and \<open>mf_ok\<close> say that accessors read the content, that a converted object converts back, and that all transformers run on every
    resource in order; \<open>api_ok\<close> collects them.
  \<^item> \<open>client\<close>: every request to the cluster, with no assumption on the answers except where a theorem names it
    (\<open>ownership_ok\<close>: \<^verbatim>\<open>SetControllerReference\<close>; \<open>lookup_ok\<close>: a read object has the key asked for). Hashes, the clock, the environment,
    the TLS profiles of OpenShift and the orders in which Go ranges over maps (\<open>mapOrder\<close>: some permutation) are fields of it.
  \<^item> \<open>environment\<close>, \<open>controllerRuntime\<close>: embedded files, the YAML parser, and what the manager of
    \<^verbatim>\<open>controller-runtime\<close> answers during set-up.
  \<^item> \<open>apimachinery\<close>: the deep copies of core types; \<open>keepsDeepCopies\<close> says that they are deep.

  \<^bold>\<open>What the lemmas show.\<close>

  \<^item> Transformers: each loop with its flags and early exits equals a specification without them
    (\<open>tracked_edit\<close>: it writes back exactly what changed), and what it stores is found under its name, with everything else kept.
  \<^item> Client: five judgements on operations with one rule per construct, from which the properties of whole
    handlers follow. \<open>emits P\<close>: every call satisfies \<open>P\<close>; \<open>quiet\<close>: no calls; \<open>settles\<close>: success means that the
    calls succeeded; \<open>yields\<close>: a property of the result; \<open>reports\<close>: what the status says at the end.
  \<^item> Handlers: what is reported, in which order objects are written and deleted, who owns them, that the finalizer finds what
    was installed, and that applied Deployments name nothing twice.
  \<^item> Process: invariants of all reachable states of the three controllers, the start-up routine and an arbitrary
    environment, interleaved; and that the program \<^verbatim>\<open>main\<close> starts is such a process.
  \<^item> Progress: two reconciles install a new KedaController on a cluster that serves its requests; and on one where requests fail finitely
    often, repeating a failed reconcile ends. The repetition is a \<open>partial_function\<close>, so that not ending
    would show as \<open>None\<close>; the bound is the number of failures to come.
  \<^item> Memory: a judgement \<open>allocates\<close> for copying code; each generated function is an instance of the
    contract \<open>deepCopiable\<close>, which gives that a copy is equal and shares nothing.

  \<^bold>\<open>Bounds.\<close> Replica counts are 32-bit words. Numbers in versions and log levels are parsed with the ranges of
  \<^verbatim>\<open>strconv\<close>. The loops over slices and nested JSON are structural or have a termination proof;
  \<open>readDoc\<close> has fuel, one unit for each level and field, and the number of bytes is enough for every document.

  \<^bold>\<open>Not modelled.\<close> Log messages. The registration of types with the scheme (\<^verbatim>\<open>init\<close>, \<^verbatim>\<open>addKnownTypes\<close>,
  \<^verbatim>\<open>groupversion_info.go\<close>) and the variables the linker sets (\<^verbatim>\<open>version.go\<close>): declarations without behaviour of their own.
  The parsing of flags: \<^verbatim>\<open>main\<close> starts from their values. Contexts and their cancellation, except that
  waiting for the cache may time out. Reconciles of one controller do not overlap, which \<^verbatim>\<open>controller-runtime\<close> guarantees
  with its default of one worker; a handler is one step of the process, and what others do to the cluster between two of its requests
  is left to the answers of \<open>client\<close>.
\<close>

end
